(* ===== verification/Prelude.thy ===== *)
theory Prelude
  imports Main "HOL-Library.AList"
begin

text \<open>
  Shared library of the development.

  Go functions of the services read and write process state, return an error value or
  panic. They are modelled as functions from the state to an outcome and the new state:
  \<^item> \<open>Ok x\<close>: the call returned the value \<open>x\<close> and a nil error;
  \<^item> \<open>Err e\<close>: the call returned the error \<open>e\<close>;
  \<^item> \<open>Panic\<close>: the call panicked (nil dereference, slice bounds, explicit panic).
  State changes made before an error or a panic persist, as they do in the process.

  The theory also holds the invariant calculus (\<open>keeps\<close>), the key-value stores behind the
  in-memory repositories, and the contract of such a store as a locale.
\<close>

named_theorems keeps_rules "introduction rules for invariant preservation"
named_theorems yields_rules "introduction rules for what a call can return"
named_theorems never_err_rules "introduction rules for calls that handle their errors"


section \<open>Calls with state, errors and panics\<close>

datatype ('e, 'a) outcome = Ok 'a | Err 'e | Panic

type_synonym ('s, 'e, 'a) go = "'s \<Rightarrow> ('e, 'a) outcome \<times> 's"

definition go_return :: "'a \<Rightarrow> ('s, 'e, 'a) go" where
  "go_return x s = (Ok x, s)"

definition go_fail :: "'e \<Rightarrow> ('s, 'e, 'a) go" where
  "go_fail e s = (Err e, s)"

definition go_panic :: "('s, 'e, 'a) go" where
  "go_panic s = (Panic, s)"

text \<open>\<open>x, err := m(); if err != nil { h(err) }; k(x)\<close>\<close>

definition go_try ::
  "('s, 'e, 'a) go \<Rightarrow> ('e \<Rightarrow> ('s, 'e, 'b) go) \<Rightarrow> ('a \<Rightarrow> ('s, 'e, 'b) go) \<Rightarrow> ('s, 'e, 'b) go" where
  "go_try m h k s = (case m s of (r, s') \<Rightarrow>
     (case r of Ok x \<Rightarrow> k x s' | Err e \<Rightarrow> h e s' | Panic \<Rightarrow> (Panic, s')))"

text \<open>\<open>x, err := m(); if err != nil { return err }; k(x)\<close>\<close>

definition go_bind :: "('s, 'e, 'a) go \<Rightarrow> ('a \<Rightarrow> ('s, 'e, 'b) go) \<Rightarrow> ('s, 'e, 'b) go" where
  "go_bind m k = go_try m go_fail k"

text \<open>\<open>_ = m(); k\<close>: the error is dropped, a panic is not.\<close>

definition go_ignore :: "('s, 'e, 'a) go \<Rightarrow> ('s, 'e, 'b) go \<Rightarrow> ('s, 'e, 'b) go" where
  "go_ignore m k = go_try m (\<lambda>_. k) (\<lambda>_. k)"

text \<open>Reads and writes of the state itself.\<close>

definition go_get :: "('s \<Rightarrow> ('s, 'e, 'a) go) \<Rightarrow> ('s, 'e, 'a) go" where
  "go_get k s = k s s"

definition go_put :: "('s \<Rightarrow> 's) \<Rightarrow> ('s, 'e, unit) go" where
  "go_put f s = (Ok (), f s)"

text \<open>A call that does not touch the state.\<close>

definition go_lift :: "('e, 'a) outcome \<Rightarrow> ('s, 'e, 'a) go" where
  "go_lift r s = (r, s)"

lemma go_lift_apply [simp]: "go_lift r s = (r, s)"
  by (simp add: go_lift_def)

lemma go_return_apply [simp]: "go_return x s = (Ok x, s)"
  by (simp add: go_return_def)

lemma go_fail_apply [simp]: "go_fail e s = (Err e, s)"
  by (simp add: go_fail_def)

lemma go_panic_apply [simp]: "go_panic s = (Panic, s)"
  by (simp add: go_panic_def)

lemma go_get_apply [simp]: "go_get k s = k s s"
  by (simp add: go_get_def)

lemma go_put_apply [simp]: "go_put f s = (Ok (), f s)"
  by (simp add: go_put_def)

lemma go_try_Ok [simp]: "m s = (Ok x, s') \<Longrightarrow> go_try m h k s = k x s'"
  by (simp add: go_try_def)

lemma go_try_Err [simp]: "m s = (Err e, s') \<Longrightarrow> go_try m h k s = h e s'"
  by (simp add: go_try_def)

lemma go_try_Panic [simp]: "m s = (Panic, s') \<Longrightarrow> go_try m h k s = (Panic, s')"
  by (simp add: go_try_def)

lemma go_try_lift:
  "go_try (go_lift r) h k s = (case r of Ok x \<Rightarrow> k x s | Err e \<Rightarrow> h e s | Panic \<Rightarrow> (Panic, s))"
  by (simp add: go_try_def)

lemma go_bind_Ok [simp]: "m s = (Ok x, s') \<Longrightarrow> go_bind m k s = k x s'"
  by (simp add: go_bind_def)

lemma go_bind_Err [simp]: "m s = (Err e, s') \<Longrightarrow> go_bind m k s = (Err e, s')"
  by (simp add: go_bind_def)

lemma go_bind_Panic [simp]: "m s = (Panic, s') \<Longrightarrow> go_bind m k s = (Panic, s')"
  by (simp add: go_bind_def)

lemma go_ignore_Ok [simp]: "m s = (Ok x, s') \<Longrightarrow> go_ignore m k s = k s'"
  by (simp add: go_ignore_def)

lemma go_ignore_Err [simp]: "m s = (Err e, s') \<Longrightarrow> go_ignore m k s = k s'"
  by (simp add: go_ignore_def)

lemma go_ignore_Panic [simp]: "m s = (Panic, s') \<Longrightarrow> go_ignore m k s = (Panic, s')"
  by (simp add: go_ignore_def)

text \<open>Inversion: which calls can have produced a successful result.\<close>

lemma go_try_OkE:
  assumes "go_try m h k s = (Ok y, t)"
  obtains (ok) x s' where "m s = (Ok x, s')" and "k x s' = (Ok y, t)"
    | (err) e s' where "m s = (Err e, s')" and "h e s' = (Ok y, t)"
  using assms by (auto simp: go_try_def split: prod.splits outcome.splits)

lemma go_bind_OkE:
  assumes "go_bind m k s = (Ok y, t)"
  obtains x s' where "m s = (Ok x, s')" and "k x s' = (Ok y, t)"
  using assms by (auto simp: go_bind_def elim: go_try_OkE)

lemma go_ignore_OkE:
  assumes "go_ignore m k s = (Ok y, t)"
  obtains r s' where "m s = (r, s')" and "r \<noteq> Panic" and "k s' = (Ok y, t)"
  using assms by (auto simp: go_ignore_def elim: go_try_OkE)


section \<open>Invariants of calls\<close>

text \<open>
  \<open>keeps I m\<close>: the call \<open>m\<close> preserves \<open>I\<close>, whatever its outcome. With
  \<open>I = (\<lambda>s. f s = c)\<close> it says that \<open>m\<close> leaves the component \<open>f\<close> alone.
\<close>

definition keeps :: "('s \<Rightarrow> bool) \<Rightarrow> ('s, 'e, 'a) go \<Rightarrow> bool" where
  "keeps I m \<longleftrightarrow> (\<forall>s. I s \<longrightarrow> I (snd (m s)))"

lemma keepsI: "(\<And>s. I s \<Longrightarrow> I (snd (m s))) \<Longrightarrow> keeps I m"
  by (simp add: keeps_def)

lemma keepsD: "keeps I m \<Longrightarrow> I s \<Longrightarrow> m s = (r, t) \<Longrightarrow> I t"
  by (force simp: keeps_def)

lemma keeps_return [keeps_rules]: "keeps I (go_return x)"
  by (simp add: keeps_def)

lemma keeps_fail [keeps_rules]: "keeps I (go_fail e)"
  by (simp add: keeps_def)

lemma keeps_panic [keeps_rules]: "keeps I go_panic"
  by (simp add: keeps_def)

lemma keeps_lift [keeps_rules]: "keeps I (go_lift r)"
  by (simp add: keeps_def)

lemma keeps_try [keeps_rules]:
  assumes "keeps I m" and "\<And>e. keeps I (h e)" and "\<And>x. keeps I (k x)"
  shows "keeps I (go_try m h k)"
  unfolding keeps_def
proof (intro allI impI)
  fix s assume "I s"
  obtain r s' where ms: "m s = (r, s')" by (cases "m s")
  with assms(1) \<open>I s\<close> have "I s'" by (auto dest: keepsD)
  with ms assms(2,3) show "I (snd (go_try m h k s))"
    by (cases r) (auto simp: go_try_def keeps_def)
qed

lemma keeps_bind [keeps_rules]:
  "keeps I m \<Longrightarrow> (\<And>x. keeps I (k x)) \<Longrightarrow> keeps I (go_bind m k)"
  unfolding go_bind_def by (intro keeps_rules)

lemma keeps_ignore [keeps_rules]:
  "keeps I m \<Longrightarrow> keeps I k \<Longrightarrow> keeps I (go_ignore m k)"
  unfolding go_ignore_def by (intro keeps_rules)

lemma keeps_if [keeps_rules]:
  "(b \<Longrightarrow> keeps I m) \<Longrightarrow> (\<not> b \<Longrightarrow> keeps I m') \<Longrightarrow> keeps I (if b then m else m')"
  by simp

lemma keeps_option [keeps_rules]:
  "(x = None \<Longrightarrow> keeps I m) \<Longrightarrow> (\<And>v. x = Some v \<Longrightarrow> keeps I (k v)) \<Longrightarrow>
   keeps I (case x of None \<Rightarrow> m | Some v \<Rightarrow> k v)"
  by (cases x) auto

lemma keeps_let [keeps_rules]:
  "(\<And>x. x = v \<Longrightarrow> keeps I (k x)) \<Longrightarrow> keeps I (let x = v in k x)"
  by (simp add: Let_def)

lemma keeps_prod [keeps_rules]:
  "(\<And>a b. p = (a, b) \<Longrightarrow> keeps I (k a b)) \<Longrightarrow> keeps I (case p of (a, b) \<Rightarrow> k a b)"
  by (cases p) auto

lemma keeps_get [keeps_rules]: "(\<And>s. keeps I (k s)) \<Longrightarrow> keeps I (go_get k)"
  by (simp add: keeps_def)

lemma keeps_put [keeps_rules]: "(\<And>s. I s \<Longrightarrow> I (f s)) \<Longrightarrow> keeps I (go_put f)"
  by (simp add: keeps_def)

text \<open>\<open>yields Q m\<close>: whatever the call \<open>m\<close> returns successfully satisfies \<open>Q\<close>.\<close>

definition yields :: "('a \<Rightarrow> bool) \<Rightarrow> ('s, 'e, 'a) go \<Rightarrow> bool" where
  "yields Q m \<longleftrightarrow> (\<forall>s x s'. m s = (Ok x, s') \<longrightarrow> Q x)"

lemma yieldsI: "(\<And>s x s'. m s = (Ok x, s') \<Longrightarrow> Q x) \<Longrightarrow> yields Q m"
  by (simp add: yields_def)

lemma yieldsD: "yields Q m \<Longrightarrow> m s = (Ok x, s') \<Longrightarrow> Q x"
  unfolding yields_def by blast

lemma yields_any: "yields (\<lambda>_. True) m"
  by (simp add: yields_def)

lemma yields_return [yields_rules]: "Q x \<Longrightarrow> yields Q (go_return x)"
  by (simp add: yields_def)

lemma yields_fail [yields_rules]: "yields Q (go_fail e)"
  by (simp add: yields_def)

lemma yields_panic [yields_rules]: "yields Q go_panic"
  by (simp add: yields_def)

lemma yields_try_if:
  assumes "yields R m" and "\<And>e. yields Q (h e)" and "\<And>x. R x \<Longrightarrow> yields Q (k x)"
  shows "yields Q (go_try m h k)"
proof (rule yieldsI)
  fix s y s' assume "go_try m h k s = (Ok y, s')"
  then show "Q y"
  proof (cases rule: go_try_OkE)
    case (ok x t)
    then show ?thesis using yieldsD [OF assms(1) ok(1)] assms(3) yieldsD by metis
  next
    case (err e t)
    then show ?thesis using assms(2) yieldsD by metis
  qed
qed

lemma yields_bind_if:
  "yields R m \<Longrightarrow> (\<And>x. R x \<Longrightarrow> yields Q (k x)) \<Longrightarrow> yields Q (go_bind m k)"
  unfolding go_bind_def by (rule yields_try_if [of R]) (auto intro: yields_fail)

lemmas yields_try [yields_rules] = yields_try_if [OF yields_any]
lemmas yields_bind [yields_rules] = yields_bind_if [OF yields_any]

lemma yields_ignore [yields_rules]: "yields Q k \<Longrightarrow> yields Q (go_ignore m k)"
  unfolding go_ignore_def by (intro yields_try)

lemma yields_if [yields_rules]:
  "(b \<Longrightarrow> yields Q m) \<Longrightarrow> (\<not> b \<Longrightarrow> yields Q m') \<Longrightarrow> yields Q (if b then m else m')"
  by simp

lemma yields_option [yields_rules]:
  "(x = None \<Longrightarrow> yields Q m) \<Longrightarrow> (\<And>v. x = Some v \<Longrightarrow> yields Q (k v)) \<Longrightarrow>
   yields Q (case x of None \<Rightarrow> m | Some v \<Rightarrow> k v)"
  by (cases x) auto

lemma yields_let [yields_rules]:
  "(\<And>x. x = v \<Longrightarrow> yields Q (k x)) \<Longrightarrow> yields Q (let x = v in k x)"
  by (simp add: Let_def)

lemma yields_prod [yields_rules]:
  "(\<And>a b. p = (a, b) \<Longrightarrow> yields Q (k a b)) \<Longrightarrow> yields Q (case p of (a, b) \<Rightarrow> k a b)"
  by (cases p) auto

lemma yields_get [yields_rules]: "(\<And>s. yields Q (k s)) \<Longrightarrow> yields Q (go_get k)"
  by (simp add: yields_def)

text \<open>\<open>never_err m\<close>: the call handles every error itself.\<close>

definition never_err :: "('s, 'e, 'a) go \<Rightarrow> bool" where
  "never_err m \<longleftrightarrow> (\<forall>s e. fst (m s) \<noteq> Err e)"

lemma never_err_return [never_err_rules]: "never_err (go_return x)"
  by (simp add: never_err_def)

lemma never_err_panic [never_err_rules]: "never_err go_panic"
  by (simp add: never_err_def)

lemma never_err_put [never_err_rules]: "never_err (go_put f)"
  by (simp add: never_err_def)

lemma never_err_try [never_err_rules]:
  "(\<And>e. never_err (h e)) \<Longrightarrow> (\<And>x. never_err (k x)) \<Longrightarrow> never_err (go_try m h k)"
  by (simp add: never_err_def go_try_def split: prod.splits outcome.splits)

lemma never_err_bind [never_err_rules]:
  "never_err m \<Longrightarrow> (\<And>x. never_err (k x)) \<Longrightarrow> never_err (go_bind m k)"
  by (auto simp: never_err_def go_bind_def go_try_def split: prod.splits outcome.splits)
     (metis fst_conv)

lemma never_err_ignore [never_err_rules]: "never_err k \<Longrightarrow> never_err (go_ignore m k)"
  unfolding go_ignore_def by (intro never_err_rules)

lemma never_err_if [never_err_rules]:
  "never_err m \<Longrightarrow> never_err m' \<Longrightarrow> never_err (if b then m else m')"
  by simp

lemma never_err_option [never_err_rules]:
  "never_err m \<Longrightarrow> (\<And>v. never_err (k v)) \<Longrightarrow> never_err (case x of None \<Rightarrow> m | Some v \<Rightarrow> k v)"
  by (cases x) auto

lemma never_err_let [never_err_rules]:
  "(\<And>x. never_err (k x)) \<Longrightarrow> never_err (let x = v in k x)"
  by (simp add: Let_def)

lemma never_err_prod [never_err_rules]:
  "(\<And>a b. never_err (k a b)) \<Longrightarrow> never_err (case p of (a, b) \<Rightarrow> k a b)"
  by (cases p) auto

lemma never_err_get [never_err_rules]: "(\<And>s. never_err (k s)) \<Longrightarrow> never_err (go_get k)"
  by (simp add: never_err_def)

text \<open>\<open>total_call m\<close>: the call never panics.\<close>

definition total_call :: "('s, 'e, 'a) go \<Rightarrow> bool" where
  "total_call m \<longleftrightarrow> (\<forall>s. fst (m s) \<noteq> Panic)"

lemma total_call_try:
  assumes "total_call m" and "\<And>e. total_call (h e)" and "\<And>x. total_call (k x)"
  shows "total_call (go_try m h k)"
  unfolding total_call_def
proof
  fix s
  obtain r s' where ms: "m s = (r, s')" by (cases "m s")
  with assms(1) have "r \<noteq> Panic" by (metis fst_conv total_call_def)
  with ms assms(2,3) show "fst (go_try m h k s) \<noteq> Panic"
    by (cases r) (auto simp: total_call_def)
qed

lemma total_call_bind:
  "total_call m \<Longrightarrow> (\<And>x. total_call (k x)) \<Longrightarrow> total_call (go_bind m k)"
  unfolding go_bind_def by (rule total_call_try) (auto simp: total_call_def)

lemma total_call_ignore:
  "total_call m \<Longrightarrow> total_call k \<Longrightarrow> total_call (go_ignore m k)"
  unfolding go_ignore_def by (rule total_call_try) auto


section \<open>Key-value stores\<close>

text \<open>
  A Go map from strings to objects, as the association list of its entries. The order of
  the list has no meaning: where the code ranges over a map, the model takes the order from
  the environment.
\<close>

type_synonym 'v repo = "(string \<times> 'v) list"

definition repo_get :: "'v repo \<Rightarrow> string \<Rightarrow> 'v option" where
  "repo_get r k = map_of r k"

definition repo_put :: "string \<Rightarrow> 'v \<Rightarrow> 'v repo \<Rightarrow> 'v repo" where
  "repo_put k v r = AList.update k v r"

definition repo_map :: "('v \<Rightarrow> 'v) \<Rightarrow> 'v repo \<Rightarrow> 'v repo" where
  "repo_map f r = map (\<lambda>(k, v). (k, f v)) r"

definition repo_drop :: "('v \<Rightarrow> bool) \<Rightarrow> 'v repo \<Rightarrow> 'v repo" where
  "repo_drop P r = filter (\<lambda>(k, v). \<not> P v) r"

definition repo_wf :: "('v \<Rightarrow> string) \<Rightarrow> 'v repo \<Rightarrow> bool" where
  "repo_wf key r \<longleftrightarrow> distinct (map fst r) \<and> (\<forall>(k, v) \<in> set r. key v = k)"

lemma repo_get_Nil [simp]: "repo_get [] k = None"
  by (simp add: repo_get_def)

lemma repo_get_put [simp]:
  "repo_get (repo_put k v r) k' = (if k' = k then Some v else repo_get r k')"
  by (simp add: repo_get_def repo_put_def update_conv)

lemma repo_get_map [simp]: "repo_get (repo_map f r) k = map_option f (repo_get r k)"
  by (induction r) (auto simp: repo_get_def repo_map_def)

lemma repo_get_drop:
  "distinct (map fst r) \<Longrightarrow>
   repo_get (repo_drop P r) k = (case repo_get r k of None \<Rightarrow> None
                                 | Some v \<Rightarrow> if P v then None else Some v)"
proof (induction r)
  case Nil
  then show ?case by (simp add: repo_drop_def)
next
  case (Cons e r)
  obtain k1 v1 where e: "e = (k1, v1)" by (cases e)
  have fresh: "map_of (filter (\<lambda>(k, v). \<not> P v) r) k1 = None"
    using Cons.prems e by (auto simp: map_of_eq_None_iff)
  show ?case
    using Cons e fresh by (auto simp: repo_get_def repo_drop_def split: option.splits)
qed

lemma repo_get_in_set: "repo_get r k = Some v \<Longrightarrow> (k, v) \<in> set r"
  by (auto simp: repo_get_def dest: map_of_SomeD)

lemma repo_wf_Nil [simp]: "repo_wf key []"
  by (simp add: repo_wf_def)

lemma repo_wf_put: "repo_wf key r \<Longrightarrow> key v = k \<Longrightarrow> repo_wf key (repo_put k v r)"
proof -
  assume wf: "repo_wf key r" and k: "key v = k"
  have "\<forall>(k', v') \<in> set (AList.update k v r). key v' = k'"
    using wf k by (induction r) (auto simp: repo_wf_def)
  with wf show ?thesis
    by (simp add: repo_wf_def repo_put_def distinct_update)
qed

lemma repo_wf_map: "repo_wf key r \<Longrightarrow> (\<And>v. key (f v) = key v) \<Longrightarrow> repo_wf key (repo_map f r)"
  by (auto simp: repo_wf_def repo_map_def comp_def case_prod_beta)

lemma repo_wf_drop: "repo_wf key r \<Longrightarrow> repo_wf key (repo_drop P r)"
  by (auto simp: repo_wf_def repo_drop_def distinct_map inj_on_def)

lemma repo_wf_key: "repo_wf key r \<Longrightarrow> repo_get r k = Some v \<Longrightarrow> key v = k"
  by (auto simp: repo_wf_def dest!: repo_get_in_set)

text \<open>
  The contract the services rely on: an object is stored under its own key, a lookup after a
  store sees it, and other keys are untouched.
\<close>

locale keyed_store =
  fixes get :: "'r \<Rightarrow> 'k \<Rightarrow> 'v option"
    and put :: "'k \<Rightarrow> 'v \<Rightarrow> 'r \<Rightarrow> 'r"
    and key :: "'v \<Rightarrow> 'k"
    and invar :: "'r \<Rightarrow> bool"
  assumes get_put: "get (put k v r) k' = (if k' = k then Some v else get r k')"
    and invar_put: "invar r \<Longrightarrow> invar (put (key v) v r)"
    and invar_key: "invar r \<Longrightarrow> get r k = Some v \<Longrightarrow> key v = k"
begin

text \<open>Writing objects back one after the other: the last object with a key wins.\<close>

lemma get_fold_put:
  "get (fold (\<lambda>v. put (key v) v) vs r) k =
     (case find (\<lambda>v. key v = k) (rev vs) of None \<Rightarrow> get r k | Some v \<Rightarrow> Some v)"
proof (induction vs rule: rev_induct)
  case Nil
  then show ?case by simp
next
  case (snoc v vs)
  then show ?case by (auto simp: get_put)
qed

lemma invar_fold_put: "invar r \<Longrightarrow> invar (fold (\<lambda>v. put (key v) v) vs r)"
  by (induction vs arbitrary: r) (auto intro: invar_put)

text \<open>Read, modify, write back: only the entry that was read changes.\<close>

lemma modify_frame:
  assumes "invar r" and "get r k = Some v" and "key (f v) = key v" and "k' \<noteq> k"
  shows "get (put (key (f v)) (f v) r) k' = get r k'"
  using assms invar_key get_put by simp

lemma modify_same:
  assumes "invar r" and "get r k = Some v" and "key (f v) = key v"
  shows "get (put (key (f v)) (f v) r) k = Some (f v)"
  using assms invar_key get_put by simp

end


section \<open>Single-use resources\<close>

text \<open>
  A sequence of attempts to use keyed resources, and which of them succeeded. The contract
  of a single-use resource: success spends the key, a spent key is refused, and no attempt
  makes a spent key usable again.
\<close>

fun attempts :: "('k \<Rightarrow> 'i \<Rightarrow> 's \<Rightarrow> bool \<times> 's) \<Rightarrow> ('k \<times> 'i) list \<Rightarrow> 's \<Rightarrow> ('k \<times> bool) list" where
  "attempts use [] s = []"
| "attempts use ((k, i) # as) s =
     (case use k i s of (ok, s') \<Rightarrow> (k, ok) # attempts use as s')"

definition successes :: "'k \<Rightarrow> ('k \<times> bool) list \<Rightarrow> nat" where
  "successes k rs = length (filter (\<lambda>(k', ok). k' = k \<and> ok) rs)"

locale single_use =
  fixes use :: "'k \<Rightarrow> 'i \<Rightarrow> 's \<Rightarrow> bool \<times> 's"
    and spent :: "'k \<Rightarrow> 's \<Rightarrow> bool"
    and inv :: "'s \<Rightarrow> bool"
  assumes use_spends: "inv s \<Longrightarrow> use k i s = (True, s') \<Longrightarrow> spent k s'"
    and spent_refused: "inv s \<Longrightarrow> spent k s \<Longrightarrow> \<not> fst (use k i s)"
    and spent_stays: "inv s \<Longrightarrow> spent k s \<Longrightarrow> spent k (snd (use k' i s))"
    and use_inv: "inv s \<Longrightarrow> inv (snd (use k i s))"
begin

lemma spent_never_succeeds: "inv s \<Longrightarrow> spent k s \<Longrightarrow> successes k (attempts use as s) = 0"
proof (induction as arbitrary: s)
  case Nil
  then show ?case by (simp add: successes_def)
next
  case (Cons a as)
  obtain k' i where a: "a = (k', i)" by (cases a)
  obtain ok s' where u: "use k' i s = (ok, s')" by (cases "use k' i s")
  have "inv s'" using use_inv [OF Cons.prems(1), of k' i] u by simp
  moreover have "spent k s'" using spent_stays [OF Cons.prems, of k' i] u by simp
  moreover have "\<not> (k' = k \<and> ok)" using spent_refused [OF Cons.prems, of i] u by auto
  ultimately show ?case using Cons.IH a u by (simp add: successes_def)
qed

text \<open>However the attempts are ordered, each key succeeds at most once.\<close>

lemma at_most_once: "inv s \<Longrightarrow> successes k (attempts use as s) \<le> 1"
proof (induction as arbitrary: s)
  case Nil
  then show ?case by (simp add: successes_def)
next
  case (Cons a as)
  obtain k' i where a: "a = (k', i)" by (cases a)
  obtain ok s' where u: "use k' i s = (ok, s')" by (cases "use k' i s")
  have inv': "inv s'" using use_inv [OF Cons.prems, of k' i] u by simp
  show ?case
  proof (cases "k' = k \<and> ok")
    case True
    then have "spent k s'" using use_spends [OF Cons.prems, of k i s'] u by simp
    then have "successes k (attempts use as s') = 0"
      using inv' spent_never_succeeds by blast
    with True a u show ?thesis by (simp add: successes_def)
  next
    case False
    with Cons.IH [OF inv'] a u show ?thesis by (auto simp: successes_def)
  qed
qed

end

end
