(* ===== verification/Go_Strings.thy ===== *)
theory Go_Strings
  imports Prelude
begin

text \<open>
  The string and encoding functions of the Go standard library that the services use, on
  byte strings (a \<open>char\<close> is a byte): decimal printing, \<^verbatim>\<open>strings.Split\<close>,
  \<^verbatim>\<open>encoding/hex\<close> and the unpadded base64 codecs of \<^verbatim>\<open>encoding/base64\<close>.
  The locale \<open>text_codec\<close> is what the token and challenge formats rely on: decoding inverts
  encoding, and the encoder's alphabet does not contain the separators.
\<close>

section \<open>Decimal integers\<close>

definition byte :: "nat \<Rightarrow> char" where
  "byte n = char_of n"

definition code :: "char \<Rightarrow> nat" where
  "code c = of_char c"

lemma code_byte [simp]: "n < 256 \<Longrightarrow> code (byte n) = n"
  by (simp add: code_def byte_def)

lemma byte_code [simp]: "byte (code c) = c"
  by (simp add: code_def byte_def)

lemma code_less [simp]: "code c < 256"
  unfolding code_def by (metis mod_less_divisor of_char_mod_256 zero_less_numeral)

fun show_nat :: "nat \<Rightarrow> string" where
  "show_nat n = (if n < 10 then [byte (48 + n)] else show_nat (n div 10) @ [byte (48 + n mod 10)])"

declare show_nat.simps [simp del]

text \<open>\<^verbatim>\<open>fmt.Sprintf("%d", i)\<close> and \<^verbatim>\<open>strconv.Itoa\<close>\<close>

definition itoa :: "int \<Rightarrow> string" where
  "itoa i = (if i < 0 then ''-'' @ show_nat (nat (- i)) else show_nat (nat i))"

definition read_nat :: "string \<Rightarrow> nat" where
  "read_nat s = foldl (\<lambda>a c. 10 * a + (code c - 48)) 0 s"

definition is_digit :: "char \<Rightarrow> bool" where
  "is_digit c \<longleftrightarrow> 48 \<le> code c \<and> code c \<le> 57"

lemma read_show_nat [simp]: "read_nat (show_nat n) = n"
proof (induction n rule: show_nat.induct)
  case (1 n)
  show ?case
  proof (cases "n < 10")
    case True
    then show ?thesis by (subst show_nat.simps) (simp add: read_nat_def)
  next
    case False
    with 1 have "read_nat (show_nat (n div 10)) = n div 10" by simp
    with False show ?thesis by (subst show_nat.simps) (simp add: read_nat_def)
  qed
qed

lemma show_nat_inject [simp]: "show_nat m = show_nat n \<longleftrightarrow> m = n"
  by (metis read_show_nat)

lemma show_nat_digits: "c \<in> set (show_nat n) \<Longrightarrow> is_digit c"
proof (induction n rule: show_nat.induct)
  case (1 n)
  then show ?case
    by (cases "n < 10") (auto simp: show_nat.simps [of n] is_digit_def)
qed

lemma show_nat_nonempty [simp]: "show_nat n \<noteq> []"
  by (subst show_nat.simps) simp

lemma hd_show_nat: "is_digit (hd (show_nat n))"
  by (rule show_nat_digits [of _ n]) simp

lemma digit_not_minus: "is_digit c \<Longrightarrow> c \<noteq> CHR ''-''"
  by (auto simp: is_digit_def code_def)

lemma itoa_inject [simp]: "itoa i = itoa j \<longleftrightarrow> i = j"
proof -
  have neg: "show_nat m \<noteq> CHR ''-'' # show_nat n" for m n
    using hd_show_nat [of m] digit_not_minus by (metis list.sel(1))
  show ?thesis
    by (auto simp: itoa_def neg neg [symmetric])
qed

lemma itoa_chars: "c \<in> set (itoa i) \<Longrightarrow> is_digit c \<or> c = CHR ''-''"
  by (auto simp: itoa_def dest: show_nat_digits split: if_splits)

lemma itoa_no_sep [simp]: "CHR ''.'' \<notin> set (itoa i)" "CHR ''|'' \<notin> set (itoa i)"
  using itoa_chars [of "CHR ''.''" i] itoa_chars [of "CHR ''|''" i]
  by (auto simp: is_digit_def code_def)


section \<open>Splitting\<close>

text \<open>\<^verbatim>\<open>strings.Split(s, sep)\<close> for a separator of one byte.\<close>

fun split_on :: "char \<Rightarrow> string \<Rightarrow> string list" where
  "split_on c [] = [[]]"
| "split_on c (x # xs) =
     (if x = c then [] # split_on c xs
      else (case split_on c xs of [] \<Rightarrow> [[x]] | y # ys \<Rightarrow> (x # y) # ys))"

lemma split_on_nonempty [simp]: "split_on c s \<noteq> []"
  by (induction s) (auto split: list.splits)

lemma split_on_free: "c \<notin> set s \<Longrightarrow> split_on c s = [s]"
  by (induction s) auto

lemma split_on_append: "c \<notin> set s \<Longrightarrow> split_on c (s @ c # t) = s # split_on c t"
  by (induction s) auto

lemma split_on_no_sep: "p \<in> set (split_on c s) \<Longrightarrow> c \<notin> set p"
  by (induction s arbitrary: p) (auto split: list.splits if_splits)

text \<open>Joining the parts with the separator gives the string back.\<close>

fun join_with :: "char \<Rightarrow> string list \<Rightarrow> string" where
  "join_with c [] = []"
| "join_with c [p] = p"
| "join_with c (p # q # ps) = p @ c # join_with c (q # ps)"

lemma join_split: "join_with c (split_on c s) = s"
proof (induction s)
  case Nil
  then show ?case by simp
next
  case (Cons x s)
  obtain y ys where "split_on c s = y # ys" by (cases "split_on c s") auto
  with Cons show ?case by (cases ys) auto
qed

lemma split_join:
  "ps \<noteq> [] \<Longrightarrow> (\<And>p. p \<in> set ps \<Longrightarrow> c \<notin> set p) \<Longrightarrow> split_on c (join_with c ps) = ps"
  by (induction c ps rule: join_with.induct) (auto simp: split_on_free split_on_append)

text \<open>\<^verbatim>\<open>strings.HasPrefix\<close> and \<^verbatim>\<open>strings.TrimPrefix\<close>\<close>

definition has_prefix :: "string \<Rightarrow> string \<Rightarrow> bool" where
  "has_prefix s p \<longleftrightarrow> take (length p) s = p"

definition trim_prefix :: "string \<Rightarrow> string \<Rightarrow> string" where
  "trim_prefix s p = (if has_prefix s p then drop (length p) s else s)"

lemma has_prefix_append [simp]: "has_prefix (p @ s) p"
  by (simp add: has_prefix_def)

lemma trim_prefix_append [simp]: "trim_prefix (p @ s) p = s"
  by (simp add: trim_prefix_def)


section \<open>The contract of a text codec\<close>

locale text_codec =
  fixes enc :: "string \<Rightarrow> string"
    and dec :: "string \<Rightarrow> 'e + string"
    and alphabet :: "char set"
  assumes dec_enc: "dec (enc s) = Inr s"
    and enc_alphabet: "set (enc s) \<subseteq> alphabet"
begin

lemma enc_inject: "enc s = enc t \<longleftrightarrow> s = t"
  by (metis dec_enc sum.inject(2))

lemma enc_sep_free: "c \<notin> alphabet \<Longrightarrow> c \<notin> set (enc s)"
  using enc_alphabet by auto

text \<open>A list of encoded fields joined by a separator outside the alphabet parses back.\<close>

lemma fields_parse:
  assumes "c \<notin> alphabet" and "ss \<noteq> []"
  shows "map dec (split_on c (join_with c (map enc ss))) = map Inr ss"
proof -
  have "split_on c (join_with c (map enc ss)) = map enc ss"
    using assms by (intro split_join) (auto dest: enc_sep_free)
  then show ?thesis by (simp add: dec_enc)
qed

end


section \<open>Hexadecimal\<close>

definition hex_table :: string where
  "hex_table = ''0123456789abcdef''"

definition hex_digit :: "nat \<Rightarrow> char" where
  "hex_digit n = hex_table ! n"

definition hex_value :: "char \<Rightarrow> nat option" where
  "hex_value c =
     (if is_digit c then Some (code c - 48)
      else if 97 \<le> code c \<and> code c \<le> 102 then Some (code c - 87)
      else if 65 \<le> code c \<and> code c \<le> 70 then Some (code c - 55)
      else None)"

text \<open>\<^verbatim>\<open>hex.EncodeToString\<close> and \<^verbatim>\<open>hex.DecodeString\<close>; the decoder's error is
  \<open>None\<close> for an odd length, else the offending byte.\<close>

fun hex_encode :: "string \<Rightarrow> string" where
  "hex_encode [] = []"
| "hex_encode (c # cs) = hex_digit (code c div 16) # hex_digit (code c mod 16) # hex_encode cs"

fun hex_decode :: "string \<Rightarrow> char option + string" where
  "hex_decode [] = Inr []"
| "hex_decode [c] = (case hex_value c of None \<Rightarrow> Inl (Some c) | Some _ \<Rightarrow> Inl None)"
| "hex_decode (c # d # cs) =
     (case hex_value c of None \<Rightarrow> Inl (Some c) | Some h \<Rightarrow>
       (case hex_value d of None \<Rightarrow> Inl (Some d) | Some l \<Rightarrow>
         (case hex_decode cs of Inl e \<Rightarrow> Inl e | Inr s \<Rightarrow> Inr (byte (16 * h + l) # s))))"

lemma hex_value_table: "\<forall>n \<in> set [0..<16]. hex_value (hex_digit n) = Some n"
  by code_simp

lemma hex_value_digit [simp]: "n < 16 \<Longrightarrow> hex_value (hex_digit n) = Some n"
  using hex_value_table by simp

lemma hex_digit_table: "n < 16 \<Longrightarrow> hex_digit n \<in> set hex_table"
  unfolding hex_digit_def by (rule nth_mem) (simp add: hex_table_def)

lemma code_div_16 [simp]: "code c div 16 < 16"
  using code_less [of c] by (simp add: div_less_iff_less_mult)

interpretation hex: text_codec hex_encode hex_decode "set hex_table"
proof
  show "hex_decode (hex_encode s) = Inr s" for s
    by (induction s) auto
  show "set (hex_encode s) \<subseteq> set hex_table" for s
    by (induction s) (auto intro: hex_digit_table)
qed

lemma length_hex_encode [simp]: "length (hex_encode s) = 2 * length s"
  by (induction s) auto


section \<open>Base64 without padding\<close>

fun index_of :: "char \<Rightarrow> string \<Rightarrow> nat option" where
  "index_of c [] = None"
| "index_of c (x # xs) = (if x = c then Some 0 else map_option Suc (index_of c xs))"

lemma index_of_nth: "distinct a \<Longrightarrow> i < length a \<Longrightarrow> index_of (a ! i) a = Some i"
proof (induction a arbitrary: i)
  case Nil
  then show ?case by simp
next
  case (Cons x xs)
  then show ?case by (cases i) auto
qed

lemma index_of_less: "index_of c a = Some i \<Longrightarrow> i < length a"
  by (induction a arbitrary: i) (auto split: if_splits)

definition url_alphabet :: string where
  "url_alphabet = ''ABCDEFGHIJKLMNOPQRSTUVWXYZabcdefghijklmnopqrstuvwxyz0123456789-_''"

definition std_alphabet :: string where
  "std_alphabet = ''ABCDEFGHIJKLMNOPQRSTUVWXYZabcdefghijklmnopqrstuvwxyz0123456789+/''"

fun b64_encode :: "string \<Rightarrow> string \<Rightarrow> string" where
  "b64_encode a [] = []"
| "b64_encode a [x] = [a ! (code x div 4), a ! (code x mod 4 * 16)]"
| "b64_encode a [x, y] =
     [a ! (code x div 4), a ! (code x mod 4 * 16 + code y div 16), a ! (code y mod 16 * 4)]"
| "b64_encode a (x # y # z # r) =
     [a ! (code x div 4), a ! (code x mod 4 * 16 + code y div 16),
      a ! (code y mod 16 * 4 + code z div 64), a ! (code z mod 64)] @ b64_encode a r"

text \<open>
  The decoder gathers sextets; carriage returns and newlines are skipped, any other byte
  outside the alphabet is an error at its position, and a lone final sextet is an error.
  Left-over bits of a short final group are not checked (the encodings are not strict).
\<close>

fun b64_scan :: "string \<Rightarrow> nat \<Rightarrow> nat list \<Rightarrow> string \<Rightarrow> nat + string" where
  "b64_scan a i buf [] =
     (case buf of
        [] \<Rightarrow> Inr []
      | [p] \<Rightarrow> Inl (i - 1)
      | [p, q] \<Rightarrow> Inr [byte (p * 4 + q div 16)]
      | p # q # r # _ \<Rightarrow> Inr [byte (p * 4 + q div 16), byte (q mod 16 * 16 + r div 4)])"
| "b64_scan a i buf (c # cs) =
     (case index_of c a of
        Some v \<Rightarrow>
          (case buf of
             [p, q, r] \<Rightarrow>
               (case b64_scan a (Suc i) [] cs of
                  Inl e \<Rightarrow> Inl e
                | Inr out \<Rightarrow> Inr (byte (p * 4 + q div 16) # byte (q mod 16 * 16 + r div 4)
                                   # byte (r mod 4 * 64 + v) # out))
           | _ \<Rightarrow> b64_scan a (Suc i) (buf @ [v]) cs)
      | None \<Rightarrow>
          if c = CHR 0x0A \<or> c = CHR 0x0D then b64_scan a (Suc i) buf cs else Inl i)"

definition b64_decode :: "string \<Rightarrow> string \<Rightarrow> nat + string" where
  "b64_decode a s = b64_scan a 0 [] s"

lemma b64_scan_encode:
  assumes "distinct a" and "length a = 64"
  shows "b64_scan a i [] (b64_encode a s) = Inr s"
  using assms
proof (induction a s arbitrary: i rule: b64_encode.induct)
  case (2 a x)
  have "code x div 4 < 64" using code_less [of x] by (simp add: div_less_iff_less_mult)
  moreover have "code x mod 4 * 16 < 64" by simp
  ultimately show ?case using 2 by (simp add: index_of_nth)
next
  case (3 a x y)
  have "code x div 4 < 64" using code_less [of x] by (simp add: div_less_iff_less_mult)
  moreover have "code x mod 4 * 16 + code y div 16 < 64"
    using code_div_16 [of y] by linarith
  moreover have "code y mod 16 * 4 < 64" by simp
  ultimately show ?case using 3 by (simp add: index_of_nth)
next
  case (4 a x y z r)
  have b1: "code x div 4 < 64" using code_less [of x] by (simp add: div_less_iff_less_mult)
  have b2: "code x mod 4 * 16 + code y div 16 < 64"
    using code_div_16 [of y] by linarith
  have z: "code z div 64 < 4" using code_less [of z] by (simp add: div_less_iff_less_mult)
  then have b3: "code y mod 16 * 4 + code z div 64 < 64" by linarith
  have e2: "(code y mod 16 * 4 + code z div 64) div 4 = code y mod 16"
    using z by simp
  have e3: "(code y mod 16 * 4 + code z div 64) mod 4 = code z div 64"
    using z by simp
  have e4: "code z div 64 * 64 + code z mod 64 = code z" by simp
  show ?case using 4 b1 b2 b3 z by (simp add: index_of_nth e2 e3 e4)
qed simp

lemma b64_encode_alphabet: "length a = 64 \<Longrightarrow> set (b64_encode a s) \<subseteq> set a"
proof (induction a s rule: b64_encode.induct)
  case (2 a x)
  have "code x div 4 < 64" using code_less [of x] by (simp add: div_less_iff_less_mult)
  with 2 show ?case by simp
next
  case (3 a x y)
  have "code x div 4 < 64" using code_less [of x] by (simp add: div_less_iff_less_mult)
  moreover have "code x mod 4 * 16 + code y div 16 < 64"
    using code_div_16 [of y] by linarith
  ultimately show ?case using 3 by simp
next
  case (4 a x y z r)
  have "code x div 4 < 64" using code_less [of x] by (simp add: div_less_iff_less_mult)
  moreover have "code x mod 4 * 16 + code y div 16 < 64"
    using code_div_16 [of y] by linarith
  moreover have "code z div 64 < 4" using code_less [of z] by (simp add: div_less_iff_less_mult)
  then have "code y mod 16 * 4 + code z div 64 < 64" by linarith
  ultimately show ?case using 4 by simp
qed simp

definition b64url_encode :: "string \<Rightarrow> string" where
  "b64url_encode = b64_encode url_alphabet"

definition b64url_decode :: "string \<Rightarrow> nat + string" where
  "b64url_decode = b64_decode url_alphabet"

definition b64std_encode :: "string \<Rightarrow> string" where
  "b64std_encode = b64_encode std_alphabet"

definition b64std_decode :: "string \<Rightarrow> nat + string" where
  "b64std_decode = b64_decode std_alphabet"

lemma url_alphabet_ok [simp]: "distinct url_alphabet" "length url_alphabet = 64"
  by (simp_all add: url_alphabet_def)

lemma std_alphabet_ok [simp]: "distinct std_alphabet" "length std_alphabet = 64"
  by (simp_all add: std_alphabet_def)

interpretation b64url: text_codec b64url_encode b64url_decode "set url_alphabet"
  by unfold_locales
    (simp_all add: b64url_encode_def b64url_decode_def b64_decode_def b64_scan_encode
      b64_encode_alphabet)

interpretation b64std: text_codec b64std_encode b64std_decode "set std_alphabet"
  by unfold_locales
    (simp_all add: b64std_encode_def b64std_decode_def b64_decode_def b64_scan_encode
      b64_encode_alphabet)

lemma url_alphabet_sep [simp]:
  "CHR ''.'' \<notin> set url_alphabet" "CHR ''|'' \<notin> set url_alphabet"
  by (simp_all add: url_alphabet_def)

lemma b64url_no_sep [simp]:
  "CHR ''.'' \<notin> set (b64url_encode s)" "CHR ''|'' \<notin> set (b64url_encode s)"
  by (rule b64url.enc_sep_free, simp)+

lemma b64std_no_dollar [simp]: "CHR ''$'' \<notin> set (b64std_encode s)"
  by (rule b64std.enc_sep_free) (simp add: std_alphabet_def)

end
