(* ===== verification/Go_Time.thy ===== *)
theory Go_Time
  imports Go_Strings
begin

text \<open>
  The part of package \<^verbatim>\<open>time\<close> the services use. An instant is the number of nanoseconds
  since the Unix epoch, a duration a 64-bit count of nanoseconds. Durations wrap on
  arithmetic overflow, \<^verbatim>\<open>Time.Sub\<close> saturates, and \<^verbatim>\<open>time.Unix\<close> adds the offset of
  its internal epoch in 64 bits.
\<close>

definition wrap64 :: "int \<Rightarrow> int" where
  "wrap64 x = (x + 2 ^ 63) mod 2 ^ 64 - 2 ^ 63"

definition min_duration :: int where
  "min_duration = - (2 ^ 63)"

definition max_duration :: int where
  "max_duration = 2 ^ 63 - 1"

definition second :: int where
  "second = 1000000000"

definition minute :: int where
  "minute = 60 * second"

text \<open>\<^verbatim>\<open>t.Sub(u)\<close>\<close>

definition time_Sub :: "int \<Rightarrow> int \<Rightarrow> int" where
  "time_Sub t u =
     (if t - u < min_duration then min_duration
      else if t - u > max_duration then max_duration
      else t - u)"

text \<open>\<^verbatim>\<open>-d\<close> on a duration: the least duration is its own negation.\<close>

definition duration_neg :: "int \<Rightarrow> int" where
  "duration_neg d = wrap64 (- d)"

text \<open>\<^verbatim>\<open>time.Unix(sec, 0)\<close> and \<^verbatim>\<open>t.Unix()\<close>\<close>

definition unix_to_internal :: int where
  "unix_to_internal = 62135596800"

definition time_Unix :: "int \<Rightarrow> int" where
  "time_Unix sec = (wrap64 (sec + unix_to_internal) - unix_to_internal) * second"

definition unix_of :: "int \<Rightarrow> int" where
  "unix_of t = t div second"

lemma wrap64_id: "- (2 ^ 63) \<le> x \<Longrightarrow> x < 2 ^ 63 \<Longrightarrow> wrap64 x = x"
  by (simp add: wrap64_def)

lemma wrap64_range: "min_duration \<le> wrap64 x \<and> wrap64 x \<le> max_duration"
proof -
  have "0 \<le> (x + 2 ^ 63) mod 2 ^ 64" and "(x + 2 ^ 63) mod 2 ^ 64 < (2 ^ 64 :: int)"
    by simp_all
  then show ?thesis by (simp add: wrap64_def min_duration_def max_duration_def)
qed

lemma time_Sub_range: "min_duration \<le> time_Sub t u \<and> time_Sub t u \<le> max_duration"
  by (simp add: time_Sub_def min_duration_def max_duration_def)

lemma duration_neg_min [simp]: "duration_neg min_duration = min_duration"
  by (simp add: duration_neg_def wrap64_def min_duration_def)

lemma duration_neg_id: "min_duration < d \<Longrightarrow> d \<le> max_duration \<Longrightarrow> duration_neg d = - d"
  by (simp add: duration_neg_def min_duration_def max_duration_def wrap64_id)

lemma unix_of_mono: "s \<le> t \<Longrightarrow> unix_of s \<le> unix_of t"
  by (simp add: unix_of_def second_def zdiv_mono1)

lemma unix_of_Unix:
  assumes "- (2 ^ 62) \<le> sec" and "sec < 2 ^ 62"
  shows "unix_of (time_Unix sec) = sec"
  using assms by (simp add: unix_of_def time_Unix_def wrap64_id unix_to_internal_def second_def)

end
