(* ===== verification/Domain.thy ===== *)
theory Domain
  imports Go_Time "HOL-Library.Word"
begin

text \<open>
  The data model of biometric-auth (\<^verbatim>\<open>internal/domain/models.go\<close>), its error values
  (the \<^verbatim>\<open>var\<close> blocks of the service files), its configuration record, and the process
  state the services share.

  The string-typed enumerations of the source stay strings: several of them (platform,
  challenge action, biometric type) are converted from request fields without a check, so
  they can hold any string. Record fields carry a short prefix for their struct
  (\<open>u_\<close> User, \<open>d_\<close> Device, \<open>s_\<close> Session, \<open>c_\<close> Challenge, \<open>a_\<close> AuditLog,
  \<open>t_\<close> TokenClaims, \<open>p_\<close> tokenPayload). Pointers to times are options.
\<close>

section \<open>Users\<close>

type_synonym UserStatus = string


definition UserStatusActive :: UserStatus where
  "UserStatusActive = ''active''"

definition UserStatusLocked :: UserStatus where
  "UserStatusLocked = ''locked''"

definition UserStatusDisabled :: UserStatus where
  "UserStatusDisabled = ''disabled''"

record User =
  u_ID :: string
  u_Phone :: string
  u_Email :: string
  u_PasswordHash :: string
  u_TOTPSecret :: string
  u_Status :: UserStatus
  u_FailedAttempts :: int
  u_LockedUntil :: "int option"
  u_CreatedAt :: int
  u_UpdatedAt :: int


section \<open>Devices\<close>

type_synonym Platform = string
type_synonym DeviceStatus = string
type_synonym BiometricType = string

definition PlatformAndroid :: Platform where
  "PlatformAndroid = ''android''"

definition PlatformIOS :: Platform where
  "PlatformIOS = ''ios''"

definition DeviceStatusActive :: DeviceStatus where
  "DeviceStatusActive = ''active''"

definition DeviceStatusRevoked :: DeviceStatus where
  "DeviceStatusRevoked = ''revoked''"

definition DeviceStatusBlocked :: DeviceStatus where
  "DeviceStatusBlocked = ''blocked''"

definition BiometricFingerprint :: BiometricType where
  "BiometricFingerprint = ''fingerprint''"

definition BiometricFace :: BiometricType where
  "BiometricFace = ''face''"

definition BiometricIris :: BiometricType where
  "BiometricIris = ''iris''"

record Device =
  d_ID :: string
  d_UserID :: string
  d_Name :: string
  d_Platform :: Platform
  d_AppVersion :: string
  d_OSVersion :: string
  d_DeviceFingerprint :: string
  d_BiometricEnabled :: bool
  d_PublicKey :: string
  d_KeyID :: string
  d_BiometricType :: BiometricType
  d_EnrolledAt :: "int option"
  d_AttestationData :: string
  d_IsRooted :: bool
  d_IsJailbroken :: bool
  d_TrustScore :: int
  d_Status :: DeviceStatus
  d_LastSeenAt :: int
  d_CreatedAt :: int
  d_RevokedAt :: "int option"
  d_RevokedBy :: string


section \<open>Sessions and tokens\<close>

type_synonym SessionStatus = string
type_synonym TokenType = string

definition SessionStatusActive :: SessionStatus where
  "SessionStatusActive = ''active''"

definition SessionStatusRevoked :: SessionStatus where
  "SessionStatusRevoked = ''revoked''"

definition SessionStatusExpired :: SessionStatus where
  "SessionStatusExpired = ''expired''"

definition SessionStatusReplayed :: SessionStatus where
  "SessionStatusReplayed = ''replayed''"

definition TokenTypeAccess :: TokenType where
  "TokenTypeAccess = ''access''"

definition TokenTypeRefresh :: TokenType where
  "TokenTypeRefresh = ''refresh''"

record Session =
  s_ID :: string
  s_UserID :: string
  s_DeviceID :: string
  s_RefreshToken :: string
  s_TokenFamily :: string
  s_LastUsedAt :: int
  s_UseCount :: int
  s_StepUpToken :: string
  s_StepUpExpiry :: "int option"
  s_Status :: SessionStatus
  s_ExpiresAt :: int
  s_CreatedAt :: int
  s_IPAddress :: string
  s_UserAgent :: string

record TokenClaims =
  t_UserID :: string
  t_DeviceID :: string
  t_SessionID :: string
  t_TokenType :: TokenType
  t_StepUp :: bool
  t_StepUpExp :: "int option"

record tokenPayload =
  p_Sub :: string
  p_DeviceID :: string
  p_SessionID :: string
  p_Type :: string
  p_Family :: string
  p_StepUp :: bool
  p_StepUpExp :: "int option"
  p_Iat :: int
  p_Exp :: int
  p_Jti :: string


section \<open>Challenges\<close>

type_synonym ChallengeAction = string

definition ChallengeActionEnroll :: ChallengeAction where
  "ChallengeActionEnroll = ''enroll''"

definition ChallengeActionAuthenticate :: ChallengeAction where
  "ChallengeActionAuthenticate = ''authenticate''"

definition ChallengeActionStepUp :: ChallengeAction where
  "ChallengeActionStepUp = ''step_up''"

definition ChallengeActionRevoke :: ChallengeAction where
  "ChallengeActionRevoke = ''revoke''"

record Challenge =
  c_ID :: string
  c_Nonce :: string
  c_UserID :: string
  c_DeviceID :: string
  c_Action :: ChallengeAction
  c_HMAC :: string
  c_ExpiresAt :: int
  c_UsedAt :: "int option"
  c_CreatedAt :: int


section \<open>Audit log\<close>

type_synonym AuditAction = string
type_synonym AuditResult = string

definition AuditActionLogin :: AuditAction where
  "AuditActionLogin = ''login''"

definition AuditActionLoginFailed :: AuditAction where
  "AuditActionLoginFailed = ''login_failed''"

definition AuditActionOTPVerify :: AuditAction where
  "AuditActionOTPVerify = ''otp_verify''"

definition AuditActionBiometricEnroll :: AuditAction where
  "AuditActionBiometricEnroll = ''biometric_enroll''"

definition AuditActionBiometricAuth :: AuditAction where
  "AuditActionBiometricAuth = ''biometric_auth''"

definition AuditActionBiometricFailed :: AuditAction where
  "AuditActionBiometricFailed = ''biometric_failed''"

definition AuditActionTokenRefresh :: AuditAction where
  "AuditActionTokenRefresh = ''token_refresh''"

definition AuditActionTokenRevoked :: AuditAction where
  "AuditActionTokenRevoked = ''token_revoked''"

definition AuditActionReplayDetected :: AuditAction where
  "AuditActionReplayDetected = ''replay_detected''"

definition AuditActionDeviceRevoked :: AuditAction where
  "AuditActionDeviceRevoked = ''device_revoked''"

definition AuditActionRootedDevice :: AuditAction where
  "AuditActionRootedDevice = ''rooted_device_detected''"

definition AuditActionStepUpGranted :: AuditAction where
  "AuditActionStepUpGranted = ''step_up_granted''"

definition AuditActionStepUpFailed :: AuditAction where
  "AuditActionStepUpFailed = ''step_up_failed''"

definition AuditActionPaymentAuthorized :: AuditAction where
  "AuditActionPaymentAuthorized = ''payment_authorized''"

definition AuditActionLogout :: AuditAction where
  "AuditActionLogout = ''logout''"

definition AuditActionLogoutAll :: AuditAction where
  "AuditActionLogoutAll = ''logout_all''"

definition AuditResultSuccess :: AuditResult where
  "AuditResultSuccess = ''success''"

definition AuditResultFailure :: AuditResult where
  "AuditResultFailure = ''failure''"

definition AuditResultBlocked :: AuditResult where
  "AuditResultBlocked = ''blocked''"

text \<open>The values the code puts into the \<^verbatim>\<open>Details\<close> map.\<close>

datatype detail = DString string | DBool bool | DInt int

record AuditLog =
  a_ID :: string
  a_UserID :: string
  a_DeviceID :: string
  a_SessionID :: string
  a_Action :: AuditAction
  a_Result :: AuditResult
  a_Details :: "(string \<times> detail) list"
  a_IPAddress :: string
  a_UserAgent :: string
  a_RiskScore :: int
  a_CreatedAt :: int

text \<open>A struct literal leaves the fields it does not name at their zero values.\<close>

definition zero_AuditLog :: AuditLog where
  "zero_AuditLog = \<lparr>a_ID = [], a_UserID = [], a_DeviceID = [], a_SessionID = [], a_Action = [],
     a_Result = [], a_Details = [], a_IPAddress = [], a_UserAgent = [], a_RiskScore = 0,
     a_CreatedAt = 0\<rparr>"

definition zero_Device :: Device where
  "zero_Device = \<lparr>d_ID = [], d_UserID = [], d_Name = [], d_Platform = [], d_AppVersion = [],
     d_OSVersion = [], d_DeviceFingerprint = [], d_BiometricEnabled = False, d_PublicKey = [],
     d_KeyID = [], d_BiometricType = [], d_EnrolledAt = None, d_AttestationData = [],
     d_IsRooted = False, d_IsJailbroken = False, d_TrustScore = 0, d_Status = [],
     d_LastSeenAt = 0, d_CreatedAt = 0, d_RevokedAt = None, d_RevokedBy = []\<rparr>"

lemmas status_consts =
  UserStatusActive_def UserStatusLocked_def UserStatusDisabled_def DeviceStatusActive_def
  DeviceStatusRevoked_def DeviceStatusBlocked_def SessionStatusActive_def
  SessionStatusRevoked_def SessionStatusExpired_def SessionStatusReplayed_def

lemmas token_consts =
  TokenTypeAccess_def TokenTypeRefresh_def

lemmas action_consts =
  ChallengeActionEnroll_def ChallengeActionAuthenticate_def ChallengeActionStepUp_def
  ChallengeActionRevoke_def

lemmas audit_consts =
  AuditActionLogin_def AuditActionLoginFailed_def AuditActionOTPVerify_def
  AuditActionBiometricEnroll_def AuditActionBiometricAuth_def AuditActionBiometricFailed_def
  AuditActionTokenRefresh_def AuditActionTokenRevoked_def AuditActionReplayDetected_def
  AuditActionDeviceRevoked_def AuditActionRootedDevice_def AuditActionStepUpGranted_def
  AuditActionStepUpFailed_def AuditActionPaymentAuthorized_def AuditActionLogout_def
  AuditActionLogoutAll_def AuditResultSuccess_def AuditResultFailure_def
  AuditResultBlocked_def


section \<open>Errors\<close>

datatype token_err =
    ErrTokenExpired | ErrTokenInvalid | ErrTokenRevoked | ErrReplayDetected
  | ErrFamilyCompromised

datatype biometric_err =
    ErrChallengeExpired | ErrChallengeUsed | ErrChallengeInvalid | ErrDeviceNotFound
  | ErrBiometricDisabled | ErrSignatureInvalid | ErrRootedDevice | ErrTimestampDrift
  | ErrStepUpRequired

datatype device_err =
    ErrDeviceRevoked | ErrDeviceBlocked | ErrTooManyDevices | ErrDeviceOwnership

datatype auth_err =
    ErrInvalidCredentials | ErrAccountLocked | ErrAccountDisabled | ErrOTPInvalid

text \<open>
  \<open>Wrapped p e s\<close> is \<^verbatim>\<open>fmt.Errorf\<close> with one \<^verbatim>\<open>%w\<close>: its text is \<open>p\<close>, the
  text of \<open>e\<close>, then \<open>s\<close>, and it unwraps to \<open>e\<close>.
\<close>

datatype go_error =
    TokenErr token_err
  | BiometricErr biometric_err
  | DeviceErr device_err
  | AuthErr auth_err
  | ErrorString string
  | CorruptInputError nat
  | Wrapped string go_error string

definition em_dash :: string where
  "em_dash = [CHR 0xE2, CHR 0x80, CHR 0x94]"

fun token_err_text :: "token_err \<Rightarrow> string" where
  "token_err_text ErrTokenExpired = ''token expired''"
| "token_err_text ErrTokenInvalid = ''token invalid''"
| "token_err_text ErrTokenRevoked = ''token revoked''"
| "token_err_text ErrReplayDetected = ''replay attack detected''"
| "token_err_text ErrFamilyCompromised =
     ''token family compromised '' @ em_dash @ '' all sessions revoked''"

fun biometric_err_text :: "biometric_err \<Rightarrow> string" where
  "biometric_err_text ErrChallengeExpired = ''challenge expired''"
| "biometric_err_text ErrChallengeUsed = ''challenge already used''"
| "biometric_err_text ErrChallengeInvalid = ''challenge invalid''"
| "biometric_err_text ErrDeviceNotFound = ''device not found''"
| "biometric_err_text ErrBiometricDisabled = ''biometric not enrolled on this device''"
| "biometric_err_text ErrSignatureInvalid = ''biometric signature invalid''"
| "biometric_err_text ErrRootedDevice = ''rooted/jailbroken device not permitted''"
| "biometric_err_text ErrTimestampDrift =
     ''timestamp drift too large '' @ em_dash @ '' possible replay''"
| "biometric_err_text ErrStepUpRequired = ''step-up authentication required''"

fun device_err_text :: "device_err \<Rightarrow> string" where
  "device_err_text ErrDeviceRevoked = ''device has been revoked''"
| "device_err_text ErrDeviceBlocked = ''device is blocked''"
| "device_err_text ErrTooManyDevices = ''maximum devices per user reached''"
| "device_err_text ErrDeviceOwnership = ''device does not belong to user''"

fun auth_err_text :: "auth_err \<Rightarrow> string" where
  "auth_err_text ErrInvalidCredentials = ''invalid credentials''"
| "auth_err_text ErrAccountLocked =
     ''account locked '' @ em_dash @ '' too many failed attempts''"
| "auth_err_text ErrAccountDisabled = ''account disabled''"
| "auth_err_text ErrOTPInvalid = ''OTP invalid or expired''"

text \<open>\<^verbatim>\<open>err.Error()\<close> and \<^verbatim>\<open>errors.Is(err, target)\<close>\<close>

fun error_text :: "go_error \<Rightarrow> string" where
  "error_text (TokenErr e) = token_err_text e"
| "error_text (BiometricErr e) = biometric_err_text e"
| "error_text (DeviceErr e) = device_err_text e"
| "error_text (AuthErr e) = auth_err_text e"
| "error_text (ErrorString s) = s"
| "error_text (CorruptInputError n) = ''illegal base64 data at input byte '' @ show_nat n"
| "error_text (Wrapped p e s) = p @ error_text e @ s"

fun errors_Is :: "go_error \<Rightarrow> go_error \<Rightarrow> bool" where
  "errors_Is (Wrapped p e s) t = (Wrapped p e s = t \<or> errors_Is e t)"
| "errors_Is e t = (e = t)"


section \<open>Configuration and environment\<close>

record config =
  ServerAddr :: string
  TLSCert :: string
  TLSKey :: string
  AccessTokenSecret :: string
  RefreshTokenSecret :: string
  AccessTokenTTL :: int
  RefreshTokenTTL :: int
  StepUpTokenTTL :: int
  ChallengeSecret :: string
  ChallengeTTL :: int
  MaxDevicesPerUser :: int
  SignatureAlgo :: string
  MaxLoginAttempts :: int
  LockoutDuration :: int
  ReplayWindowSize :: int
  MaxTokensPerDevice :: int
  HashMemory :: "32 word"
  HashIterations :: "32 word"
  HashParallelism :: "8 word"
  HashKeyLength :: "32 word"
  Environment :: string

datatype ec_curve = P224 | P256 | P384 | P521

datatype public_key = EcdsaKey ec_curve int int | RsaKey nat nat | OtherKey

text \<open>
  What the process gets from outside: its configuration; the readings of the clock, the
  random source and the order in which a map is ranged over, each indexed by the number of
  the call; and the primitives of the cryptographic and JSON packages, which the theorems
  leave arbitrary (a law they need of one is a hypothesis there).
  \<^item> \<open>rand_read i n\<close>: the \<open>i\<close>-th \<^verbatim>\<open>rand.Read\<close> into \<open>n\<close> bytes: the bytes, or
    the text of the error;
  \<^item> \<open>argon2_IDKey\<close>: password, salt, time, memory, threads and key length; \<open>None\<close> where
    the package panics;
  \<^item> \<open>pem_Decode\<close>: the bytes of the first PEM block; \<open>x509_ParsePKIX\<close>: the key or the
    error's text;
  \<^item> \<open>rsa_VerifyPSS\<close>: \<open>None\<close> for a valid signature, else the error's text.
\<close>

record env =
  cfg :: config
  now_at :: "nat \<Rightarrow> int"
  rand_read :: "nat \<Rightarrow> nat \<Rightarrow> string + string"
  range_order :: "nat \<Rightarrow> string list \<Rightarrow> string list"
  sha256 :: "string \<Rightarrow> string"
  hmac_sha256 :: "string \<Rightarrow> string \<Rightarrow> string"
  argon2_IDKey :: "string \<Rightarrow> string \<Rightarrow> 32 word \<Rightarrow> 32 word \<Rightarrow> 8 word \<Rightarrow> 32 word \<Rightarrow> string option"
  json_Marshal :: "tokenPayload \<Rightarrow> string + string"
  json_Unmarshal :: "string \<Rightarrow> tokenPayload option"
  pem_Decode :: "string \<Rightarrow> string option"
  x509_ParsePKIX :: "string \<Rightarrow> string + public_key"
  ecdsa_Verify :: "int \<Rightarrow> int \<Rightarrow> string \<Rightarrow> nat \<Rightarrow> nat \<Rightarrow> bool"
  rsa_VerifyPSS :: "nat \<Rightarrow> nat \<Rightarrow> string \<Rightarrow> string \<Rightarrow> string option"


section \<open>Process state\<close>

text \<open>
  The five in-memory repositories and how many times the clock, the random source and map
  iteration have been used. An object lives in exactly one repository and is only reached
  through it, so a mutation through a returned pointer followed by \<^verbatim>\<open>Update\<close> is the
  replacement of the entry.
\<close>

record world =
  users :: "User repo"
  devices :: "Device repo"
  sessions :: "Session repo"
  audits :: "AuditLog list"
  challenges :: "Challenge repo"
  clock :: nat
  randoms :: nat
  ranges :: nat

type_synonym 'a svc = "(world, go_error, 'a) go"

definition time_Now :: "env \<Rightarrow> int svc" where
  "time_Now E w = (Ok (now_at E (clock w)), w\<lparr>clock := Suc (clock w)\<rparr>)"

definition rand_Read :: "env \<Rightarrow> nat \<Rightarrow> string svc" where
  "rand_Read E n w =
     ((case rand_read E (randoms w) n of
         Inl t \<Rightarrow> Err (ErrorString t) | Inr b \<Rightarrow> Ok b),
      w\<lparr>randoms := Suc (randoms w)\<rparr>)"

text \<open>The keys of a map, in the order this iteration visits them.\<close>

definition range_keys :: "env \<Rightarrow> 'v repo \<Rightarrow> (string list) svc" where
  "range_keys E r w = (Ok (range_order E (ranges w) (map fst r)), w\<lparr>ranges := Suc (ranges w)\<rparr>)"

lemma time_Now_apply [simp]:
  "time_Now E w = (Ok (now_at E (clock w)), w\<lparr>clock := Suc (clock w)\<rparr>)"
  by (simp add: time_Now_def)

lemma rand_Read_Inr [simp]:
  "rand_read E (randoms w) n = Inr b \<Longrightarrow>
   rand_Read E n w = (Ok b, w\<lparr>randoms := Suc (randoms w)\<rparr>)"
  by (simp add: rand_Read_def)

lemma keeps_time_Now [keeps_rules]:
  "(\<And>w n. I w \<Longrightarrow> I (w\<lparr>clock := n\<rparr>)) \<Longrightarrow> keeps I (time_Now E)"
  by (simp add: keeps_def)

lemma keeps_rand_Read [keeps_rules]:
  "(\<And>w n. I w \<Longrightarrow> I (w\<lparr>randoms := n\<rparr>)) \<Longrightarrow> keeps I (rand_Read E k)"
  by (simp add: keeps_def rand_Read_def split: sum.splits)

lemma keeps_range_keys [keeps_rules]:
  "(\<And>w n. I w \<Longrightarrow> I (w\<lparr>ranges := n\<rparr>)) \<Longrightarrow> keeps I (range_keys E r)"
  by (simp add: keeps_def range_keys_def)

end
