(* ===== verification/Repository.thy ===== *)
theory Repository
  imports Domain
begin

text \<open>
  The in-memory repositories of \<^verbatim>\<open>internal/repository/repository.go\<close>. Each map of a
  repository is a component of the process state; the mutex makes every method one atomic
  step, which is what a call is here. The theory interprets the store contract for the four
  keyed repositories and characterises pagination, including the slice-bounds panics.
\<close>

section \<open>Users\<close>

definition seed_hash :: string where
  "seed_hash = ''$argon2id$v=19$m=65536,t=3,p=2$c29tZXNhbHQ$RdescudvJCsgt3ub+b+dWRWJTmaaJObG''"

definition NewUserRepository :: "int \<Rightarrow> User repo" where
  "NewUserRepository now =
     [(''user_001'',
       \<lparr>u_ID = ''user_001'', u_Phone = ''+66812345678'', u_Email = ''test@example.com'',
        u_PasswordHash = seed_hash, u_TOTPSecret = [], u_Status = UserStatusActive,
        u_FailedAttempts = 0, u_LockedUntil = None, u_CreatedAt = now, u_UpdatedAt = 0\<rparr>)]"

definition user_FindByID :: "string \<Rightarrow> User svc" where
  "user_FindByID key w =
     (case repo_get (users w) key of
        None \<Rightarrow> (Err (ErrorString ''user not found''), w)
      | Some u \<Rightarrow> (Ok u, w))"

fun first_match :: "User repo \<Rightarrow> string \<Rightarrow> string list \<Rightarrow> User option" where
  "first_match r identifier [] = None"
| "first_match r identifier (k # ks) =
     (case repo_get r k of
        Some u \<Rightarrow> if u_Phone u = identifier \<or> u_Email u = identifier then Some u
                  else first_match r identifier ks
      | None \<Rightarrow> first_match r identifier ks)"

definition user_FindByIdentifier :: "env \<Rightarrow> string \<Rightarrow> User svc" where
  "user_FindByIdentifier E identifier =
     go_get (\<lambda>w. go_bind (range_keys E (users w)) (\<lambda>keys.
       case first_match (users w) identifier keys of
         None \<Rightarrow> go_fail (ErrorString ''user not found'')
       | Some u \<Rightarrow> go_return u))"

definition user_Store :: "User \<Rightarrow> unit svc" where
  "user_Store u = go_put (\<lambda>w. w\<lparr>users := repo_put (u_ID u) u (users w)\<rparr>)"

definition user_Update :: "env \<Rightarrow> User \<Rightarrow> unit svc" where
  "user_Update E u = go_bind (time_Now E) (\<lambda>now.
     go_put (\<lambda>w. w\<lparr>users := repo_put (u_ID u) (u\<lparr>u_UpdatedAt := now\<rparr>) (users w)\<rparr>))"


section \<open>Devices\<close>

definition NewDeviceRepository :: "Device repo" where
  "NewDeviceRepository = []"

text \<open>A missing device is a nil pointer with a nil error.\<close>

definition device_GetByID :: "string \<Rightarrow> (Device option) svc" where
  "device_GetByID key w = (Ok (repo_get (devices w) key), w)"

definition owned_by :: "Device repo \<Rightarrow> string \<Rightarrow> string list \<Rightarrow> Device list" where
  "owned_by r userID keys =
     concat (map (\<lambda>k. case repo_get r k of
                        Some d \<Rightarrow> if d_UserID d = userID then [d] else []
                      | None \<Rightarrow> []) keys)"

definition device_ListByUser :: "env \<Rightarrow> string \<Rightarrow> (Device list) svc" where
  "device_ListByUser E userID =
     go_get (\<lambda>w. go_bind (range_keys E (devices w)) (\<lambda>keys.
       go_return (owned_by (devices w) userID keys)))"

definition device_Store :: "Device \<Rightarrow> unit svc" where
  "device_Store d = go_put (\<lambda>w. w\<lparr>devices := repo_put (d_ID d) d (devices w)\<rparr>)"

definition device_Update :: "Device \<Rightarrow> unit svc" where
  "device_Update d = go_put (\<lambda>w. w\<lparr>devices := repo_put (d_ID d) d (devices w)\<rparr>)"


section \<open>Sessions\<close>

definition NewSessionRepository :: "Session repo" where
  "NewSessionRepository = []"

definition session_GetByID :: "string \<Rightarrow> (Session option) svc" where
  "session_GetByID key w = (Ok (repo_get (sessions w) key), w)"

definition session_Store :: "Session \<Rightarrow> unit svc" where
  "session_Store s = go_put (\<lambda>w. w\<lparr>sessions := repo_put (s_ID s) s (sessions w)\<rparr>)"

definition session_Update :: "Session \<Rightarrow> unit svc" where
  "session_Update s = go_put (\<lambda>w. w\<lparr>sessions := repo_put (s_ID s) s (sessions w)\<rparr>)"

definition session_RevokeFamily :: "string \<Rightarrow> SessionStatus \<Rightarrow> unit svc" where
  "session_RevokeFamily family status =
     go_put (\<lambda>w. w\<lparr>sessions :=
       repo_map (\<lambda>s. if s_TokenFamily s = family then s\<lparr>s_Status := status\<rparr> else s) (sessions w)\<rparr>)"

definition session_RevokeAllByUser :: "string \<Rightarrow> unit svc" where
  "session_RevokeAllByUser userID =
     go_put (\<lambda>w. w\<lparr>sessions :=
       repo_map (\<lambda>s. if s_UserID s = userID then s\<lparr>s_Status := SessionStatusRevoked\<rparr> else s)
         (sessions w)\<rparr>)"


section \<open>Audit log\<close>

definition NewAuditRepository :: "AuditLog list" where
  "NewAuditRepository = []"

definition audit_Store :: "AuditLog \<Rightarrow> unit svc" where
  "audit_Store l = go_put (\<lambda>w. w\<lparr>audits := audits w @ [l]\<rparr>)"

text \<open>
  The slice expression \<^verbatim>\<open>logs[offset:end]\<close> panics when \<^verbatim>\<open>offset\<close> is negative or
  greater than \<^verbatim>\<open>end\<close>; \<^verbatim>\<open>offset + limit\<close> wraps at 64 bits.
\<close>

definition paginate :: "'a list \<Rightarrow> int \<Rightarrow> int \<Rightarrow> (go_error, 'a list) outcome" where
  "paginate logs limit offset =
     (if offset \<ge> int (length logs) then Ok []
      else
        (let end0 = wrap64 (offset + limit);
             end1 = (if end0 > int (length logs) then int (length logs) else end0)
         in if offset < 0 \<or> end1 < offset then Panic
            else Ok (take (nat (end1 - offset)) (drop (nat offset) logs))))"

definition audit_GetByUser :: "string \<Rightarrow> int \<Rightarrow> int \<Rightarrow> (AuditLog list) svc" where
  "audit_GetByUser userID limit offset w =
     (paginate (filter (\<lambda>l. a_UserID l = userID) (audits w)) limit offset, w)"

definition audit_GetAll :: "int \<Rightarrow> int \<Rightarrow> (AuditLog list) svc" where
  "audit_GetAll limit offset w = (paginate (audits w) limit offset, w)"


section \<open>Challenges\<close>

definition NewChallengeRepository :: "Challenge repo" where
  "NewChallengeRepository = []"

definition challenge_Store :: "Challenge \<Rightarrow> unit svc" where
  "challenge_Store c = go_put (\<lambda>w. w\<lparr>challenges := repo_put (c_ID c) c (challenges w)\<rparr>)"

definition challenge_Get :: "string \<Rightarrow> (Challenge option) svc" where
  "challenge_Get key w = (Ok (repo_get (challenges w) key), w)"

definition challenge_Update :: "Challenge \<Rightarrow> unit svc" where
  "challenge_Update c = go_put (\<lambda>w. w\<lparr>challenges := repo_put (c_ID c) c (challenges w)\<rparr>)"

definition challenge_DeleteExpired :: "env \<Rightarrow> unit svc" where
  "challenge_DeleteExpired E = go_bind (time_Now E) (\<lambda>now.
     go_put (\<lambda>w. w\<lparr>challenges := repo_drop (\<lambda>c. now > c_ExpiresAt c) (challenges w)\<rparr>))"


section \<open>The store contract\<close>

interpretation user_store: keyed_store repo_get repo_put u_ID "repo_wf u_ID"
  by unfold_locales (auto intro: repo_wf_put dest: repo_wf_key)

interpretation device_store: keyed_store repo_get repo_put d_ID "repo_wf d_ID"
  by unfold_locales (auto intro: repo_wf_put dest: repo_wf_key)

interpretation session_store: keyed_store repo_get repo_put s_ID "repo_wf s_ID"
  by unfold_locales (auto intro: repo_wf_put dest: repo_wf_key)

interpretation challenge_store: keyed_store repo_get repo_put c_ID "repo_wf c_ID"
  by unfold_locales (auto intro: repo_wf_put dest: repo_wf_key)

text \<open>The type invariant of the process state: every object is stored once, under its ID.\<close>

definition world_wf :: "world \<Rightarrow> bool" where
  "world_wf w \<longleftrightarrow> repo_wf u_ID (users w) \<and> repo_wf d_ID (devices w)
     \<and> repo_wf s_ID (sessions w) \<and> repo_wf c_ID (challenges w)"

lemma world_wf_update [simp]:
  "world_wf (w\<lparr>clock := n\<rparr>) = world_wf w"
  "world_wf (w\<lparr>randoms := n\<rparr>) = world_wf w"
  "world_wf (w\<lparr>ranges := n\<rparr>) = world_wf w"
  "world_wf (w\<lparr>audits := as\<rparr>) = world_wf w"
  by (simp_all add: world_wf_def)

lemma world_wf_session_key:
  "world_wf w \<Longrightarrow> repo_get (sessions w) k = Some s \<Longrightarrow> s_ID s = k"
  by (auto simp: world_wf_def dest: repo_wf_key)

lemma world_wf_device_key:
  "world_wf w \<Longrightarrow> repo_get (devices w) k = Some d \<Longrightarrow> d_ID d = k"
  by (auto simp: world_wf_def dest: repo_wf_key)

lemma world_wf_challenge_key:
  "world_wf w \<Longrightarrow> repo_get (challenges w) k = Some c \<Longrightarrow> c_ID c = k"
  by (auto simp: world_wf_def dest: repo_wf_key)


section \<open>What the calls do to the state\<close>

lemmas read_defs =
  user_FindByID_def device_GetByID_def session_GetByID_def challenge_Get_def
  audit_GetByUser_def audit_GetAll_def

lemma device_GetByID_apply [simp]: "device_GetByID i w = (Ok (repo_get (devices w) i), w)"
  by (simp add: device_GetByID_def)

lemma session_GetByID_apply [simp]: "session_GetByID i w = (Ok (repo_get (sessions w) i), w)"
  by (simp add: session_GetByID_def)

lemma challenge_Get_apply [simp]: "challenge_Get i w = (Ok (repo_get (challenges w) i), w)"
  by (simp add: challenge_Get_def)

lemma user_Update_apply [simp]:
  "user_Update E u w =
     (Ok (), w\<lparr>clock := Suc (clock w),
        users := repo_put (u_ID u) (u\<lparr>u_UpdatedAt := now_at E (clock w)\<rparr>) (users w)\<rparr>)"
  by (simp add: user_Update_def)

lemma device_Store_apply [simp]:
  "device_Store d w = (Ok (), w\<lparr>devices := repo_put (d_ID d) d (devices w)\<rparr>)"
  by (simp add: device_Store_def)

lemma device_Update_apply [simp]:
  "device_Update d w = (Ok (), w\<lparr>devices := repo_put (d_ID d) d (devices w)\<rparr>)"
  by (simp add: device_Update_def)

lemma session_Store_apply [simp]:
  "session_Store s w = (Ok (), w\<lparr>sessions := repo_put (s_ID s) s (sessions w)\<rparr>)"
  by (simp add: session_Store_def)

lemma session_Update_apply [simp]:
  "session_Update s w = (Ok (), w\<lparr>sessions := repo_put (s_ID s) s (sessions w)\<rparr>)"
  by (simp add: session_Update_def)

lemma challenge_Store_apply [simp]:
  "challenge_Store c w = (Ok (), w\<lparr>challenges := repo_put (c_ID c) c (challenges w)\<rparr>)"
  by (simp add: challenge_Store_def)

lemma challenge_Update_apply [simp]:
  "challenge_Update c w = (Ok (), w\<lparr>challenges := repo_put (c_ID c) c (challenges w)\<rparr>)"
  by (simp add: challenge_Update_def)

lemma audit_Store_apply [simp]: "audit_Store l w = (Ok (), w\<lparr>audits := audits w @ [l]\<rparr>)"
  by (simp add: audit_Store_def)

lemma keeps_reads [keeps_rules]:
  "keeps I (user_FindByID i)" "keeps I (device_GetByID i)" "keeps I (session_GetByID i)"
  "keeps I (challenge_Get i)" "keeps I (audit_GetByUser u l k)" "keeps I (audit_GetAll l k)"
  by (auto simp: keeps_def read_defs split: option.splits)

lemma keeps_FindByIdentifier [keeps_rules]:
  "(\<And>w n. I w \<Longrightarrow> I (w\<lparr>ranges := n\<rparr>)) \<Longrightarrow> keeps I (user_FindByIdentifier E i)"
  unfolding user_FindByIdentifier_def by (intro keeps_rules) auto

lemma keeps_ListByUser [keeps_rules]:
  "(\<And>w n. I w \<Longrightarrow> I (w\<lparr>ranges := n\<rparr>)) \<Longrightarrow> keeps I (device_ListByUser E i)"
  unfolding device_ListByUser_def by (intro keeps_rules) auto

lemma keeps_user_Update [keeps_rules]:
  "(\<And>w n. I w \<Longrightarrow> I (w\<lparr>clock := n\<rparr>)) \<Longrightarrow>
   (\<And>w t. I w \<Longrightarrow> I (w\<lparr>users := repo_put (u_ID u) (u\<lparr>u_UpdatedAt := t\<rparr>) (users w)\<rparr>)) \<Longrightarrow>
   keeps I (user_Update E u)"
  unfolding user_Update_def by (intro keeps_rules) auto

lemma keeps_device_Store [keeps_rules]:
  "(\<And>w. I w \<Longrightarrow> I (w\<lparr>devices := repo_put (d_ID d) d (devices w)\<rparr>)) \<Longrightarrow> keeps I (device_Store d)"
  by (simp add: keeps_def)

lemma keeps_device_Update [keeps_rules]:
  "(\<And>w. I w \<Longrightarrow> I (w\<lparr>devices := repo_put (d_ID d) d (devices w)\<rparr>)) \<Longrightarrow> keeps I (device_Update d)"
  by (simp add: keeps_def)

lemma keeps_session_Store [keeps_rules]:
  "(\<And>w. I w \<Longrightarrow> I (w\<lparr>sessions := repo_put (s_ID s) s (sessions w)\<rparr>)) \<Longrightarrow> keeps I (session_Store s)"
  by (simp add: keeps_def)

lemma keeps_session_Update [keeps_rules]:
  "(\<And>w. I w \<Longrightarrow> I (w\<lparr>sessions := repo_put (s_ID s) s (sessions w)\<rparr>)) \<Longrightarrow> keeps I (session_Update s)"
  by (simp add: keeps_def)

lemma keeps_challenge_Store [keeps_rules]:
  "(\<And>w. I w \<Longrightarrow> I (w\<lparr>challenges := repo_put (c_ID c) c (challenges w)\<rparr>)) \<Longrightarrow>
   keeps I (challenge_Store c)"
  by (simp add: keeps_def)

lemma keeps_challenge_Update [keeps_rules]:
  "(\<And>w. I w \<Longrightarrow> I (w\<lparr>challenges := repo_put (c_ID c) c (challenges w)\<rparr>)) \<Longrightarrow>
   keeps I (challenge_Update c)"
  by (simp add: keeps_def)

lemma keeps_audit_Store [keeps_rules]:
  "(\<And>w l. I w \<Longrightarrow> I (w\<lparr>audits := audits w @ [l]\<rparr>)) \<Longrightarrow> keeps I (audit_Store l)"
  by (simp add: keeps_def)

text \<open>Bulk revocation, entry by entry.\<close>

lemma session_RevokeFamily_apply [simp]:
  "session_RevokeFamily f st w = (Ok (), w\<lparr>sessions :=
     repo_map (\<lambda>s. if s_TokenFamily s = f then s\<lparr>s_Status := st\<rparr> else s) (sessions w)\<rparr>)"
  by (simp add: session_RevokeFamily_def)

lemma session_RevokeAllByUser_apply [simp]:
  "session_RevokeAllByUser u w = (Ok (), w\<lparr>sessions :=
     repo_map (\<lambda>s. if s_UserID s = u then s\<lparr>s_Status := SessionStatusRevoked\<rparr> else s)
       (sessions w)\<rparr>)"
  by (simp add: session_RevokeAllByUser_def)

lemma keeps_wf_RevokeFamily [keeps_rules]: "keeps world_wf (session_RevokeFamily f st)"
  by (auto simp: keeps_def world_wf_def intro: repo_wf_map)

lemma keeps_wf_RevokeAllByUser [keeps_rules]: "keeps world_wf (session_RevokeAllByUser u)"
  by (auto simp: keeps_def world_wf_def intro: repo_wf_map)

lemma keeps_wf_DeleteExpired [keeps_rules]: "keeps world_wf (challenge_DeleteExpired E)"
  unfolding challenge_DeleteExpired_def
  by (intro keeps_rules) (auto simp: world_wf_def intro: repo_wf_drop)

lemma world_wf_puts:
  "world_wf w \<Longrightarrow> u_ID u = k \<Longrightarrow> world_wf (w\<lparr>users := repo_put k u (users w)\<rparr>)"
  "world_wf w \<Longrightarrow> d_ID d = k \<Longrightarrow> world_wf (w\<lparr>devices := repo_put k d (devices w)\<rparr>)"
  "world_wf w \<Longrightarrow> s_ID s = k \<Longrightarrow> world_wf (w\<lparr>sessions := repo_put k s (sessions w)\<rparr>)"
  "world_wf w \<Longrightarrow> c_ID c = k \<Longrightarrow> world_wf (w\<lparr>challenges := repo_put k c (challenges w)\<rparr>)"
  by (auto simp: world_wf_def intro: repo_wf_put)


section \<open>Lookup by identifier\<close>

lemma first_match_Some:
  "first_match r i ks = Some u \<Longrightarrow>
   (\<exists>k \<in> set ks. repo_get r k = Some u) \<and> (u_Phone u = i \<or> u_Email u = i)"
  by (induction ks) (auto split: option.splits if_splits)

lemma first_match_None:
  "first_match r i ks = None \<Longrightarrow> k \<in> set ks \<Longrightarrow> repo_get r k = Some u \<Longrightarrow>
   u_Phone u \<noteq> i \<and> u_Email u \<noteq> i"
  by (induction ks) (auto split: option.splits if_splits)

lemma FindByIdentifier_Ok:
  assumes "user_FindByIdentifier E i w = (Ok u, w')"
  shows "\<exists>k. repo_get (users w) k = Some u" and "u_Phone u = i \<or> u_Email u = i"
    and "w' = w\<lparr>ranges := Suc (ranges w)\<rparr>"
  using assms first_match_Some
  by (fastforce simp: user_FindByIdentifier_def range_keys_def split: option.splits)+

lemma FindByIdentifier_world:
  "snd (user_FindByIdentifier E i w) = w\<lparr>ranges := Suc (ranges w)\<rparr>"
  by (simp add: user_FindByIdentifier_def range_keys_def split: option.splits)


section \<open>Pagination\<close>

lemma paginate_in_range:
  assumes "0 \<le> offset" and "0 \<le> limit" and "offset + limit < 2 ^ 63"
  shows "paginate logs limit offset = Ok (take (nat limit) (drop (nat offset) logs))"
proof (cases "offset \<ge> int (length logs)")
  case True
  then show ?thesis using assms by (simp add: paginate_def)
next
  case False
  have w: "wrap64 (offset + limit) = offset + limit"
    using assms by (intro wrap64_id) auto
  have t: "take (nat (int (length logs) - offset)) (drop (nat offset) logs) = drop (nat offset) logs"
    using assms by (intro take_all) auto
  show ?thesis
    using False assms by (auto simp: paginate_def w t Let_def)
qed

lemma paginate_negative_offset:
  "offset < 0 \<Longrightarrow> paginate logs limit offset = Panic"
  by (simp add: paginate_def Let_def)

lemma paginate_total:
  "0 \<le> offset \<Longrightarrow> 0 \<le> limit \<Longrightarrow> offset + limit < 2 ^ 63 \<Longrightarrow> paginate logs limit offset \<noteq> Panic"
  by (simp add: paginate_in_range)

text \<open>Consecutive pages put together give the list: none is skipped, none repeated.\<close>

definition page_or_empty :: "(go_error, 'a list) outcome \<Rightarrow> 'a list" where
  "page_or_empty r = (case r of Ok xs \<Rightarrow> xs | _ \<Rightarrow> [])"

lemma concat_pages:
  assumes "0 < n" and "int k * int n + int n < 2 ^ 63"
  shows "concat (map (\<lambda>i. page_or_empty (paginate logs (int n) (int i * int n))) [0..<k])
         = take (k * n) logs"
  using assms(2)
proof (induction k)
  case 0
  then show ?case by simp
next
  case (Suc k)
  have b: "int k * int n + int n < 2 ^ 63"
    using Suc.prems by (simp add: algebra_simps)
  have "paginate logs (int n) (int k * int n) = Ok (take n (drop (k * n) logs))"
    using b by (subst paginate_in_range) (auto simp: nat_mult_distrib)
  moreover have "take (k * n) logs @ take n (drop (k * n) logs) = take (n + k * n) logs"
    by (metis add.commute take_add)
  ultimately show ?case using Suc.IH [OF b] by (simp add: page_or_empty_def)
qed


section \<open>Properties\<close>

text \<open>
  Pagination of the audit log neither skips nor repeats an entry: consecutive pages of
  a positive size, put together, are the corresponding prefix of the log, as long as the
  offsets stay within 64 bits; and a negative offset panics.
\<close>

lemma pages_partition:
  assumes "0 < n" and "int k * int n + int n < 2 ^ 63"
  shows "concat (map (\<lambda>i. page_or_empty (paginate logs (int n) (int i * int n))) [0..<k])
           = take (k * n) logs
     \<and> (\<forall>i < k. paginate logs (int n) (int i * int n) \<noteq> Panic)
     \<and> paginate logs (int n) (-1) = Panic"
proof -
  have "paginate logs (int n) (int i * int n) \<noteq> Panic" if "i < k" for i
  proof -
    have "int i * int n \<le> int k * int n" using that by (simp add: mult_right_mono)
    with assms(2) have "int i * int n + int n < 2 ^ 63" by linarith
    then show ?thesis by (intro paginate_total) auto
  qed
  then show ?thesis
    using concat_pages [OF assms, of logs] paginate_negative_offset [of "-1" logs] by simp
qed

lemma pages_partition_witness:
  "concat (map (\<lambda>i. page_or_empty (paginate ''abcde'' (int 2) (int i * int 2))) [0..<3]) = ''abcde''"
  using pages_partition [of 2 3 "''abcde''"] by simp

end
