(* ===== verification/Fixture.thy ===== *)
theory Fixture
  imports Repository
begin

text \<open>
  A concrete environment on which hypotheses about the environment are shown to hold
  together: identity hashes, a keyed concatenation for the MAC, a field codec for token
  payloads that reads back everything it writes, a clock that advances one second per
  reading and a random source that counts.
\<close>

section \<open>A codec for token payloads\<close>

definition read_int :: "string \<Rightarrow> int" where
  "read_int s = (case s of c # t \<Rightarrow> if c = CHR ''-'' then - int (read_nat t) else int (read_nat s)
                 | [] \<Rightarrow> 0)"

definition show_bool :: "bool \<Rightarrow> string" where
  "show_bool b = (if b then ''t'' else ''f'')"

definition show_opt :: "int option \<Rightarrow> string" where
  "show_opt x = (case x of None \<Rightarrow> [] | Some i \<Rightarrow> itoa i)"

definition read_opt :: "string \<Rightarrow> int option" where
  "read_opt s = (if s = [] then None else Some (read_int s))"

definition fields_Marshal :: "tokenPayload \<Rightarrow> string + string" where
  "fields_Marshal p = Inr (join_with CHR ''|''
     [hex_encode (p_Sub p), hex_encode (p_DeviceID p), hex_encode (p_SessionID p),
      hex_encode (p_Type p), hex_encode (p_Family p), show_bool (p_StepUp p),
      show_opt (p_StepUpExp p), itoa (p_Iat p), itoa (p_Exp p), hex_encode (p_Jti p)])"

definition unhex :: "string \<Rightarrow> string" where
  "unhex s = (case hex_decode s of Inr x \<Rightarrow> x | Inl _ \<Rightarrow> [])"

definition fields_Unmarshal :: "string \<Rightarrow> tokenPayload option" where
  "fields_Unmarshal s = (case split_on CHR ''|'' s of
     [a, b, c, d, e, f, g, h, i, j] \<Rightarrow>
       Some \<lparr>p_Sub = unhex a, p_DeviceID = unhex b, p_SessionID = unhex c, p_Type = unhex d,
             p_Family = unhex e, p_StepUp = (f = ''t''), p_StepUpExp = read_opt g,
             p_Iat = read_int h, p_Exp = read_int i, p_Jti = unhex j\<rparr>
   | _ \<Rightarrow> None)"

lemma read_itoa [simp]: "read_int (itoa i) = i"
proof (cases "i < 0")
  case True
  then show ?thesis by (simp add: itoa_def read_int_def)
next
  case False
  obtain c t where ct: "show_nat (nat i) = c # t"
    by (cases "show_nat (nat i)") auto
  then have "c \<noteq> CHR ''-''"
    using show_nat_digits [of c "nat i"] digit_not_minus by auto
  with False ct read_show_nat [of "nat i"] show ?thesis
    by (simp add: itoa_def read_int_def)
qed

lemma itoa_nonempty [simp]: "itoa i \<noteq> []"
  by (simp add: itoa_def)

lemma read_show_opt [simp]: "read_opt (show_opt x) = x"
  by (simp add: read_opt_def show_opt_def split: option.splits)

lemma unhex_hex [simp]: "unhex (hex_encode s) = s"
  by (simp add: unhex_def hex.dec_enc)

lemma bar_free [simp]:
  "CHR ''|'' \<notin> set (hex_encode s)" "CHR ''|'' \<notin> set (show_bool b)" "CHR ''|'' \<notin> set (show_opt x)"
proof -
  show "CHR ''|'' \<notin> set (hex_encode s)"
    by (rule hex.enc_sep_free) (simp add: hex_table_def)
qed (simp_all add: show_bool_def show_opt_def split: option.splits)

lemma fields_roundtrip:
  "fields_Marshal p = Inr s \<Longrightarrow> fields_Unmarshal s = Some p"
proof -
  assume s: "fields_Marshal p = Inr s"
  have "split_on CHR ''|'' s =
     [hex_encode (p_Sub p), hex_encode (p_DeviceID p), hex_encode (p_SessionID p),
      hex_encode (p_Type p), hex_encode (p_Family p), show_bool (p_StepUp p),
      show_opt (p_StepUpExp p), itoa (p_Iat p), itoa (p_Exp p), hex_encode (p_Jti p)]"
    using s by (auto simp: fields_Marshal_def split_on_append split_on_free)
  then show ?thesis
    by (simp add: fields_Unmarshal_def show_bool_def)
qed


section \<open>The environment\<close>

definition demo_config :: config where
  "demo_config = \<lparr>ServerAddr = '':8443'', TLSCert = ''crt'', TLSKey = ''key'',
     AccessTokenSecret = ''A'', RefreshTokenSecret = ''R'',
     AccessTokenTTL = 15 * minute, RefreshTokenTTL = 43200 * minute, StepUpTokenTTL = 5 * minute,
     ChallengeSecret = ''C'', ChallengeTTL = 2 * minute, MaxDevicesPerUser = 5,
     SignatureAlgo = ''ES256'', MaxLoginAttempts = 5, LockoutDuration = 15 * minute,
     ReplayWindowSize = 5 * minute, MaxTokensPerDevice = 3, HashMemory = 65536,
     HashIterations = 3, HashParallelism = 2, HashKeyLength = 32, Environment = ''production''\<rparr>"

text \<open>
  The key derivation answers 32 bytes made from the password's first byte, so that it depends
  on the password; the curve check accepts every signature.
\<close>

definition demo_env :: env where
  "demo_env = \<lparr>cfg = demo_config,
     now_at = (\<lambda>n. int n * second),
     rand_read = (\<lambda>i n. Inr (replicate n (byte (i mod 256)))),
     range_order = (\<lambda>_ ks. ks),
     sha256 = (\<lambda>s. s),
     hmac_sha256 = (\<lambda>k m. k @ m),
     argon2_IDKey = (\<lambda>pw salt t m p n. Some (replicate (unat n) (case pw of [] \<Rightarrow> CHR 0x00 | c # _ \<Rightarrow> c))),
     json_Marshal = fields_Marshal,
     json_Unmarshal = fields_Unmarshal,
     pem_Decode = (\<lambda>s. Some s),
     x509_ParsePKIX = (\<lambda>s. Inr (EcdsaKey P256 1 1)),
     ecdsa_Verify = (\<lambda>x y h r s. True),
     rsa_VerifyPSS = (\<lambda>n e h s. None)\<rparr>"

lemma demo_env_simps [simp]:
  "cfg demo_env = demo_config" "now_at demo_env q = int q * second"
  "rand_read demo_env i l = Inr (replicate l (byte (i mod 256)))"
  "range_order demo_env j ks = ks" "sha256 demo_env s = s" "hmac_sha256 demo_env k m = k @ m"
  "json_Marshal demo_env = fields_Marshal" "json_Unmarshal demo_env = fields_Unmarshal"
  "pem_Decode demo_env s = Some s" "x509_ParsePKIX demo_env s = Inr (EcdsaKey P256 1 1)"
  "ecdsa_Verify demo_env x y h r0 s0 = True"
  "argon2_IDKey demo_env pw salt it mem par n =
     Some (replicate (unat n) (case pw of [] \<Rightarrow> CHR 0x00 | c # _ \<Rightarrow> c))"
  by (simp_all add: demo_env_def)

lemma demo_config_simps [simp]:
  "AccessTokenSecret demo_config = ''A''" "RefreshTokenSecret demo_config = ''R''"
  "AccessTokenTTL demo_config = 15 * minute" "RefreshTokenTTL demo_config = 43200 * minute"
  "StepUpTokenTTL demo_config = 5 * minute" "ChallengeSecret demo_config = ''C''"
  "ChallengeTTL demo_config = 2 * minute" "SignatureAlgo demo_config = ''ES256''"
  "MaxLoginAttempts demo_config = 5" "LockoutDuration demo_config = 15 * minute"
  "HashMemory demo_config = 65536" "HashIterations demo_config = 3"
  "HashParallelism demo_config = 2" "HashKeyLength demo_config = 32"
  by (simp_all add: demo_config_def)

definition demo_world :: world where
  "demo_world = \<lparr>users = NewUserRepository 0, devices = [], sessions = [], audits = [],
     challenges = [], clock = 1, randoms = 0, ranges = 0\<rparr>"

lemma demo_world_simps [simp]:
  "users demo_world = NewUserRepository 0" "devices demo_world = []" "sessions demo_world = []"
  "audits demo_world = []" "challenges demo_world = []" "clock demo_world = 1"
  "randoms demo_world = 0" "ranges demo_world = 0"
  by (simp_all add: demo_world_def)

lemma demo_world_wf: "world_wf demo_world"
  by (simp add: world_wf_def repo_wf_def NewUserRepository_def)

end
