(* ===== verification/Crypto.thy ===== *)
theory Crypto
  imports Fixture
begin

text \<open>
  \<^verbatim>\<open>internal/service/crypto.go\<close>: random identifiers, the argon2id password format, the
  challenge seal, key parsing, and signature checks. The primitives are components of the
  environment. Shown here: a stored password hash verifies exactly the passwords with the
  same digest, the signed payload and the seal message determine their fields, and a seal
  is accepted exactly when its bytes are the MAC.
\<close>

section \<open>Random\<close>

definition RandomBytes :: "env \<Rightarrow> nat \<Rightarrow> string svc" where
  "RandomBytes E n =
     go_try (rand_Read E n) (\<lambda>e. go_fail (Wrapped ''rand.Read: '' e '''')) go_return"

definition RandomBase64URL :: "env \<Rightarrow> nat \<Rightarrow> string svc" where
  "RandomBase64URL E n = go_bind (RandomBytes E n) (\<lambda>b. go_return (b64url_encode b))"

definition RandomHex :: "env \<Rightarrow> nat \<Rightarrow> string svc" where
  "RandomHex E n = go_bind (RandomBytes E n) (\<lambda>b. go_return (hex_encode b))"


section \<open>Argon2id password hashing\<close>

definition HashPassword :: "env \<Rightarrow> string \<Rightarrow> string svc" where
  "HashPassword E password =
     go_try (RandomBytes E 16) (\<lambda>e. go_fail (Wrapped ''salt generation: '' e '''')) (\<lambda>salt.
       case argon2_IDKey E password salt (HashIterations (cfg E)) (HashMemory (cfg E))
              (HashParallelism (cfg E)) (HashKeyLength (cfg E)) of
         None \<Rightarrow> go_panic
       | Some hash \<Rightarrow>
           go_return (''$argon2id$v=19$m='' @ show_nat (unat (HashMemory (cfg E)))
             @ '',t='' @ show_nat (unat (HashIterations (cfg E)))
             @ '',p='' @ show_nat (unat (HashParallelism (cfg E)))
             @ ''$'' @ b64std_encode salt @ ''$'' @ b64std_encode hash))"

text \<open>
  \<^verbatim>\<open>fmt.Sscanf(s, "m=%d,t=%d,p=%d", ...)\<close> into two 32-bit and one 8-bit unsigned
  variable: literals match exactly, blanks before a number are skipped, a number that does
  not fit is an error, input after the last number is ignored. The scan errors are not
  told apart.
\<close>

definition is_blank :: "char \<Rightarrow> bool" where
  "is_blank c \<longleftrightarrow> code c \<in> {9, 11, 12, 13, 32}"

definition scan_literal :: "string \<Rightarrow> string \<Rightarrow> string option" where
  "scan_literal lit s = (if has_prefix s lit then Some (drop (length lit) s) else None)"

definition scan_uint :: "nat \<Rightarrow> string \<Rightarrow> (nat \<times> string) option" where
  "scan_uint bits s =
     (let s' = dropWhile is_blank s; ds = takeWhile is_digit s'
      in if ds = [] \<or> read_nat ds \<ge> 2 ^ bits then None
         else Some (read_nat ds, drop (length ds) s'))"

definition scan_params :: "string \<Rightarrow> (32 word \<times> 32 word \<times> 8 word) option" where
  "scan_params s =
     Option.bind (scan_literal ''m='' s) (\<lambda>s1.
     Option.bind (scan_uint 32 s1) (\<lambda>(m, s2).
     Option.bind (scan_literal '',t='' s2) (\<lambda>s3.
     Option.bind (scan_uint 32 s3) (\<lambda>(t, s4).
     Option.bind (scan_literal '',p='' s4) (\<lambda>s5.
     Option.bind (scan_uint 8 s5) (\<lambda>(p, s6).
       Some (word_of_nat m, word_of_nat t, word_of_nat p)))))))"

definition VerifyPassword :: "env \<Rightarrow> string \<Rightarrow> string \<Rightarrow> (go_error, bool) outcome" where
  "VerifyPassword E password encoded =
     (let parts = split_on CHR ''$'' encoded
      in if length parts \<noteq> 6 \<or> parts ! 1 \<noteq> ''argon2id''
         then Err (ErrorString ''invalid hash format'')
         else (case scan_params (parts ! 3) of
             None \<Rightarrow> Err (Wrapped ''parse params: '' (ErrorString ''input does not match format'') '''')
           | Some (memory, iterations, parallelism) \<Rightarrow>
               (case b64std_decode (parts ! 4) of
                  Inl n \<Rightarrow> Err (Wrapped ''decode salt: '' (CorruptInputError n) '''')
                | Inr salt \<Rightarrow>
                    (case b64std_decode (parts ! 5) of
                       Inl n \<Rightarrow> Err (Wrapped ''decode hash: '' (CorruptInputError n) '''')
                     | Inr expectedHash \<Rightarrow>
                         (case argon2_IDKey E password salt iterations memory parallelism
                                 (word_of_nat (length expectedHash)) of
                            None \<Rightarrow> Panic
                          | Some hash \<Rightarrow> Ok (hash = expectedHash))))))"


section \<open>HMAC and hashes\<close>

definition challenge_message :: "string \<Rightarrow> string \<Rightarrow> string \<Rightarrow> int \<Rightarrow> string" where
  "challenge_message nonce deviceID action expiry =
     nonce @ ''|'' @ deviceID @ ''|'' @ action @ ''|'' @ itoa (unix_of expiry)"

definition HMACChallenge :: "env \<Rightarrow> string \<Rightarrow> string \<Rightarrow> string \<Rightarrow> int \<Rightarrow> string" where
  "HMACChallenge E nonce deviceID action expiry =
     b64url_encode
       (hmac_sha256 E (ChallengeSecret (cfg E)) (challenge_message nonce deviceID action expiry))"

definition VerifyHMACChallenge ::
  "env \<Rightarrow> string \<Rightarrow> string \<Rightarrow> string \<Rightarrow> int \<Rightarrow> string \<Rightarrow> bool" where
  "VerifyHMACChallenge E nonce deviceID action expiry sig =
     (let expected = HMACChallenge E nonce deviceID action expiry
      in case b64url_decode sig of
           Inl _ \<Rightarrow> False
         | Inr sigBytes \<Rightarrow>
             (case b64url_decode expected of
                Inl _ \<Rightarrow> sigBytes = []
              | Inr expectedBytes \<Rightarrow> sigBytes = expectedBytes))"

definition HashToken :: "env \<Rightarrow> string \<Rightarrow> string" where
  "HashToken E token = hex_encode (sha256 E token)"

definition HashFingerprint :: "env \<Rightarrow> string \<Rightarrow> string" where
  "HashFingerprint E fp = hex_encode (sha256 E fp)"


section \<open>Public keys and signatures\<close>

definition ParseECDSAPublicKey :: "env \<Rightarrow> string \<Rightarrow> (go_error, int \<times> int) outcome" where
  "ParseECDSAPublicKey E pemKey =
     (case pem_Decode E pemKey of
        None \<Rightarrow> Err (ErrorString ''failed to decode PEM block'')
      | Some block \<Rightarrow>
          (case x509_ParsePKIX E block of
             Inl t \<Rightarrow> Err (Wrapped ''parse public key: '' (ErrorString t) '''')
           | Inr (EcdsaKey curve x y) \<Rightarrow>
               if curve \<noteq> P256 then Err (ErrorString ''only P-256 curve accepted'') else Ok (x, y)
           | Inr (RsaKey n e) \<Rightarrow> Err (ErrorString ''key is not ECDSA'')
           | Inr OtherKey \<Rightarrow> Err (ErrorString ''key is not ECDSA'')))"

fun bit_len :: "nat \<Rightarrow> nat" where
  "bit_len n = (if n = 0 then 0 else Suc (bit_len (n div 2)))"

declare bit_len.simps [simp del]

definition ParseRSAPublicKey :: "env \<Rightarrow> string \<Rightarrow> (go_error, nat \<times> nat) outcome" where
  "ParseRSAPublicKey E pemKey =
     (case pem_Decode E pemKey of
        None \<Rightarrow> Err (ErrorString ''failed to decode PEM block'')
      | Some block \<Rightarrow>
          (case x509_ParsePKIX E block of
             Inl t \<Rightarrow> Err (Wrapped ''parse public key: '' (ErrorString t) '''')
           | Inr (RsaKey n e) \<Rightarrow>
               if bit_len n < 2048 then Err (ErrorString ''RSA key must be at least 2048 bits'')
               else Ok (n, e)
           | Inr (EcdsaKey curve x y) \<Rightarrow> Err (ErrorString ''key is not RSA'')
           | Inr OtherKey \<Rightarrow> Err (ErrorString ''key is not RSA'')))"

text \<open>\<^verbatim>\<open>new(big.Int).SetBytes\<close>: big-endian.\<close>

definition be_nat :: "string \<Rightarrow> nat" where
  "be_nat bs = foldl (\<lambda>a c. 256 * a + code c) 0 bs"

definition VerifyECDSASignature ::
  "env \<Rightarrow> int \<times> int \<Rightarrow> string \<Rightarrow> string \<Rightarrow> (go_error, unit) outcome" where
  "VerifyECDSASignature E pubKey payload sigB64 =
     (case b64url_decode sigB64 of
        Inl n \<Rightarrow> Err (Wrapped ''decode signature: '' (CorruptInputError n) '''')
      | Inr sigBytes \<Rightarrow>
          if length sigBytes \<noteq> 64
          then Err (ErrorString (''invalid ES256 signature length: got ''
                      @ show_nat (length sigBytes) @ '', want 64''))
          else
            (let r = be_nat (take 32 sigBytes); rr = be_nat (drop 32 sigBytes);
                 digest = sha256 E payload
             in if \<not> ecdsa_Verify E (fst pubKey) (snd pubKey) digest r rr
                then Err (ErrorString ''signature verification failed'')
                else Ok ()))"

definition VerifyRSASignature ::
  "env \<Rightarrow> nat \<times> nat \<Rightarrow> string \<Rightarrow> string \<Rightarrow> (go_error, unit) outcome" where
  "VerifyRSASignature E pubKey payload sigB64 =
     (case b64url_decode sigB64 of
        Inl n \<Rightarrow> Err (Wrapped ''decode signature: '' (CorruptInputError n) '''')
      | Inr sigBytes \<Rightarrow>
          (case rsa_VerifyPSS E (fst pubKey) (snd pubKey) (sha256 E payload) sigBytes of
             Some t \<Rightarrow> Err (Wrapped ''RSA-PSS verification failed: '' (ErrorString t) '''')
           | None \<Rightarrow> Ok ()))"

definition BuildSignedPayload :: "string \<Rightarrow> string \<Rightarrow> string \<Rightarrow> int \<Rightarrow> string" where
  "BuildSignedPayload nonce deviceID action ts =
     nonce @ ''.'' @ deviceID @ ''.'' @ action @ ''.'' @ itoa ts"

definition VerifySignatureForAlgo ::
  "env \<Rightarrow> string \<Rightarrow> string \<Rightarrow> string \<Rightarrow> string \<Rightarrow> (go_error, unit) outcome" where
  "VerifySignatureForAlgo E algo pubKeyPEM payload sigB64 =
     (if algo = ''ES256'' then
        (case ParseECDSAPublicKey E pubKeyPEM of
           Err e \<Rightarrow> Err (Wrapped ''parse ECDSA key: '' e '''')
         | Panic \<Rightarrow> Panic
         | Ok pubKey \<Rightarrow> VerifyECDSASignature E pubKey payload sigB64)
      else if algo = ''RS256'' then
        (case ParseRSAPublicKey E pubKeyPEM of
           Err e \<Rightarrow> Err (Wrapped ''parse RSA key: '' e '''')
         | Panic \<Rightarrow> Panic
         | Ok pubKey \<Rightarrow> VerifyRSASignature E pubKey payload sigB64)
      else Err (ErrorString (''unsupported algorithm: '' @ algo)))"

definition ValidatePublicKeyFormat :: "env \<Rightarrow> string \<Rightarrow> string \<Rightarrow> (go_error, unit) outcome" where
  "ValidatePublicKeyFormat E pemKey algo =
     (if algo = ''ES256'' then
        (case ParseECDSAPublicKey E pemKey of Err e \<Rightarrow> Err e | Panic \<Rightarrow> Panic | Ok _ \<Rightarrow> Ok ())
      else if algo = ''RS256'' then
        (case ParseRSAPublicKey E pemKey of Err e \<Rightarrow> Err e | Panic \<Rightarrow> Panic | Ok _ \<Rightarrow> Ok ())
      else Err (ErrorString (''unsupported algorithm: '' @ algo)))"

lemmas key_defs = ParseECDSAPublicKey_def ParseRSAPublicKey_def
lemmas signature_defs =
  VerifySignatureForAlgo_def VerifyECDSASignature_def VerifyRSASignature_def


section \<open>Frames\<close>

lemma keeps_RandomBytes [keeps_rules]:
  "(\<And>w n. I w \<Longrightarrow> I (w\<lparr>randoms := n\<rparr>)) \<Longrightarrow> keeps I (RandomBytes E n)"
  unfolding RandomBytes_def by (intro keeps_rules)

lemma keeps_RandomHex [keeps_rules]:
  "(\<And>w n. I w \<Longrightarrow> I (w\<lparr>randoms := n\<rparr>)) \<Longrightarrow> keeps I (RandomHex E n)"
  unfolding RandomHex_def by (intro keeps_rules)

lemma keeps_RandomBase64URL [keeps_rules]:
  "(\<And>w n. I w \<Longrightarrow> I (w\<lparr>randoms := n\<rparr>)) \<Longrightarrow> keeps I (RandomBase64URL E n)"
  unfolding RandomBase64URL_def by (intro keeps_rules)

lemma RandomHex_Inr [simp]:
  "rand_read E (randoms w) n = Inr b \<Longrightarrow>
   RandomHex E n w = (Ok (hex_encode b), w\<lparr>randoms := Suc (randoms w)\<rparr>)"
  by (simp add: RandomHex_def RandomBytes_def)

lemma RandomBase64URL_Inr [simp]:
  "rand_read E (randoms w) n = Inr b \<Longrightarrow>
   RandomBase64URL E n w = (Ok (b64url_encode b), w\<lparr>randoms := Suc (randoms w)\<rparr>)"
  by (simp add: RandomBase64URL_def RandomBytes_def)

lemma verify_signature_total: "VerifySignatureForAlgo E algo key payload sig \<noteq> Panic"
  by (auto simp: signature_defs key_defs Let_def
      split: option.splits sum.splits public_key.splits outcome.splits)


section \<open>Injectivity of the signed texts\<close>

lemma sep_split:
  fixes a b :: string
  assumes "a @ c # b = a' @ c # b'" and "c \<notin> set a" and "c \<notin> set a'"
  shows "a = a' \<and> b = b'"
proof -
  have "a # split_on c b = a' # split_on c b'"
    using arg_cong [OF assms(1), of "split_on c"] assms(2,3) by (simp add: split_on_append)
  with assms(1) show ?thesis by simp
qed

lemma sep_split_last:
  fixes a b :: string
  assumes "a @ c # b = a' @ c # b'" and "c \<notin> set b" and "c \<notin> set b'"
  shows "a = a' \<and> b = b'"
proof -
  have "rev b @ c # rev a = rev b' @ c # rev a'"
    using arg_cong [OF assms(1), of rev] by simp
  then have "rev b = rev b' \<and> rev a = rev a'"
    using assms(2,3) by (intro sep_split) auto
  then show ?thesis by simp
qed

text \<open>
  Four fields joined by a separator: only the second may contain it. The first is read from
  the left, the last two from the right, and the second is what remains.
\<close>

lemma four_fields_inject:
  fixes n d a t :: string
  assumes eq: "n @ c # d @ c # a @ c # t = n' @ c # d' @ c # a' @ c # t'"
    and "c \<notin> set n" "c \<notin> set n'" "c \<notin> set a" "c \<notin> set a'" "c \<notin> set t" "c \<notin> set t'"
  shows "n = n' \<and> d = d' \<and> a = a' \<and> t = t'"
proof -
  have 1: "n = n'" and "d @ c # a @ c # t = d' @ c # a' @ c # t'"
    using sep_split [OF eq] assms by auto
  then have "(d @ c # a) @ c # t = (d' @ c # a') @ c # t'" by simp
  from sep_split_last [OF this assms(6,7)]
  have "d @ c # a = d' @ c # a'" and 2: "t = t'" by auto
  from sep_split_last [OF this(1) assms(4,5)] 1 2 show ?thesis by simp
qed

lemma signed_payload_inject_helper:
  assumes "BuildSignedPayload n d a t = BuildSignedPayload n' d' a' t'"
    and "CHR ''.'' \<notin> set n" "CHR ''.'' \<notin> set n'" "CHR ''.'' \<notin> set a" "CHR ''.'' \<notin> set a'"
  shows "n = n' \<and> d = d' \<and> a = a' \<and> t = t'"
  using four_fields_inject [of n "CHR ''.''" d a "itoa t" n' d' a' "itoa t'"] assms
  by (simp add: BuildSignedPayload_def)

lemma challenge_message_inject:
  assumes "challenge_message n d a t = challenge_message n' d' a' t'"
    and "CHR ''|'' \<notin> set n" "CHR ''|'' \<notin> set n'" "CHR ''|'' \<notin> set a" "CHR ''|'' \<notin> set a'"
  shows "n = n' \<and> d = d' \<and> a = a' \<and> unix_of t = unix_of t'"
  using four_fields_inject
    [of n "CHR ''|''" d a "itoa (unix_of t)" n' d' a' "itoa (unix_of t')"] assms
  by (simp add: challenge_message_def)

lemma VerifyHMACChallenge_iff:
  "VerifyHMACChallenge E n d a t sig \<longleftrightarrow>
   b64url_decode sig = Inr (hmac_sha256 E (ChallengeSecret (cfg E)) (challenge_message n d a t))"
  by (auto simp: VerifyHMACChallenge_def HMACChallenge_def b64url.dec_enc Let_def
      split: sum.splits)

lemma seal_accepted: "VerifyHMACChallenge E n d a t (HMACChallenge E n d a t)"
  by (simp add: VerifyHMACChallenge_iff HMACChallenge_def b64url.dec_enc)


section \<open>Password hashes\<close>

lemma scan_literal_append [simp]: "scan_literal lit (lit @ s) = Some s"
  by (simp add: scan_literal_def)

lemma digit_not_blank: "is_digit c \<Longrightarrow> \<not> is_blank c"
  by (auto simp: is_digit_def is_blank_def)

lemma scan_uint_show:
  assumes "n < 2 ^ bits" and "rest = [] \<or> \<not> is_digit (hd rest)"
  shows "scan_uint bits (show_nat n @ rest) = Some (n, rest)"
proof -
  have hd: "is_digit (hd (show_nat n))" by (rule hd_show_nat)
  have drop: "dropWhile is_blank (show_nat n @ rest) = show_nat n @ rest"
    using hd digit_not_blank by (cases "show_nat n") auto
  have "takeWhile is_digit (show_nat n @ rest) = show_nat n @ takeWhile is_digit rest"
    by (rule takeWhile_append2) (rule show_nat_digits)
  moreover have "takeWhile is_digit rest = []"
    using assms(2) by (cases rest) auto
  ultimately show ?thesis
    using assms(1) by (simp add: scan_uint_def drop Let_def)
qed

lemma scan_params_show:
  "scan_params (''m='' @ show_nat (unat (m :: 32 word)) @ '',t='' @ show_nat (unat (t :: 32 word))
     @ '',p='' @ show_nat (unat (p :: 8 word))) = Some (m, t, p)"
proof -
  have "unat m < 2 ^ LENGTH(32)" and "unat t < 2 ^ LENGTH(32)" and "unat p < 2 ^ LENGTH(8)"
    by (rule unsigned_less)+
  then have m: "unat m < 2 ^ 32" and t: "unat t < 2 ^ 32" and p: "unat p < 2 ^ 8"
    by simp_all
  have lit: "scan_literal lit (lit @ s) = Some s" for lit s by simp
  have s1: "scan_uint 32 (show_nat (unat m) @ '',t='' @ r) = Some (unat m, '',t='' @ r)" for r
    by (rule scan_uint_show [OF m]) (simp add: is_digit_def code_def)
  have s2: "scan_uint 32 (show_nat (unat t) @ '',p='' @ r) = Some (unat t, '',p='' @ r)" for r
    by (rule scan_uint_show [OF t]) (simp add: is_digit_def code_def)
  have s3: "scan_uint 8 (show_nat (unat p)) = Some (unat p, [])"
    using scan_uint_show [OF p, of "[]"] by simp
  show ?thesis
    unfolding scan_params_def lit Option.bind.bind_lunit s1 prod.case s2 s3
    by simp
qed

lemma params_no_dollar:
  "CHR ''$'' \<notin> set (''m='' @ show_nat a @ '',t='' @ show_nat b @ '',p='' @ show_nat c)"
proof -
  have "CHR ''$'' \<notin> set (show_nat n)" for n
    using show_nat_digits [of "CHR ''$''" n] by (auto simp: is_digit_def code_def)
  then show ?thesis by simp
qed

text \<open>The six fields of an encoded hash.\<close>

lemma split_encoded_hash:
  assumes "CHR ''$'' \<notin> set ps"
  shows "split_on CHR ''$'' (''$argon2id$v=19$'' @ ps @ ''$'' @ b64std_encode s @ ''$''
           @ b64std_encode h)
         = [[], ''argon2id'', ''v=19'', ps, b64std_encode s, b64std_encode h]"
  using assms by (simp add: split_on_append split_on_free)

lemma HashPassword_Ok:
  assumes "HashPassword E pw w = (Ok enc, w')"
  shows "\<exists>salt hash. argon2_IDKey E pw salt (HashIterations (cfg E)) (HashMemory (cfg E))
            (HashParallelism (cfg E)) (HashKeyLength (cfg E)) = Some hash
     \<and> enc = ''$argon2id$v=19$'' @ (''m='' @ show_nat (unat (HashMemory (cfg E)))
             @ '',t='' @ show_nat (unat (HashIterations (cfg E)))
             @ '',p='' @ show_nat (unat (HashParallelism (cfg E))))
             @ ''$'' @ b64std_encode salt @ ''$'' @ b64std_encode hash"
  using assms unfolding HashPassword_def
  by (elim go_try_OkE) (auto split: option.splits)

lemma VerifyPassword_encoded:
  fixes m t :: "32 word" and p :: "8 word"
  shows "VerifyPassword E pw (''$argon2id$v=19$'' @ (''m='' @ show_nat (unat m)
             @ '',t='' @ show_nat (unat t) @ '',p='' @ show_nat (unat p))
             @ ''$'' @ b64std_encode salt @ ''$'' @ b64std_encode h)
         = (case argon2_IDKey E pw salt t m p (word_of_nat (length h)) of
              None \<Rightarrow> Panic | Some h' \<Rightarrow> Ok (h' = h))"
  unfolding VerifyPassword_def split_encoded_hash [OF params_no_dollar] Let_def
  by (simp add: scan_params_show [simplified] b64std.dec_enc)


section \<open>Properties\<close>

text \<open>
  C19: Password hashes round-trip. Whatever \<open>HashPassword\<close> returns for a password is accepted
  by \<open>VerifyPassword\<close> for that password, and another password is accepted exactly if the key
  derivation gives the same key for it. The hypothesis is the documented contract of the key
  derivation: it returns as many bytes as it was asked for.
\<close>

theorem password_roundtrip:
  assumes len: "\<forall>pw salt h. argon2_IDKey E pw salt (HashIterations (cfg E)) (HashMemory (cfg E))
        (HashParallelism (cfg E)) (HashKeyLength (cfg E)) = Some h \<longrightarrow>
      word_of_nat (length h) = HashKeyLength (cfg E)"
    and hash: "HashPassword E pw w = (Ok enc, w')"
  shows "VerifyPassword E pw enc = Ok True
    \<and> (\<exists>salt. \<forall>pw'. VerifyPassword E pw' enc =
         (case argon2_IDKey E pw' salt (HashIterations (cfg E)) (HashMemory (cfg E))
                 (HashParallelism (cfg E)) (HashKeyLength (cfg E)) of
            None \<Rightarrow> Panic
          | Some h' \<Rightarrow> Ok (Some h' = argon2_IDKey E pw salt (HashIterations (cfg E))
                (HashMemory (cfg E)) (HashParallelism (cfg E)) (HashKeyLength (cfg E)))))"
proof -
  obtain salt h where h: "argon2_IDKey E pw salt (HashIterations (cfg E)) (HashMemory (cfg E))
        (HashParallelism (cfg E)) (HashKeyLength (cfg E)) = Some h"
    and enc: "enc = ''$argon2id$v=19$'' @ (''m='' @ show_nat (unat (HashMemory (cfg E)))
             @ '',t='' @ show_nat (unat (HashIterations (cfg E)))
             @ '',p='' @ show_nat (unat (HashParallelism (cfg E))))
             @ ''$'' @ b64std_encode salt @ ''$'' @ b64std_encode h"
    using HashPassword_Ok [OF hash] by blast
  have "word_of_nat (length h) = HashKeyLength (cfg E)" using len h by blast
  then have "VerifyPassword E pw' enc =
      (case argon2_IDKey E pw' salt (HashIterations (cfg E)) (HashMemory (cfg E))
              (HashParallelism (cfg E)) (HashKeyLength (cfg E)) of
         None \<Rightarrow> Panic | Some h' \<Rightarrow> Ok (h' = h))" for pw'
    unfolding enc VerifyPassword_encoded by simp
  with h show ?thesis by (auto split: option.splits)
qed

theorem password_roundtrip_witness:
  "\<exists>enc w'. HashPassword demo_env ''secret'' demo_world = (Ok enc, w')
     \<and> VerifyPassword demo_env ''secret'' enc = Ok True"
proof -
  obtain enc w' where h: "HashPassword demo_env ''secret'' demo_world = (Ok enc, w')"
    by (simp add: HashPassword_def RandomBytes_def)
  have "\<forall>pw salt h. argon2_IDKey demo_env pw salt (HashIterations (cfg demo_env))
        (HashMemory (cfg demo_env)) (HashParallelism (cfg demo_env)) (HashKeyLength (cfg demo_env)) = Some h
      \<longrightarrow> word_of_nat (length h) = HashKeyLength (cfg demo_env)"
    by auto
  from password_roundtrip [OF this h] h show ?thesis by blast
qed

text \<open>
  The text a device signs determines what it was signed for. Two signed payloads with
  nonces and actions free of the separator (a base64url nonce and the four action names are)
  are equal only if nonce, device, action and timestamp agree; the device identifier, which
  the client chooses, may contain anything.
\<close>

lemma signed_payload_injective:
  assumes "BuildSignedPayload n d a t = BuildSignedPayload n' d' a' t'"
    and "CHR ''.'' \<notin> set n" "CHR ''.'' \<notin> set n'"
    and "a \<in> {ChallengeActionEnroll, ChallengeActionAuthenticate, ChallengeActionStepUp, ChallengeActionRevoke}"
    and "a' \<in> {ChallengeActionEnroll, ChallengeActionAuthenticate, ChallengeActionStepUp, ChallengeActionRevoke}"
  shows "n = n' \<and> d = d' \<and> a = a' \<and> t = t'"
proof -
  have "CHR ''.'' \<notin> set a" "CHR ''.'' \<notin> set a'"
    using assms(4,5) by (auto simp: action_consts)
  with signed_payload_inject_helper [OF assms(1-3)] show ?thesis by blast
qed

lemma signed_payload_witness:
  "BuildSignedPayload ''n'' ''d.x'' ChallengeActionEnroll 7
     = BuildSignedPayload ''n'' ''d.x'' ChallengeActionEnroll 7
   \<and> (''n'' = ''n'' \<and> ''d.x'' = ''d.x'' \<and> ChallengeActionEnroll = ChallengeActionEnroll \<and> (7::int) = 7)"
  using signed_payload_injective [of "''n''" "''d.x''" ChallengeActionEnroll 7 "''n''" "''d.x''"
      ChallengeActionEnroll 7]
  by simp

text \<open>
  The seal on a challenge binds its four fields. The server's own seal is accepted, and
  where one seal is accepted for two challenges whose nonces and actions are free of the
  separator, either the challenges agree in nonce, device, action and expiry second or the
  MAC has a collision.
\<close>

lemma challenge_seal_binding:
  assumes "CHR ''|'' \<notin> set n" "CHR ''|'' \<notin> set n'" "CHR ''|'' \<notin> set a" "CHR ''|'' \<notin> set a'"
  shows "VerifyHMACChallenge E n d a t (HMACChallenge E n d a t)
    \<and> (VerifyHMACChallenge E n' d' a' t' (HMACChallenge E n d a t) \<longrightarrow>
        n = n' \<and> d = d' \<and> a = a' \<and> unix_of t = unix_of t'
        \<or> (\<exists>x y. x \<noteq> y \<and> hmac_sha256 E (ChallengeSecret (cfg E)) x
                        = hmac_sha256 E (ChallengeSecret (cfg E)) y))"
proof (intro conjI impI)
  show "VerifyHMACChallenge E n d a t (HMACChallenge E n d a t)" by (rule seal_accepted)
  assume "VerifyHMACChallenge E n' d' a' t' (HMACChallenge E n d a t)"
  then have eq: "hmac_sha256 E (ChallengeSecret (cfg E)) (challenge_message n d a t)
      = hmac_sha256 E (ChallengeSecret (cfg E)) (challenge_message n' d' a' t')"
    by (simp add: VerifyHMACChallenge_iff HMACChallenge_def b64url.dec_enc)
  show "n = n' \<and> d = d' \<and> a = a' \<and> unix_of t = unix_of t'
        \<or> (\<exists>x y. x \<noteq> y \<and> hmac_sha256 E (ChallengeSecret (cfg E)) x
                        = hmac_sha256 E (ChallengeSecret (cfg E)) y)"
    using challenge_message_inject [of n d a t n' d' a' t'] assms eq by metis
qed

lemma challenge_seal_witness:
  "VerifyHMACChallenge demo_env ''n'' ''d'' ''enroll'' 0 (HMACChallenge demo_env ''n'' ''d'' ''enroll'' 0)
   \<and> \<not> VerifyHMACChallenge demo_env ''n'' ''d'' ''revoke'' 0 (HMACChallenge demo_env ''n'' ''d'' ''enroll'' 0)"
proof -
  have inj: "\<not> (\<exists>x y. x \<noteq> y \<and> hmac_sha256 demo_env (ChallengeSecret (cfg demo_env)) x
                        = hmac_sha256 demo_env (ChallengeSecret (cfg demo_env)) y)" by simp
  show ?thesis
    using challenge_seal_binding [of "''n''" "''n''" "''enroll''" "''revoke''" demo_env "''d''" 0 "''d''" 0] inj
    by auto
qed

end
