(* ===== verification/Audit_Log.thy ===== *)
theory Audit_Log
  imports Crypto
begin

text \<open>
  \<^verbatim>\<open>internal/service/audit.go\<close>, with the random identifiers of
  \<^verbatim>\<open>secureHex\<close> (\<^verbatim>\<open>internal/service/token.go\<close>). Logging touches nothing but the
  log, the clock and the random source, and only ever appends.
\<close>

definition secureHex :: "env \<Rightarrow> nat \<Rightarrow> string svc" where
  "secureHex E n = go_bind (rand_Read E n) (\<lambda>b. go_return (hex_encode b))"

definition audit_Log :: "env \<Rightarrow> AuditLog \<Rightarrow> unit svc" where
  "audit_Log E l =
     go_bind (if a_ID l = [] then go_bind (secureHex E 8) (\<lambda>i. go_return (l\<lparr>a_ID := i\<rparr>))
              else go_return l) (\<lambda>l'.
     go_bind (time_Now E) (\<lambda>now.
     audit_Store (l'\<lparr>a_CreatedAt := now\<rparr>)))"

definition audit_GetLogs :: "string \<Rightarrow> int \<Rightarrow> int \<Rightarrow> (AuditLog list) svc" where
  "audit_GetLogs userID limit offset =
     go_try (audit_GetByUser userID limit offset)
       (\<lambda>e. go_fail (Wrapped ''get audit logs: '' e '''')) go_return"

definition audit_GetAllLogs :: "int \<Rightarrow> int \<Rightarrow> (AuditLog list) svc" where
  "audit_GetAllLogs limit offset = audit_GetAll limit offset"

lemma secureHex_Inr [simp]:
  "rand_read E (randoms w) n = Inr b \<Longrightarrow>
   secureHex E n w = (Ok (hex_encode b), w\<lparr>randoms := Suc (randoms w)\<rparr>)"
  by (simp add: secureHex_def)

lemma secureHex_cases:
  obtains (ok) b where "rand_read E (randoms w) n = Inr b"
      "secureHex E n w = (Ok (hex_encode b), w\<lparr>randoms := Suc (randoms w)\<rparr>)"
  | (err) t where "rand_read E (randoms w) n = Inl t"
      "secureHex E n w = (Err (ErrorString t), w\<lparr>randoms := Suc (randoms w)\<rparr>)"
  by (cases "rand_read E (randoms w) n") (auto simp: secureHex_def rand_Read_def)

lemma secureHex_Ok: "secureHex E n w = (Ok x, w') \<Longrightarrow> w' = w\<lparr>randoms := Suc (randoms w)\<rparr>"
  by (cases rule: secureHex_cases [of E w n]) auto

lemma keeps_secureHex [keeps_rules]:
  "(\<And>w n. I w \<Longrightarrow> I (w\<lparr>randoms := n\<rparr>)) \<Longrightarrow> keeps I (secureHex E n)"
  unfolding secureHex_def by (intro keeps_rules)

lemma keeps_audit_Log [keeps_rules]:
  "(\<And>w n. I w \<Longrightarrow> I (w\<lparr>randoms := n\<rparr>)) \<Longrightarrow> (\<And>w n. I w \<Longrightarrow> I (w\<lparr>clock := n\<rparr>)) \<Longrightarrow>
   (\<And>w l. I w \<Longrightarrow> I (w\<lparr>audits := audits w @ [l]\<rparr>)) \<Longrightarrow> keeps I (audit_Log E l)"
  unfolding audit_Log_def by (intro keeps_rules)

lemma keeps_audit_GetLogs [keeps_rules]: "keeps I (audit_GetLogs u l k)"
  unfolding audit_GetLogs_def by (intro keeps_rules)

text \<open>The effect of a log call on the state: the entry is appended, or randomness failed.\<close>

lemma audit_Log_world:
  "\<exists>ls c r. snd (audit_Log E l w) = w\<lparr>audits := audits w @ ls, clock := c, randoms := r\<rparr>"
proof (cases "a_ID l = []")
  case True
  show ?thesis
  proof (cases rule: secureHex_cases [of E w 8])
    case (ok b)
    with True have "snd (audit_Log E l w) = w\<lparr>audits := audits w @
        [l\<lparr>a_ID := hex_encode b, a_CreatedAt := now_at E (clock w)\<rparr>],
        clock := Suc (clock w), randoms := Suc (randoms w)\<rparr>"
      by (simp add: audit_Log_def)
    then show ?thesis by blast
  next
    case (err t)
    with True have "snd (audit_Log E l w) = w\<lparr>audits := audits w @ [], clock := clock w,
        randoms := Suc (randoms w)\<rparr>"
      by (simp add: audit_Log_def)
    then show ?thesis by blast
  qed
next
  case False
  then have "snd (audit_Log E l w) = w\<lparr>audits := audits w @
      [l\<lparr>a_CreatedAt := now_at E (clock w)\<rparr>], clock := Suc (clock w), randoms := randoms w\<rparr>"
    by (simp add: audit_Log_def)
  then show ?thesis by blast
qed

lemma audit_Log_no_panic: "fst (audit_Log E l w) \<noteq> Panic"
  by (cases rule: secureHex_cases [of E w 8]) (auto simp: audit_Log_def)

lemma audit_Log_frame [simp]:
  "users (snd (audit_Log E l w)) = users w"
  "devices (snd (audit_Log E l w)) = devices w"
  "sessions (snd (audit_Log E l w)) = sessions w"
  "challenges (snd (audit_Log E l w)) = challenges w"
  "ranges (snd (audit_Log E l w)) = ranges w"
  using audit_Log_world [of E l w] by auto

lemma audit_Log_clock: "clock w \<le> clock (snd (audit_Log E l w))"
proof (cases rule: secureHex_cases [of E w 8])
  case (ok b)
  then show ?thesis by (cases "a_ID l = []") (simp_all add: audit_Log_def)
next
  case (err t)
  then show ?thesis by (cases "a_ID l = []") (simp_all add: audit_Log_def)
qed

lemma go_ignore_audit:
  "go_ignore (audit_Log E l) k w = k (snd (audit_Log E l w))"
proof (cases "audit_Log E l w")
  case (Pair r w')
  then show ?thesis using audit_Log_no_panic [of E l w] by (cases r) auto
qed

end
