(* ===== verification/Device.thy ===== *)
theory Device
  imports Audit_Log
begin

text \<open>
  \<^verbatim>\<open>internal/service/device.go\<close>: registration, enrollment data, revocation and
  validation of devices, and the trust score.
\<close>

record EnableBiometricParams =
  b_PublicKey :: string
  b_KeyID :: string
  b_KeyAlgo :: string
  b_BiometricType :: BiometricType
  b_AttestationData :: string
  b_IsRooted :: bool
  b_IsJailbroken :: bool

definition computeTrustScore :: "Device \<Rightarrow> int" where
  "computeTrustScore d =
     (let score = 100;
          score = (if d_IsRooted d \<or> d_IsJailbroken d then score - 60 else score);
          score = (if d_AttestationData d = [] then score - 20 else score);
          score = (if d_AppVersion d = [] then score - 5 else score)
      in if score < 0 then 0 else score)"

definition RegisterDevice :: "env \<Rightarrow> string \<Rightarrow> Device \<Rightarrow> Device svc" where
  "RegisterDevice E userID d0 =
     (let d1 = d0\<lparr>d_UserID := userID,
                  d_DeviceFingerprint := HashFingerprint E (d_DeviceFingerprint d0),
                  d_Status := DeviceStatusActive\<rparr>
      in go_bind (time_Now E) (\<lambda>now1.
         go_bind (time_Now E) (\<lambda>now2.
         let d2 = d1\<lparr>d_LastSeenAt := now1, d_CreatedAt := now2\<rparr>;
             d3 = d2\<lparr>d_TrustScore := computeTrustScore d2\<rparr>
         in go_try (device_Store d3) (\<lambda>e. go_fail (Wrapped ''store device: '' e ''''))
              (\<lambda>_. go_return d3))))"

definition EnableBiometric ::
  "env \<Rightarrow> string \<Rightarrow> string \<Rightarrow> EnableBiometricParams \<Rightarrow> unit svc" where
  "EnableBiometric E deviceID userID params =
     go_try (device_GetByID deviceID) (\<lambda>_. go_fail (BiometricErr ErrDeviceNotFound)) (\<lambda>found.
       case found of
         None \<Rightarrow> go_fail (BiometricErr ErrDeviceNotFound)
       | Some device \<Rightarrow>
           if d_UserID device \<noteq> userID then go_fail (DeviceErr ErrDeviceOwnership)
           else go_bind (time_Now E) (\<lambda>now.
             let d1 = device\<lparr>d_BiometricEnabled := True, d_PublicKey := b_PublicKey params,
                        d_KeyID := b_KeyID params, d_BiometricType := b_BiometricType params,
                        d_AttestationData := b_AttestationData params,
                        d_IsRooted := b_IsRooted params, d_IsJailbroken := b_IsJailbroken params,
                        d_EnrolledAt := Some now\<rparr>
             in device_Update (d1\<lparr>d_TrustScore := computeTrustScore d1\<rparr>)))"

definition GetDevice :: "string \<Rightarrow> (Device option) svc" where
  "GetDevice deviceID = device_GetByID deviceID"

definition ListUserDevices :: "env \<Rightarrow> string \<Rightarrow> (Device list) svc" where
  "ListUserDevices E userID = device_ListByUser E userID"

definition RevokeDevice :: "env \<Rightarrow> string \<Rightarrow> string \<Rightarrow> string \<Rightarrow> unit svc" where
  "RevokeDevice E deviceID userID revokedBy =
     go_try (device_GetByID deviceID) (\<lambda>_. go_fail (BiometricErr ErrDeviceNotFound)) (\<lambda>found.
       case found of
         None \<Rightarrow> go_fail (BiometricErr ErrDeviceNotFound)
       | Some device \<Rightarrow>
           if d_UserID device \<noteq> userID then go_fail (DeviceErr ErrDeviceOwnership)
           else go_bind (time_Now E) (\<lambda>now.
             go_try (device_Update (device\<lparr>d_Status := DeviceStatusRevoked,
                       d_RevokedAt := Some now, d_RevokedBy := revokedBy,
                       d_BiometricEnabled := False, d_PublicKey := []\<rparr>))
               (\<lambda>e. go_fail (Wrapped ''update device: '' e '''')) (\<lambda>_.
             go_ignore (audit_Log E (zero_AuditLog\<lparr>a_UserID := userID, a_DeviceID := deviceID,
                          a_Action := AuditActionDeviceRevoked, a_Result := AuditResultSuccess,
                          a_Details := [(''revoked_by'', DString revokedBy)]\<rparr>))
               (go_return ()))))"

definition ValidateDevice :: "string \<Rightarrow> string \<Rightarrow> Device svc" where
  "ValidateDevice deviceID userID =
     go_try (device_GetByID deviceID) (\<lambda>_. go_fail (BiometricErr ErrDeviceNotFound)) (\<lambda>found.
       case found of
         None \<Rightarrow> go_fail (BiometricErr ErrDeviceNotFound)
       | Some device \<Rightarrow>
           if d_UserID device \<noteq> userID then go_fail (DeviceErr ErrDeviceOwnership)
           else if d_Status device = DeviceStatusRevoked then go_fail (DeviceErr ErrDeviceRevoked)
           else if d_Status device = DeviceStatusBlocked then go_fail (DeviceErr ErrDeviceBlocked)
           else go_return device)"

text \<open>A missing device is dereferenced: the nil check only covers the error.\<close>

definition UpdateLastSeen :: "env \<Rightarrow> string \<Rightarrow> unit svc" where
  "UpdateLastSeen E deviceID =
     go_bind (device_GetByID deviceID) (\<lambda>found.
     go_bind (time_Now E) (\<lambda>now.
       case found of
         None \<Rightarrow> go_panic
       | Some device \<Rightarrow> device_Update (device\<lparr>d_LastSeenAt := now\<rparr>)))"


section \<open>Frames and results\<close>

lemmas device_op_defs =
  RegisterDevice_def EnableBiometric_def RevokeDevice_def ValidateDevice_def UpdateLastSeen_def
  GetDevice_def ListUserDevices_def

lemma keeps_ValidateDevice [keeps_rules]: "keeps I (ValidateDevice i u)"
  unfolding ValidateDevice_def by (intro keeps_rules)

lemma keeps_GetDevice [keeps_rules]: "keeps I (GetDevice i)"
  unfolding GetDevice_def by (intro keeps_rules)

lemma keeps_ListUserDevices [keeps_rules]:
  "(\<And>w n. I w \<Longrightarrow> I (w\<lparr>ranges := n\<rparr>)) \<Longrightarrow> keeps I (ListUserDevices E u)"
  unfolding ListUserDevices_def by (intro keeps_rules)

lemma GetDevice_apply [simp]: "GetDevice i w = (Ok (repo_get (devices w) i), w)"
  by (simp add: GetDevice_def)

text \<open>An invariant that writes to devices, log, clock and randomness respect.\<close>

definition device_stable :: "(world \<Rightarrow> bool) \<Rightarrow> bool" where
  "device_stable I \<longleftrightarrow> (\<forall>w n. I w \<longrightarrow> I (w\<lparr>clock := n\<rparr>)) \<and> (\<forall>w n. I w \<longrightarrow> I (w\<lparr>randoms := n\<rparr>))
     \<and> (\<forall>w l. I w \<longrightarrow> I (w\<lparr>audits := audits w @ [l]\<rparr>))
     \<and> (\<forall>w d. I w \<longrightarrow> I (w\<lparr>devices := repo_put (d_ID d) d (devices w)\<rparr>))"

lemma keeps_device_ops [keeps_rules]:
  assumes "device_stable I"
  shows "keeps I (RegisterDevice E u d)" "keeps I (EnableBiometric E i u ps)"
    "keeps I (RevokeDevice E i u b)" "keeps I (UpdateLastSeen E i)"
  using assms unfolding device_op_defs device_stable_def
  by (intro keeps_rules; blast)+

lemma device_stable_wf [simp]: "device_stable world_wf"
  by (simp add: device_stable_def world_wf_puts)

lemma device_stable_frame [simp]:
  "device_stable (\<lambda>w. users w = x)" "device_stable (\<lambda>w. sessions w = y)"
  "device_stable (\<lambda>w. challenges w = z)"
  by (simp_all add: device_stable_def)

text \<open>The device record that registration leaves behind.\<close>

definition registered :: "env \<Rightarrow> string \<Rightarrow> Device \<Rightarrow> int \<Rightarrow> int \<Rightarrow> Device" where
  "registered E userID d0 now1 now2 =
     (let d2 = d0\<lparr>d_UserID := userID,
                  d_DeviceFingerprint := HashFingerprint E (d_DeviceFingerprint d0),
                  d_Status := DeviceStatusActive, d_LastSeenAt := now1, d_CreatedAt := now2\<rparr>
      in d2\<lparr>d_TrustScore := computeTrustScore d2\<rparr>)"

lemma RegisterDevice_apply:
  "RegisterDevice E u d0 w =
     (let d = registered E u d0 (now_at E (clock w)) (now_at E (Suc (clock w)))
      in (Ok d, w\<lparr>clock := Suc (Suc (clock w)), devices := repo_put (d_ID d0) d (devices w)\<rparr>))"
  by (simp add: RegisterDevice_def registered_def Let_def)

lemma registered_simps [simp]:
  "d_ID (registered E u d0 n1 n2) = d_ID d0"
  "d_UserID (registered E u d0 n1 n2) = u"
  "d_Status (registered E u d0 n1 n2) = DeviceStatusActive"
  "d_BiometricEnabled (registered E u d0 n1 n2) = d_BiometricEnabled d0"
  "d_PublicKey (registered E u d0 n1 n2) = d_PublicKey d0"
  "d_IsRooted (registered E u d0 n1 n2) = d_IsRooted d0"
  "d_IsJailbroken (registered E u d0 n1 n2) = d_IsJailbroken d0"
  "d_AttestationData (registered E u d0 n1 n2) = d_AttestationData d0"
  by (simp_all add: registered_def Let_def)

lemma ValidateDevice_Ok_iff:
  "ValidateDevice i u w = (Ok d, w') \<longleftrightarrow>
   w' = w \<and> repo_get (devices w) i = Some d \<and> d_UserID d = u
   \<and> d_Status d \<noteq> DeviceStatusRevoked \<and> d_Status d \<noteq> DeviceStatusBlocked"
  by (auto simp: ValidateDevice_def split: option.splits if_splits)

lemma ValidateDevice_world: "snd (ValidateDevice i u w) = w"
  by (simp add: ValidateDevice_def split: option.splits)

text \<open>What a successful revocation leaves behind, and what it does not touch.\<close>

lemma RevokeDevice_Ok:
  assumes "RevokeDevice E i u b w = (Ok (), w')"
  shows "\<exists>d now. repo_get (devices w) i = Some d \<and> d_UserID d = u
     \<and> devices w' = repo_put (d_ID d) (d\<lparr>d_Status := DeviceStatusRevoked, d_RevokedAt := Some now,
          d_RevokedBy := b, d_BiometricEnabled := False, d_PublicKey := []\<rparr>) (devices w)
     \<and> sessions w' = sessions w \<and> users w' = users w \<and> challenges w' = challenges w"
proof -
  from assms obtain d where d: "repo_get (devices w) i = Some d" and u: "d_UserID d = u"
    by (auto simp: RevokeDevice_def split: option.splits if_splits)
  with assms show ?thesis
    by (auto simp: RevokeDevice_def go_ignore_audit split: if_splits)
qed

lemma trust_score_exact:
  "computeTrustScore d =
     100 - (if d_IsRooted d \<or> d_IsJailbroken d then 60 else 0)
         - (if d_AttestationData d = [] then 20 else 0)
         - (if d_AppVersion d = [] then 5 else 0)"
  by (simp add: computeTrustScore_def)


section \<open>Properties\<close>


definition demo_device :: Device where
  "demo_device = zero_Device\<lparr>d_ID := ''phone'', d_UserID := ''user_001'',
     d_Status := DeviceStatusActive, d_BiometricEnabled := True, d_PublicKey := ''pem''\<rparr>"

definition demo_device_world :: world where
  "demo_device_world = demo_world\<lparr>devices := [(''phone'', demo_device)]\<rparr>"


text \<open>
  The trust score is 100 less 60 for a rooted or jailbroken device, 20 for a missing
  attestation and 5 for a missing app version; so it lies between 15 and 100, the clamp at
  zero never acts, and a compromised device never scores above 40 while an intact one never
  scores below 75.
\<close>

lemma trust_score_bounds:
  "computeTrustScore d =
     100 - (if d_IsRooted d \<or> d_IsJailbroken d then 60 else 0)
         - (if d_AttestationData d = [] then 20 else 0)
         - (if d_AppVersion d = [] then 5 else 0)
   \<and> 15 \<le> computeTrustScore d \<and> computeTrustScore d \<le> 100
   \<and> (if d_IsRooted d \<or> d_IsJailbroken d then computeTrustScore d \<le> 40 else 75 \<le> computeTrustScore d)"
  by (simp add: trust_score_exact)

end
