(* ===== verification/Token.thy ===== *)
theory Token
  imports Device
begin

text \<open>
  \<^verbatim>\<open>internal/service/token.go\<close>: HMAC-signed tokens with refresh rotation and replay
  detection. A token is three base64url fields joined by dots. The locale \<open>token_format\<close>
  is what the rest of the system needs of it: a token the service signs is read back as the
  payload it was made from, until it expires.
\<close>

section \<open>Signing and verifying\<close>

definition token_header :: string where
  \<open>token_header = b64url_encode ''{"alg":"HS256","typ":"JWT"}''\<close>

definition sign :: "env \<Rightarrow> tokenPayload \<Rightarrow> string \<Rightarrow> (go_error, string) outcome" where
  "sign E payload secret =
     (case json_Marshal E payload of
        Inl t \<Rightarrow> Err (ErrorString t)
      | Inr payloadJSON \<Rightarrow>
          (let signingInput = token_header @ ''.'' @ b64url_encode payloadJSON
           in Ok (signingInput @ ''.'' @ b64url_encode (hmac_sha256 E secret signingInput))))"

definition verify :: "env \<Rightarrow> string \<Rightarrow> string \<Rightarrow> tokenPayload svc" where
  "verify E token secret =
     (let parts = split_on CHR ''.'' token
      in if length parts \<noteq> 3 then go_fail (TokenErr ErrTokenInvalid)
         else
           (let signingInput = parts ! 0 @ ''.'' @ parts ! 1;
                expectedSig = hmac_sha256 E secret signingInput
            in case b64url_decode (parts ! 2) of
                 Inl _ \<Rightarrow> go_fail (TokenErr ErrTokenInvalid)
               | Inr gotSig \<Rightarrow>
                   if gotSig \<noteq> expectedSig then go_fail (TokenErr ErrTokenInvalid)
                   else (case b64url_decode (parts ! 1) of
                       Inl _ \<Rightarrow> go_fail (TokenErr ErrTokenInvalid)
                     | Inr payloadJSON \<Rightarrow>
                         (case json_Unmarshal E payloadJSON of
                            None \<Rightarrow> go_fail (TokenErr ErrTokenInvalid)
                          | Some p \<Rightarrow>
                              go_bind (time_Now E) (\<lambda>now.
                                if unix_of now > p_Exp p then go_fail (TokenErr ErrTokenExpired)
                                else go_return p)))))"

definition hashRefreshToken :: "env \<Rightarrow> string \<Rightarrow> string" where
  "hashRefreshToken E token = hex_encode (sha256 E token)"

definition hmacEqual :: "string \<Rightarrow> string \<Rightarrow> bool" where
  "hmacEqual a b \<longleftrightarrow> a = b"


section \<open>Issuing\<close>

definition access_payload ::
  "env \<Rightarrow> string \<Rightarrow> string \<Rightarrow> string \<Rightarrow> string \<Rightarrow> int \<Rightarrow> string \<Rightarrow> tokenPayload" where
  "access_payload E userID deviceID sessionID family now jti =
     \<lparr>p_Sub = userID, p_DeviceID = deviceID, p_SessionID = sessionID,
      p_Type = TokenTypeAccess, p_Family = family, p_StepUp = False, p_StepUpExp = None,
      p_Iat = unix_of now, p_Exp = unix_of (now + AccessTokenTTL (cfg E)), p_Jti = jti\<rparr>"

definition refresh_payload ::
  "env \<Rightarrow> string \<Rightarrow> string \<Rightarrow> string \<Rightarrow> string \<Rightarrow> int \<Rightarrow> string \<Rightarrow> tokenPayload" where
  "refresh_payload E userID deviceID sessionID family now jti =
     \<lparr>p_Sub = userID, p_DeviceID = deviceID, p_SessionID = sessionID,
      p_Type = TokenTypeRefresh, p_Family = family, p_StepUp = False, p_StepUpExp = None,
      p_Iat = unix_of now, p_Exp = unix_of (now + RefreshTokenTTL (cfg E)), p_Jti = jti\<rparr>"

definition IssueTokenPair ::
  "env \<Rightarrow> string \<Rightarrow> string \<Rightarrow> string \<Rightarrow> string \<Rightarrow> (string \<times> string) svc" where
  "IssueTokenPair E userID deviceID sessionID family =
     go_bind (time_Now E) (\<lambda>now.
     go_bind (secureHex E 16) (\<lambda>jtiAccess.
     go_bind (secureHex E 16) (\<lambda>jtiRefresh.
     go_try (go_lift (sign E (access_payload E userID deviceID sessionID family now jtiAccess)
                        (AccessTokenSecret (cfg E))))
       (\<lambda>e. go_fail (Wrapped ''sign access token: '' e '''')) (\<lambda>accessToken.
     go_try (go_lift (sign E (refresh_payload E userID deviceID sessionID family now jtiRefresh)
                        (RefreshTokenSecret (cfg E))))
       (\<lambda>e. go_fail (Wrapped ''sign refresh token: '' e '''')) (\<lambda>refreshToken.
     go_return (accessToken, refreshToken))))))"

definition IssueStepUpToken :: "env \<Rightarrow> TokenClaims \<Rightarrow> string svc" where
  "IssueStepUpToken E claims =
     go_bind (time_Now E) (\<lambda>now.
     let expUnix = unix_of (now + StepUpTokenTTL (cfg E))
     in go_bind (secureHex E 16) (\<lambda>jti.
        go_lift (sign E
          \<lparr>p_Sub = t_UserID claims, p_DeviceID = t_DeviceID claims,
           p_SessionID = t_SessionID claims, p_Type = TokenTypeAccess, p_Family = [],
           p_StepUp = True, p_StepUpExp = Some expUnix,
           p_Iat = unix_of now, p_Exp = unix_of (now + AccessTokenTTL (cfg E)), p_Jti = jti\<rparr>
          (AccessTokenSecret (cfg E)))))"


section \<open>Rotation, verification, revocation\<close>

definition RotateRefreshToken :: "env \<Rightarrow> string \<Rightarrow> string \<Rightarrow> (string \<times> string) svc" where
  "RotateRefreshToken E rawRefreshToken deviceID =
     go_try (verify E rawRefreshToken (RefreshTokenSecret (cfg E)))
       (\<lambda>err. go_fail (Wrapped [] (TokenErr ErrTokenInvalid) ('': '' @ error_text err))) (\<lambda>payload.
     if p_Type payload \<noteq> TokenTypeRefresh then go_fail (TokenErr ErrTokenInvalid)
     else if \<not> hmacEqual (p_DeviceID payload) deviceID then go_fail (ErrorString ''device mismatch'')
     else
       go_try (session_GetByID (p_SessionID payload)) (\<lambda>_. go_fail (TokenErr ErrTokenRevoked)) (\<lambda>found.
       case found of
         None \<Rightarrow> go_fail (TokenErr ErrTokenRevoked)
       | Some session \<Rightarrow>
           if s_Status session \<noteq> SessionStatusActive then go_fail (TokenErr ErrTokenRevoked)
           else if \<not> hmacEqual (hashRefreshToken E rawRefreshToken) (s_RefreshToken session)
           then go_ignore (session_RevokeFamily (p_Family payload) SessionStatusReplayed)
                  (go_fail (TokenErr ErrFamilyCompromised))
           else
             go_bind (IssueTokenPair E (p_Sub payload) (p_DeviceID payload)
                        (p_SessionID payload) (p_Family payload)) (\<lambda>(newAccess, newRefresh).
             go_bind (time_Now E) (\<lambda>now.
             go_try (session_Update (session\<lparr>s_RefreshToken := hashRefreshToken E newRefresh,
                       s_LastUsedAt := now, s_UseCount := s_UseCount session + 1\<rparr>))
               (\<lambda>e. go_fail (Wrapped ''update session: '' e '''')) (\<lambda>_.
             go_return (newAccess, newRefresh))))))"

definition VerifyAccessToken :: "env \<Rightarrow> string \<Rightarrow> TokenClaims svc" where
  "VerifyAccessToken E raw =
     go_bind (verify E raw (AccessTokenSecret (cfg E))) (\<lambda>payload.
     if p_Type payload \<noteq> TokenTypeAccess then go_fail (TokenErr ErrTokenInvalid)
     else go_return
       \<lparr>t_UserID = p_Sub payload, t_DeviceID = p_DeviceID payload,
        t_SessionID = p_SessionID payload, t_TokenType = TokenTypeAccess,
        t_StepUp = p_StepUp payload,
        t_StepUpExp = map_option time_Unix (p_StepUpExp payload)\<rparr>)"

text \<open>A missing session is dereferenced: the nil check only covers the error.\<close>

definition RevokeSession :: "string \<Rightarrow> unit svc" where
  "RevokeSession sessionID =
     go_bind (session_GetByID sessionID) (\<lambda>found.
       case found of
         None \<Rightarrow> go_panic
       | Some session \<Rightarrow> session_Update (session\<lparr>s_Status := SessionStatusRevoked\<rparr>))"

definition RevokeAllUserSessions :: "string \<Rightarrow> unit svc" where
  "RevokeAllUserSessions userID = session_RevokeAllByUser userID"


section \<open>The token format\<close>

definition token_text :: "env \<Rightarrow> string \<Rightarrow> string \<Rightarrow> string" where
  "token_text E secret body =
     (let input = token_header @ ''.'' @ b64url_encode body
      in input @ ''.'' @ b64url_encode (hmac_sha256 E secret input))"

lemma sign_eq: "sign E p k = (case json_Marshal E p of Inl t \<Rightarrow> Err (ErrorString t)
                              | Inr s \<Rightarrow> Ok (token_text E k s))"
  by (simp add: sign_def token_text_def Let_def split: sum.splits)

lemma split_token_text:
  "split_on CHR ''.'' (token_text E k s) =
     [token_header, b64url_encode s,
      b64url_encode (hmac_sha256 E k (token_header @ ''.'' @ b64url_encode s))]"
proof -
  have "CHR ''.'' \<notin> set token_header" by (simp add: token_header_def)
  then show ?thesis
    by (simp add: token_text_def Let_def split_on_append split_on_free)
qed

lemma verify_token_text:
  "verify E (token_text E k s) k w =
     (case json_Unmarshal E s of
        None \<Rightarrow> (Err (TokenErr ErrTokenInvalid), w)
      | Some p \<Rightarrow> (if unix_of (now_at E (clock w)) > p_Exp p then Err (TokenErr ErrTokenExpired)
                   else Ok p, w\<lparr>clock := Suc (clock w)\<rparr>))"
  by (simp add: verify_def split_token_text b64url.dec_enc split: option.splits)

text \<open>\<open>json_faithful E p\<close>: marshalling succeeds and unmarshalling gives the payload back.\<close>

definition json_faithful :: "env \<Rightarrow> tokenPayload \<Rightarrow> bool" where
  "json_faithful E p \<longleftrightarrow> (case json_Marshal E p of Inl _ \<Rightarrow> False
                          | Inr s \<Rightarrow> json_Unmarshal E s = Some p)"

definition tick :: "world \<Rightarrow> world" where
  "tick w = w\<lparr>clock := Suc (clock w)\<rparr>"

locale token_format =
  fixes mk :: "'p \<Rightarrow> string \<Rightarrow> (go_error, string) outcome"
    and chk :: "string \<Rightarrow> string \<Rightarrow> 'p svc"
    and fits :: "'p \<Rightarrow> bool"
    and live :: "'p \<Rightarrow> world \<Rightarrow> bool"
  assumes mk_succeeds: "fits p \<Longrightarrow> \<exists>t. mk p k = Ok t"
    and chk_mk: "fits p \<Longrightarrow> mk p k = Ok t \<Longrightarrow>
      chk t k w = (if live p w then (Ok p, tick w) else (Err (TokenErr ErrTokenExpired), tick w))"
    and chk_total: "fst (chk t k w) \<noteq> Panic"
    and chk_state: "chk t k w = (r, w') \<Longrightarrow> w' = w \<or> w' = tick w"
begin

text \<open>Two payloads never share a token while one of them is live.\<close>

lemma mk_unambiguous:
  assumes "fits p" "fits q" "mk p k = Ok t" "mk q k = Ok t" "live p w"
  shows "p = q"
  using chk_mk [OF assms(1,3), of w] chk_mk [OF assms(2,4), of w] assms(5)
  by (auto split: if_splits)

text \<open>Checking never changes more than the clock.\<close>

lemma chk_keeps: "(\<And>w. I w \<Longrightarrow> I (tick w)) \<Longrightarrow> keeps I (chk t k)"
  using chk_state by (metis keepsI prod.collapse)

end

lemma verify_state: "verify E t k w = (r, w') \<Longrightarrow> w' = w \<or> w' = tick w"
  by (auto simp: verify_def tick_def Let_def split: if_splits sum.splits option.splits)

lemma verify_total: "fst (verify E t k w) \<noteq> Panic"
  by (auto simp: verify_def Let_def split: sum.splits option.splits)

interpretation jwt: token_format "sign E" "verify E" "json_faithful E"
    "\<lambda>p w. unix_of (now_at E (clock w)) \<le> p_Exp p" for E
proof
  show "json_faithful E p \<Longrightarrow> \<exists>t. sign E p k = Ok t" for p k
    by (auto simp: json_faithful_def sign_eq split: sum.splits)
  show "json_faithful E p \<Longrightarrow> sign E p k = Ok t \<Longrightarrow>
      verify E t k w = (if unix_of (now_at E (clock w)) \<le> p_Exp p then (Ok p, tick w)
                        else (Err (TokenErr ErrTokenExpired), tick w))" for p k t w
    by (auto simp: json_faithful_def sign_eq verify_token_text tick_def split: sum.splits)
  show "fst (verify E t k w) \<noteq> Panic" for t k w by (rule verify_total)
  show "verify E t k w = (r, w') \<Longrightarrow> w' = w \<or> w' = tick w" for t k w r w'
    by (rule verify_state)
qed

text \<open>What an accepted token must look like.\<close>

lemma verify_Ok:
  assumes "verify E t k w = (Ok p, w')"
  shows "\<exists>h b s. t = h @ ''.'' @ b @ ''.'' @ s
     \<and> b64url_decode s = Inr (hmac_sha256 E k (h @ ''.'' @ b))
     \<and> (\<exists>body. b64url_decode b = Inr body \<and> json_Unmarshal E body = Some p)
     \<and> unix_of (now_at E (clock w)) \<le> p_Exp p"
proof -
  from assms have l: "length (split_on CHR ''.'' t) = 3"
    by (auto simp: verify_def Let_def split: if_splits)
  then obtain h b s where parts: "split_on CHR ''.'' t = [h, b, s]"
    by (auto simp: numeral_3_eq_3 length_Suc_conv)
  have "t = h @ ''.'' @ b @ ''.'' @ s"
    using join_split [of "CHR ''.''" t] parts by simp
  moreover have "b64url_decode s = Inr (hmac_sha256 E k (h @ ''.'' @ b))"
    and "\<exists>body. b64url_decode b = Inr body \<and> json_Unmarshal E body = Some p"
    and "unix_of (now_at E (clock w)) \<le> p_Exp p"
    using assms
    by (auto simp: verify_def Let_def parts split: if_splits sum.splits option.splits)
  ultimately show ?thesis by blast
qed


section \<open>Frames and results\<close>

lemma keeps_verify [keeps_rules]:
  "(\<And>w n. I w \<Longrightarrow> I (w\<lparr>clock := n\<rparr>)) \<Longrightarrow> keeps I (verify E t k)"
  by (rule jwt.chk_keeps) (simp add: tick_def)

lemma keeps_VerifyAccessToken [keeps_rules]:
  "(\<And>w n. I w \<Longrightarrow> I (w\<lparr>clock := n\<rparr>)) \<Longrightarrow> keeps I (VerifyAccessToken E t)"
  unfolding VerifyAccessToken_def by (intro keeps_rules)

lemma keeps_IssueTokenPair [keeps_rules]:
  "(\<And>w n. I w \<Longrightarrow> I (w\<lparr>clock := n\<rparr>)) \<Longrightarrow> (\<And>w n. I w \<Longrightarrow> I (w\<lparr>randoms := n\<rparr>)) \<Longrightarrow>
   keeps I (IssueTokenPair E u d s f)"
  unfolding IssueTokenPair_def by (intro keeps_rules)

lemma keeps_IssueStepUpToken [keeps_rules]:
  "(\<And>w n. I w \<Longrightarrow> I (w\<lparr>clock := n\<rparr>)) \<Longrightarrow> (\<And>w n. I w \<Longrightarrow> I (w\<lparr>randoms := n\<rparr>)) \<Longrightarrow>
   keeps I (IssueStepUpToken E c)"
  unfolding IssueStepUpToken_def by (intro keeps_rules)

lemma keeps_wf_token_ops [keeps_rules]:
  "keeps world_wf (RotateRefreshToken E t d)" "keeps world_wf (RevokeSession i)"
  "keeps world_wf (RevokeAllUserSessions u)"
  unfolding RotateRefreshToken_def RevokeSession_def RevokeAllUserSessions_def
  by ((intro keeps_rules); simp add: world_wf_puts)+

lemma IssueTokenPair_Ok:
  assumes "IssueTokenPair E u d s f w = (Ok (a, r), w')"
  shows "\<exists>ja jr. sign E (access_payload E u d s f (now_at E (clock w)) ja)
                  (AccessTokenSecret (cfg E)) = Ok a
     \<and> sign E (refresh_payload E u d s f (now_at E (clock w)) jr) (RefreshTokenSecret (cfg E)) = Ok r
     \<and> w' = w\<lparr>clock := Suc (clock w), randoms := Suc (Suc (randoms w))\<rparr>"
  using assms unfolding IssueTokenPair_def
  by (elim go_bind_OkE go_try_OkE) (auto dest!: secureHex_Ok)

lemma VerifyAccessToken_Ok:
  assumes "VerifyAccessToken E t w = (Ok c, w')"
  obtains p where "verify E t (AccessTokenSecret (cfg E)) w = (Ok p, w')" "p_Type p = TokenTypeAccess"
    "c = \<lparr>t_UserID = p_Sub p, t_DeviceID = p_DeviceID p, t_SessionID = p_SessionID p,
          t_TokenType = TokenTypeAccess, t_StepUp = p_StepUp p,
          t_StepUpExp = map_option time_Unix (p_StepUpExp p)\<rparr>"
  using assms unfolding VerifyAccessToken_def
  by (auto elim!: go_bind_OkE split: if_splits)

text \<open>The three ways a rotation with a well-signed refresh token for the right device can go.\<close>

lemma Rotate_no_session:
  assumes "verify E t (RefreshTokenSecret (cfg E)) w = (Ok p, w1)"
    and "p_Type p = TokenTypeRefresh" and "p_DeviceID p = d"
    and "case repo_get (sessions w) (p_SessionID p) of None \<Rightarrow> True
         | Some s \<Rightarrow> s_Status s \<noteq> SessionStatusActive"
  shows "RotateRefreshToken E t d w = (Err (TokenErr ErrTokenRevoked), w1)"
proof -
  have "sessions w1 = sessions w"
    using verify_state [OF assms(1)] by (auto simp: tick_def)
  with assms show ?thesis
    by (auto simp: RotateRefreshToken_def hmacEqual_def split: option.splits)
qed

lemma Rotate_replayed:
  assumes "verify E t (RefreshTokenSecret (cfg E)) w = (Ok p, w1)"
    and "p_Type p = TokenTypeRefresh" and "p_DeviceID p = d"
    and "repo_get (sessions w) (p_SessionID p) = Some s" and "s_Status s = SessionStatusActive"
    and "s_RefreshToken s \<noteq> hashRefreshToken E t"
  shows "RotateRefreshToken E t d w =
    (Err (TokenErr ErrFamilyCompromised),
     w1\<lparr>sessions := repo_map (\<lambda>s. if s_TokenFamily s = p_Family p
                               then s\<lparr>s_Status := SessionStatusReplayed\<rparr> else s) (sessions w)\<rparr>)"
proof -
  have "sessions w1 = sessions w"
    using verify_state [OF assms(1)] by (auto simp: tick_def)
  with assms show ?thesis
    by (auto simp: RotateRefreshToken_def hmacEqual_def)
qed

lemma Rotate_Ok:
  assumes "RotateRefreshToken E t d w = (Ok (a, r), w')"
  obtains p s now w1 w2 where
    "verify E t (RefreshTokenSecret (cfg E)) w = (Ok p, w1)"
    "p_Type p = TokenTypeRefresh" "p_DeviceID p = d"
    "repo_get (sessions w) (p_SessionID p) = Some s" "s_Status s = SessionStatusActive"
    "s_RefreshToken s = hashRefreshToken E t"
    "IssueTokenPair E (p_Sub p) d (p_SessionID p) (p_Family p) w1 = (Ok (a, r), w2)"
    "w' = w2\<lparr>clock := Suc (clock w2), sessions := repo_put (s_ID s)
       (s\<lparr>s_RefreshToken := hashRefreshToken E r, s_LastUsedAt := now,
          s_UseCount := s_UseCount s + 1\<rparr>) (sessions w)\<rparr>"
proof -
  from assms obtain p w1 where v: "verify E t (RefreshTokenSecret (cfg E)) w = (Ok p, w1)"
    unfolding RotateRefreshToken_def by (auto elim!: go_try_OkE)
  have sw: "sessions w1 = sessions w"
    using verify_state [OF v] by (auto simp: tick_def)
  from assms v sw obtain s where 1: "p_Type p = TokenTypeRefresh" "p_DeviceID p = d"
    "repo_get (sessions w) (p_SessionID p) = Some s" "s_Status s = SessionStatusActive"
    "s_RefreshToken s = hashRefreshToken E t"
    by (auto simp: RotateRefreshToken_def hmacEqual_def split: if_splits option.splits)
  with assms v sw obtain w2 where
    2: "IssueTokenPair E (p_Sub p) d (p_SessionID p) (p_Family p) w1 = (Ok (a, r), w2)"
    by (auto simp: RotateRefreshToken_def hmacEqual_def elim!: go_bind_OkE)
  have "sessions w2 = sessions w" using IssueTokenPair_Ok [OF 2] sw by auto
  with assms v sw 1 2 have
    "w' = w2\<lparr>clock := Suc (clock w2), sessions := repo_put (s_ID s)
       (s\<lparr>s_RefreshToken := hashRefreshToken E r, s_LastUsedAt := now_at E (clock w2),
          s_UseCount := s_UseCount s + 1\<rparr>) (sessions w)\<rparr>"
    by (auto simp: RotateRefreshToken_def hmacEqual_def)
  with v 1 2 show ?thesis by (rule that)
qed


section \<open>Properties\<close>

lemma verify_payload:
  assumes "verify E t k w = (Ok p, w')"
  obtains h b s body where "split_on CHR ''.'' t = [h, b, s]"
    "b64url_decode s = Inr (hmac_sha256 E k (h @ ''.'' @ b))"
    "b64url_decode b = Inr body" "json_Unmarshal E body = Some p"
    "unix_of (now_at E (clock w)) \<le> p_Exp p" "w' = tick w"
proof -
  from assms obtain h b s where parts: "split_on CHR ''.'' t = [h, b, s]"
    by (auto simp: verify_def Let_def numeral_3_eq_3 length_Suc_conv split: if_splits)
  with assms that show ?thesis
    by (auto simp: verify_def Let_def tick_def not_less split: if_splits sum.splits option.splits)
qed

lemma verify_payload_unique:
  assumes "verify E t k w = (Ok p, w')" and "verify E t k' v = (Ok q, v')"
  shows "p = q"
  using assms by (elim verify_payload) auto

lemma verify_text_payload:
  assumes "verify E (token_text E k s) k' w = (Ok p, w')"
  shows "json_Unmarshal E s = Some p"
  using assms by (elim verify_payload) (auto simp: split_token_text b64url.dec_enc)

text \<open>
  C1: Replay detection of refresh tokens. Once a refresh token has been rotated, presenting
  it again while it is still within its lifetime is answered with \<open>ErrFamilyCompromised\<close>;
  every session of the token's family is then marked as replayed, and no session of another
  family changes. (The hypothesis on the hashes is that the old and the new token do not
  collide.)
\<close>

theorem rotation_replay_revokes_family:
  assumes wf: "world_wf w"
    and rot: "RotateRefreshToken E t d w = (Ok (a, r), w')"
    and fresh: "hashRefreshToken E r \<noteq> hashRefreshToken E t"
    and live: "verify E t (RefreshTokenSecret (cfg E)) w' = (Ok p, w1)"
  shows "\<exists>w''. RotateRefreshToken E t d w' = (Err (TokenErr ErrFamilyCompromised), w'')
    \<and> (\<forall>k. repo_get (sessions w'') k =
          map_option (\<lambda>s. if s_TokenFamily s = p_Family p
                          then s\<lparr>s_Status := SessionStatusReplayed\<rparr> else s)
            (repo_get (sessions w') k))"
proof -
  from rot obtain q s now v1 w2 where
    q: "verify E t (RefreshTokenSecret (cfg E)) w = (Ok q, v1)" "p_Type q = TokenTypeRefresh"
      "p_DeviceID q = d" "repo_get (sessions w) (p_SessionID q) = Some s"
      "s_Status s = SessionStatusActive"
    and w': "w' = w2\<lparr>clock := Suc (clock w2), sessions := repo_put (s_ID s)
       (s\<lparr>s_RefreshToken := hashRefreshToken E r, s_LastUsedAt := now,
          s_UseCount := s_UseCount s + 1\<rparr>) (sessions w)\<rparr>"
    by (elim Rotate_Ok) blast
  have "p = q" using verify_payload_unique live q(1) by blast
  moreover have "s_ID s = p_SessionID q" using wf q(4) by (rule world_wf_session_key)
  ultimately have "repo_get (sessions w') (p_SessionID p) =
      Some (s\<lparr>s_RefreshToken := hashRefreshToken E r, s_LastUsedAt := now,
              s_UseCount := s_UseCount s + 1\<rparr>)"
    using w' by simp
  from Rotate_replayed [OF live _ _ this] q fresh \<open>p = q\<close>
  show ?thesis by auto
qed

text \<open>The documented behaviour the issue of tokens relies on.\<close>

definition json_total :: "env \<Rightarrow> bool" where
  "json_total E \<longleftrightarrow> (\<forall>p. \<exists>s. json_Marshal E p = Inr s)"

definition rand_total :: "env \<Rightarrow> bool" where
  "rand_total E \<longleftrightarrow> (\<forall>i n. \<exists>b. rand_read E i n = Inr b)"

lemma sign_succeeds: "json_total E \<Longrightarrow> \<exists>t. sign E p k = Ok t"
  by (auto simp: json_total_def sign_eq split: sum.splits) (metis sum.distinct(1))

lemma IssueTokenPair_succeeds:
  assumes "json_total E" and "rand_total E"
  shows "\<exists>a r. IssueTokenPair E u d s f w = (Ok (a, r), w\<lparr>clock := Suc (clock w),
           randoms := Suc (Suc (randoms w))\<rparr>)"
proof -
  obtain ba where 1: "rand_read E (randoms w) 16 = Inr ba"
    using assms(2) by (auto simp: rand_total_def)
  obtain br where 2: "rand_read E (Suc (randoms w)) 16 = Inr br"
    using assms(2) by (auto simp: rand_total_def)
  obtain a where 3: "sign E (access_payload E u d s f (now_at E (clock w)) (hex_encode ba))
      (AccessTokenSecret (cfg E)) = Ok a"
    using sign_succeeds [OF assms(1)] by blast
  obtain r where 4: "sign E (refresh_payload E u d s f (now_at E (clock w)) (hex_encode br))
      (RefreshTokenSecret (cfg E)) = Ok r"
    using sign_succeeds [OF assms(1)] by blast
  from 1 2 3 4 show ?thesis
    by (simp add: IssueTokenPair_def)
qed

lemma Rotate_matching:
  assumes "verify E t (RefreshTokenSecret (cfg E)) w = (Ok p, w1)"
    and "p_Type p = TokenTypeRefresh" and "p_DeviceID p = d"
    and "repo_get (sessions w) (p_SessionID p) = Some s"
    and "s_Status s = SessionStatusActive" and "s_RefreshToken s = hashRefreshToken E t"
    and "IssueTokenPair E (p_Sub p) (p_DeviceID p) (p_SessionID p) (p_Family p) w1
      = (Ok (a, r), w1\<lparr>clock := Suc (clock w1), randoms := Suc (Suc (randoms w1))\<rparr>)"
  shows "RotateRefreshToken E t d w = (Ok (a, r),
    w1\<lparr>clock := Suc (Suc (clock w1)), randoms := Suc (Suc (randoms w1)),
       sessions := repo_put (s_ID s) (s\<lparr>s_RefreshToken := hashRefreshToken E r,
         s_LastUsedAt := now_at E (Suc (clock w1)), s_UseCount := s_UseCount s + 1\<rparr>) (sessions w)\<rparr>)"
proof -
  have "sessions w1 = sessions w" using verify_state [OF assms(1)] by (auto simp: tick_def)
  with assms show ?thesis by (simp add: RotateRefreshToken_def hmacEqual_def)
qed

text \<open>
  C11: Liveness of rotation. A refresh token that verifies, is of the refresh type, belongs to
  the device that presents it, and whose hash the active session holds, is rotated: the call
  returns a new pair, the session holds the hash of the new refresh token and counts one more
  use, and no other session changes. The random source and JSON marshalling are assumed to
  work, as they are documented to.
\<close>

theorem rotation_succeeds:
  assumes "world_wf w" and "json_total E" and "rand_total E"
    and v: "verify E t (RefreshTokenSecret (cfg E)) w = (Ok p, w1)"
    and "p_Type p = TokenTypeRefresh" and "p_DeviceID p = d"
    and s: "repo_get (sessions w) (p_SessionID p) = Some s"
    and "s_Status s = SessionStatusActive" and "s_RefreshToken s = hashRefreshToken E t"
  shows "\<exists>a r w' s'. RotateRefreshToken E t d w = (Ok (a, r), w')
    \<and> repo_get (sessions w') (p_SessionID p) = Some s'
    \<and> s_Status s' = SessionStatusActive \<and> s_RefreshToken s' = hashRefreshToken E r
    \<and> s_UseCount s' = s_UseCount s + 1
    \<and> (\<forall>k. k \<noteq> p_SessionID p \<longrightarrow> repo_get (sessions w') k = repo_get (sessions w) k)"
proof -
  have id: "s_ID s = p_SessionID p" using assms(1) s by (rule world_wf_session_key)
  obtain a r where "IssueTokenPair E (p_Sub p) (p_DeviceID p) (p_SessionID p) (p_Family p) w1
      = (Ok (a, r), w1\<lparr>clock := Suc (clock w1), randoms := Suc (Suc (randoms w1))\<rparr>)"
    using IssueTokenPair_succeeds [OF assms(2,3)] by blast
  from Rotate_matching [OF v assms(5,6) s assms(8,9) this] show ?thesis
    using id assms(8) by auto
qed

text \<open>
  C12: Round trip of the token format. A token the service signs for a payload that JSON
  encodes faithfully is read back as exactly that payload until its expiry second has passed,
  and is refused as expired from then on; checking it changes nothing but the clock.
\<close>

theorem sign_verify_roundtrip:
  assumes "json_faithful E p"
  shows "\<exists>t. sign E p k = Ok t \<and> verify E t k w =
    (if unix_of (now_at E (clock w)) \<le> p_Exp p then Ok p else Err (TokenErr ErrTokenExpired), tick w)"
  using jwt.mk_succeeds [OF assms, of k] jwt.chk_mk [OF assms, of k _ w] by auto

text \<open>
  Exactly which strings the token check accepts: three dot-separated fields whose third
  decodes to the MAC of the first two under the given secret, whose second decodes to a JSON
  payload, and whose payload has not expired. Everything else is refused, and the check
  never panics.
\<close>

lemma verify_accepts_iff:
  "verify E t k w = (Ok p, tick w) \<longleftrightarrow>
     (\<exists>h b s body. split_on CHR ''.'' t = [h, b, s]
        \<and> b64url_decode s = Inr (hmac_sha256 E k (h @ ''.'' @ b))
        \<and> b64url_decode b = Inr body \<and> json_Unmarshal E body = Some p
        \<and> unix_of (now_at E (clock w)) \<le> p_Exp p)"
proof
  assume "verify E t k w = (Ok p, tick w)"
  then show "\<exists>h b s body. split_on CHR ''.'' t = [h, b, s]
        \<and> b64url_decode s = Inr (hmac_sha256 E k (h @ ''.'' @ b))
        \<and> b64url_decode b = Inr body \<and> json_Unmarshal E body = Some p
        \<and> unix_of (now_at E (clock w)) \<le> p_Exp p"
    by (elim verify_payload) blast
next
  assume "\<exists>h b s body. split_on CHR ''.'' t = [h, b, s]
        \<and> b64url_decode s = Inr (hmac_sha256 E k (h @ ''.'' @ b))
        \<and> b64url_decode b = Inr body \<and> json_Unmarshal E body = Some p
        \<and> unix_of (now_at E (clock w)) \<le> p_Exp p"
  then show "verify E t k w = (Ok p, tick w)"
    by (auto simp: verify_def tick_def)
qed

lemma verify_signed:
  assumes "\<forall>p s. json_Marshal E p = Inr s \<longrightarrow> json_Unmarshal E s = Some p"
    and "sign E q k = Ok t" and "verify E t k' v = (Ok q', v')"
  shows "q' = q"
proof -
  from assms(2) obtain j where j: "json_Marshal E q = Inr j" "t = token_text E k j"
    by (cases "json_Marshal E q") (auto simp: sign_eq)
  from verify_text_payload assms(3) j(2) have "json_Unmarshal E j = Some q'" by blast
  with assms(1) j(1) show ?thesis by auto
qed



section \<open>The hypotheses hold together\<close>

lemma demo_json: "json_faithful demo_env p"
proof -
  obtain s where "fields_Marshal p = Inr s" by (simp add: fields_Marshal_def)
  with fields_roundtrip [OF this] show ?thesis by (simp add: json_faithful_def)
qed

lemma demo_json_inverse: "\<forall>p s. json_Marshal demo_env p = Inr s \<longrightarrow> json_Unmarshal demo_env s = Some p"
  using fields_roundtrip by simp

lemma demo_json_total: "json_total demo_env"
  by (simp add: json_total_def fields_Marshal_def)

lemma demo_rand_total: "rand_total demo_env"
  by (simp add: rand_total_def)

definition demo_payload :: tokenPayload where
  "demo_payload = refresh_payload demo_env ''user_001'' ''phone'' ''s1'' ''f1'' 0 ''j1''"

definition demo_refresh :: string where
  "demo_refresh = (case sign demo_env demo_payload ''R'' of Ok t \<Rightarrow> t | _ \<Rightarrow> [])"

definition demo_session :: Session where
  "demo_session = \<lparr>s_ID = ''s1'', s_UserID = ''user_001'', s_DeviceID = ''phone'',
     s_RefreshToken = hashRefreshToken demo_env demo_refresh, s_TokenFamily = ''f1'',
     s_LastUsedAt = 0, s_UseCount = 0, s_StepUpToken = [], s_StepUpExpiry = None,
     s_Status = SessionStatusActive, s_ExpiresAt = 0, s_CreatedAt = 0, s_IPAddress = [],
     s_UserAgent = []\<rparr>"

definition demo_session_world :: world where
  "demo_session_world = demo_world\<lparr>sessions := [(''s1'', demo_session)]\<rparr>"

lemma demo_session_wf: "world_wf demo_session_world"
  using demo_world_wf by (simp add: demo_session_world_def world_wf_def repo_wf_def demo_session_def)

lemma demo_signed: "sign demo_env demo_payload ''R'' = Ok demo_refresh"
  using jwt.mk_succeeds [OF demo_json, of demo_payload "''R''"] by (auto simp: demo_refresh_def)

lemma demo_payload_simps [simp]:
  "p_Type demo_payload = TokenTypeRefresh" "p_DeviceID demo_payload = ''phone''"
  "p_SessionID demo_payload = ''s1''" "p_Family demo_payload = ''f1''"
  "p_Exp demo_payload = 2592000" "p_Iat demo_payload = 0"
  by (simp_all add: demo_payload_def refresh_payload_def unix_of_def minute_def second_def)

lemma demo_verify:
  "clock w \<le> 2592000 \<Longrightarrow> verify demo_env demo_refresh ''R'' w = (Ok demo_payload, tick w)"
  using jwt.chk_mk [OF demo_json demo_signed, of w] by (simp add: unix_of_def second_def)

lemma demo_session_get: "repo_get (sessions demo_session_world) ''s1'' = Some demo_session"
  by (simp add: demo_session_world_def repo_get_def)

theorem rotation_succeeds_witness:
  "\<exists>a r w' s'. RotateRefreshToken demo_env demo_refresh ''phone'' demo_session_world = (Ok (a, r), w')
    \<and> repo_get (sessions w') ''s1'' = Some s' \<and> s_RefreshToken s' = hashRefreshToken demo_env r
    \<and> s_UseCount s' = 1"
proof -
  have "verify demo_env demo_refresh (RefreshTokenSecret (cfg demo_env)) demo_session_world
      = (Ok demo_payload, tick demo_session_world)"
    by (simp add: demo_verify demo_session_world_def)
  from rotation_succeeds [OF demo_session_wf demo_json_total demo_rand_total this, of "''phone''" demo_session]
  show ?thesis by (auto simp: demo_session_get) (auto simp: demo_session_def)
qed

lemma demo_rotation:
  "\<exists>a r w'. RotateRefreshToken demo_env demo_refresh ''phone'' demo_session_world = (Ok (a, r), w')
    \<and> hashRefreshToken demo_env r \<noteq> hashRefreshToken demo_env demo_refresh \<and> clock w' = 4"
proof -
  let ?w = "tick demo_session_world"
  obtain a r where i: "IssueTokenPair demo_env (p_Sub demo_payload) ''phone'' ''s1'' ''f1'' ?w
      = (Ok (a, r), ?w\<lparr>clock := Suc (clock ?w), randoms := Suc (Suc (randoms ?w))\<rparr>)"
    using IssueTokenPair_succeeds [OF demo_json_total demo_rand_total] by blast
  obtain jr where r: "sign demo_env (refresh_payload demo_env (p_Sub demo_payload) ''phone'' ''s1''
      ''f1'' (now_at demo_env (clock ?w)) jr) ''R'' = Ok r"
    using IssueTokenPair_Ok [OF i] by auto
  have "r \<noteq> demo_refresh"
  proof
    assume "r = demo_refresh"
    then have "verify demo_env r ''R'' demo_world = (Ok demo_payload, tick demo_world)"
      by (simp add: demo_verify)
    from verify_signed [OF demo_json_inverse r this]
    have "p_Iat demo_payload = p_Iat (refresh_payload demo_env (p_Sub demo_payload) ''phone'' ''s1''
      ''f1'' (now_at demo_env (clock ?w)) jr)" by simp
    then show False
      by (simp add: refresh_payload_def tick_def demo_session_world_def unix_of_def second_def)
  qed
  then have "hashRefreshToken demo_env r \<noteq> hashRefreshToken demo_env demo_refresh"
    by (simp add: hashRefreshToken_def hex.enc_inject)
  moreover have v: "verify demo_env demo_refresh (RefreshTokenSecret (cfg demo_env)) demo_session_world
      = (Ok demo_payload, ?w)"
    by (simp add: demo_verify demo_session_world_def)
  moreover have "s_Status demo_session = SessionStatusActive"
      "s_RefreshToken demo_session = hashRefreshToken demo_env demo_refresh"
    by (simp_all add: demo_session_def)
  moreover have "clock ?w = 2" by (simp add: tick_def demo_session_world_def)
  ultimately show ?thesis
    using Rotate_matching [OF v, of "''phone''" demo_session a r] i
    by (simp add: demo_session_get)
qed

theorem rotation_replay_witness:
  "\<exists>a r w' w''. RotateRefreshToken demo_env demo_refresh ''phone'' demo_session_world = (Ok (a, r), w')
    \<and> RotateRefreshToken demo_env demo_refresh ''phone'' w' = (Err (TokenErr ErrFamilyCompromised), w'')"
proof -
  obtain a r w' where 1: "RotateRefreshToken demo_env demo_refresh ''phone'' demo_session_world = (Ok (a, r), w')"
    "hashRefreshToken demo_env r \<noteq> hashRefreshToken demo_env demo_refresh" "clock w' = 4"
    using demo_rotation by blast
  have "verify demo_env demo_refresh (RefreshTokenSecret (cfg demo_env)) w' = (Ok demo_payload, tick w')"
    using 1(3) by (simp add: demo_verify)
  from rotation_replay_revokes_family [OF demo_session_wf 1(1,2) this] 1(1) show ?thesis by blast
qed

theorem sign_verify_witness:
  "json_faithful demo_env demo_payload \<and>
   (\<exists>t. sign demo_env demo_payload ''K'' = Ok t \<and>
        verify demo_env t ''K'' demo_world = (Ok demo_payload, tick demo_world))"
  using sign_verify_roundtrip [OF demo_json, of demo_payload "''K''" demo_world] demo_json
  by (simp add: unix_of_def second_def)


end
