(* ===== verification/Biometric.thy ===== *)
theory Biometric
  imports Token
begin

text \<open>
  \<^verbatim>\<open>internal/service/biometric.go\<close>: one-time challenges, enrollment, biometric
  authentication and step-up. The theory shows that a challenge is consumed at most once,
  what a successful authentication has checked, and exactly which client timestamps the
  freshness check lets through.
\<close>

definition MaxTimestampDrift :: int where
  "MaxTimestampDrift = 90 * second"

section \<open>Requests\<close>

record ChallengeRequest =
  cq_UserID :: string
  cq_DeviceID :: string
  cq_Action :: ChallengeAction

record ChallengeResponse =
  cr_ChallengeID :: string
  cr_Nonce :: string
  cr_ExpiresAt :: int
  cr_HMAC :: string

record EnrollRequest =
  er_UserID :: string
  er_DeviceID :: string
  er_ChallengeID :: string
  er_PublicKeyPEM :: string
  er_KeyID :: string
  er_KeyAlgo :: string
  er_Signature :: string
  er_Timestamp :: int
  er_BiometricType :: BiometricType
  er_AttestationData :: string
  er_IsRooted :: bool
  er_IsJailbroken :: bool

record AuthenticateRequest =
  aq_UserID :: string
  aq_DeviceID :: string
  aq_ChallengeID :: string
  aq_Nonce :: string
  aq_Signature :: string
  aq_Timestamp :: int
  aq_IsRooted :: bool
  aq_IsJailbroken :: bool

record AuthenticateResult =
  ar_UserID :: string
  ar_DeviceID :: string
  ar_SessionID :: string

record StepUpRequest =
  sq_UserID :: string
  sq_DeviceID :: string
  sq_SessionID :: string
  sq_ChallengeID :: string
  sq_Nonce :: string
  sq_Signature :: string
  sq_Timestamp :: int
  sq_IsRooted :: bool
  sq_IsJailbroken :: bool


section \<open>Challenges\<close>

definition GetChallenge :: "env \<Rightarrow> ChallengeRequest \<Rightarrow> ChallengeResponse svc" where
  "GetChallenge E req =
     go_try (RandomBase64URL E 32) (\<lambda>e. go_fail (Wrapped ''generate nonce: '' e '''')) (\<lambda>nonce.
     go_try (RandomHex E 16) (\<lambda>e. go_fail (Wrapped ''generate challenge ID: '' e '''')) (\<lambda>challengeID.
     go_bind (time_Now E) (\<lambda>now.
     let expiry = now + ChallengeTTL (cfg E);
         challengeHMAC = HMACChallenge E nonce (cq_DeviceID req) (cq_Action req) expiry
     in go_bind (time_Now E) (\<lambda>created.
        go_try (challenge_Store
            \<lparr>c_ID = challengeID, c_Nonce = nonce, c_UserID = cq_UserID req,
             c_DeviceID = cq_DeviceID req, c_Action = cq_Action req, c_HMAC = challengeHMAC,
             c_ExpiresAt = expiry, c_UsedAt = None, c_CreatedAt = created\<rparr>)
          (\<lambda>e. go_fail (Wrapped ''store challenge: '' e '''')) (\<lambda>_.
        go_return
          \<lparr>cr_ChallengeID = challengeID, cr_Nonce = nonce, cr_ExpiresAt = expiry,
           cr_HMAC = challengeHMAC\<rparr>)))))"

definition consumeChallenge :: "env \<Rightarrow> string \<Rightarrow> string \<Rightarrow> ChallengeAction \<Rightarrow> unit svc" where
  "consumeChallenge E challengeID deviceID expectedAction =
     go_try (challenge_Get challengeID) (\<lambda>_. go_fail (BiometricErr ErrChallengeInvalid)) (\<lambda>found.
       case found of
         None \<Rightarrow> go_fail (BiometricErr ErrChallengeInvalid)
       | Some challenge \<Rightarrow>
           if c_UsedAt challenge \<noteq> None then go_fail (BiometricErr ErrChallengeUsed)
           else go_bind (time_Now E) (\<lambda>now1.
             if now1 > c_ExpiresAt challenge then go_fail (BiometricErr ErrChallengeExpired)
             else if c_DeviceID challenge \<noteq> deviceID \<or> c_Action challenge \<noteq> expectedAction
             then go_fail (BiometricErr ErrChallengeInvalid)
             else if \<not> VerifyHMACChallenge E (c_Nonce challenge) (c_DeviceID challenge)
                         (c_Action challenge) (c_ExpiresAt challenge) (c_HMAC challenge)
             then go_fail (BiometricErr ErrChallengeInvalid)
             else go_bind (time_Now E) (\<lambda>now2.
               challenge_Update (challenge\<lparr>c_UsedAt := Some now2\<rparr>))))"

definition checkTimestampDrift :: "env \<Rightarrow> int \<Rightarrow> unit svc" where
  "checkTimestampDrift E ts =
     (let clientTime = time_Unix ts
      in go_bind (time_Now E) (\<lambda>now.
         let drift = time_Sub now clientTime;
             drift = (if drift < 0 then duration_neg drift else drift)
         in if drift > MaxTimestampDrift then go_fail (BiometricErr ErrTimestampDrift)
            else go_return ()))"


section \<open>Enrollment\<close>

definition Enroll :: "env \<Rightarrow> EnrollRequest \<Rightarrow> unit svc" where
  "Enroll E req =
     (if er_IsRooted req \<or> er_IsJailbroken req then
        go_ignore (audit_Log E (zero_AuditLog\<lparr>a_UserID := er_UserID req,
                     a_DeviceID := er_DeviceID req, a_Action := AuditActionRootedDevice,
                     a_Result := AuditResultBlocked,
                     a_Details := [(''rooted'', DBool (er_IsRooted req)),
                                   (''jailbroken'', DBool (er_IsJailbroken req))]\<rparr>))
          (go_fail (BiometricErr ErrRootedDevice))
      else
        go_try (consumeChallenge E (er_ChallengeID req) (er_DeviceID req) ChallengeActionEnroll)
          (\<lambda>e. go_fail (Wrapped ''challenge validation: '' e '''')) (\<lambda>_.
        go_bind (checkTimestampDrift E (er_Timestamp req)) (\<lambda>_.
        go_try (go_lift (ValidatePublicKeyFormat E (er_PublicKeyPEM req) (er_KeyAlgo req)))
          (\<lambda>e. go_fail (Wrapped ''invalid public key: '' e '''')) (\<lambda>_.
        let payload = BuildSignedPayload (er_ChallengeID req) (er_DeviceID req)
                        ChallengeActionEnroll (er_Timestamp req)
        in go_try (go_lift (VerifySignatureForAlgo E (er_KeyAlgo req) (er_PublicKeyPEM req)
                              payload (er_Signature req)))
          (\<lambda>err. go_ignore (audit_Log E (zero_AuditLog\<lparr>a_UserID := er_UserID req,
                    a_DeviceID := er_DeviceID req, a_Action := AuditActionBiometricFailed,
                    a_Result := AuditResultFailure,
                    a_Details := [(''stage'', DString ''enroll''),
                                  (''error'', DString (error_text err))]\<rparr>))
             (go_fail (BiometricErr ErrSignatureInvalid))) (\<lambda>_.
        go_try (EnableBiometric E (er_DeviceID req) (er_UserID req)
                  \<lparr>b_PublicKey = er_PublicKeyPEM req, b_KeyID = er_KeyID req,
                   b_KeyAlgo = er_KeyAlgo req, b_BiometricType = er_BiometricType req,
                   b_AttestationData = er_AttestationData req, b_IsRooted = er_IsRooted req,
                   b_IsJailbroken = er_IsJailbroken req\<rparr>)
          (\<lambda>e. go_fail (Wrapped ''enable biometric: '' e '''')) (\<lambda>_.
        go_ignore (audit_Log E (zero_AuditLog\<lparr>a_UserID := er_UserID req,
                     a_DeviceID := er_DeviceID req, a_Action := AuditActionBiometricEnroll,
                     a_Result := AuditResultSuccess,
                     a_Details := [(''algo'', DString (er_KeyAlgo req)),
                                   (''biometric_type'', DString (er_BiometricType req))]\<rparr>))
          (go_return ())))))))"


section \<open>Authentication and step-up\<close>

text \<open>The second half of \<^verbatim>\<open>Authenticate\<close>, once the challenge is spent.\<close>

definition authenticate_signed ::
  "env \<Rightarrow> AuthenticateRequest \<Rightarrow> Device \<Rightarrow> AuthenticateResult svc" where
  "authenticate_signed E req device =
     go_try (checkTimestampDrift E (aq_Timestamp req))
       (\<lambda>err. go_ignore (audit_Log E (zero_AuditLog\<lparr>a_UserID := aq_UserID req,
                 a_DeviceID := aq_DeviceID req, a_Action := AuditActionReplayDetected,
                 a_Result := AuditResultBlocked,
                 a_Details := [(''timestamp'', DInt (aq_Timestamp req))]\<rparr>))
          (go_fail err)) (\<lambda>_.
     let payload = BuildSignedPayload (aq_Nonce req) (aq_DeviceID req)
                     ChallengeActionAuthenticate (aq_Timestamp req)
     in go_try (go_lift (VerifySignatureForAlgo E (SignatureAlgo (cfg E))
                           (d_PublicKey device) payload (aq_Signature req)))
       (\<lambda>err. go_ignore (audit_Log E (zero_AuditLog\<lparr>a_UserID := aq_UserID req,
                 a_DeviceID := aq_DeviceID req, a_Action := AuditActionBiometricFailed,
                 a_Result := AuditResultFailure,
                 a_Details := [(''error'', DString (error_text err))]\<rparr>))
          (go_fail (BiometricErr ErrSignatureInvalid))) (\<lambda>_.
     go_ignore (UpdateLastSeen E (aq_DeviceID req))
     (go_ignore (audit_Log E (zero_AuditLog\<lparr>a_UserID := aq_UserID req,
                   a_DeviceID := aq_DeviceID req, a_Action := AuditActionBiometricAuth,
                   a_Result := AuditResultSuccess\<rparr>))
     (go_return \<lparr>ar_UserID = aq_UserID req, ar_DeviceID = aq_DeviceID req,
                  ar_SessionID = []\<rparr>))))"

definition Authenticate :: "env \<Rightarrow> AuthenticateRequest \<Rightarrow> AuthenticateResult svc" where
  "Authenticate E req =
     (if aq_IsRooted req \<or> aq_IsJailbroken req then
        go_ignore (audit_Log E (zero_AuditLog\<lparr>a_UserID := aq_UserID req,
                     a_DeviceID := aq_DeviceID req, a_Action := AuditActionRootedDevice,
                     a_Result := AuditResultBlocked\<rparr>))
          (go_fail (BiometricErr ErrRootedDevice))
      else
        go_try (GetDevice (aq_DeviceID req)) (\<lambda>_. go_fail (BiometricErr ErrDeviceNotFound)) (\<lambda>found.
        case found of
          None \<Rightarrow> go_fail (BiometricErr ErrDeviceNotFound)
        | Some device \<Rightarrow>
            if d_UserID device \<noteq> aq_UserID req then go_fail (BiometricErr ErrDeviceNotFound)
            else if d_Status device \<noteq> DeviceStatusActive
            then go_fail (ErrorString (''device '' @ d_Status device))
            else if \<not> d_BiometricEnabled device \<or> d_PublicKey device = []
            then go_fail (BiometricErr ErrBiometricDisabled)
            else
              go_try (consumeChallenge E (aq_ChallengeID req) (aq_DeviceID req)
                        ChallengeActionAuthenticate)
                (\<lambda>e. go_fail (Wrapped ''challenge: '' e ''''))
                (\<lambda>_. authenticate_signed E req device)))"

definition StepUp :: "env \<Rightarrow> StepUpRequest \<Rightarrow> TokenClaims svc" where
  "StepUp E req =
     go_try (Authenticate E
         \<lparr>aq_UserID = sq_UserID req, aq_DeviceID = sq_DeviceID req,
          aq_ChallengeID = sq_ChallengeID req, aq_Nonce = sq_Nonce req,
          aq_Signature = sq_Signature req, aq_Timestamp = sq_Timestamp req,
          aq_IsRooted = sq_IsRooted req, aq_IsJailbroken = sq_IsJailbroken req\<rparr>)
       (\<lambda>err. go_ignore (audit_Log E (zero_AuditLog\<lparr>a_UserID := sq_UserID req,
                 a_DeviceID := sq_DeviceID req, a_SessionID := sq_SessionID req,
                 a_Action := AuditActionStepUpFailed, a_Result := AuditResultFailure,
                 a_Details := [(''error'', DString (error_text err))]\<rparr>))
          (go_fail (Wrapped ''step-up biometric failed: '' err ''''))) (\<lambda>authResult.
     go_ignore (audit_Log E (zero_AuditLog\<lparr>a_UserID := ar_UserID authResult,
                  a_DeviceID := ar_DeviceID authResult, a_SessionID := sq_SessionID req,
                  a_Action := AuditActionStepUpGranted, a_Result := AuditResultSuccess\<rparr>))
       (go_return \<lparr>t_UserID = ar_UserID authResult, t_DeviceID = ar_DeviceID authResult,
                    t_SessionID = sq_SessionID req, t_TokenType = [], t_StepUp = False,
                    t_StepUpExp = None\<rparr>))"


section \<open>Consuming a challenge\<close>

lemma consumeChallenge_Ok_iff:
  "consumeChallenge E cid dev act w = (Ok (), w') \<longleftrightarrow>
   (\<exists>c. repo_get (challenges w) cid = Some c \<and> c_UsedAt c = None
      \<and> now_at E (clock w) \<le> c_ExpiresAt c \<and> c_DeviceID c = dev \<and> c_Action c = act
      \<and> VerifyHMACChallenge E (c_Nonce c) dev act (c_ExpiresAt c) (c_HMAC c)
      \<and> w' = w\<lparr>clock := Suc (Suc (clock w)),
               challenges := repo_put (c_ID c) (c\<lparr>c_UsedAt := Some (now_at E (Suc (clock w)))\<rparr>)
                               (challenges w)\<rparr>)"
  by (auto simp: consumeChallenge_def not_less split: option.splits if_splits)

lemma consumeChallenge_refused:
  assumes "consumeChallenge E cid dev act w = (r, w')" and "r \<noteq> Ok ()"
  shows "challenges w' = challenges w"
  using assms by (auto simp: consumeChallenge_def split: option.splits if_splits)

lemma consumeChallenge_no_panic: "fst (consumeChallenge E cid dev act w) \<noteq> Panic"
  by (auto simp: consumeChallenge_def split: option.splits)

definition spent_challenge :: "string \<Rightarrow> world \<Rightarrow> bool" where
  "spent_challenge cid w \<longleftrightarrow> (case repo_get (challenges w) cid of None \<Rightarrow> False
                               | Some c \<Rightarrow> c_UsedAt c \<noteq> None)"

definition use_challenge :: "env \<Rightarrow> string \<Rightarrow> string \<times> ChallengeAction \<Rightarrow> world \<Rightarrow> bool \<times> world" where
  "use_challenge E cid da w =
     (case consumeChallenge E cid (fst da) (snd da) w of (r, w') \<Rightarrow> (r = Ok (), w'))"

lemma keeps_wf_consume [keeps_rules]: "keeps world_wf (consumeChallenge E cid dev act)"
  unfolding consumeChallenge_def
  by (intro keeps_rules) (simp_all add: world_wf_puts)

lemma spent_after_consume:
  assumes "world_wf w" and "consumeChallenge E cid dev act w = (Ok (), w')"
  shows "spent_challenge cid w'"
  using assms by (auto simp: consumeChallenge_Ok_iff spent_challenge_def dest: world_wf_challenge_key)

lemma spent_not_consumed:
  "spent_challenge cid w \<Longrightarrow> fst (consumeChallenge E cid dev act w) = Err (BiometricErr ErrChallengeUsed)"
  by (auto simp: consumeChallenge_def spent_challenge_def split: option.splits)

lemma spent_challenge_cong: "challenges w = challenges w' \<Longrightarrow> spent_challenge cid w = spent_challenge cid w'"
  by (simp add: spent_challenge_def)

lemma keeps_spent_consume [keeps_rules]:
  "keeps (spent_challenge cid) (consumeChallenge E cid' dev act)"
proof (rule keepsI)
  fix w assume spent: "spent_challenge cid w"
  obtain r w' where c: "consumeChallenge E cid' dev act w = (r, w')"
    by (cases "consumeChallenge E cid' dev act w")
  have "spent_challenge cid w'"
  proof (cases "r = Ok ()")
    case True
    with c have "consumeChallenge E cid' dev act w = (Ok (), w')" by simp
    with spent show ?thesis
      by (auto simp: consumeChallenge_Ok_iff spent_challenge_def split: option.splits)
  next
    case False
    from consumeChallenge_refused [OF c False] spent show ?thesis
      using spent_challenge_cong by blast
  qed
  with c show "spent_challenge cid (snd (consumeChallenge E cid' dev act w))" by simp
qed

lemma snd_use_challenge: "snd (use_challenge E k i w) = snd (consumeChallenge E k (fst i) (snd i) w)"
  by (simp add: use_challenge_def split: prod.splits)

interpretation challenge_once: single_use "use_challenge E" spent_challenge world_wf for E
proof
  fix w :: world and k :: string and i w'
  assume wf: "world_wf w"
  show "use_challenge E k i w = (True, w') \<Longrightarrow> spent_challenge k w'"
    using spent_after_consume [OF wf] by (auto simp: use_challenge_def split: prod.splits)
  show "\<not> fst (use_challenge E k i w)" if "spent_challenge k w"
    using spent_not_consumed [OF that, of E "fst i" "snd i"]
    by (auto simp: use_challenge_def split: prod.splits)
  show "spent_challenge k (snd (use_challenge E k' i w))" if "spent_challenge k w" for k'
    using keeps_spent_consume [of k E k' "fst i" "snd i"] that
    by (simp add: keeps_def snd_use_challenge)
  show "world_wf (snd (use_challenge E k i w))"
    using keeps_wf_consume [of E k "fst i" "snd i"] wf
    by (simp add: keeps_def snd_use_challenge)
qed


section \<open>Timestamp freshness\<close>

lemma checkTimestampDrift_world:
  "snd (checkTimestampDrift E ts w) = w\<lparr>clock := Suc (clock w)\<rparr>"
  by (simp add: checkTimestampDrift_def Let_def)

lemma checkTimestampDrift_no_panic: "fst (checkTimestampDrift E ts w) \<noteq> Panic"
  by (simp add: checkTimestampDrift_def Let_def)

text \<open>
  The check compares the absolute difference, except where the difference is at or below
  the least duration: there it saturates, its negation is still negative, and it passes.
\<close>

lemma checkTimestampDrift_Ok:
  assumes "- (2 ^ 62) \<le> ts" and "ts < 2 ^ 62"
  shows "checkTimestampDrift E ts w = (Ok (), w\<lparr>clock := Suc (clock w)\<rparr>) \<longleftrightarrow>
    \<bar>now_at E (clock w) - ts * second\<bar> \<le> MaxTimestampDrift
    \<or> now_at E (clock w) - ts * second \<le> min_duration"
proof -
  define now where "now = now_at E (clock w)"
  have unix: "time_Unix ts = ts * second"
    using assms by (simp add: time_Unix_def wrap64_id unix_to_internal_def)
  define drift where "drift = time_Sub now (ts * second)"
  have "checkTimestampDrift E ts w = (Ok (), w\<lparr>clock := Suc (clock w)\<rparr>) \<longleftrightarrow>
      (if drift < 0 then duration_neg drift else drift) \<le> MaxTimestampDrift"
    by (auto simp: checkTimestampDrift_def unix drift_def now_def Let_def not_less)
  also have "\<dots> \<longleftrightarrow> \<bar>now - ts * second\<bar> \<le> MaxTimestampDrift \<or> now - ts * second \<le> min_duration"
  proof (cases "now - ts * second \<le> min_duration")
    case True
    then have "drift = min_duration"
      by (auto simp: drift_def time_Sub_def max_duration_def min_duration_def)
    with True duration_neg_min show ?thesis
      by (simp add: min_duration_def MaxTimestampDrift_def second_def)
  next
    case False
    then show ?thesis
      using time_Sub_range [of now "ts * second"]
      by (auto simp: drift_def time_Sub_def duration_neg_id max_duration_def min_duration_def
          MaxTimestampDrift_def second_def)
  qed
  finally show ?thesis by (simp add: now_def)
qed


section \<open>What the operations touch\<close>

text \<open>
  \<open>service_stable I\<close>: \<open>I\<close> survives every kind of write the biometric operations make
  outside the challenge repository.
\<close>

lemma keeps_checkTimestampDrift [keeps_rules]:
  "(\<And>w n. I w \<Longrightarrow> I (w\<lparr>clock := n\<rparr>)) \<Longrightarrow> keeps I (checkTimestampDrift E ts)"
  unfolding checkTimestampDrift_def by (intro keeps_rules)

lemma device_stable_clock: "device_stable I \<Longrightarrow> I w \<Longrightarrow> I (w\<lparr>clock := n\<rparr>)"
  by (simp add: device_stable_def)

lemma device_stable_randoms: "device_stable I \<Longrightarrow> I w \<Longrightarrow> I (w\<lparr>randoms := n\<rparr>)"
  by (simp add: device_stable_def)

lemma device_stable_audits: "device_stable I \<Longrightarrow> I w \<Longrightarrow> I (w\<lparr>audits := audits w @ [l]\<rparr>)"
  by (simp add: device_stable_def)

lemmas device_stable_intros = device_stable_clock device_stable_randoms device_stable_audits

lemma keeps_Authenticate:
  assumes "device_stable I" and "\<And>cid dev act. keeps I (consumeChallenge E cid dev act)"
  shows "keeps I (Authenticate E req)"
  unfolding Authenticate_def authenticate_signed_def using assms
  by (intro keeps_rules) (blast intro: device_stable_intros)+

lemma keeps_StepUp:
  assumes "device_stable I" and "\<And>cid dev act. keeps I (consumeChallenge E cid dev act)"
  shows "keeps I (StepUp E req)"
  unfolding StepUp_def using assms
  by (intro keeps_rules keeps_Authenticate) (blast intro: device_stable_intros)+

lemma keeps_Enroll:
  assumes "device_stable I" and "\<And>cid dev act. keeps I (consumeChallenge E cid dev act)"
  shows "keeps I (Enroll E req)"
  unfolding Enroll_def using assms
  by (intro keeps_rules) (blast intro: device_stable_intros)+

lemma device_stable_spent [simp]: "device_stable (spent_challenge cid)"
  by (simp add: device_stable_def spent_challenge_def)

lemma keeps_consume_frame [keeps_rules]:
  "keeps (\<lambda>w. users w = x) (consumeChallenge E cid dev act)"
  "keeps (\<lambda>w. sessions w = y) (consumeChallenge E cid dev act)"
  unfolding consumeChallenge_def by ((intro keeps_rules); simp)+

lemma keeps_wf_GetChallenge [keeps_rules]: "keeps world_wf (GetChallenge E req)"
  unfolding GetChallenge_def by (intro keeps_rules) (simp_all add: world_wf_puts)

lemma UpdateLastSeen_present:
  "repo_get (devices w) i = Some d \<Longrightarrow>
   UpdateLastSeen E i w = (Ok (), w\<lparr>clock := Suc (clock w),
     devices := repo_put (d_ID d) (d\<lparr>d_LastSeenAt := now_at E (clock w)\<rparr>) (devices w)\<rparr>)"
  by (simp add: UpdateLastSeen_def)


section \<open>What a successful authentication has checked\<close>

definition request_payload :: "AuthenticateRequest \<Rightarrow> string" where
  "request_payload req = BuildSignedPayload (aq_Nonce req) (aq_DeviceID req)
     ChallengeActionAuthenticate (aq_Timestamp req)"

definition device_ready :: "AuthenticateRequest \<Rightarrow> Device \<Rightarrow> bool" where
  "device_ready req d \<longleftrightarrow> d_UserID d = aq_UserID req \<and> d_Status d = DeviceStatusActive
     \<and> d_BiometricEnabled d \<and> d_PublicKey d \<noteq> []"

lemma consume_frame:
  assumes "consumeChallenge E cid dev act w = (Ok (), w')"
  shows "devices w' = devices w" "users w' = users w" "sessions w' = sessions w"
    "audits w' = audits w" "clock w' = Suc (Suc (clock w))" "randoms w' = randoms w"
  using assms by (auto simp: consumeChallenge_Ok_iff)

lemma authenticate_signed_Ok:
  assumes res: "authenticate_signed E req d w = (Ok res, w')"
    and dev: "repo_get (devices w) (aq_DeviceID req) = Some d'"
  shows "checkTimestampDrift E (aq_Timestamp req) w = (Ok (), tick w)"
    and "VerifySignatureForAlgo E (SignatureAlgo (cfg E)) (d_PublicKey d) (request_payload req)
           (aq_Signature req) = Ok ()"
    and "res = \<lparr>ar_UserID = aq_UserID req, ar_DeviceID = aq_DeviceID req, ar_SessionID = []\<rparr>"
    and "challenges w' = challenges w" "sessions w' = sessions w" "users w' = users w"
proof -
  from res have "fst (checkTimestampDrift E (aq_Timestamp req) w) = Ok ()"
    by (auto simp: authenticate_signed_def go_ignore_audit elim!: go_try_OkE)
  then show t: "checkTimestampDrift E (aq_Timestamp req) w = (Ok (), tick w)"
    using checkTimestampDrift_world [of E "aq_Timestamp req" w]
    by (metis prod.collapse tick_def)
  show v: "VerifySignatureForAlgo E (SignatureAlgo (cfg E)) (d_PublicKey d) (request_payload req)
             (aq_Signature req) = Ok ()"
    using res t
    by (auto simp: authenticate_signed_def go_ignore_audit request_payload_def elim!: go_try_OkE)
  have "repo_get (devices (tick w)) (aq_DeviceID req) = Some d'"
    using dev by (simp add: tick_def)
  note UpdateLastSeen_present [OF this, of E]
  with res t v
  show "res = \<lparr>ar_UserID = aq_UserID req, ar_DeviceID = aq_DeviceID req, ar_SessionID = []\<rparr>"
    and "challenges w' = challenges w" "sessions w' = sessions w" "users w' = users w"
    by (auto simp: authenticate_signed_def go_ignore_audit request_payload_def tick_def)
qed

lemma authenticate_signed_succeeds:
  assumes "repo_get (devices w) (aq_DeviceID req) = Some d'"
    and "checkTimestampDrift E (aq_Timestamp req) w = (Ok (), tick w)"
    and "VerifySignatureForAlgo E (SignatureAlgo (cfg E)) (d_PublicKey d) (request_payload req)
           (aq_Signature req) = Ok ()"
  shows "fst (authenticate_signed E req d w) =
    Ok \<lparr>ar_UserID = aq_UserID req, ar_DeviceID = aq_DeviceID req, ar_SessionID = []\<rparr>"
proof -
  have "repo_get (devices (tick w)) (aq_DeviceID req) = Some d'"
    using assms(1) by (simp add: tick_def)
  from UpdateLastSeen_present [OF this, of E] assms(2,3) show ?thesis
    by (simp add: authenticate_signed_def go_ignore_audit request_payload_def)
qed

lemma Authenticate_Ok:
  assumes "Authenticate E req w = (Ok res, w')"
  obtains d w1 where
    "\<not> aq_IsRooted req" "\<not> aq_IsJailbroken req"
    "repo_get (devices w) (aq_DeviceID req) = Some d" "device_ready req d"
    "consumeChallenge E (aq_ChallengeID req) (aq_DeviceID req) ChallengeActionAuthenticate w
       = (Ok (), w1)"
    "authenticate_signed E req d w1 = (Ok res, w')"
  using assms
  by (auto simp: Authenticate_def go_ignore_audit device_ready_def
      split: if_splits option.splits elim!: go_try_OkE)

lemma Authenticate_eq:
  assumes "\<not> aq_IsRooted req" "\<not> aq_IsJailbroken req"
    and "repo_get (devices w) (aq_DeviceID req) = Some d" "device_ready req d"
    and "consumeChallenge E (aq_ChallengeID req) (aq_DeviceID req) ChallengeActionAuthenticate w
       = (Ok (), w1)"
  shows "Authenticate E req w = authenticate_signed E req d w1"
  using assms by (simp add: Authenticate_def device_ready_def)


section \<open>What a successful enrollment has checked\<close>

lemma EnableBiometric_Ok:
  assumes "EnableBiometric E i u ps w = (Ok (), w')"
  shows "\<exists>d d'. repo_get (devices w) i = Some d \<and> d_UserID d = u
     \<and> devices w' = repo_put (d_ID d) d' (devices w) \<and> d_ID d' = d_ID d \<and> d_UserID d' = u
     \<and> d_BiometricEnabled d' \<and> d_PublicKey d' = b_PublicKey ps \<and> d_KeyID d' = b_KeyID ps
     \<and> d_Status d' = d_Status d"
  using assms by (auto simp: EnableBiometric_def Let_def split: option.splits if_splits)

definition enroll_payload :: "EnrollRequest \<Rightarrow> string" where
  "enroll_payload req = BuildSignedPayload (er_ChallengeID req) (er_DeviceID req)
     ChallengeActionEnroll (er_Timestamp req)"

lemma Enroll_Ok:
  assumes "Enroll E req w = (Ok (), w')"
  obtains w1 w2 where "\<not> er_IsRooted req" "\<not> er_IsJailbroken req"
    "consumeChallenge E (er_ChallengeID req) (er_DeviceID req) ChallengeActionEnroll w = (Ok (), w1)"
    "checkTimestampDrift E (er_Timestamp req) w1 = (Ok (), tick w1)"
    "ValidatePublicKeyFormat E (er_PublicKeyPEM req) (er_KeyAlgo req) = Ok ()"
    "VerifySignatureForAlgo E (er_KeyAlgo req) (er_PublicKeyPEM req) (enroll_payload req)
       (er_Signature req) = Ok ()"
    "EnableBiometric E (er_DeviceID req) (er_UserID req)
       \<lparr>b_PublicKey = er_PublicKeyPEM req, b_KeyID = er_KeyID req, b_KeyAlgo = er_KeyAlgo req,
        b_BiometricType = er_BiometricType req, b_AttestationData = er_AttestationData req,
        b_IsRooted = er_IsRooted req, b_IsJailbroken = er_IsJailbroken req\<rparr> (tick w1) = (Ok (), w2)"
    "w' = snd (audit_Log E (zero_AuditLog\<lparr>a_UserID := er_UserID req,
       a_DeviceID := er_DeviceID req, a_Action := AuditActionBiometricEnroll,
       a_Result := AuditResultSuccess, a_Details := [(''algo'', DString (er_KeyAlgo req)),
         (''biometric_type'', DString (er_BiometricType req))]\<rparr>) w2)"
proof -
  have r: "\<not> er_IsRooted req" "\<not> er_IsJailbroken req"
    using assms by (auto simp: Enroll_def go_ignore_audit split: if_splits)
  from assms r obtain w1 where
    w1: "consumeChallenge E (er_ChallengeID req) (er_DeviceID req) ChallengeActionEnroll w = (Ok (), w1)"
    by (auto simp: Enroll_def elim!: go_try_OkE)
  from assms r w1 have "fst (checkTimestampDrift E (er_Timestamp req) w1) = Ok ()"
    by (auto simp: Enroll_def elim!: go_bind_OkE)
  then have t: "checkTimestampDrift E (er_Timestamp req) w1 = (Ok (), tick w1)"
    using checkTimestampDrift_world [of E "er_Timestamp req" w1] by (metis prod.collapse tick_def)
  from assms r w1 t have f: "ValidatePublicKeyFormat E (er_PublicKeyPEM req) (er_KeyAlgo req) = Ok ()"
    by (auto simp: Enroll_def elim!: go_try_OkE)
  from assms r w1 t f have v: "VerifySignatureForAlgo E (er_KeyAlgo req) (er_PublicKeyPEM req)
      (enroll_payload req) (er_Signature req) = Ok ()"
    by (auto simp: Enroll_def enroll_payload_def Let_def go_ignore_audit elim!: go_try_OkE)
  let ?ps = "\<lparr>b_PublicKey = er_PublicKeyPEM req, b_KeyID = er_KeyID req, b_KeyAlgo = er_KeyAlgo req,
        b_BiometricType = er_BiometricType req, b_AttestationData = er_AttestationData req,
        b_IsRooted = er_IsRooted req, b_IsJailbroken = er_IsJailbroken req\<rparr>"
  from assms r w1 t f v obtain w2 where
    e: "EnableBiometric E (er_DeviceID req) (er_UserID req) ?ps (tick w1) = (Ok (), w2)"
    by (auto simp: Enroll_def enroll_payload_def Let_def elim!: go_try_OkE)
  show ?thesis
    using assms r w1 t f v e that [OF r w1 t f v e]
    by (auto simp: Enroll_def enroll_payload_def Let_def go_ignore_audit)
qed


section \<open>Properties\<close>

lemma checkTimestampDrift_clock:
  "clock v = clock w \<Longrightarrow> fst (checkTimestampDrift E ts v) = fst (checkTimestampDrift E ts w)"
  by (simp add: checkTimestampDrift_def Let_def)

text \<open>
  C2: A challenge is consumed at most once. Whatever attempts are made to use challenges, by
  whichever devices, for whichever actions and in whichever order, at most one attempt on a
  given challenge identifier succeeds.
\<close>

theorem challenge_single_use:
  assumes "world_wf w"
  shows "successes cid (attempts (use_challenge E) as w) \<le> 1"
  using assms by (rule challenge_once.at_most_once)

text \<open>
  C3: What a successful biometric authentication has checked. The client did not report a
  rooted or jailbroken device; the device exists, belongs to the user, is active and
  enrolled; the challenge was unused, unexpired, issued to this device for authentication and
  carries the server's seal; the timestamp passed the freshness check; the signature over
  nonce, device, action and timestamp verifies under the device's stored key. The challenge
  is spent afterwards and no session or user has changed.
\<close>

theorem authenticate_checks:
  assumes wf: "world_wf w" and ok: "Authenticate E req w = (Ok res, w')"
  shows "\<not> aq_IsRooted req \<and> \<not> aq_IsJailbroken req
    \<and> (\<exists>d c. repo_get (devices w) (aq_DeviceID req) = Some d \<and> d_UserID d = aq_UserID req
        \<and> d_Status d = DeviceStatusActive \<and> d_BiometricEnabled d \<and> d_PublicKey d \<noteq> []
        \<and> repo_get (challenges w) (aq_ChallengeID req) = Some c \<and> c_UsedAt c = None
        \<and> now_at E (clock w) \<le> c_ExpiresAt c \<and> c_DeviceID c = aq_DeviceID req
        \<and> c_Action c = ChallengeActionAuthenticate
        \<and> VerifyHMACChallenge E (c_Nonce c) (c_DeviceID c) (c_Action c) (c_ExpiresAt c) (c_HMAC c)
        \<and> VerifySignatureForAlgo E (SignatureAlgo (cfg E)) (d_PublicKey d)
             (BuildSignedPayload (aq_Nonce req) (aq_DeviceID req) ChallengeActionAuthenticate
                (aq_Timestamp req)) (aq_Signature req) = Ok ())
    \<and> fst (checkTimestampDrift E (aq_Timestamp req) (w\<lparr>clock := clock w + 2\<rparr>)) = Ok ()
    \<and> spent_challenge (aq_ChallengeID req) w' \<and> sessions w' = sessions w \<and> users w' = users w
    \<and> ar_UserID res = aq_UserID req \<and> ar_DeviceID res = aq_DeviceID req"
proof -
  from ok obtain d w1 where
    r: "\<not> aq_IsRooted req" "\<not> aq_IsJailbroken req"
    and d: "repo_get (devices w) (aq_DeviceID req) = Some d" "device_ready req d"
    and c: "consumeChallenge E (aq_ChallengeID req) (aq_DeviceID req) ChallengeActionAuthenticate w
       = (Ok (), w1)"
    and s: "authenticate_signed E req d w1 = (Ok res, w')"
    by (rule Authenticate_Ok)
  have d1: "repo_get (devices w1) (aq_DeviceID req) = Some d"
    using d(1) consume_frame [OF c] by simp
  note sig = authenticate_signed_Ok [OF s d1]
  have "spent_challenge (aq_ChallengeID req) w'"
    using spent_after_consume [OF wf c] spent_challenge_cong [OF sig(4)] by simp
  moreover have "fst (checkTimestampDrift E (aq_Timestamp req) (w\<lparr>clock := clock w + 2\<rparr>)) = Ok ()"
    using sig(1) consume_frame(5) [OF c] checkTimestampDrift_clock [of "w\<lparr>clock := clock w + 2\<rparr>" w1]
    by simp
  ultimately show ?thesis
    using r d c sig consume_frame [OF c]
    by (auto simp: consumeChallenge_Ok_iff device_ready_def request_payload_def)
qed

text \<open>
  Challenges round-trip. A challenge that was just issued is accepted, before its expiry,
  exactly for the device and the action it was issued for.
\<close>

lemma challenge_roundtrip:
  assumes "GetChallenge E req w = (Ok resp, w1)"
    and "now_at E (clock w1) \<le> cr_ExpiresAt resp"
  shows "(\<exists>w'. consumeChallenge E (cr_ChallengeID resp) dev act w1 = (Ok (), w')) \<longleftrightarrow>
         dev = cq_DeviceID req \<and> act = cq_Action req"
proof -
  from assms(1) obtain c where "repo_get (challenges w1) (cr_ChallengeID resp) = Some c"
    "c_UsedAt c = None" "c_ExpiresAt c = cr_ExpiresAt resp" "c_DeviceID c = cq_DeviceID req"
    "c_Action c = cq_Action req"
    "c_HMAC c = HMACChallenge E (c_Nonce c) (c_DeviceID c) (c_Action c) (c_ExpiresAt c)"
    unfolding GetChallenge_def
    by (elim go_try_OkE go_bind_OkE) (auto simp: Let_def elim!: go_bind_OkE)
  with assms(2) show ?thesis
    by (auto simp: consumeChallenge_Ok_iff seal_accepted)
qed




section \<open>The hypotheses hold together\<close>

definition demo_challenge :: "ChallengeAction \<Rightarrow> Challenge" where
  "demo_challenge act = \<lparr>c_ID = ''c1'', c_Nonce = ''n1'', c_UserID = ''user_001'', c_DeviceID = ''phone'',
     c_Action = act, c_HMAC = HMACChallenge demo_env ''n1'' ''phone'' act (100 * second),
     c_ExpiresAt = 100 * second, c_UsedAt = None, c_CreatedAt = 0\<rparr>"

definition demo_challenge_world :: "ChallengeAction \<Rightarrow> world" where
  "demo_challenge_world act = demo_device_world\<lparr>challenges := [(''c1'', demo_challenge act)]\<rparr>"

definition demo_signature :: string where
  "demo_signature = b64url_encode (replicate 64 CHR 0x01)"

definition demo_auth_request :: AuthenticateRequest where
  "demo_auth_request = \<lparr>aq_UserID = ''user_001'', aq_DeviceID = ''phone'', aq_ChallengeID = ''c1'',
     aq_Nonce = ''n1'', aq_Signature = demo_signature, aq_Timestamp = 3, aq_IsRooted = False,
     aq_IsJailbroken = False\<rparr>"

definition demo_enroll_request :: EnrollRequest where
  "demo_enroll_request = \<lparr>er_UserID = ''user_001'', er_DeviceID = ''phone'', er_ChallengeID = ''c1'',
     er_PublicKeyPEM = ''pem2'', er_KeyID = ''k'', er_KeyAlgo = ''ES256'',
     er_Signature = demo_signature, er_Timestamp = 3, er_BiometricType = BiometricFace,
     er_AttestationData = ''att'', er_IsRooted = False, er_IsJailbroken = False\<rparr>"

lemma demo_challenge_wf: "world_wf (demo_challenge_world act)"
  by (simp add: demo_challenge_world_def demo_device_world_def world_wf_def repo_wf_def
      NewUserRepository_def demo_device_def demo_challenge_def)

lemma demo_consume:
  "consumeChallenge demo_env ''c1'' ''phone'' act (demo_challenge_world act) =
     (Ok (), (demo_challenge_world act)\<lparr>clock := 3,
        challenges := repo_put ''c1'' ((demo_challenge act)\<lparr>c_UsedAt := Some (2 * second)\<rparr>)
          [(''c1'', demo_challenge act)]\<rparr>)"
proof -
  have "repo_get (challenges (demo_challenge_world act)) ''c1'' = Some (demo_challenge act)"
    by (simp add: demo_challenge_world_def repo_get_def)
  then show ?thesis
    unfolding consumeChallenge_Ok_iff
    by (intro exI [of _ "demo_challenge act"])
       (simp add: demo_challenge_def demo_challenge_world_def demo_device_world_def seal_accepted
          second_def)
qed

lemma demo_drift: "clock w = 3 \<Longrightarrow> checkTimestampDrift demo_env 3 w = (Ok (), tick w)"
  by (simp add: checkTimestampDrift_def time_Unix_def wrap64_id unix_to_internal_def time_Sub_def
      min_duration_def max_duration_def MaxTimestampDrift_def second_def tick_def)

lemma demo_signed_ok: "VerifySignatureForAlgo demo_env ''ES256'' key payload demo_signature = Ok ()"
  by (simp add: VerifySignatureForAlgo_def ParseECDSAPublicKey_def VerifyECDSASignature_def
      demo_signature_def b64url.dec_enc)

lemma demo_Authenticate:
  "\<exists>w'. Authenticate demo_env demo_auth_request (demo_challenge_world ChallengeActionAuthenticate) =
     (Ok \<lparr>ar_UserID = ''user_001'', ar_DeviceID = ''phone'', ar_SessionID = []\<rparr>, w')"
proof -
  let ?w = "demo_challenge_world ChallengeActionAuthenticate"
  obtain w1 where w1: "consumeChallenge demo_env ''c1'' ''phone'' ChallengeActionAuthenticate ?w = (Ok (), w1)"
    "clock w1 = 3" "devices w1 = devices ?w"
    using demo_consume [of ChallengeActionAuthenticate] by simp
  have d: "repo_get (devices ?w) ''phone'' = Some demo_device"
    by (simp add: demo_challenge_world_def demo_device_world_def repo_get_def)
  have "Authenticate demo_env demo_auth_request ?w = authenticate_signed demo_env demo_auth_request demo_device w1"
    by (rule Authenticate_eq)
       (simp_all add: demo_auth_request_def d w1 device_ready_def demo_device_def zero_Device_def)
  moreover have "fst (authenticate_signed demo_env demo_auth_request demo_device w1) =
      Ok \<lparr>ar_UserID = ''user_001'', ar_DeviceID = ''phone'', ar_SessionID = []\<rparr>"
    using authenticate_signed_succeeds [of w1 demo_auth_request demo_device demo_env demo_device]
      demo_drift [OF w1(2)] demo_signed_ok w1(3) d
    by (simp add: demo_auth_request_def)
  ultimately show ?thesis by (metis prod.collapse)
qed

theorem authenticate_checks_witness:
  "\<exists>res w'. Authenticate demo_env demo_auth_request (demo_challenge_world ChallengeActionAuthenticate)
       = (Ok res, w') \<and> spent_challenge ''c1'' w'"
proof -
  obtain w' where a: "Authenticate demo_env demo_auth_request (demo_challenge_world ChallengeActionAuthenticate)
      = (Ok \<lparr>ar_UserID = ''user_001'', ar_DeviceID = ''phone'', ar_SessionID = []\<rparr>, w')"
    using demo_Authenticate by blast
  from authenticate_checks [OF demo_challenge_wf a] a show ?thesis
    by (auto simp: demo_auth_request_def)
qed

theorem challenge_single_use_witness:
  "fst (use_challenge demo_env ''c1'' (''phone'', ''enroll'') (demo_challenge_world ''enroll''))
   \<and> successes ''c1'' (attempts (use_challenge demo_env)
        [(''c1'', (''phone'', ''enroll'')), (''c1'', (''phone'', ''enroll''))]
        (demo_challenge_world ''enroll'')) \<le> 1"
proof -
  have "fst (use_challenge demo_env ''c1'' (''phone'', ''enroll'') (demo_challenge_world ''enroll''))"
    using demo_consume [of "''enroll''"] by (simp add: use_challenge_def)
  with challenge_single_use [OF demo_challenge_wf] show ?thesis by blast
qed

lemma challenge_roundtrip_witness:
  "\<exists>resp w1. GetChallenge demo_env \<lparr>cq_UserID = ''u'', cq_DeviceID = ''phone'', cq_Action = ''enroll''\<rparr>
       demo_world = (Ok resp, w1)
     \<and> (\<exists>w'. consumeChallenge demo_env (cr_ChallengeID resp) ''phone'' ''enroll'' w1 = (Ok (), w'))"
proof -
  obtain resp w1 where g: "GetChallenge demo_env
      \<lparr>cq_UserID = ''u'', cq_DeviceID = ''phone'', cq_Action = ''enroll''\<rparr> demo_world = (Ok resp, w1)"
    and t: "now_at demo_env (clock w1) \<le> cr_ExpiresAt resp"
    by (simp add: GetChallenge_def Let_def minute_def second_def)
  from challenge_roundtrip [OF g t, of "''phone''" "''enroll''"] g show ?thesis by auto
qed


lemma demo_Enroll: "\<exists>w'. Enroll demo_env demo_enroll_request (demo_challenge_world ChallengeActionEnroll) = (Ok (), w')"
proof -
  let ?w = "demo_challenge_world ChallengeActionEnroll"
  obtain w1 where w1: "consumeChallenge demo_env ''c1'' ''phone'' ChallengeActionEnroll ?w = (Ok (), w1)"
    "clock w1 = 3" "devices w1 = devices ?w"
    using demo_consume [of ChallengeActionEnroll] by simp
  have d: "repo_get (devices (tick w1)) ''phone'' = Some demo_device"
    by (simp add: w1 tick_def demo_challenge_world_def demo_device_world_def repo_get_def)
  have "d_UserID demo_device = ''user_001''" by (simp add: demo_device_def)
  with d obtain w2 where "EnableBiometric demo_env ''phone'' ''user_001''
      \<lparr>b_PublicKey = ''pem2'', b_KeyID = ''k'', b_KeyAlgo = ''ES256'', b_BiometricType = BiometricFace,
       b_AttestationData = ''att'', b_IsRooted = False, b_IsJailbroken = False\<rparr> (tick w1) = (Ok (), w2)"
    by (simp add: EnableBiometric_def Let_def)
  moreover have "ValidatePublicKeyFormat demo_env ''pem2'' ''ES256'' = Ok ()"
    by (simp add: ValidatePublicKeyFormat_def ParseECDSAPublicKey_def)
  ultimately show ?thesis
    using w1 demo_drift [OF w1(2)] demo_signed_ok
    by (simp add: Enroll_def demo_enroll_request_def Let_def go_ignore_audit)
qed


end
