(* ===== verification/Auth.thy ===== *)
theory Auth
  imports Biometric
begin

text \<open>
  \<^verbatim>\<open>internal/service/auth.go\<close>: password login with lockout, the second factor, the
  exchange of a biometric proof for tokens, refresh, logout and payment authorisation.
  The counters \<^verbatim>\<open>FailedAttempts\<close> and \<^verbatim>\<open>UseCount\<close> move by one per request and are
  kept as unbounded integers.
\<close>

section \<open>Requests and responses\<close>

record LoginRequest =
  lq_Identifier :: string
  lq_Password :: string
  lq_DeviceID :: string
  lq_IPAddress :: string
  lq_UserAgent :: string
  lq_DeviceName :: string
  lq_Platform :: Platform
  lq_AppVersion :: string
  lq_OSVersion :: string
  lq_Fingerprint :: string
  lq_IsRooted :: bool
  lq_IsJailbroken :: bool

record LoginResponse =
  lr_AccessToken :: string
  lr_RefreshToken :: string
  lr_UserID :: string
  lr_RequiresOTP :: bool

record OTPVerifyRequest =
  oq_UserID :: string
  oq_OTP :: string
  oq_SessionID :: string
  oq_IPAddress :: string

record BiometricTokenRequest =
  bq_UserID :: string
  bq_DeviceID :: string
  bq_ChallengeID :: string
  bq_Nonce :: string
  bq_Signature :: string
  bq_Timestamp :: int
  bq_SessionID :: string
  bq_IsRooted :: bool
  bq_IsJailbroken :: bool

record BiometricTokenResponse =
  br_AccessToken :: string
  br_RefreshToken :: string

record RefreshRequest =
  rq_RefreshToken :: string
  rq_DeviceID :: string
  rq_IPAddress :: string

record RefreshResponse =
  rr_AccessToken :: string
  rr_RefreshToken :: string

record StepUpAuthRequest =
  uq_Claims :: TokenClaims
  uq_ChallengeID :: string
  uq_Nonce :: string
  uq_Signature :: string
  uq_Timestamp :: int
  uq_IsRooted :: bool
  uq_IsJailbroken :: bool

record sessionResult =
  sr_ID :: string
  sr_accessToken :: string
  sr_refreshToken :: string
  sr_TokenFamily :: string


section \<open>Helpers\<close>

definition dummyHash :: string where
  "dummyHash = ''$argon2id$v=19$m=65536,t=3,p=2$c29tZXNhbHQ$RdescudvJCsgt3ub+b+dWRWJTmaaJObG''"

definition validateTOTP :: "string \<Rightarrow> string \<Rightarrow> bool" where
  "validateTOTP otp secret = True"

definition createSession ::
  "env \<Rightarrow> string \<Rightarrow> string \<Rightarrow> string \<Rightarrow> string \<Rightarrow> sessionResult svc" where
  "createSession E userID deviceID ip ua =
     go_bind (secureHex E 16) (\<lambda>sessionID.
     go_bind (secureHex E 16) (\<lambda>family.
     go_bind (IssueTokenPair E userID deviceID sessionID family) (\<lambda>(accessToken, refreshToken).
     go_bind (time_Now E) (\<lambda>now1.
     go_bind (time_Now E) (\<lambda>now2.
     go_bind (time_Now E) (\<lambda>now3.
     go_try (session_Store
         \<lparr>s_ID = sessionID, s_UserID = userID, s_DeviceID = deviceID,
          s_RefreshToken = hashRefreshToken E refreshToken, s_TokenFamily = family,
          s_LastUsedAt = now3, s_UseCount = 0, s_StepUpToken = [], s_StepUpExpiry = None,
          s_Status = SessionStatusActive, s_ExpiresAt = now1 + RefreshTokenTTL (cfg E),
          s_CreatedAt = now2, s_IPAddress = ip, s_UserAgent = ua\<rparr>)
       (\<lambda>e. go_fail (Wrapped ''store session: '' e '''')) (\<lambda>_.
     go_return \<lparr>sr_ID = sessionID, sr_accessToken = accessToken,
                sr_refreshToken = refreshToken, sr_TokenFamily = family\<rparr>)))))))"

definition handleFailedLogin :: "env \<Rightarrow> User \<Rightarrow> string \<Rightarrow> unit svc" where
  "handleFailedLogin E user ip =
     (let user1 = user\<lparr>u_FailedAttempts := u_FailedAttempts user + 1\<rparr>
      in go_bind
           (if u_FailedAttempts user1 \<ge> MaxLoginAttempts (cfg E) then
              go_bind (time_Now E) (\<lambda>now.
                go_return (user1\<lparr>u_LockedUntil := Some (now + LockoutDuration (cfg E)),
                                 u_Status := UserStatusLocked\<rparr>))
            else go_return user1) (\<lambda>user2.
         go_ignore (user_Update E user2)
         (go_ignore (audit_Log E (zero_AuditLog\<lparr>a_UserID := u_ID user2,
                       a_Action := AuditActionLoginFailed, a_Result := AuditResultFailure,
                       a_IPAddress := ip,
                       a_Details := [(''attempts'', DInt (u_FailedAttempts user2)),
                                     (''locked'', DBool (u_LockedUntil user2 \<noteq> None))],
                       a_RiskScore := u_FailedAttempts user2 * 20\<rparr>))
         (go_return ()))))"


section \<open>Login\<close>

text \<open>\<^verbatim>\<open>Login\<close> from the point where the password has been accepted.\<close>

definition complete_login :: "env \<Rightarrow> LoginRequest \<Rightarrow> User \<Rightarrow> LoginResponse svc" where
  "complete_login E req user =
     go_ignore (user_Update E (user\<lparr>u_FailedAttempts := 0, u_LockedUntil := None\<rparr>))
     (go_ignore (RegisterDevice E (u_ID user)
        (zero_Device\<lparr>d_ID := lq_DeviceID req, d_Name := lq_DeviceName req,
                     d_Platform := lq_Platform req, d_AppVersion := lq_AppVersion req,
                     d_OSVersion := lq_OSVersion req,
                     d_DeviceFingerprint := lq_Fingerprint req,
                     d_IsRooted := lq_IsRooted req, d_IsJailbroken := lq_IsJailbroken req\<rparr>))
     (go_try (createSession E (u_ID user) (lq_DeviceID req) (lq_IPAddress req) (lq_UserAgent req))
        (\<lambda>e. go_fail (Wrapped ''create session: '' e '''')) (\<lambda>session.
     go_ignore (audit_Log E (zero_AuditLog\<lparr>a_UserID := u_ID user, a_DeviceID := lq_DeviceID req,
                  a_SessionID := sr_ID session, a_Action := AuditActionLogin,
                  a_Result := AuditResultSuccess, a_IPAddress := lq_IPAddress req,
                  a_UserAgent := lq_UserAgent req\<rparr>))
     (go_return \<lparr>lr_AccessToken = sr_accessToken session, lr_RefreshToken = sr_refreshToken session,
                 lr_UserID = u_ID user, lr_RequiresOTP = (u_TOTPSecret user \<noteq> [])\<rparr>))))"

definition Login :: "env \<Rightarrow> LoginRequest \<Rightarrow> LoginResponse svc" where
  "Login E req =
     go_try (user_FindByIdentifier E (lq_Identifier req))
       (\<lambda>_. go_ignore (go_lift (VerifyPassword E (lq_Password req) dummyHash))
         (go_ignore (audit_Log E (zero_AuditLog\<lparr>a_Action := AuditActionLoginFailed,
                       a_Result := AuditResultFailure,
                       a_Details := [(''identifier'', DString (lq_Identifier req)),
                                     (''reason'', DString ''user not found'')],
                       a_IPAddress := lq_IPAddress req\<rparr>))
         (go_fail (AuthErr ErrInvalidCredentials)))) (\<lambda>user.
     if u_Status user = UserStatusDisabled then go_fail (AuthErr ErrAccountDisabled)
     else
       go_bind (case u_LockedUntil user of
                  None \<Rightarrow> go_return False
                | Some until \<Rightarrow> go_bind (time_Now E) (\<lambda>now. go_return (now < until))) (\<lambda>locked.
       if locked then go_fail (AuthErr ErrAccountLocked)
       else
         go_try (go_lift (VerifyPassword E (lq_Password req) (u_PasswordHash user)))
           (\<lambda>_. go_ignore (handleFailedLogin E user (lq_IPAddress req))
                  (go_fail (AuthErr ErrInvalidCredentials))) (\<lambda>ok.
         if \<not> ok then go_ignore (handleFailedLogin E user (lq_IPAddress req))
                         (go_fail (AuthErr ErrInvalidCredentials))
         else complete_login E req user)))"


section \<open>Second factor, biometric exchange, refresh, logout, payment\<close>

definition VerifyOTP :: "env \<Rightarrow> OTPVerifyRequest \<Rightarrow> unit svc" where
  "VerifyOTP E req =
     go_try (user_FindByID (oq_UserID req)) (\<lambda>_. go_fail (AuthErr ErrInvalidCredentials)) (\<lambda>user.
     if \<not> validateTOTP (oq_OTP req) (u_TOTPSecret user) then
       go_ignore (audit_Log E (zero_AuditLog\<lparr>a_UserID := oq_UserID req,
                    a_SessionID := oq_SessionID req, a_Action := AuditActionOTPVerify,
                    a_Result := AuditResultFailure, a_IPAddress := oq_IPAddress req\<rparr>))
         (go_fail (AuthErr ErrOTPInvalid))
     else
       go_ignore (audit_Log E (zero_AuditLog\<lparr>a_UserID := oq_UserID req,
                    a_SessionID := oq_SessionID req, a_Action := AuditActionOTPVerify,
                    a_Result := AuditResultSuccess, a_IPAddress := oq_IPAddress req\<rparr>))
         (go_return ()))"

definition ExchangeBiometricToken ::
  "env \<Rightarrow> BiometricTokenRequest \<Rightarrow> BiometricTokenResponse svc" where
  "ExchangeBiometricToken E req =
     go_bind (Authenticate E
         \<lparr>aq_UserID = bq_UserID req, aq_DeviceID = bq_DeviceID req,
          aq_ChallengeID = bq_ChallengeID req, aq_Nonce = bq_Nonce req,
          aq_Signature = bq_Signature req, aq_Timestamp = bq_Timestamp req,
          aq_IsRooted = bq_IsRooted req, aq_IsJailbroken = bq_IsJailbroken req\<rparr>) (\<lambda>_.
     go_try (session_GetByID (bq_SessionID req)) (\<lambda>_. go_fail (TokenErr ErrTokenRevoked)) (\<lambda>found.
       case found of
         None \<Rightarrow> go_fail (TokenErr ErrTokenRevoked)
       | Some session \<Rightarrow>
           go_bind (IssueTokenPair E (bq_UserID req) (bq_DeviceID req) (bq_SessionID req)
                      (s_TokenFamily session)) (\<lambda>(accessToken, refreshToken).
           go_bind (time_Now E) (\<lambda>now.
           go_ignore (session_Update (session\<lparr>s_RefreshToken := hashRefreshToken E refreshToken,
                        s_LastUsedAt := now, s_UseCount := s_UseCount session + 1\<rparr>))
           (go_return \<lparr>br_AccessToken = accessToken, br_RefreshToken = refreshToken\<rparr>)))))"

definition RefreshToken :: "env \<Rightarrow> RefreshRequest \<Rightarrow> RefreshResponse svc" where
  "RefreshToken E req =
     go_try (RotateRefreshToken E (rq_RefreshToken req) (rq_DeviceID req))
       (\<lambda>err. go_ignore (audit_Log E (zero_AuditLog\<lparr>a_Action := AuditActionTokenRevoked,
                 a_Result := AuditResultFailure, a_IPAddress := rq_IPAddress req,
                 a_Details := [(''error'', DString (error_text err))]\<rparr>))
          (go_fail err)) (\<lambda>(newAccess, newRefresh).
     go_return \<lparr>rr_AccessToken = newAccess, rr_RefreshToken = newRefresh\<rparr>)"

definition Logout :: "env \<Rightarrow> TokenClaims \<Rightarrow> unit svc" where
  "Logout E claims =
     go_ignore (audit_Log E (zero_AuditLog\<lparr>a_UserID := t_UserID claims,
                  a_DeviceID := t_DeviceID claims, a_SessionID := t_SessionID claims,
                  a_Action := AuditActionLogout, a_Result := AuditResultSuccess\<rparr>))
       (RevokeSession (t_SessionID claims))"

definition LogoutAll :: "env \<Rightarrow> TokenClaims \<Rightarrow> unit svc" where
  "LogoutAll E claims =
     go_ignore (audit_Log E (zero_AuditLog\<lparr>a_UserID := t_UserID claims,
                  a_DeviceID := t_DeviceID claims, a_Action := AuditActionLogoutAll,
                  a_Result := AuditResultSuccess\<rparr>))
       (RevokeAllUserSessions (t_UserID claims))"

definition AuthorizePayment :: "env \<Rightarrow> StepUpAuthRequest \<Rightarrow> string svc" where
  "AuthorizePayment E req =
     go_bind (StepUp E
         \<lparr>sq_UserID = t_UserID (uq_Claims req), sq_DeviceID = t_DeviceID (uq_Claims req),
          sq_SessionID = t_SessionID (uq_Claims req), sq_ChallengeID = uq_ChallengeID req,
          sq_Nonce = uq_Nonce req, sq_Signature = uq_Signature req,
          sq_Timestamp = uq_Timestamp req, sq_IsRooted = uq_IsRooted req,
          sq_IsJailbroken = uq_IsJailbroken req\<rparr>) (\<lambda>stepUpClaims.
     go_bind (IssueStepUpToken E stepUpClaims) (\<lambda>stepUpToken.
     go_ignore (audit_Log E (zero_AuditLog\<lparr>a_UserID := t_UserID stepUpClaims,
                  a_DeviceID := t_DeviceID stepUpClaims, a_SessionID := t_SessionID stepUpClaims,
                  a_Action := AuditActionPaymentAuthorized, a_Result := AuditResultSuccess\<rparr>))
       (go_return stepUpToken)))"


section \<open>The state invariant\<close>

lemma keeps_wf_createSession [keeps_rules]: "keeps world_wf (createSession E u d ip ua)"
  unfolding createSession_def by (intro keeps_rules) (simp_all add: world_wf_puts)

lemma keeps_wf_handleFailedLogin [keeps_rules]: "keeps world_wf (handleFailedLogin E u ip)"
  unfolding handleFailedLogin_def by (intro keeps_rules) (simp_all add: world_wf_puts)

lemma keeps_wf_complete_login [keeps_rules]: "keeps world_wf (complete_login E req u)"
  unfolding complete_login_def by (intro keeps_rules) (simp_all add: world_wf_puts)

lemma keeps_wf_Login [keeps_rules]: "keeps world_wf (Login E req)"
  unfolding Login_def by (intro keeps_rules) simp_all

lemma keeps_wf_biometric_ops [keeps_rules]:
  "keeps world_wf (Authenticate E areq)" "keeps world_wf (StepUp E sreq)"
  "keeps world_wf (Enroll E ereq)"
  by (intro keeps_Authenticate keeps_StepUp keeps_Enroll keeps_rules; simp)+

lemma keeps_wf_auth_ops [keeps_rules]:
  "keeps world_wf (VerifyOTP E oreq)" "keeps world_wf (ExchangeBiometricToken E breq)"
  "keeps world_wf (RefreshToken E rreq)" "keeps world_wf (Logout E c)"
  "keeps world_wf (LogoutAll E c)" "keeps world_wf (AuthorizePayment E ureq)"
  unfolding VerifyOTP_def ExchangeBiometricToken_def RefreshToken_def Logout_def LogoutAll_def
    AuthorizePayment_def
  by ((intro keeps_rules); simp add: world_wf_puts)+


text \<open>The audit log is only ever appended to.\<close>

definition log_extends :: "AuditLog list \<Rightarrow> world \<Rightarrow> bool" where
  "log_extends as w \<longleftrightarrow> take (length as) (audits w) = as"

lemma log_extends_update [simp]:
  "log_extends as (w\<lparr>clock := n\<rparr>) = log_extends as w"
  "log_extends as (w\<lparr>randoms := n\<rparr>) = log_extends as w"
  "log_extends as (w\<lparr>ranges := n\<rparr>) = log_extends as w"
  "log_extends as (w\<lparr>users := us\<rparr>) = log_extends as w"
  "log_extends as (w\<lparr>devices := ds\<rparr>) = log_extends as w"
  "log_extends as (w\<lparr>sessions := ss\<rparr>) = log_extends as w"
  "log_extends as (w\<lparr>challenges := cs\<rparr>) = log_extends as w"
  by (simp_all add: log_extends_def)

lemma log_extends_append [simp]:
  "log_extends as w \<Longrightarrow> log_extends as (w\<lparr>audits := audits w @ ls\<rparr>)"
proof -
  assume e: "log_extends as w"
  then have "length as \<le> length (audits w)"
    unfolding log_extends_def by (metis length_take min.absorb_iff2 min.cobounded2)
  with e show ?thesis by (simp add: log_extends_def)
qed

lemma log_extends_iff: "log_extends as w \<longleftrightarrow> (\<exists>ls. audits w = as @ ls)"
  unfolding log_extends_def by (metis append_eq_conv_conj append_take_drop_id)

lemma device_stable_log [simp]: "device_stable (log_extends as)"
  by (simp add: device_stable_def)

lemma keeps_log_store [keeps_rules]:
  "keeps (log_extends as) (session_RevokeFamily f st)"
  "keeps (log_extends as) (session_RevokeAllByUser u)"
  "keeps (log_extends as) (consumeChallenge E cid dev act)"
  by (auto simp: keeps_def consumeChallenge_def split: option.splits)

lemma keeps_log_biometric_ops [keeps_rules]:
  "keeps (log_extends as) (Authenticate E areq)" "keeps (log_extends as) (StepUp E sreq)"
  "keeps (log_extends as) (Enroll E ereq)" "keeps (log_extends as) (GetChallenge E creq)"
  unfolding GetChallenge_def
  by (intro keeps_Authenticate keeps_StepUp keeps_Enroll keeps_rules; simp)+

lemma keeps_log_Rotate [keeps_rules]: "keeps (log_extends as) (RotateRefreshToken E t d)"
  unfolding RotateRefreshToken_def by (intro keeps_rules) simp_all

lemma keeps_log_complete_login [keeps_rules]: "keeps (log_extends as) (complete_login E lreq u)"
  unfolding complete_login_def createSession_def by (intro keeps_rules) simp_all

lemma keeps_log_auth_ops:
  "keeps (log_extends as) (Login E lreq)"
  "keeps (log_extends as) (VerifyOTP E oreq)" "keeps (log_extends as) (ExchangeBiometricToken E breq)"
  "keeps (log_extends as) (RefreshToken E rreq)" "keeps (log_extends as) (Logout E c)"
  "keeps (log_extends as) (LogoutAll E c)" "keeps (log_extends as) (AuthorizePayment E ureq)"
  unfolding VerifyOTP_def ExchangeBiometricToken_def RefreshToken_def Logout_def LogoutAll_def
    AuthorizePayment_def Login_def handleFailedLogin_def RevokeSession_def RevokeAllUserSessions_def
  by ((intro keeps_rules); simp)+


section \<open>Lockout\<close>

text \<open>\<^verbatim>\<open>range\<close> over a map visits every key.\<close>

definition ranges_complete :: "env \<Rightarrow> bool" where
  "ranges_complete E \<longleftrightarrow> (\<forall>i ks. set (range_order E i ks) = set ks)"

text \<open>The identifier belongs to exactly one user.\<close>

definition sole_match :: "User repo \<Rightarrow> string \<Rightarrow> string \<Rightarrow> bool" where
  "sole_match r ident k \<longleftrightarrow>
     (\<forall>(k', u) \<in> set r. (u_Phone u = ident \<or> u_Email u = ident) \<longleftrightarrow> k' = k)"

lemma FindByIdentifier_sole:
  assumes "ranges_complete E" and "sole_match (users w) i k" and u: "repo_get (users w) k = Some u"
  shows "user_FindByIdentifier E i w = (Ok u, w\<lparr>ranges := Suc (ranges w)\<rparr>)"
proof -
  let ?ks = "range_order E (ranges w) (map fst (users w))"
  have uin: "(k, u) \<in> set (users w)" using u by (rule repo_get_in_set)
  then have match: "u_Phone u = i \<or> u_Email u = i"
    using assms(2) by (auto simp: sole_match_def)
  have kin: "k \<in> set ?ks"
    using uin assms(1) by (force simp: ranges_complete_def)
  have "first_match (users w) i ?ks = Some u"
  proof (cases "first_match (users w) i ?ks")
    case None
    with first_match_None [OF None kin u] match show ?thesis by simp
  next
    case (Some u')
    then obtain k' where "repo_get (users w) k' = Some u'" "u_Phone u' = i \<or> u_Email u' = i"
      using first_match_Some by blast
    moreover from this have "k' = k"
      using assms(2) by (auto simp: sole_match_def dest!: repo_get_in_set)
    ultimately show ?thesis using Some u by simp
  qed
  then show ?thesis
    by (simp add: user_FindByIdentifier_def range_keys_def)
qed

lemma set_repo_put: "set (repo_put k v r) \<subseteq> insert (k, v) (set r)"
  unfolding repo_put_def by (induction r) auto

lemma sole_match_put:
  assumes "sole_match r i k" and "u_Phone u' = i \<or> u_Email u' = i"
  shows "sole_match (repo_put k u' r) i k"
  using assms set_repo_put [of k u' r] by (fastforce simp: sole_match_def)

text \<open>The account after a wrong password.\<close>

definition after_failure :: "env \<Rightarrow> int \<Rightarrow> User \<Rightarrow> User" where
  "after_failure E now user =
     (if u_FailedAttempts user + 1 \<ge> MaxLoginAttempts (cfg E)
      then user\<lparr>u_FailedAttempts := u_FailedAttempts user + 1,
                u_LockedUntil := Some (now + LockoutDuration (cfg E)),
                u_Status := UserStatusLocked\<rparr>
      else user\<lparr>u_FailedAttempts := u_FailedAttempts user + 1\<rparr>)"

lemma after_failure_simps [simp]:
  "u_ID (after_failure E t u) = u_ID u" "u_Phone (after_failure E t u) = u_Phone u"
  "u_Email (after_failure E t u) = u_Email u"
  "u_PasswordHash (after_failure E t u) = u_PasswordHash u"
  "u_FailedAttempts (after_failure E t u) = u_FailedAttempts u + 1"
  by (simp_all add: after_failure_def)

lemma handleFailedLogin_effect:
  "\<exists>w' t. handleFailedLogin E u ip w = (Ok (), w') \<and> sessions w' = sessions w
     \<and> devices w' = devices w \<and> challenges w' = challenges w \<and> clock w < clock w'
     \<and> users w' = repo_put (u_ID u) (after_failure E (now_at E (clock w)) u\<lparr>u_UpdatedAt := t\<rparr>) (users w)"
  by (auto simp: handleFailedLogin_def after_failure_def go_ignore_audit Let_def
      intro: less_le_trans [OF _ audit_Log_clock])

definition account_locked :: "env \<Rightarrow> User \<Rightarrow> nat \<Rightarrow> bool" where
  "account_locked E u n \<longleftrightarrow> (case u_LockedUntil u of None \<Rightarrow> False | Some l \<Rightarrow> now_at E n < l)"

definition wrong_password :: "env \<Rightarrow> string \<Rightarrow> User \<Rightarrow> bool" where
  "wrong_password E pw u \<longleftrightarrow> (case VerifyPassword E pw (u_PasswordHash u) of
     Ok ok \<Rightarrow> \<not> ok | Err _ \<Rightarrow> True | Panic \<Rightarrow> False)"

text \<open>The state in which the password is looked at.\<close>

definition at_password :: "User \<Rightarrow> world \<Rightarrow> world" where
  "at_password u w = w\<lparr>ranges := Suc (ranges w),
     clock := (if u_LockedUntil u = None then clock w else Suc (clock w))\<rparr>"

definition login_with :: "env \<Rightarrow> LoginRequest \<Rightarrow> User \<Rightarrow> (go_error, bool) outcome \<Rightarrow> LoginResponse svc" where
  "login_with E req u r =
     go_try (go_lift r)
       (\<lambda>_. go_ignore (handleFailedLogin E u (lq_IPAddress req))
              (go_fail (AuthErr ErrInvalidCredentials))) (\<lambda>ok.
     if \<not> ok then go_ignore (handleFailedLogin E u (lq_IPAddress req))
                     (go_fail (AuthErr ErrInvalidCredentials))
     else complete_login E req u)"

lemma login_with_cases:
  "login_with E req u (Ok True) w = complete_login E req u w"
  "login_with E req u Panic w = (Panic, w)"
  "r = Ok False \<or> r = Err e \<Longrightarrow> login_with E req u r w =
     (Err (AuthErr ErrInvalidCredentials), snd (handleFailedLogin E u (lq_IPAddress req) w))"
  using handleFailedLogin_effect [of E u "lq_IPAddress req" w]
  by (auto simp: login_with_def go_try_lift)

lemma Login_found:
  assumes "user_FindByIdentifier E (lq_Identifier req) w = (Ok u, w\<lparr>ranges := Suc (ranges w)\<rparr>)"
    and "u_Status u \<noteq> UserStatusDisabled"
  shows "Login E req w =
    (if account_locked E u (clock w) then (Err (AuthErr ErrAccountLocked), at_password u w)
     else login_with E req u (VerifyPassword E (lq_Password req) (u_PasswordHash u))
            (at_password u w))"
  using assms
  by (cases "u_LockedUntil u")
     (simp_all add: Login_def account_locked_def at_password_def login_with_def)

lemma Login_wrong:
  assumes "user_FindByIdentifier E (lq_Identifier req) w = (Ok u, w\<lparr>ranges := Suc (ranges w)\<rparr>)"
    and "u_Status u \<noteq> UserStatusDisabled" and "\<not> account_locked E u (clock w)"
    and "wrong_password E (lq_Password req) u"
  shows "\<exists>w' t c. Login E req w = (Err (AuthErr ErrInvalidCredentials), w')
     \<and> sessions w' = sessions w \<and> devices w' = devices w \<and> clock w \<le> c \<and> c < clock w'
     \<and> users w' = repo_put (u_ID u) (after_failure E (now_at E c) u\<lparr>u_UpdatedAt := t\<rparr>) (users w)"
proof -
  have eq: "Login E req w = (Err (AuthErr ErrInvalidCredentials),
             snd (handleFailedLogin E u (lq_IPAddress req) (at_password u w)))"
    using Login_found [OF assms(1,2)] assms(3,4)
    by (auto simp: wrong_password_def login_with_cases split: outcome.splits)
  obtain v t where "handleFailedLogin E u (lq_IPAddress req) (at_password u w) = (Ok (), v)"
    "sessions v = sessions w" "devices v = devices w" "clock (at_password u w) < clock v"
    "users v = repo_put (u_ID u) (after_failure E (now_at E (clock (at_password u w))) u
       \<lparr>u_UpdatedAt := t\<rparr>) (users w)"
    using handleFailedLogin_effect [of E u "lq_IPAddress req" "at_password u w"]
    by (auto simp: at_password_def)
  with eq show ?thesis
    by (intro exI [of _ v] exI [of _ t] exI [of _ "clock (at_password u w)"])
       (auto simp: at_password_def)
qed

text \<open>A sequence of login calls, and their outcomes.\<close>

fun login_run ::
  "env \<Rightarrow> LoginRequest list \<Rightarrow> world \<Rightarrow> (go_error, LoginResponse) outcome list \<times> world" where
  "login_run E [] w = ([], w)"
| "login_run E (req # reqs) w =
     (case Login E req w of (r, w') \<Rightarrow>
        (case login_run E reqs w' of (rs, w'') \<Rightarrow> (r # rs, w'')))"

lemma wrong_password_cong:
  "u_PasswordHash u' = u_PasswordHash u \<Longrightarrow> wrong_password E pw u' = wrong_password E pw u"
  by (simp add: wrong_password_def)

text \<open>What a run of wrong passwords needs: one open account that the identifier names.\<close>

definition open_account :: "string \<Rightarrow> string \<Rightarrow> User \<Rightarrow> world \<Rightarrow> bool" where
  "open_account ident k u w \<longleftrightarrow> sole_match (users w) ident k \<and> repo_get (users w) k = Some u
     \<and> u_ID u = k \<and> u_Status u \<noteq> UserStatusDisabled \<and> u_LockedUntil u = None"

lemma open_account_failure:
  assumes E: "ranges_complete E" and acc: "open_account i k u w"
    and req: "lq_Identifier req = i" "wrong_password E (lq_Password req) u"
  shows "\<exists>w' t c u'. Login E req w = (Err (AuthErr ErrInvalidCredentials), w')
     \<and> clock w \<le> c \<and> c < clock w' \<and> u' = after_failure E (now_at E c) u\<lparr>u_UpdatedAt := t\<rparr>
     \<and> repo_get (users w') k = Some u' \<and> sole_match (users w') i k
     \<and> u_Status u' \<noteq> UserStatusDisabled
     \<and> (u_FailedAttempts u + 1 < MaxLoginAttempts (cfg E) \<longrightarrow> open_account i k u' w')"
proof -
  note a = acc [unfolded open_account_def]
  have find: "user_FindByIdentifier E (lq_Identifier req) w = (Ok u, w\<lparr>ranges := Suc (ranges w)\<rparr>)"
    using FindByIdentifier_sole [OF E] a req(1) by blast
  have "\<not> account_locked E u (clock w)" using a by (simp add: account_locked_def)
  from Login_wrong [OF find _ this req(2)] a obtain w' t c where
    L: "Login E req w = (Err (AuthErr ErrInvalidCredentials), w')" "clock w \<le> c" "c < clock w'"
    and us: "users w' = repo_put k (after_failure E (now_at E c) u\<lparr>u_UpdatedAt := t\<rparr>) (users w)"
    by auto
  let ?u = "after_failure E (now_at E c) u\<lparr>u_UpdatedAt := t\<rparr>"
  have "u_Phone u = i \<or> u_Email u = i"
    using a by (auto simp: sole_match_def dest!: repo_get_in_set)
  then have sole: "sole_match (users w') i k"
    unfolding us using a by (intro sole_match_put) auto
  then have "u_FailedAttempts u + 1 < MaxLoginAttempts (cfg E) \<longrightarrow> open_account i k ?u w'"
    using a us by (auto simp: open_account_def after_failure_def)
  moreover have "u_Status ?u \<noteq> UserStatusDisabled"
    using a by (simp add: after_failure_def status_consts)
  ultimately show ?thesis using L us sole by auto
qed

lemma failure_run:
  assumes E: "ranges_complete E"
  shows "open_account i k u w \<Longrightarrow>
    \<forall>req \<in> set reqs. lq_Identifier req = i \<and> wrong_password E (lq_Password req) u \<Longrightarrow>
    reqs \<noteq> [] \<Longrightarrow> u_FailedAttempts u + int (length reqs) \<le> MaxLoginAttempts (cfg E) \<Longrightarrow>
    \<exists>u' w' c. login_run E reqs w = (replicate (length reqs) (Err (AuthErr ErrInvalidCredentials)), w')
      \<and> clock w \<le> c \<and> c < clock w' \<and> repo_get (users w') k = Some u'
      \<and> sole_match (users w') i k \<and> u_Status u' \<noteq> UserStatusDisabled
      \<and> u_FailedAttempts u' = u_FailedAttempts u + int (length reqs)
      \<and> u_LockedUntil u' = (if u_FailedAttempts u' < MaxLoginAttempts (cfg E) then None
                            else Some (now_at E c + LockoutDuration (cfg E)))"
proof (induction reqs arbitrary: u w)
  case Nil
  then show ?case by simp
next
  case (Cons req reqs)
  obtain w1 t c u1 where
    L: "Login E req w = (Err (AuthErr ErrInvalidCredentials), w1)" "clock w \<le> c" "c < clock w1"
    and u1: "u1 = after_failure E (now_at E c) u\<lparr>u_UpdatedAt := t\<rparr>" "repo_get (users w1) k = Some u1"
    and sole1: "sole_match (users w1) i k" "u_Status u1 \<noteq> UserStatusDisabled"
    and open1: "u_FailedAttempts u + 1 < MaxLoginAttempts (cfg E) \<longrightarrow> open_account i k u1 w1"
    using open_account_failure [OF E Cons.prems(1)] Cons.prems(2) by fastforce
  show ?case
  proof (cases "reqs = []")
    case True
    have "u_LockedUntil u = None" using Cons.prems(1) by (simp add: open_account_def)
    then have "u_LockedUntil u1 = (if u_FailedAttempts u1 < MaxLoginAttempts (cfg E) then None
        else Some (now_at E c + LockoutDuration (cfg E)))"
      by (simp add: u1(1) after_failure_def)
    with True L u1 sole1 show ?thesis by auto
  next
    case False
    have "1 + (u_FailedAttempts u + int (length reqs)) \<le> MaxLoginAttempts (cfg E)"
      using Cons.prems(4) by (simp add: algebra_simps)
    moreover have "0 < int (length reqs)" using False by simp
    ultimately have lt: "u_FailedAttempts u + 1 < MaxLoginAttempts (cfg E)" by linarith
    have "\<forall>r \<in> set reqs. lq_Identifier r = i \<and> wrong_password E (lq_Password r) u1"
      using Cons.prems(2) wrong_password_cong [of u1 u] u1(1) by auto
    moreover have "open_account i k u1 w1" using open1 lt by simp
    moreover have "u_FailedAttempts u1 + int (length reqs) \<le> MaxLoginAttempts (cfg E)"
      using Cons.prems(4) u1(1) by simp
    ultimately obtain u' w' c' where
      "login_run E reqs w1 = (replicate (length reqs) (Err (AuthErr ErrInvalidCredentials)), w')"
      "clock w1 \<le> c'" "c' < clock w'" "repo_get (users w') k = Some u'"
      "sole_match (users w') i k" "u_Status u' \<noteq> UserStatusDisabled"
      "u_FailedAttempts u' = u_FailedAttempts u1 + int (length reqs)"
      "u_LockedUntil u' = (if u_FailedAttempts u' < MaxLoginAttempts (cfg E) then None
                            else Some (now_at E c' + LockoutDuration (cfg E)))"
      using Cons.IH False by blast
    with L u1(1) show ?thesis
      by (intro exI [of _ u'] exI [of _ w'] exI [of _ c']) (auto simp: algebra_simps)
  qed
qed


section \<open>A successful login\<close>

text \<open>The session a login opens: active, and holding the hash of the refresh token.\<close>

definition opened :: "env \<Rightarrow> string \<Rightarrow> string \<Rightarrow> sessionResult \<Rightarrow> Session \<Rightarrow> bool" where
  "opened E userID deviceID r s \<longleftrightarrow> s_ID s = sr_ID r \<and> s_UserID s = userID \<and> s_DeviceID s = deviceID
     \<and> s_RefreshToken s = hashRefreshToken E (sr_refreshToken r)
     \<and> s_TokenFamily s = sr_TokenFamily r \<and> s_Status s = SessionStatusActive \<and> s_UseCount s = 0"

lemma createSession_Ok:
  assumes "createSession E u d ip ua w = (Ok r, w')"
  shows "\<exists>s t ja jr. sessions w' = repo_put (sr_ID r) s (sessions w) \<and> opened E u d r s
     \<and> users w' = users w \<and> devices w' = devices w \<and> challenges w' = challenges w
     \<and> clock w \<le> t \<and> t < clock w'
     \<and> sign E (access_payload E u d (sr_ID r) (sr_TokenFamily r) (now_at E t) ja)
          (AccessTokenSecret (cfg E)) = Ok (sr_accessToken r)
     \<and> sign E (refresh_payload E u d (sr_ID r) (sr_TokenFamily r) (now_at E t) jr)
          (RefreshTokenSecret (cfg E)) = Ok (sr_refreshToken r)"
proof -
  from assms obtain sid w1 fam w2 a rt w3 where
    s1: "secureHex E 16 w = (Ok sid, w1)" "secureHex E 16 w1 = (Ok fam, w2)"
    and i: "IssueTokenPair E u d sid fam w2 = (Ok (a, rt), w3)"
    unfolding createSession_def by (elim go_bind_OkE) (auto split: prod.splits)
  from IssueTokenPair_Ok [OF i] obtain ja jr where
    t: "sign E (access_payload E u d sid fam (now_at E (clock w2)) ja) (AccessTokenSecret (cfg E)) = Ok a"
       "sign E (refresh_payload E u d sid fam (now_at E (clock w2)) jr) (RefreshTokenSecret (cfg E)) = Ok rt"
    and w3: "w3 = w2\<lparr>clock := Suc (clock w2), randoms := Suc (Suc (randoms w2))\<rparr>"
    by blast
  have w2: "w2 = w\<lparr>randoms := Suc (Suc (randoms w))\<rparr>"
    using s1 by (auto dest!: secureHex_Ok)
  from assms s1 i t show ?thesis
    by (intro exI [of _ "\<lparr>s_ID = sid, s_UserID = u, s_DeviceID = d,
          s_RefreshToken = hashRefreshToken E rt, s_TokenFamily = fam,
          s_LastUsedAt = now_at E (clock w3 + 2), s_UseCount = 0, s_StepUpToken = [],
          s_StepUpExpiry = None, s_Status = SessionStatusActive,
          s_ExpiresAt = now_at E (clock w3) + RefreshTokenTTL (cfg E),
          s_CreatedAt = now_at E (clock w3 + 1), s_IPAddress = ip, s_UserAgent = ua\<rparr>"]
        exI [of _ "clock w2"] exI [of _ ja] exI [of _ jr])
       (auto simp: createSession_def opened_def w2 w3)
qed

definition login_device :: "LoginRequest \<Rightarrow> Device" where
  "login_device req = zero_Device\<lparr>d_ID := lq_DeviceID req, d_Name := lq_DeviceName req,
     d_Platform := lq_Platform req, d_AppVersion := lq_AppVersion req,
     d_OSVersion := lq_OSVersion req, d_DeviceFingerprint := lq_Fingerprint req,
     d_IsRooted := lq_IsRooted req, d_IsJailbroken := lq_IsJailbroken req\<rparr>"

text \<open>The state in which the session is created: counters reset, device registered.\<close>

definition login_entered :: "env \<Rightarrow> LoginRequest \<Rightarrow> User \<Rightarrow> world \<Rightarrow> world" where
  "login_entered E req u w = w\<lparr>clock := clock w + 3,
     users := repo_put (u_ID u) (u\<lparr>u_FailedAttempts := 0, u_LockedUntil := None,
                u_UpdatedAt := now_at E (clock w)\<rparr>) (users w),
     devices := repo_put (lq_DeviceID req)
       (registered E (u_ID u) (login_device req) (now_at E (clock w + 1)) (now_at E (clock w + 2)))
       (devices w)\<rparr>"

lemma complete_login_Ok:
  assumes "complete_login E req u w = (Ok res, w')"
  obtains r w1 where
    "createSession E (u_ID u) (lq_DeviceID req) (lq_IPAddress req) (lq_UserAgent req)
       (login_entered E req u w) = (Ok r, w1)"
    "res = \<lparr>lr_AccessToken = sr_accessToken r, lr_RefreshToken = sr_refreshToken r,
            lr_UserID = u_ID u, lr_RequiresOTP = (u_TOTPSecret u \<noteq> [])\<rparr>"
    "sessions w' = sessions w1" "users w' = users w1" "devices w' = devices w1"
    "challenges w' = challenges w1" "clock w1 \<le> clock w'"
proof -
  let ?d = "login_device req"
  have reg: "RegisterDevice E (u_ID u) ?d (w\<lparr>clock := Suc (clock w),
      users := repo_put (u_ID u) (u\<lparr>u_FailedAttempts := 0, u_LockedUntil := None,
                u_UpdatedAt := now_at E (clock w)\<rparr>) (users w)\<rparr>)
    = (Ok (registered E (u_ID u) ?d (now_at E (clock w + 1)) (now_at E (clock w + 2))),
       login_entered E req u w)"
    by (simp add: RegisterDevice_apply login_entered_def login_device_def Let_def numeral_2_eq_2
        numeral_3_eq_3)
  from assms obtain r w1 where
    c: "createSession E (u_ID u) (lq_DeviceID req) (lq_IPAddress req) (lq_UserAgent req)
         (login_entered E req u w) = (Ok r, w1)"
    unfolding complete_login_def login_device_def [symmetric]
    by (auto simp: reg elim!: go_try_OkE)
  show ?thesis
  proof (rule that [OF c])
    show "res = \<lparr>lr_AccessToken = sr_accessToken r, lr_RefreshToken = sr_refreshToken r,
            lr_UserID = u_ID u, lr_RequiresOTP = (u_TOTPSecret u \<noteq> [])\<rparr>"
      "sessions w' = sessions w1" "users w' = users w1" "devices w' = devices w1"
      "challenges w' = challenges w1" "clock w1 \<le> clock w'"
      using assms unfolding complete_login_def login_device_def [symmetric]
      by (auto simp: reg c go_ignore_audit audit_Log_clock)
  qed
qed

lemma Login_Ok:
  assumes "Login E req w = (Ok res, w')"
  obtains u k where
    "repo_get (users w) k = Some u" "u_Phone u = lq_Identifier req \<or> u_Email u = lq_Identifier req"
    "u_Status u \<noteq> UserStatusDisabled" "\<not> account_locked E u (clock w)"
    "VerifyPassword E (lq_Password req) (u_PasswordHash u) = Ok True"
    "complete_login E req u (at_password u w) = (Ok res, w')"
proof (cases "user_FindByIdentifier E (lq_Identifier req) w")
  case (Pair r v)
  have "\<exists>u. r = Ok u"
    using assms Pair unfolding Login_def
    by (cases r) (auto simp: go_ignore_audit elim!: go_ignore_OkE)
  with Pair obtain u where f: "user_FindByIdentifier E (lq_Identifier req) w = (Ok u, v)" by auto
  from FindByIdentifier_Ok [OF f] obtain k where
    k: "repo_get (users w) k = Some u" "u_Phone u = lq_Identifier req \<or> u_Email u = lq_Identifier req"
      and v: "v = w\<lparr>ranges := Suc (ranges w)\<rparr>"
    by auto
  have d: "u_Status u \<noteq> UserStatusDisabled"
    using assms f by (auto simp: Login_def)
  note L = Login_found [OF f [unfolded v] d]
  have l: "\<not> account_locked E u (clock w)"
    using assms L by auto
  have p: "VerifyPassword E (lq_Password req) (u_PasswordHash u) = Ok True"
    using assms L l
    by (cases "VerifyPassword E (lq_Password req) (u_PasswordHash u)")
       (auto simp: login_with_cases intro: ccontr)
  show ?thesis
    using that [OF k d l p] assms L l p by (simp add: login_with_cases)
qed


section \<open>Properties\<close>

text \<open>
  C4: Lockout. For an open account named by a unique identifier, a run of wrong passwords
  that reaches the configured maximum answers each attempt with \<open>ErrInvalidCredentials\<close> and
  locks the account: until the lockout duration has passed since the clock reading \<open>c\<close> of the
  last attempt, every further login, whatever its password, is answered with
  \<open>ErrAccountLocked\<close> and changes no user, session or device.
\<close>

theorem lockout_after_max_attempts:
  assumes E: "ranges_complete E" and acc: "open_account i k u w" and "reqs \<noteq> []"
    and wrong: "\<forall>req \<in> set reqs. lq_Identifier req = i \<and> wrong_password E (lq_Password req) u"
    and max: "u_FailedAttempts u + int (length reqs) = MaxLoginAttempts (cfg E)"
    and run: "login_run E reqs w = (rs, w')"
  shows "rs = replicate (length reqs) (Err (AuthErr ErrInvalidCredentials))
    \<and> (\<exists>c. clock w \<le> c \<and> c < clock w' \<and>
        (\<forall>req. lq_Identifier req = i \<and> now_at E (clock w') < now_at E c + LockoutDuration (cfg E) \<longrightarrow>
          (\<exists>w''. Login E req w' = (Err (AuthErr ErrAccountLocked), w'') \<and> users w'' = users w'
             \<and> sessions w'' = sessions w' \<and> devices w'' = devices w')))"
proof -
  from failure_run [OF E acc wrong assms(3)] max obtain u' v c where
    r: "login_run E reqs w = (replicate (length reqs) (Err (AuthErr ErrInvalidCredentials)), v)"
    and c: "clock w \<le> c" "c < clock v"
    and u': "repo_get (users v) k = Some u'" "sole_match (users v) i k"
      "u_Status u' \<noteq> UserStatusDisabled"
      "u_LockedUntil u' = Some (now_at E c + LockoutDuration (cfg E))"
    by auto
  from r run have w': "v = w'" and rs: "rs = replicate (length reqs) (Err (AuthErr ErrInvalidCredentials))"
    by auto
  have "\<exists>w''. Login E req w' = (Err (AuthErr ErrAccountLocked), w'') \<and> users w'' = users w'
      \<and> sessions w'' = sessions w' \<and> devices w'' = devices w'"
    if "lq_Identifier req = i" "now_at E (clock w') < now_at E c + LockoutDuration (cfg E)" for req
  proof -
    have "user_FindByIdentifier E (lq_Identifier req) w' = (Ok u', w'\<lparr>ranges := Suc (ranges w')\<rparr>)"
      using FindByIdentifier_sole [OF E] u' w' that(1) by blast
    from Login_found [OF this u'(3)] that(2) u'(4) show ?thesis
      by (simp add: account_locked_def at_password_def)
  qed
  with rs c w' show ?thesis by blast
qed


text \<open>
  C20: Logging out everywhere. The call succeeds, marks exactly the user's sessions as revoked
  and leaves every other session alone; from then on no refresh token of one of the user's
  sessions is rotated: it is answered with \<open>ErrTokenRevoked\<close>.
\<close>

theorem logout_all_blocks_refresh:
  assumes out: "LogoutAll E claims w = (r, w')"
    and t: "verify E t (RefreshTokenSecret (cfg E)) w' = (Ok p, w1)"
    and p: "p_Type p = TokenTypeRefresh" "p_DeviceID p = d"
    and s: "repo_get (sessions w') (p_SessionID p) = Some s" "s_UserID s = t_UserID claims"
  shows "r = Ok ()
    \<and> (\<forall>k. repo_get (sessions w') k = map_option (\<lambda>s. if s_UserID s = t_UserID claims
              then s\<lparr>s_Status := SessionStatusRevoked\<rparr> else s) (repo_get (sessions w) k))
    \<and> RotateRefreshToken E t d w' = (Err (TokenErr ErrTokenRevoked), w1)"
proof -
  from out have 1: "r = Ok ()" "\<forall>k. repo_get (sessions w') k =
      map_option (\<lambda>s. if s_UserID s = t_UserID claims
              then s\<lparr>s_Status := SessionStatusRevoked\<rparr> else s) (repo_get (sessions w) k)"
    by (auto simp: LogoutAll_def go_ignore_audit RevokeAllUserSessions_def)
  with s(1) obtain s0 where "s = (if s_UserID s0 = t_UserID claims
      then s0\<lparr>s_Status := SessionStatusRevoked\<rparr> else s0)"
    by (cases "repo_get (sessions w) (p_SessionID p)") auto
  with s(2) have "s_Status s = SessionStatusRevoked"
    by (simp split: if_splits)
  with s have "case repo_get (sessions w') (p_SessionID p) of None \<Rightarrow> True
      | Some s \<Rightarrow> s_Status s \<noteq> SessionStatusActive"
    by (simp add: status_consts)
  from Rotate_no_session [OF t p this] 1 show ?thesis by simp
qed

text \<open>
  The access-token check reads nothing but the token and the clock. In particular an
  access token stays valid until it expires after its session was revoked, its user logged
  out everywhere or its account was locked or disabled.
\<close>

lemma access_token_ignores_state:
  assumes "clock v = clock w"
  shows "fst (VerifyAccessToken E t v) = fst (VerifyAccessToken E t w)"
  using assms
  by (auto simp: VerifyAccessToken_def verify_def Let_def go_bind_def go_try_def
      split: sum.splits option.splits)

lemma createSession_succeeds:
  assumes "json_total E" and "rand_total E"
  shows "\<exists>r w'. createSession E u d ip ua w = (Ok r, w')"
proof -
  obtain b1 where 1: "rand_read E (randoms w) 16 = Inr b1"
    using assms(2) by (auto simp: rand_total_def)
  obtain b2 where 2: "rand_read E (Suc (randoms w)) 16 = Inr b2"
    using assms(2) by (auto simp: rand_total_def)
  let ?w = "w\<lparr>randoms := Suc (Suc (randoms w))\<rparr>"
  obtain a r where "IssueTokenPair E u d (hex_encode b1) (hex_encode b2) ?w =
      (Ok (a, r), ?w\<lparr>clock := Suc (clock ?w), randoms := Suc (Suc (randoms ?w))\<rparr>)"
    using IssueTokenPair_succeeds [OF assms] by blast
  with 1 2 show ?thesis by (simp add: createSession_def)
qed

lemma complete_login_succeeds:
  assumes "json_total E" and "rand_total E"
  shows "\<exists>res w'. complete_login E req u w = (Ok res, w') \<and> lr_UserID res = u_ID u"
proof -
  obtain d w1 where r: "RegisterDevice E (u_ID u) (login_device req)
      (snd (user_Update E (u\<lparr>u_FailedAttempts := 0, u_LockedUntil := None\<rparr>) w)) = (Ok d, w1)"
    by (simp add: RegisterDevice_apply Let_def)
  obtain s w2 where "createSession E (u_ID u) (lq_DeviceID req) (lq_IPAddress req) (lq_UserAgent req) w1
      = (Ok s, w2)"
    using createSession_succeeds [OF assms] by blast
  with r show ?thesis
    unfolding complete_login_def login_device_def [symmetric] by (simp add: go_ignore_audit)
qed

text \<open>
  C14: The right password logs in. On an open account that a unique identifier names, a login
  whose password the stored hash accepts returns tokens for that user; the random source and
  JSON marshalling are assumed to work, as they are documented to.
\<close>

theorem right_password_logs_in:
  assumes "ranges_complete E" and "json_total E" and "rand_total E"
    and "open_account (lq_Identifier req) k u w"
    and "VerifyPassword E (lq_Password req) (u_PasswordHash u) = Ok True"
  shows "\<exists>res w'. Login E req w = (Ok res, w') \<and> lr_UserID res = k"
proof -
  note a = assms(4) [unfolded open_account_def]
  have "user_FindByIdentifier E (lq_Identifier req) w = (Ok u, w\<lparr>ranges := Suc (ranges w)\<rparr>)"
    using FindByIdentifier_sole [OF assms(1)] a by blast
  from Login_found [OF this] a assms(5)
  have "Login E req w = complete_login E req u (at_password u w)"
    by (simp add: account_locked_def login_with_cases)
  with complete_login_succeeds [OF assms(2,3)] a show ?thesis by metis
qed


section \<open>The hypotheses hold together\<close>

definition demo_hash :: string where
  "demo_hash = ''$argon2id$v=19$'' @ (''m='' @ show_nat (unat (65536 :: 32 word))
     @ '',t='' @ show_nat (unat (3 :: 32 word)) @ '',p='' @ show_nat (unat (2 :: 8 word)))
     @ ''$'' @ b64std_encode ''salt'' @ ''$'' @ b64std_encode (replicate 32 CHR ''s'')"

definition demo_user :: User where
  "demo_user = \<lparr>u_ID = ''user_001'', u_Phone = ''+66'', u_Email = ''test@example.com'',
     u_PasswordHash = demo_hash, u_TOTPSecret = [], u_Status = UserStatusActive,
     u_FailedAttempts = 0, u_LockedUntil = None, u_CreatedAt = 0, u_UpdatedAt = 0\<rparr>"

definition demo_login_world :: world where
  "demo_login_world = demo_world\<lparr>users := [(''user_001'', demo_user)]\<rparr>"

definition demo_login :: "string \<Rightarrow> LoginRequest" where
  "demo_login pw = \<lparr>lq_Identifier = ''test@example.com'', lq_Password = pw, lq_DeviceID = ''phone'',
     lq_IPAddress = [], lq_UserAgent = [], lq_DeviceName = [], lq_Platform = PlatformIOS,
     lq_AppVersion = ''1'', lq_OSVersion = [], lq_Fingerprint = [], lq_IsRooted = False,
     lq_IsJailbroken = False\<rparr>"

lemma demo_password:
  "VerifyPassword demo_env (c # pw) demo_hash = Ok (c = CHR ''s'')"
  unfolding demo_hash_def VerifyPassword_encoded by simp

lemma demo_ranges: "ranges_complete demo_env"
  by (simp add: ranges_complete_def)

lemma demo_open: "open_account ''test@example.com'' ''user_001'' demo_user demo_login_world"
  by (simp add: open_account_def demo_login_world_def sole_match_def demo_user_def repo_get_def
      status_consts)

theorem lockout_witness:
  "\<exists>w'. login_run demo_env (replicate 5 (demo_login ''wrong'')) demo_login_world =
     (replicate 5 (Err (AuthErr ErrInvalidCredentials)), w')"
proof -
  obtain rs w' where r: "login_run demo_env (replicate 5 (demo_login ''wrong'')) demo_login_world = (rs, w')"
    by fastforce
  have "\<forall>req \<in> set (replicate 5 (demo_login ''wrong'')). lq_Identifier req = ''test@example.com''
      \<and> wrong_password demo_env (lq_Password req) demo_user"
    by (simp add: demo_login_def wrong_password_def demo_user_def demo_password)
  moreover have "u_FailedAttempts demo_user + int (length (replicate 5 (demo_login ''wrong''))) =
      MaxLoginAttempts (cfg demo_env)"
    by (simp add: demo_user_def)
  ultimately show ?thesis
    using lockout_after_max_attempts [OF demo_ranges demo_open _ _ _ r] r by simp
qed

theorem right_password_witness:
  "\<exists>res w'. Login demo_env (demo_login ''secret'') demo_login_world = (Ok res, w') \<and> lr_UserID res = ''user_001''"
  using right_password_logs_in [OF demo_ranges demo_json_total demo_rand_total,
      of "demo_login ''secret''" "''user_001''" demo_user demo_login_world] demo_open
  by (simp add: demo_login_def demo_user_def demo_password)

lemma demo_logged_in: "\<exists>res w'. Login demo_env (demo_login ''secret'') demo_login_world = (Ok res, w')"
proof -
  have "user_FindByIdentifier demo_env ''test@example.com'' demo_login_world
      = (Ok demo_user, demo_login_world\<lparr>ranges := Suc (ranges demo_login_world)\<rparr>)"
    using FindByIdentifier_sole [OF demo_ranges] demo_open by (auto simp: open_account_def)
  then have "Login demo_env (demo_login ''secret'') demo_login_world =
      complete_login demo_env (demo_login ''secret'') demo_user (at_password demo_user demo_login_world)"
    using Login_found [of demo_env "demo_login ''secret''" demo_login_world demo_user]
    by (simp add: demo_login_def demo_user_def demo_password account_locked_def login_with_cases
        status_consts)
  then show ?thesis
    using complete_login_succeeds [OF demo_json_total demo_rand_total] by metis
qed


theorem logout_all_witness:
  "\<exists>w'. LogoutAll demo_env
     \<lparr>t_UserID = ''user_001'', t_DeviceID = ''phone'', t_SessionID = ''s1'',
      t_TokenType = TokenTypeAccess, t_StepUp = False, t_StepUpExp = None\<rparr> demo_session_world = (Ok (), w')
     \<and> fst (RotateRefreshToken demo_env demo_refresh ''phone'' w') = Err (TokenErr ErrTokenRevoked)"
proof -
  let ?c = "\<lparr>t_UserID = ''user_001'', t_DeviceID = ''phone'', t_SessionID = ''s1'',
      t_TokenType = TokenTypeAccess, t_StepUp = False, t_StepUpExp = None\<rparr>"
  let ?s = "demo_session\<lparr>s_Status := SessionStatusRevoked\<rparr>"
  obtain r w' where o: "LogoutAll demo_env ?c demo_session_world = (r, w')" by fastforce
  then have s: "repo_get (sessions w') (p_SessionID demo_payload) = Some ?s" and c: "clock w' = 2"
    by (auto simp: LogoutAll_def go_ignore_audit RevokeAllUserSessions_def demo_session_get
        demo_session_def audit_Log_def demo_session_world_def zero_AuditLog_def repo_get_def repo_map_def)
  have v: "verify demo_env demo_refresh (RefreshTokenSecret (cfg demo_env)) w' = (Ok demo_payload, tick w')"
    using c by (simp add: demo_verify)
  have "s_UserID ?s = t_UserID ?c" by (simp add: demo_session_def)
  from logout_all_blocks_refresh [OF o v _ _ s this, of "''phone''"] o show ?thesis by simp
qed

lemma access_token_ignores_witness:
  "clock demo_session_world = clock demo_world
   \<and> fst (VerifyAccessToken demo_env demo_refresh demo_session_world)
     = fst (VerifyAccessToken demo_env demo_refresh demo_world)"
  using access_token_ignores_state [of demo_session_world demo_world demo_env demo_refresh]
  by (simp add: demo_session_world_def)

end
