(* ===== verification/Http.thy ===== *)
theory Http
  imports Auth
begin

text \<open>
  Requests, replies and the state a request handler runs on: the process state, the rate
  limiter's table and the header map of the current response. The state of the response
  writer is threaded because headers set before a panic stay on the reply the recovery
  middleware sends.
\<close>

datatype jval =
    JString string
  | JBool bool
  | JInt int
  | JDevices "Device list"
  | JLogs "AuditLog list"

datatype reply_body = JSONBody "(string \<times> jval) list" | TextBody string | EmptyBody

record reply =
  r_status :: int
  r_body :: reply_body

record http_request =
  h_Header :: "(string \<times> string) list"
  h_RemoteAddr :: string
  h_Body :: string
  h_PathValue :: "(string \<times> string) list"

record rateLimitEntry =
  e_count :: int
  e_windowStart :: int

record conn =
  cn_world :: world
  cn_clients :: "rateLimitEntry repo"
  cn_header :: "string repo"

type_synonym 'a http = "(conn, go_error, 'a) go"

abbreviation StatusOK :: int where "StatusOK \<equiv> 200"
abbreviation StatusBadRequest :: int where "StatusBadRequest \<equiv> 400"
abbreviation StatusUnauthorized :: int where "StatusUnauthorized \<equiv> 401"
abbreviation StatusForbidden :: int where "StatusForbidden \<equiv> 403"
abbreviation StatusConflict :: int where "StatusConflict \<equiv> 409"
abbreviation StatusTooManyRequests :: int where "StatusTooManyRequests \<equiv> 429"
abbreviation StatusInternalServerError :: int where "StatusInternalServerError \<equiv> 500"

text \<open>\<^verbatim>\<open>r.Header.Get\<close> and \<^verbatim>\<open>r.PathValue\<close>: the empty string when the key is absent.\<close>

definition header_Get :: "http_request \<Rightarrow> string \<Rightarrow> string" where
  "header_Get r k = (case map_of (h_Header r) k of None \<Rightarrow> [] | Some v \<Rightarrow> v)"

definition path_Value :: "http_request \<Rightarrow> string \<Rightarrow> string" where
  "path_Value r k = (case map_of (h_PathValue r) k of None \<Rightarrow> [] | Some v \<Rightarrow> v)"

text \<open>A service call made by a handler.\<close>

definition on_world :: "'a svc \<Rightarrow> 'a http" where
  "on_world m c = (case m (cn_world c) of (r, w) \<Rightarrow> (r, c\<lparr>cn_world := w\<rparr>))"

definition set_header :: "string \<Rightarrow> string \<Rightarrow> unit http" where
  "set_header k v = go_put (\<lambda>c. c\<lparr>cn_header := repo_put k v (cn_header c)\<rparr>)"

definition del_header :: "string \<Rightarrow> unit http" where
  "del_header k = go_put (\<lambda>c. c\<lparr>cn_header := filter (\<lambda>(k', _). k' \<noteq> k) (cn_header c)\<rparr>)"

definition http_Error :: "string \<Rightarrow> int \<Rightarrow> reply http" where
  "http_Error msg status =
     go_bind (set_header ''Content-Type'' ''text/plain; charset=utf-8'') (\<lambda>_.
     go_bind (set_header ''X-Content-Type-Options'' ''nosniff'') (\<lambda>_.
     go_return \<lparr>r_status = status, r_body = TextBody (msg @ [CHR 0x0A])\<rparr>))"

text \<open>\<^verbatim>\<open>internal/handler/handler.go\<close>: the helpers of the handlers.\<close>

definition writeJSON :: "int \<Rightarrow> (string \<times> jval) list \<Rightarrow> reply http" where
  "writeJSON status v =
     go_bind (set_header ''Content-Type'' ''application/json'') (\<lambda>_.
     go_return \<lparr>r_status = status, r_body = JSONBody v\<rparr>)"

definition writeError :: "int \<Rightarrow> string \<Rightarrow> reply http" where
  "writeError status msg = writeJSON status [(''error'', JString msg)]"

text \<open>
  \<^verbatim>\<open>decode\<close>: the JSON decoder \<open>dec\<close> reads at most one megabyte; its second argument says
  that the body goes on beyond what it was given.
\<close>

definition decode :: "(string \<Rightarrow> bool \<Rightarrow> 'a option) \<Rightarrow> http_request \<Rightarrow> 'a option" where
  "decode dec r = dec (take (2 ^ 20) (h_Body r)) (length (h_Body r) > 2 ^ 20)"

text \<open>\<^verbatim>\<open>claims.UserID\<close> and the like on the pointer \<^verbatim>\<open>claimsFromCtx\<close> returns.\<close>

definition deref_claims :: "TokenClaims option \<Rightarrow> (TokenClaims \<Rightarrow> 'a http) \<Rightarrow> 'a http" where
  "deref_claims c k = (case c of None \<Rightarrow> go_panic | Some claims \<Rightarrow> k claims)"

lemma on_world_Ok [simp]:
  "m (cn_world c) = (r, w) \<Longrightarrow> on_world m c = (r, c\<lparr>cn_world := w\<rparr>)"
  by (simp add: on_world_def)

lemma on_world_frame [simp]:
  "cn_clients (snd (on_world m c)) = cn_clients c" "cn_header (snd (on_world m c)) = cn_header c"
  by (simp_all add: on_world_def split: prod.splits)

lemma writeJSON_apply [simp]:
  "writeJSON st v c = (Ok \<lparr>r_status = st, r_body = JSONBody v\<rparr>,
     c\<lparr>cn_header := repo_put ''Content-Type'' ''application/json'' (cn_header c)\<rparr>)"
  by (simp add: writeJSON_def set_header_def)

lemma keeps_on_world [keeps_rules]: "keeps I m \<Longrightarrow> keeps (\<lambda>c. I (cn_world c)) (on_world m)"
  by (auto simp: keeps_def on_world_def split: prod.splits)

lemma keeps_headers [keeps_rules]:
  "keeps (\<lambda>c. I (cn_world c)) (set_header k v)" "keeps (\<lambda>c. I (cn_world c)) (del_header k)"
  by (simp_all add: keeps_def set_header_def del_header_def)

lemma keeps_replies [keeps_rules]:
  "keeps (\<lambda>c. I (cn_world c)) (http_Error msg st)" "keeps (\<lambda>c. I (cn_world c)) (writeJSON st v)"
  "keeps (\<lambda>c. I (cn_world c)) (writeError st msg)"
  unfolding http_Error_def writeJSON_def writeError_def by (intro keeps_rules)+

lemma keeps_deref [keeps_rules]:
  "(\<And>x. keeps I (k x)) \<Longrightarrow> keeps I (deref_claims c k)"
  by (simp add: deref_claims_def keeps_panic split: option.splits)

end
