(* ===== verification/Middleware.thy ===== *)
theory Middleware
  imports Http
begin

text \<open>
  \<^verbatim>\<open>internal/middleware/middleware.go\<close>. A middleware takes the rest of the chain, which
  here is a function of the request's claims (the value stored in its context), and returns
  the chain with its checks in front.
\<close>

type_synonym chain = "TokenClaims option \<Rightarrow> reply http"

section \<open>Reading the request\<close>

definition extractBearerToken :: "http_request \<Rightarrow> string" where
  "extractBearerToken r =
     (let auth = header_Get r ''Authorization''
      in if \<not> has_prefix auth ''Bearer '' then [] else trim_prefix auth ''Bearer '')"

definition extractIP :: "http_request \<Rightarrow> string" where
  "extractIP r =
     (if header_Get r ''X-Real-Ip'' \<noteq> [] then header_Get r ''X-Real-Ip''
      else if header_Get r ''X-Forwarded-For'' \<noteq> []
      then hd (split_on CHR '','' (header_Get r ''X-Forwarded-For''))
      else h_RemoteAddr r)"


section \<open>Token, step-up and device checks\<close>

definition mw_Authenticate :: "env \<Rightarrow> http_request \<Rightarrow> chain \<Rightarrow> chain" where
  "mw_Authenticate E r next ctx =
     (let token = extractBearerToken r
      in if token = [] then http_Error ''{\"error\":\"missing authorization\"}'' StatusUnauthorized
         else go_try (on_world (VerifyAccessToken E token))
                (\<lambda>_. http_Error ''{\"error\":\"invalid token\"}'' StatusUnauthorized)
                (\<lambda>claims. next (Some claims)))"

definition RequireStepUp :: "env \<Rightarrow> chain \<Rightarrow> chain" where
  "RequireStepUp E next ctx =
     (case ctx of
        None \<Rightarrow> http_Error ''{\"error\":\"unauthorized\"}'' StatusUnauthorized
      | Some claims \<Rightarrow>
          if \<not> t_StepUp claims then
            http_Error ''{\"error\":\"step_up_required\",\"message\":\"biometric re-authentication required for this action\"}'' StatusForbidden
          else
            go_bind (case t_StepUpExp claims of
                       None \<Rightarrow> go_return False
                     | Some e \<Rightarrow> go_bind (on_world (time_Now E)) (\<lambda>now. go_return (now > e))) (\<lambda>expired.
            if expired then
              http_Error ''{\"error\":\"step_up_expired\",\"message\":\"step-up session expired, please re-authenticate\"}'' StatusForbidden
            else next ctx))"

definition mw_ValidateDevice :: "chain \<Rightarrow> chain" where
  "mw_ValidateDevice next ctx =
     (case ctx of
        None \<Rightarrow> next ctx
      | Some claims \<Rightarrow>
          go_try (on_world (ValidateDevice (t_DeviceID claims) (t_UserID claims)))
            (\<lambda>_. http_Error ''{\"error\":\"device_invalid\",\"message\":\"device has been revoked or is blocked\"}'' StatusForbidden)
            (\<lambda>device.
              if d_IsRooted device \<or> d_IsJailbroken device then
                http_Error ''{\"error\":\"device_compromised\",\"message\":\"rooted/jailbroken device detected\"}'' StatusForbidden
              else next ctx))"


section \<open>Rate limiting\<close>

definition rl_limit :: int where
  "rl_limit = 100"

definition rl_window :: int where
  "rl_window = minute"

text \<open>The decision for one arrival: the entry to keep, and whether to let it through.\<close>

definition limit_entry :: "rateLimitEntry option \<Rightarrow> int \<Rightarrow> bool \<times> rateLimitEntry" where
  "limit_entry entry now =
     (case entry of
        None \<Rightarrow> (True, \<lparr>e_count = 1, e_windowStart = now\<rparr>)
      | Some e \<Rightarrow>
          if time_Sub now (e_windowStart e) > rl_window
          then (True, \<lparr>e_count = 1, e_windowStart = now\<rparr>)
          else (let e' = e\<lparr>e_count := e_count e + 1\<rparr> in (e_count e' \<le> rl_limit, e')))"

definition Limit :: "env \<Rightarrow> http_request \<Rightarrow> chain \<Rightarrow> chain" where
  "Limit E r next ctx =
     (let ip = extractIP r
      in go_get (\<lambda>c.
         go_bind (on_world (time_Now E)) (\<lambda>now.
         case limit_entry (repo_get (cn_clients c) ip) now of (admit, e) \<Rightarrow>
           go_bind (go_put (\<lambda>c. c\<lparr>cn_clients := repo_put ip e (cn_clients c)\<rparr>)) (\<lambda>_.
           if admit then next ctx
           else go_bind (set_header ''Retry-After'' ''60'') (\<lambda>_.
                http_Error ''{\"error\":\"rate_limit_exceeded\"}'' StatusTooManyRequests)))))"

definition cleanup_clients :: "int \<Rightarrow> rateLimitEntry repo \<Rightarrow> rateLimitEntry repo" where
  "cleanup_clients now cs = repo_drop (\<lambda>e. time_Sub now (e_windowStart e) > rl_window * 2) cs"

definition cleanup :: "env \<Rightarrow> unit http" where
  "cleanup E = go_bind (on_world (time_Now E)) (\<lambda>now.
     go_put (\<lambda>c. c\<lparr>cn_clients := cleanup_clients now (cn_clients c)\<rparr>))"


section \<open>Response headers and logging\<close>

definition security_headers :: "(string \<times> string) list" where
  "security_headers =
     [(''X-Content-Type-Options'', ''nosniff''),
      (''X-Frame-Options'', ''DENY''),
      (''X-Xss-Protection'', ''1; mode=block''),
      (''Strict-Transport-Security'', ''max-age=63072000; includeSubDomains; preload''),
      (''Cache-Control'', ''no-store, no-cache, must-revalidate, private''),
      (''Referrer-Policy'', ''no-referrer''),
      (''Content-Security-Policy'', ''default-src '' @ [CHR 0x27] @ ''none'' @ [CHR 0x27]),
      (''Permissions-Policy'', ''geolocation=(), microphone=(), camera=()'')]"

definition Headers :: "chain \<Rightarrow> chain" where
  "Headers next ctx =
     go_bind (go_put (\<lambda>c. c\<lparr>cn_header := fold (\<lambda>(k, v). repo_put k v) security_headers (cn_header c)\<rparr>)) (\<lambda>_.
     go_bind (del_header ''X-Powered-By'') (\<lambda>_.
     go_bind (del_header ''Server'') (\<lambda>_.
     next ctx)))"

text \<open>The log line itself is output; the two clock readings are kept.\<close>

definition RequestLogger :: "env \<Rightarrow> chain \<Rightarrow> chain" where
  "RequestLogger E next ctx =
     go_bind (on_world (time_Now E)) (\<lambda>start.
     go_bind (next ctx) (\<lambda>rep.
     go_bind (on_world (time_Now E)) (\<lambda>_.
     go_return rep)))"


section \<open>How many requests the limiter lets through\<close>

text \<open>The decisions for the arrivals of one client, one after the other.\<close>

fun admissions :: "rateLimitEntry option \<Rightarrow> int list \<Rightarrow> bool list" where
  "admissions e [] = []"
| "admissions e (t # ts) = (case limit_entry e t of (ok, e') \<Rightarrow> ok # admissions (Some e') ts)"

definition admitted :: "rateLimitEntry option \<Rightarrow> int list \<Rightarrow> int" where
  "admitted e ts = int (length (filter id (admissions e ts)))"

lemma time_Sub_window: "time_Sub t s > rl_window \<longleftrightarrow> t - s > rl_window"
  by (auto simp: time_Sub_def rl_window_def minute_def second_def max_duration_def min_duration_def)

lemma time_Sub_window2: "time_Sub t s > rl_window * 2 \<longleftrightarrow> t - s > rl_window * 2"
  by (auto simp: time_Sub_def rl_window_def minute_def second_def max_duration_def min_duration_def)

lemma limit_entry_Some:
  "limit_entry (Some e) t =
     (if t - e_windowStart e > rl_window then (True, \<lparr>e_count = 1, e_windowStart = t\<rparr>)
      else (e_count e + 1 \<le> rl_limit, e\<lparr>e_count := e_count e + 1\<rparr>))"
  by (simp add: limit_entry_def time_Sub_window Let_def)

lemma limit_entry_None: "limit_entry None t = (True, \<lparr>e_count = 1, e_windowStart = t\<rparr>)"
  by (simp add: limit_entry_def)

text \<open>While one window lasts, exactly the quota that is left.\<close>

lemma admitted_one_window:
  "\<forall>t \<in> set ts. t - e_windowStart e \<le> rl_window \<Longrightarrow>
   admitted (Some e) ts = min (int (length ts)) (max 0 (rl_limit - e_count e))"
proof (induction ts arbitrary: e)
  case Nil
  then show ?case by (simp add: admitted_def)
next
  case (Cons t ts)
  let ?e = "e\<lparr>e_count := e_count e + 1\<rparr>"
  have "admitted (Some ?e) ts = min (int (length ts)) (max 0 (rl_limit - e_count ?e))"
    using Cons.prems by (intro Cons.IH) simp
  then show ?case
    using Cons.prems by (auto simp: admitted_def limit_entry_Some)
qed

text \<open>A fixed window lets at most two quotas through any interval of one window's length.\<close>

lemma admitted_interval:
  "sorted ts \<Longrightarrow> \<forall>t \<in> set ts. T \<le> t \<and> t \<le> T + rl_window \<Longrightarrow> 0 \<le> e_count e \<Longrightarrow>
   admitted (Some e) ts \<le> max 0 (rl_limit - e_count e) + rl_limit"
proof (induction ts arbitrary: e)
  case Nil
  then show ?case by (simp add: admitted_def rl_limit_def)
next
  case (Cons t ts)
  show ?case
  proof (cases "t - e_windowStart e > rl_window")
    case True
    have "admitted (Some \<lparr>e_count = 1, e_windowStart = t\<rparr>) ts \<le> rl_limit - 1"
      using Cons.prems by (subst admitted_one_window) (auto simp: rl_limit_def)
    with True show ?thesis by (simp add: admitted_def limit_entry_Some)
  next
    case False
    let ?e = "e\<lparr>e_count := e_count e + 1\<rparr>"
    have "admitted (Some ?e) ts \<le> max 0 (rl_limit - e_count ?e) + rl_limit"
      using Cons.prems by (intro Cons.IH) auto
    with False show ?thesis by (auto simp: admitted_def limit_entry_Some)
  qed
qed

lemma admitted_interval_fresh:
  assumes "sorted ts" "\<forall>t \<in> set ts. T \<le> t \<and> t \<le> T + rl_window"
  shows "admitted None ts \<le> rl_limit"
proof (cases ts)
  case Nil
  then show ?thesis by (simp add: admitted_def rl_limit_def)
next
  case (Cons t ts')
  have "admitted (Some \<lparr>e_count = 1, e_windowStart = t\<rparr>) ts' \<le> rl_limit - 1"
    using assms Cons by (subst admitted_one_window) (auto simp: rl_limit_def)
  with Cons show ?thesis by (simp add: admitted_def limit_entry_None)
qed

text \<open>What the clean-up forgets would have been reset by the next arrival anyway.\<close>

lemma cleanup_transparent:
  assumes "distinct (map fst cs)" and "now \<le> t"
  shows "limit_entry (repo_get (cleanup_clients now cs) ip) t = limit_entry (repo_get cs ip) t"
proof -
  have "0 < rl_window" by (simp add: rl_window_def minute_def second_def)
  with assms show ?thesis
    by (auto simp: cleanup_clients_def repo_get_drop limit_entry_Some limit_entry_None
        time_Sub_window2 split: option.splits)
qed

lemma Limit_apply:
  "Limit E r next ctx c =
     (let ip = extractIP r; now = now_at E (clock (cn_world c));
          (admit, e) = limit_entry (repo_get (cn_clients c) ip) now;
          c' = c\<lparr>cn_world := tick (cn_world c), cn_clients := repo_put ip e (cn_clients c)\<rparr>
      in if admit then next ctx c'
         else (Ok \<lparr>r_status = StatusTooManyRequests,
                   r_body = TextBody (''{\"error\":\"rate_limit_exceeded\"}'' @ [CHR 0x0A])\<rparr>,
               c'\<lparr>cn_header := repo_put ''X-Content-Type-Options'' ''nosniff''
                   (repo_put ''Content-Type'' ''text/plain; charset=utf-8''
                     (repo_put ''Retry-After'' ''60'' (cn_header c)))\<rparr>))"
  by (simp add: Limit_def Let_def http_Error_def set_header_def tick_def split: prod.splits)


section \<open>Properties\<close>

text \<open>
  C21: The limiter's quota. Arrivals of one client in time order, all within one interval of
  a minute: a client without an entry gets at most 100 of them through, and a client with an
  entry gets through at most what its entry leaves plus one full quota (at most 200, the
  price of a fixed window). While all arrivals fall into the entry's own window exactly the
  remaining quota passes.
\<close>

theorem rate_limit_quota:
  assumes "sorted ts" and "\<forall>t \<in> set ts. T \<le> t \<and> t \<le> T + 60 * second" and "0 \<le> e_count e"
  shows "admitted None ts \<le> 100
    \<and> admitted (Some e) ts \<le> max 0 (100 - e_count e) + 100
    \<and> ((\<forall>t \<in> set ts. t - e_windowStart e \<le> 60 * second) \<longrightarrow>
        admitted (Some e) ts = min (int (length ts)) (max 0 (100 - e_count e)))"
proof -
  have in_T: "\<forall>t \<in> set ts. T \<le> t \<and> t \<le> T + rl_window"
    using assms(2) by (simp add: rl_window_def minute_def)
  have w: "rl_window = 60 * second" by (simp add: rl_window_def minute_def)
  show ?thesis
    using admitted_interval_fresh [OF assms(1) in_T] admitted_interval [OF assms(1) in_T assms(3)]
      admitted_one_window [of ts e]
    by (simp add: rl_limit_def w)
qed

theorem rate_limit_quota_witness:
  "admitted None (replicate 150 0) \<le> 100
   \<and> admitted (Some \<lparr>e_count = 1, e_windowStart = 0\<rparr>) (replicate 150 0) = 99"
  using rate_limit_quota [of "replicate 150 0" 0 "\<lparr>e_count = 1, e_windowStart = 0\<rparr>"]
  by (simp add: second_def)

text \<open>
  A refused request goes no further. When the limiter refuses, the reply is 429 with a
  Retry-After header, the rest of the chain is not run, and only the clock and the client's
  own entry change; when it admits, the chain runs on exactly that state.
\<close>

lemma limiter_gate:
  "Limit E r next ctx c =
     (let ip = extractIP r; now = now_at E (clock (cn_world c));
          (admit, e) = limit_entry (repo_get (cn_clients c) ip) now;
          c' = c\<lparr>cn_world := tick (cn_world c), cn_clients := repo_put ip e (cn_clients c)\<rparr>
      in if admit then next ctx c'
         else (Ok \<lparr>r_status = StatusTooManyRequests,
                   r_body = TextBody (''{\"error\":\"rate_limit_exceeded\"}'' @ [CHR 0x0A])\<rparr>,
               c'\<lparr>cn_header := repo_put ''X-Content-Type-Options'' ''nosniff''
                   (repo_put ''Content-Type'' ''text/plain; charset=utf-8''
                     (repo_put ''Retry-After'' ''60'' (cn_header c)))\<rparr>))"
  by (rule Limit_apply)

text \<open>
  C22: The periodic clean-up changes no decision. For any later arrival of any client, the
  decision and the entry that is kept are the same whether or not the clean-up ran.
\<close>

theorem cleanup_changes_no_decision:
  assumes "distinct (map fst cs)" and "now \<le> t"
  shows "limit_entry (repo_get (cleanup_clients now cs) ip) t = limit_entry (repo_get cs ip) t"
  using assms by (rule cleanup_transparent)

theorem cleanup_witness:
  "cleanup_clients (121 * second) [(''a'', \<lparr>e_count = 100, e_windowStart = 0\<rparr>)] = []
   \<and> limit_entry (repo_get (cleanup_clients (121 * second) [(''a'', \<lparr>e_count = 100, e_windowStart = 0\<rparr>)]) ''a'')
       (121 * second)
     = limit_entry (repo_get [(''a'', \<lparr>e_count = 100, e_windowStart = 0\<rparr>)] ''a'') (121 * second)"
proof -
  have "cleanup_clients (121 * second) [(''a'', \<lparr>e_count = 100, e_windowStart = 0\<rparr>)] = []"
    by (simp add: cleanup_clients_def repo_drop_def time_Sub_def max_duration_def
        min_duration_def rl_window_def minute_def second_def)
  with cleanup_changes_no_decision [of "[(''a'', \<lparr>e_count = 100, e_windowStart = 0\<rparr>)]"
      "121 * second" "121 * second" "''a''"] show ?thesis by simp
qed

end
