(* ===== verification/Handlers.thy ===== *)
theory Handlers
  imports Middleware
begin

text \<open>
  \<^verbatim>\<open>internal/handler/handler.go\<close>: each handler decodes its request struct, calls one
  service operation and maps the error to a status. The JSON decoders of the anonymous
  request structs are the fields of \<open>decoders\<close>.
\<close>

section \<open>Request structs\<close>

record loginBody =
  lb_Identifier :: string
  lb_Password :: string
  lb_DeviceID :: string
  lb_DeviceName :: string
  lb_Platform :: string
  lb_AppVersion :: string
  lb_OSVersion :: string
  lb_Fingerprint :: string
  lb_IsRooted :: bool
  lb_IsJailbroken :: bool

record otpBody =
  ob_UserID :: string
  ob_OTP :: string
  ob_SessionID :: string

record refreshBody =
  rb_RefreshToken :: string
  rb_DeviceID :: string

record signedBody =
  sb_ChallengeID :: string
  sb_Nonce :: string
  sb_Signature :: string
  sb_Timestamp :: int
  sb_SessionID :: string
  sb_IsRooted :: bool
  sb_IsJailbroken :: bool

record enrollBody =
  eb_ChallengeID :: string
  eb_PublicKeyPEM :: string
  eb_KeyID :: string
  eb_KeyAlgo :: string
  eb_Signature :: string
  eb_Timestamp :: int
  eb_BiometricType :: string
  eb_AttestationData :: string
  eb_IsRooted :: bool
  eb_IsJailbroken :: bool

text \<open>
  \<open>dec_payment\<close> decodes a struct without the session field; the field is then empty and is
  not read.
\<close>

record decoders =
  dec_login :: "string \<Rightarrow> bool \<Rightarrow> loginBody option"
  dec_otp :: "string \<Rightarrow> bool \<Rightarrow> otpBody option"
  dec_refresh :: "string \<Rightarrow> bool \<Rightarrow> refreshBody option"
  dec_payment :: "string \<Rightarrow> bool \<Rightarrow> signedBody option"
  dec_action :: "string \<Rightarrow> bool \<Rightarrow> string option"
  dec_enroll :: "string \<Rightarrow> bool \<Rightarrow> enrollBody option"
  dec_authenticate :: "string \<Rightarrow> bool \<Rightarrow> signedBody option"


section \<open>Authentication handlers\<close>

definition login_status :: "go_error \<Rightarrow> reply http" where
  "login_status err =
     (if errors_Is err (AuthErr ErrInvalidCredentials)
      then writeError StatusUnauthorized ''invalid credentials''
      else if errors_Is err (AuthErr ErrAccountLocked)
      then writeError StatusTooManyRequests ''account locked''
      else if errors_Is err (AuthErr ErrAccountDisabled)
      then writeError StatusForbidden ''account disabled''
      else writeError StatusInternalServerError ''login failed'')"

definition handle_Login :: "env \<Rightarrow> decoders \<Rightarrow> http_request \<Rightarrow> chain" where
  "handle_Login E D r ctx =
     (case decode (dec_login D) r of
        None \<Rightarrow> writeError StatusBadRequest ''invalid request''
      | Some req \<Rightarrow>
          go_try (on_world (Login E
              \<lparr>lq_Identifier = lb_Identifier req, lq_Password = lb_Password req,
               lq_DeviceID = lb_DeviceID req, lq_IPAddress = h_RemoteAddr r,
               lq_UserAgent = header_Get r ''User-Agent'', lq_DeviceName = lb_DeviceName req,
               lq_Platform = lb_Platform req, lq_AppVersion = lb_AppVersion req,
               lq_OSVersion = lb_OSVersion req, lq_Fingerprint = lb_Fingerprint req,
               lq_IsRooted = lb_IsRooted req, lq_IsJailbroken = lb_IsJailbroken req\<rparr>))
            login_status (\<lambda>resp.
          writeJSON StatusOK
            [(''access_token'', JString (lr_AccessToken resp)),
             (''refresh_token'', JString (lr_RefreshToken resp)),
             (''user_id'', JString (lr_UserID resp)),
             (''requires_otp'', JBool (lr_RequiresOTP resp))]))"

definition handle_SendOTP :: chain where
  "handle_SendOTP ctx = writeJSON StatusOK [(''status'', JString ''otp_sent'')]"

definition handle_VerifyOTP :: "env \<Rightarrow> decoders \<Rightarrow> http_request \<Rightarrow> chain" where
  "handle_VerifyOTP E D r ctx =
     (case decode (dec_otp D) r of
        None \<Rightarrow> writeError StatusBadRequest ''invalid request''
      | Some req \<Rightarrow>
          go_try (on_world (VerifyOTP E
              \<lparr>oq_UserID = ob_UserID req, oq_OTP = ob_OTP req, oq_SessionID = ob_SessionID req,
               oq_IPAddress = h_RemoteAddr r\<rparr>))
            (\<lambda>_. writeError StatusUnauthorized ''invalid OTP'') (\<lambda>_.
          writeJSON StatusOK [(''status'', JString ''verified'')]))"

definition refresh_status :: "go_error \<Rightarrow> reply http" where
  "refresh_status err =
     (if errors_Is err (TokenErr ErrFamilyCompromised)
      then writeError StatusUnauthorized ''security alert: all sessions revoked''
      else if errors_Is err (TokenErr ErrTokenInvalid) \<or> errors_Is err (TokenErr ErrTokenExpired)
      then writeError StatusUnauthorized ''token invalid''
      else if errors_Is err (TokenErr ErrTokenRevoked)
      then writeError StatusUnauthorized ''token revoked''
      else writeError StatusInternalServerError ''refresh failed'')"

definition handle_RefreshToken :: "env \<Rightarrow> decoders \<Rightarrow> http_request \<Rightarrow> chain" where
  "handle_RefreshToken E D r ctx =
     (case decode (dec_refresh D) r of
        None \<Rightarrow> writeError StatusBadRequest ''invalid request''
      | Some req \<Rightarrow>
          go_try (on_world (RefreshToken E
              \<lparr>rq_RefreshToken = rb_RefreshToken req, rq_DeviceID = rb_DeviceID req,
               rq_IPAddress = h_RemoteAddr r\<rparr>))
            refresh_status (\<lambda>resp.
          writeJSON StatusOK
            [(''access_token'', JString (rr_AccessToken resp)),
             (''refresh_token'', JString (rr_RefreshToken resp))]))"

definition handle_Logout :: "env \<Rightarrow> chain" where
  "handle_Logout E ctx =
     deref_claims ctx (\<lambda>claims.
     go_ignore (on_world (Logout E claims))
       (writeJSON StatusOK [(''status'', JString ''logged_out'')]))"

definition handle_LogoutAll :: "env \<Rightarrow> chain" where
  "handle_LogoutAll E ctx =
     deref_claims ctx (\<lambda>claims.
     go_ignore (on_world (LogoutAll E claims))
       (writeJSON StatusOK [(''status'', JString ''all_sessions_revoked'')]))"

definition handle_AuthorizePayment :: "env \<Rightarrow> decoders \<Rightarrow> http_request \<Rightarrow> chain" where
  "handle_AuthorizePayment E D r ctx =
     (case decode (dec_payment D) r of
        None \<Rightarrow> writeError StatusBadRequest ''invalid request''
      | Some req \<Rightarrow>
          deref_claims ctx (\<lambda>claims.
          go_try (on_world (AuthorizePayment E
              \<lparr>uq_Claims = claims, uq_ChallengeID = sb_ChallengeID req, uq_Nonce = sb_Nonce req,
               uq_Signature = sb_Signature req, uq_Timestamp = sb_Timestamp req,
               uq_IsRooted = sb_IsRooted req, uq_IsJailbroken = sb_IsJailbroken req\<rparr>))
            (\<lambda>_. writeError StatusUnauthorized ''step-up authentication failed'') (\<lambda>stepUpToken.
          writeJSON StatusOK
            [(''step_up_token'', JString stepUpToken),
             (''message'', JString ''payment authorized'')])))"


section \<open>Biometric handlers\<close>

definition handle_GetChallenge :: "env \<Rightarrow> decoders \<Rightarrow> http_request \<Rightarrow> chain" where
  "handle_GetChallenge E D r ctx =
     (case decode (dec_action D) r of
        None \<Rightarrow> writeError StatusBadRequest ''invalid request''
      | Some act \<Rightarrow>
          (let action = (if act = [] then ChallengeActionAuthenticate else act)
           in deref_claims ctx (\<lambda>claims.
              go_try (on_world (GetChallenge E
                  \<lparr>cq_UserID = t_UserID claims, cq_DeviceID = t_DeviceID claims,
                   cq_Action = action\<rparr>))
                (\<lambda>_. writeError StatusInternalServerError ''challenge generation failed'') (\<lambda>resp.
              writeJSON StatusOK
                [(''challenge_id'', JString (cr_ChallengeID resp)),
                 (''nonce'', JString (cr_Nonce resp)),
                 (''expires_at'', JInt (unix_of (cr_ExpiresAt resp))),
                 (''hmac'', JString (cr_HMAC resp))]))))"

definition enroll_status :: "go_error \<Rightarrow> reply http" where
  "enroll_status err =
     (if errors_Is err (BiometricErr ErrRootedDevice)
      then writeError StatusForbidden ''rooted/jailbroken device not permitted''
      else if errors_Is err (BiometricErr ErrSignatureInvalid)
      then writeError StatusUnauthorized ''signature verification failed''
      else if errors_Is err (BiometricErr ErrChallengeExpired)
      then writeError StatusUnauthorized ''challenge expired''
      else if errors_Is err (BiometricErr ErrChallengeUsed)
      then writeError StatusConflict ''challenge already used''
      else writeError StatusInternalServerError ''enrollment failed'')"

definition handle_Enroll :: "env \<Rightarrow> decoders \<Rightarrow> http_request \<Rightarrow> chain" where
  "handle_Enroll E D r ctx =
     (case decode (dec_enroll D) r of
        None \<Rightarrow> writeError StatusBadRequest ''invalid request''
      | Some req \<Rightarrow>
          deref_claims ctx (\<lambda>claims.
          go_try (on_world (Enroll E
              \<lparr>er_UserID = t_UserID claims, er_DeviceID = t_DeviceID claims,
               er_ChallengeID = eb_ChallengeID req, er_PublicKeyPEM = eb_PublicKeyPEM req,
               er_KeyID = eb_KeyID req, er_KeyAlgo = eb_KeyAlgo req,
               er_Signature = eb_Signature req, er_Timestamp = eb_Timestamp req,
               er_BiometricType = eb_BiometricType req,
               er_AttestationData = eb_AttestationData req, er_IsRooted = eb_IsRooted req,
               er_IsJailbroken = eb_IsJailbroken req\<rparr>))
            enroll_status (\<lambda>_.
          writeJSON StatusOK [(''status'', JString ''enrolled'')])))"

definition handle_Authenticate :: "env \<Rightarrow> decoders \<Rightarrow> http_request \<Rightarrow> chain" where
  "handle_Authenticate E D r ctx =
     (case decode (dec_authenticate D) r of
        None \<Rightarrow> writeError StatusBadRequest ''invalid request''
      | Some req \<Rightarrow>
          deref_claims ctx (\<lambda>claims.
          go_try (on_world (ExchangeBiometricToken E
              \<lparr>bq_UserID = t_UserID claims, bq_DeviceID = t_DeviceID claims,
               bq_ChallengeID = sb_ChallengeID req, bq_Nonce = sb_Nonce req,
               bq_Signature = sb_Signature req, bq_Timestamp = sb_Timestamp req,
               bq_SessionID = sb_SessionID req, bq_IsRooted = sb_IsRooted req,
               bq_IsJailbroken = sb_IsJailbroken req\<rparr>))
            (\<lambda>_. writeError StatusUnauthorized ''biometric authentication failed'') (\<lambda>resp.
          writeJSON StatusOK
            [(''access_token'', JString (br_AccessToken resp)),
             (''refresh_token'', JString (br_RefreshToken resp))])))"

definition handle_Unenroll :: chain where
  "handle_Unenroll ctx = writeJSON StatusOK [(''status'', JString ''unenrolled'')]"


section \<open>Device and audit handlers\<close>

definition handle_ListDevices :: "env \<Rightarrow> chain" where
  "handle_ListDevices E ctx =
     deref_claims ctx (\<lambda>claims.
     go_try (on_world (ListUserDevices E (t_UserID claims)))
       (\<lambda>_. writeError StatusInternalServerError ''failed to list devices'') (\<lambda>ds.
     writeJSON StatusOK [(''devices'', JDevices ds)]))"

definition handle_RevokeDevice :: "env \<Rightarrow> http_request \<Rightarrow> chain" where
  "handle_RevokeDevice E r ctx =
     deref_claims ctx (\<lambda>claims.
     go_try (on_world (RevokeDevice E (path_Value r ''deviceID'') (t_UserID claims) (t_UserID claims)))
       (\<lambda>err. writeError StatusBadRequest (error_text err)) (\<lambda>_.
     writeJSON StatusOK [(''status'', JString ''device_revoked'')]))"

definition handle_VerifyDevice :: chain where
  "handle_VerifyDevice ctx =
     deref_claims ctx (\<lambda>claims.
     go_try (on_world (ValidateDevice (t_DeviceID claims) (t_UserID claims)))
       (\<lambda>err. writeError StatusForbidden (error_text err)) (\<lambda>device.
     writeJSON StatusOK
       [(''device_id'', JString (d_ID device)),
        (''biometric_enabled'', JBool (d_BiometricEnabled device)),
        (''trust_score'', JInt (d_TrustScore device)),
        (''status'', JString (d_Status device))]))"

definition handle_GetLogs :: chain where
  "handle_GetLogs ctx =
     deref_claims ctx (\<lambda>claims.
     go_try (on_world (audit_GetLogs (t_UserID claims) 50 0))
       (\<lambda>_. writeError StatusInternalServerError ''failed to get logs'') (\<lambda>logs.
     writeJSON StatusOK [(''logs'', JLogs logs), (''count'', JInt (int (length logs)))]))"


section \<open>Invariants of the process state\<close>

lemmas handler_defs =
  handle_Login_def handle_SendOTP_def handle_VerifyOTP_def handle_RefreshToken_def
  handle_Logout_def handle_LogoutAll_def handle_AuthorizePayment_def handle_GetChallenge_def
  handle_Enroll_def handle_Authenticate_def handle_Unenroll_def handle_ListDevices_def
  handle_RevokeDevice_def handle_VerifyDevice_def handle_GetLogs_def

lemmas status_defs = login_status_def refresh_status_def enroll_status_def

lemmas middleware_defs =
  mw_Authenticate_def RequireStepUp_def mw_ValidateDevice_def Limit_def Headers_def RequestLogger_def

text \<open>
  What the HTTP layer needs of an invariant of the process state: every service operation
  that a handler or a middleware calls keeps it. Everything the HTTP layer does then keeps it.
\<close>

locale service_invariant =
  fixes E :: env and I :: "world \<Rightarrow> bool"
  assumes inv_clock: "I w \<Longrightarrow> I (w\<lparr>clock := n\<rparr>)"
    and inv_ranges: "I w \<Longrightarrow> I (w\<lparr>ranges := n\<rparr>)"
    and inv_Login: "keeps I (Login E lq)"
    and inv_VerifyOTP: "keeps I (VerifyOTP E oq)"
    and inv_RefreshToken: "keeps I (RefreshToken E rq)"
    and inv_Logout: "keeps I (Logout E claims)"
    and inv_LogoutAll: "keeps I (LogoutAll E claims)"
    and inv_AuthorizePayment: "keeps I (AuthorizePayment E uq)"
    and inv_GetChallenge: "keeps I (GetChallenge E cq)"
    and inv_Enroll: "keeps I (Enroll E er)"
    and inv_Exchange: "keeps I (ExchangeBiometricToken E bq)"
    and inv_RevokeDevice: "keeps I (RevokeDevice E i u b)"
begin

lemmas service_ops =
  inv_Login inv_VerifyOTP inv_RefreshToken inv_Logout inv_LogoutAll inv_AuthorizePayment
  inv_GetChallenge inv_Enroll inv_Exchange inv_RevokeDevice

lemma reads_keep:
  "keeps I (time_Now E)" "keeps I (ListUserDevices E u)" "keeps I (VerifyAccessToken E t)"
  by (intro keeps_rules; erule inv_clock inv_ranges)+

abbreviation J :: "conn \<Rightarrow> bool" where
  "J c \<equiv> I (cn_world c)"

lemma statuses_keep:
  "keeps J (login_status e)" "keeps J (refresh_status e)" "keeps J (enroll_status e)"
  unfolding status_defs by (intro keeps_rules)+

lemma handlers_keep:
  "keeps J (handle_Login E D r ctx)" "keeps J (handle_SendOTP ctx)"
  "keeps J (handle_VerifyOTP E D r ctx)" "keeps J (handle_RefreshToken E D r ctx)"
  "keeps J (handle_Logout E ctx)" "keeps J (handle_LogoutAll E ctx)"
  "keeps J (handle_AuthorizePayment E D r ctx)" "keeps J (handle_GetChallenge E D r ctx)"
  "keeps J (handle_Enroll E D r ctx)" "keeps J (handle_Authenticate E D r ctx)"
  "keeps J (handle_Unenroll ctx)" "keeps J (handle_ListDevices E ctx)"
  "keeps J (handle_RevokeDevice E r ctx)" "keeps J (handle_VerifyDevice ctx)"
  "keeps J (handle_GetLogs ctx)"
  unfolding handler_defs
  by (intro keeps_try keeps_ignore keeps_option keeps_let keeps_deref keeps_replies statuses_keep
      keeps_on_world service_ops reads_keep keeps_ValidateDevice keeps_audit_GetLogs)+

lemma keeps_clients: "keeps J (go_put (\<lambda>c. c\<lparr>cn_clients := f c\<rparr>))"
  by (simp add: keeps_def)

lemma keeps_header_map: "keeps J (go_put (\<lambda>c. c\<lparr>cn_header := f c\<rparr>))"
  by (simp add: keeps_def)

lemma middleware_keeps:
  assumes "\<And>ctx. keeps J (next ctx)"
  shows "keeps J (mw_Authenticate E r next ctx)" "keeps J (RequireStepUp E next ctx)"
    "keeps J (mw_ValidateDevice next ctx)" "keeps J (Limit E r next ctx)"
    "keeps J (Headers next ctx)" "keeps J (RequestLogger E next ctx)"
  unfolding middleware_defs
  by (intro keeps_try keeps_bind keeps_if keeps_option keeps_let keeps_prod keeps_get keeps_return
      keeps_replies keeps_headers keeps_on_world reads_keep keeps_ValidateDevice keeps_clients
      keeps_header_map assms)+

lemma cleanup_keeps: "keeps J (cleanup E)"
  unfolding cleanup_def by (intro keeps_bind keeps_on_world reads_keep keeps_clients)

end

abbreviation conn_wf :: "conn \<Rightarrow> bool" where
  "conn_wf c \<equiv> world_wf (cn_world c)"

interpretation wf: service_invariant E world_wf for E
  by unfold_locales (simp_all add: keeps_wf_Login keeps_wf_auth_ops keeps_wf_biometric_ops
      keeps_wf_GetChallenge keeps_device_ops)

interpretation log: service_invariant E "log_extends as" for E as
  by unfold_locales (simp_all add: keeps_log_auth_ops keeps_log_biometric_ops keeps_device_ops)

end
