(* ===== verification/Server.thy ===== *)
theory Server
  imports Handlers
begin

text \<open>
  \<^verbatim>\<open>main.go\<close>: the routes, the middleware in front of them, and the runs of the server.
  A run is a sequence of requests and clean-ups of the rate limiter; each request runs to
  completion before the next (the interleaving of two handlers between their repository
  calls is not modelled).
\<close>

section \<open>Routes\<close>

datatype endpoint =
    PostLogin | PostOTPSend | PostOTPVerify | PostTokenRefresh
  | PostChallenge | PostEnroll | PostAuthenticate | DeleteUnenroll
  | GetDevices | DeleteDevice | PostDeviceVerify
  | PostLogout | PostLogoutAll | PostPaymentAuthorize | GetAuditLogs
  | NoRoute

text \<open>The router package: the address it derives, its reply to a panic and to an unknown path.\<close>

record chi =
  chi_RealIP :: "http_request \<Rightarrow> string"
  chi_Recovered :: reply
  chi_NotFound :: reply

fun public :: "endpoint \<Rightarrow> bool" where
  "public PostLogin = True"
| "public PostOTPSend = True"
| "public PostOTPVerify = True"
| "public PostTokenRefresh = True"
| "public NoRoute = True"
| "public _ = False"

fun endpoint_handler :: "env \<Rightarrow> decoders \<Rightarrow> chi \<Rightarrow> endpoint \<Rightarrow> http_request \<Rightarrow> chain" where
  "endpoint_handler E D C PostLogin r = handle_Login E D r"
| "endpoint_handler E D C PostOTPSend r = handle_SendOTP"
| "endpoint_handler E D C PostOTPVerify r = handle_VerifyOTP E D r"
| "endpoint_handler E D C PostTokenRefresh r = handle_RefreshToken E D r"
| "endpoint_handler E D C PostChallenge r = handle_GetChallenge E D r"
| "endpoint_handler E D C PostEnroll r = handle_Enroll E D r"
| "endpoint_handler E D C PostAuthenticate r = handle_Authenticate E D r"
| "endpoint_handler E D C DeleteUnenroll r = handle_Unenroll"
| "endpoint_handler E D C GetDevices r = handle_ListDevices E"
| "endpoint_handler E D C DeleteDevice r = handle_RevokeDevice E r"
| "endpoint_handler E D C PostDeviceVerify r = handle_VerifyDevice"
| "endpoint_handler E D C PostLogout r = handle_Logout E"
| "endpoint_handler E D C PostLogoutAll r = handle_LogoutAll E"
| "endpoint_handler E D C PostPaymentAuthorize r = RequireStepUp E (handle_AuthorizePayment E D r)"
| "endpoint_handler E D C GetAuditLogs r = handle_GetLogs"
| "endpoint_handler E D C NoRoute r = (\<lambda>_. go_return (chi_NotFound C))"

definition route :: "env \<Rightarrow> decoders \<Rightarrow> chi \<Rightarrow> endpoint \<Rightarrow> http_request \<Rightarrow> chain" where
  "route E D C ep r =
     (if public ep then endpoint_handler E D C ep r
      else mw_Authenticate E r (mw_ValidateDevice (endpoint_handler E D C ep r)))"

text \<open>The whole chain of one request; a panic ends in the recovery middleware.\<close>

definition serve ::
  "env \<Rightarrow> decoders \<Rightarrow> chi \<Rightarrow> endpoint \<Rightarrow> http_request \<Rightarrow> conn \<Rightarrow> reply \<times> conn" where
  "serve E D C ep r0 c0 =
     (let r = r0\<lparr>h_RemoteAddr := chi_RealIP C r0\<rparr>
      in case Headers (Limit E r (RequestLogger E (route E D C ep r))) None
                (c0\<lparr>cn_header := []\<rparr>) of
           (Ok rep, c) \<Rightarrow> (rep, c)
         | (_, c) \<Rightarrow> (chi_Recovered C, c))"


section \<open>Runs\<close>

definition start :: "env \<Rightarrow> conn" where
  "start E =
     \<lparr>cn_world = \<lparr>users = NewUserRepository (now_at E 0), devices = NewDeviceRepository,
                  sessions = NewSessionRepository, audits = NewAuditRepository,
                  challenges = NewChallengeRepository, clock = 1, randoms = 0, ranges = 0\<rparr>,
      cn_clients = [], cn_header = []\<rparr>"

datatype event = Request endpoint http_request reply | CleanupTick

inductive runs :: "env \<Rightarrow> decoders \<Rightarrow> chi \<Rightarrow> event list \<Rightarrow> conn \<Rightarrow> bool"
  for E :: env and D :: decoders and C :: chi where
  runs_start: "runs E D C [] (start E)"
| runs_request: "runs E D C tr c \<Longrightarrow> serve E D C ep r c = (rep, c') \<Longrightarrow>
    runs E D C (Request ep r rep # tr) c'"
| runs_cleanup: "runs E D C tr c \<Longrightarrow> cleanup E c = (Ok (), c') \<Longrightarrow>
    runs E D C (CleanupTick # tr) c'"

inductive_cases runs_requestE: "runs E D C (Request ep r rep # tr) c"
inductive_simps runs_Nil: "runs E D C [] c"


section \<open>The state invariant along runs\<close>

context service_invariant
begin

lemma endpoint_keeps: "keeps J (endpoint_handler E D C ep r ctx)"
  by (cases ep) (simp_all add: handlers_keep middleware_keeps keeps_return)

lemma route_keeps: "keeps J (route E D C ep r ctx)"
  by (simp add: route_def endpoint_keeps middleware_keeps)

lemma serve_keeps:
  assumes "J c" and "serve E D C ep r c = (rep, c')"
  shows "J c'"
proof -
  let ?r = "r\<lparr>h_RemoteAddr := chi_RealIP C r\<rparr>"
  let ?m = "Headers (Limit E ?r (RequestLogger E (route E D C ep ?r))) None"
  obtain o' v where m: "?m (c\<lparr>cn_header := []\<rparr>) = (o', v)" by fastforce
  have "keeps J ?m"
    by (intro middleware_keeps route_keeps)
  from keepsD [OF this _ m] assms(1) have "J v" by simp
  moreover have "c' = v"
    using assms(2) m by (auto simp: serve_def split: outcome.splits)
  ultimately show ?thesis by simp
qed

text \<open>So it holds along every run that starts in it.\<close>

lemma runs_keep:
  assumes "J (start E)" and "runs E D C tr c"
  shows "J c"
  using assms(2)
proof (induction rule: runs.induct)
  case runs_start
  then show ?case by (rule assms(1))
next
  case (runs_request tr c ep r rep c')
  then show ?case by (blast intro: serve_keeps)
next
  case (runs_cleanup tr c c')
  then show ?case using keepsD [OF cleanup_keeps] by blast
qed

end

lemma start_wf: "conn_wf (start E)"
  by (simp add: start_def world_wf_def repo_wf_def NewUserRepository_def NewDeviceRepository_def
      NewSessionRepository_def NewChallengeRepository_def)

lemma runs_wf: "runs E D C tr c \<Longrightarrow> conn_wf c"
  using wf.runs_keep start_wf by blast


section \<open>Handlers answer every error themselves\<close>

lemma never_err_on_now [never_err_rules]: "never_err (on_world (time_Now E))"
  by (simp add: never_err_def on_world_def)

lemma never_err_replies [never_err_rules]:
  "never_err (set_header k v)" "never_err (del_header k)" "never_err (http_Error msg st)"
  "never_err (writeJSON st j)" "never_err (writeError st msg)"
  unfolding set_header_def del_header_def http_Error_def writeJSON_def writeError_def
  by (intro never_err_rules)+

lemma never_err_deref [never_err_rules]:
  "(\<And>x. never_err (k x)) \<Longrightarrow> never_err (deref_claims c k)"
  unfolding deref_claims_def by (intro never_err_rules)

lemma never_err_statuses [never_err_rules]:
  "never_err (login_status e)" "never_err (refresh_status e)" "never_err (enroll_status e)"
  unfolding status_defs by (intro never_err_rules)+

lemma never_err_middleware:
  assumes "\<And>ctx. never_err (next ctx)"
  shows "never_err (mw_Authenticate E r next ctx)" "never_err (RequireStepUp E next ctx)"
    "never_err (mw_ValidateDevice next ctx)" "never_err (Limit E r next ctx)"
    "never_err (Headers next ctx)" "never_err (RequestLogger E next ctx)"
  unfolding mw_Authenticate_def RequireStepUp_def mw_ValidateDevice_def Limit_def Headers_def
    RequestLogger_def
  by (intro never_err_rules assms)+

lemma never_err_handlers:
  "never_err (handle_Login E D r ctx)" "never_err (handle_SendOTP ctx)"
  "never_err (handle_VerifyOTP E D r ctx)" "never_err (handle_RefreshToken E D r ctx)"
  "never_err (handle_Logout E ctx)" "never_err (handle_LogoutAll E ctx)"
  "never_err (handle_AuthorizePayment E D r ctx)"
  "never_err (handle_GetChallenge E D r ctx)" "never_err (handle_Enroll E D r ctx)"
  "never_err (handle_Authenticate E D r ctx)" "never_err (handle_Unenroll ctx)"
  "never_err (handle_ListDevices E ctx)" "never_err (handle_RevokeDevice E r ctx)"
  "never_err (handle_VerifyDevice ctx)" "never_err (handle_GetLogs ctx)"
  unfolding handler_defs by (intro never_err_rules)+

lemma never_err_endpoint: "never_err (endpoint_handler E D C ep r ctx)"
  by (cases ep) (simp_all add: never_err_handlers never_err_middleware never_err_return)

lemma never_err_route: "never_err (route E D C ep r ctx)"
  by (simp add: route_def never_err_endpoint never_err_middleware)


section \<open>Tokens the server hands out\<close>

definition token_keys :: "string list" where
  "token_keys = [''access_token'', ''refresh_token'', ''step_up_token'']"

definition tokens_of :: "reply \<Rightarrow> string list" where
  "tokens_of rep = (case r_body rep of
     JSONBody v \<Rightarrow> concat (map (\<lambda>(k, j). case j of JString t \<Rightarrow> if k \<in> set token_keys then [t] else []
                                          | _ \<Rightarrow> []) v)
   | _ \<Rightarrow> [])"

fun issued :: "event list \<Rightarrow> string list" where
  "issued [] = []"
| "issued (Request ep r rep # tr) = tokens_of rep @ issued tr"
| "issued (CleanupTick # tr) = issued tr"

text \<open>The part of a token its signature covers, and whether the signature is right.\<close>

definition signing_input :: "string \<Rightarrow> string option" where
  "signing_input t = (case split_on CHR ''.'' t of [h, b, s] \<Rightarrow> Some (h @ ''.'' @ b) | _ \<Rightarrow> None)"

definition well_signed :: "env \<Rightarrow> string \<Rightarrow> string \<Rightarrow> bool" where
  "well_signed E k t = (case split_on CHR ''.'' t of
     [h, b, s] \<Rightarrow> b64url_decode s = Inr (hmac_sha256 E k (h @ ''.'' @ b))
   | _ \<Rightarrow> False)"

text \<open>
  Runs in which nobody forges a signature: a bearer token with a valid signature has the
  signed part of a token that an earlier reply contained.
\<close>

inductive honest_runs :: "env \<Rightarrow> decoders \<Rightarrow> chi \<Rightarrow> event list \<Rightarrow> conn \<Rightarrow> bool"
  for E :: env and D :: decoders and C :: chi where
  honest_start: "honest_runs E D C [] (start E)"
| honest_request: "honest_runs E D C tr c \<Longrightarrow> serve E D C ep r c = (rep, c') \<Longrightarrow>
    (well_signed E (AccessTokenSecret (cfg E)) (extractBearerToken r) \<longrightarrow>
      signing_input (extractBearerToken r) \<in> signing_input ` set (issued tr)) \<Longrightarrow>
    honest_runs E D C (Request ep r rep # tr) c'"
| honest_cleanup: "honest_runs E D C tr c \<Longrightarrow> cleanup E c = (Ok (), c') \<Longrightarrow>
    honest_runs E D C (CleanupTick # tr) c'"

lemma honest_is_run: "honest_runs E D C tr c \<Longrightarrow> runs E D C tr c"
  by (induction rule: honest_runs.induct) (auto intro: runs.intros)

text \<open>\<^verbatim>\<open>encoding/json\<close> gives back the boolean it was given.\<close>

definition json_keeps_step_up :: "env \<Rightarrow> bool" where
  "json_keeps_step_up E \<longleftrightarrow> (\<forall>p s q. json_Marshal E p = Inr s \<longrightarrow> json_Unmarshal E s = Some q \<longrightarrow>
     p_StepUp q = p_StepUp p)"

text \<open>A token signed by the service for a payload without the step-up mark.\<close>

definition plain_token :: "env \<Rightarrow> string \<Rightarrow> bool" where
  "plain_token E t \<longleftrightarrow> (\<exists>p k. sign E p k = Ok t \<and> \<not> p_StepUp p)"

lemma yields_plain_IssueTokenPair:
  "yields (\<lambda>(a, r). plain_token E a \<and> plain_token E r) (IssueTokenPair E u d s f)"
proof (rule yieldsI)
  fix w x w' assume "IssueTokenPair E u d s f w = (Ok x, w')"
  then obtain a r where x: "x = (a, r)" and i: "IssueTokenPair E u d s f w = (Ok (a, r), w')"
    by (cases x) auto
  from IssueTokenPair_Ok [OF i] show "case x of (a, r) \<Rightarrow> plain_token E a \<and> plain_token E r"
    unfolding x plain_token_def by (auto simp: access_payload_def refresh_payload_def)
qed

lemma yields_plain_Rotate:
  "yields (\<lambda>(a, r). plain_token E a \<and> plain_token E r) (RotateRefreshToken E t d)"
proof (rule yieldsI)
  fix w x w' assume R: "RotateRefreshToken E t d w = (Ok x, w')"
  then obtain a r where x: "x = (a, r)" by (cases x) auto
  from R [unfolded x] show "case x of (a, r) \<Rightarrow> plain_token E a \<and> plain_token E r"
    by (cases rule: Rotate_Ok) (use x yieldsD [OF yields_plain_IssueTokenPair] in auto)
qed

lemma yields_plain_RefreshToken:
  "yields (\<lambda>r. plain_token E (rr_AccessToken r) \<and> plain_token E (rr_RefreshToken r)) (RefreshToken E req)"
  unfolding RefreshToken_def
  by (rule yields_try_if [OF yields_plain_Rotate]) (auto intro!: yields_rules)

lemma yields_plain_createSession:
  "yields (\<lambda>r. plain_token E (sr_accessToken r) \<and> plain_token E (sr_refreshToken r))
     (createSession E u d ip ua)"
  unfolding createSession_def
  by (intro yields_bind yields_bind_if [OF yields_plain_IssueTokenPair])
     (auto intro!: yields_rules)

lemma yields_plain_Login:
  "yields (\<lambda>r. plain_token E (lr_AccessToken r) \<and> plain_token E (lr_RefreshToken r)) (Login E req)"
proof -
  have "yields (\<lambda>r. plain_token E (lr_AccessToken r) \<and> plain_token E (lr_RefreshToken r))
          (complete_login E req u)" for u
    unfolding complete_login_def
    by (intro yields_ignore yields_try_if [OF yields_plain_createSession])
       (auto intro!: yields_rules)
  then show ?thesis unfolding Login_def by (intro yields_rules)
qed

lemma yields_plain_Exchange:
  "yields (\<lambda>r. plain_token E (br_AccessToken r) \<and> plain_token E (br_RefreshToken r))
     (ExchangeBiometricToken E req)"
  unfolding ExchangeBiometricToken_def
  by (intro yields_bind yields_try yields_option yields_fail
        yields_bind_if [OF yields_plain_IssueTokenPair])
     (auto intro!: yields_rules)


section \<open>Replies carry plain tokens only\<close>

text \<open>The documented replies of the router: 500 after a panic, 404 for an unknown path.\<close>

definition chi_documented :: "chi \<Rightarrow> bool" where
  "chi_documented C \<longleftrightarrow> r_status (chi_Recovered C) = 500 \<and> r_body (chi_Recovered C) = EmptyBody
     \<and> r_status (chi_NotFound C) = 404 \<and> tokens_of (chi_NotFound C) = []"

definition plain_reply :: "env \<Rightarrow> reply \<Rightarrow> bool" where
  "plain_reply E rep \<longleftrightarrow> (\<forall>t \<in> set (tokens_of rep). plain_token E t)"

lemma yields_on_world: "yields Q m \<Longrightarrow> yields Q (on_world m)"
  by (auto simp: yields_def on_world_def split: prod.splits)

lemma yields_writeJSON [yields_rules]:
  "Q \<lparr>r_status = st, r_body = JSONBody v\<rparr> \<Longrightarrow> yields Q (writeJSON st v)"
  by (simp add: yields_def)

lemma yields_writeError [yields_rules]:
  "Q \<lparr>r_status = st, r_body = JSONBody [(''error'', JString msg)]\<rparr> \<Longrightarrow> yields Q (writeError st msg)"
  unfolding writeError_def by (rule yields_writeJSON)

lemma yields_http_Error [yields_rules]:
  "Q \<lparr>r_status = st, r_body = TextBody (msg @ [CHR 0x0A])\<rparr> \<Longrightarrow> yields Q (http_Error msg st)"
  unfolding http_Error_def by (intro yields_rules)

lemma yields_deref [yields_rules]:
  "(\<And>x. c = Some x \<Longrightarrow> yields Q (k x)) \<Longrightarrow> yields Q (deref_claims c k)"
  unfolding deref_claims_def by (intro yields_rules)

lemma plain_bodies [simp]:
  "plain_reply E \<lparr>r_status = st, r_body = TextBody m\<rparr>"
  "plain_reply E \<lparr>r_status = st, r_body = JSONBody []\<rparr>"
  "plain_reply E \<lparr>r_status = st, r_body = JSONBody ((k, j) # v)\<rparr> \<longleftrightarrow>
     (k \<in> set token_keys \<longrightarrow> (case j of JString t \<Rightarrow> plain_token E t | _ \<Rightarrow> True))
     \<and> plain_reply E \<lparr>r_status = st, r_body = JSONBody v\<rparr>"
  by (auto simp: plain_reply_def tokens_of_def split: jval.splits)

lemma yields_plain_statuses [yields_rules]:
  "yields (plain_reply E) (login_status e)" "yields (plain_reply E) (refresh_status e)"
  "yields (plain_reply E) (enroll_status e)"
  unfolding status_defs by ((intro yields_rules); simp add: token_keys_def)+

lemmas yields_plain_ops =
  yields_on_world [OF yields_plain_Login] yields_on_world [OF yields_plain_RefreshToken]
  yields_on_world [OF yields_plain_Exchange]

lemma yields_plain_token_handlers:
  "yields (plain_reply E) (handle_Login E D r ctx)"
  "yields (plain_reply E) (handle_RefreshToken E D r ctx)"
  "yields (plain_reply E) (handle_Authenticate E D r ctx)"
  unfolding handler_defs
  by (intro yields_option yields_deref yields_writeError yields_plain_statuses
        yields_plain_ops [THEN yields_try_if] yields_writeJSON; simp add: token_keys_def)+

lemma yields_plain_handlers:
  "yields (plain_reply E) (handle_SendOTP ctx)" "yields (plain_reply E) (handle_VerifyOTP E D r ctx)"
  "yields (plain_reply E) (handle_Logout E ctx)" "yields (plain_reply E) (handle_LogoutAll E ctx)"
  "yields (plain_reply E) (handle_GetChallenge E D r ctx)"
  "yields (plain_reply E) (handle_Enroll E D r ctx)" "yields (plain_reply E) (handle_Unenroll ctx)"
  "yields (plain_reply E) (handle_ListDevices E ctx)" "yields (plain_reply E) (handle_RevokeDevice E r ctx)"
  "yields (plain_reply E) (handle_VerifyDevice ctx)" "yields (plain_reply E) (handle_GetLogs ctx)"
  unfolding handler_defs by ((intro yields_rules); simp add: token_keys_def)+

text \<open>Without the step-up mark the payment endpoint answers 403 and hands out nothing.\<close>

definition no_step_up :: "TokenClaims option \<Rightarrow> bool" where
  "no_step_up ctx \<longleftrightarrow> (case ctx of None \<Rightarrow> True | Some c \<Rightarrow> \<not> t_StepUp c)"

definition plain_for :: "env \<Rightarrow> endpoint \<Rightarrow> reply \<Rightarrow> bool" where
  "plain_for E ep rep \<longleftrightarrow> plain_reply E rep \<and> (ep = PostPaymentAuthorize \<longrightarrow> r_status rep \<noteq> StatusOK)"

lemma yields_plain_payment:
  "no_step_up ctx \<Longrightarrow>
   yields (plain_for E PostPaymentAuthorize) (endpoint_handler E D C PostPaymentAuthorize r ctx)"
  by (auto simp: RequireStepUp_def plain_for_def no_step_up_def split: option.splits
      intro!: yields_http_Error)

lemma yields_plain_endpoint:
  assumes "chi_documented C" and "no_step_up ctx"
  shows "yields (plain_for E ep) (endpoint_handler E D C ep r ctx)"
proof (cases "ep = PostPaymentAuthorize")
  case True
  then show ?thesis using yields_plain_payment [OF assms(2)] by blast
next
  case False
  have "yields (plain_reply E) (endpoint_handler E D C ep r ctx)"
    using False assms(1)
    by (cases ep) (simp_all add: yields_plain_token_handlers yields_plain_handlers
        yields_return plain_reply_def chi_documented_def)
  then show ?thesis using False by (auto simp: yields_def plain_for_def)
qed

text \<open>A token with a valid signature on the signed part of a plain token gives plain claims.\<close>

lemma plain_claims:
  assumes json: "json_keeps_step_up E" and plain: "\<forall>t \<in> set ts. plain_token E t"
    and honest: "well_signed E (AccessTokenSecret (cfg E)) t \<Longrightarrow> signing_input t \<in> signing_input ` set ts"
  shows "yields (\<lambda>c. \<not> t_StepUp c) (VerifyAccessToken E t)"
proof (rule yieldsI)
  fix w c w' assume "VerifyAccessToken E t w = (Ok c, w')"
  then obtain q where v: "verify E t (AccessTokenSecret (cfg E)) w = (Ok q, w')"
    and c: "t_StepUp c = p_StepUp q"
    by (cases rule: VerifyAccessToken_Ok) auto
  from v obtain h b s where parts: "split_on CHR ''.'' t = [h, b, s]"
    by (auto simp: verify_def Let_def numeral_3_eq_3 length_Suc_conv split: if_splits)
  with v have sig: "b64url_decode s = Inr (hmac_sha256 E (AccessTokenSecret (cfg E)) (h @ ''.'' @ b))"
    and body: "\<exists>j. b64url_decode b = Inr j \<and> json_Unmarshal E j = Some q"
    by (auto simp: verify_def Let_def split: if_splits sum.splits option.splits)
  from sig parts honest obtain t' where t': "t' \<in> set ts" "signing_input t' = Some (h @ ''.'' @ b)"
    by (auto simp: well_signed_def signing_input_def)
  with plain obtain p k where pk: "\<not> p_StepUp p" "sign E p k = Ok t'"
    by (auto simp: plain_token_def)
  then obtain j where p: "\<not> p_StepUp p" "json_Marshal E p = Inr j" "t' = token_text E k j"
    by (cases "json_Marshal E p") (auto simp: sign_eq)
  have "h @ ''.'' @ b = token_header @ ''.'' @ b64url_encode j"
    using t'(2) p(3) by (simp add: signing_input_def split_token_text)
  moreover have "CHR ''.'' \<notin> set h" "CHR ''.'' \<notin> set b"
    using split_on_no_sep [of _ "CHR ''.''" t] parts by auto
  ultimately have "b = b64url_encode j"
    by (simp add: append_Cons_eq_iff)
  with body have "json_Unmarshal E j = Some q" by (auto simp: b64url.dec_enc)
  with json p c show "\<not> t_StepUp c" by (auto simp: json_keeps_step_up_def)
qed

lemma yields_plain_Authenticate:
  assumes "yields (\<lambda>c. \<not> t_StepUp c) (VerifyAccessToken E (extractBearerToken r))"
    and "\<And>ctx. no_step_up ctx \<Longrightarrow> yields (plain_for E ep) (next ctx)"
  shows "yields (plain_for E ep) (mw_Authenticate E r next ctx)"
  unfolding mw_Authenticate_def Let_def
  by (intro yields_if yields_http_Error
        yields_try_if [OF yields_on_world [OF assms(1)]] assms(2);
      simp add: plain_for_def no_step_up_def)

lemma yields_plain_ValidateDevice:
  "no_step_up ctx \<Longrightarrow> (\<And>ctx. no_step_up ctx \<Longrightarrow> yields (plain_for E ep) (next ctx)) \<Longrightarrow>
   yields (plain_for E ep) (mw_ValidateDevice next ctx)"
  unfolding mw_ValidateDevice_def by (intro yields_rules; simp add: plain_for_def)

lemma yields_plain_route:
  assumes "chi_documented C"
    and "yields (\<lambda>c. \<not> t_StepUp c) (VerifyAccessToken E (extractBearerToken r))"
  shows "yields (plain_for E ep) (route E D C ep r None)"
proof -
  have "yields (plain_for E ep) (mw_Authenticate E r (mw_ValidateDevice (endpoint_handler E D C ep r)) None)"
    by (intro yields_plain_Authenticate yields_plain_ValidateDevice yields_plain_endpoint assms)
  moreover have "yields (plain_for E ep) (endpoint_handler E D C ep r None)"
    by (intro yields_plain_endpoint assms) (simp add: no_step_up_def)
  ultimately show ?thesis by (simp add: route_def)
qed

lemma yields_plain_outer:
  assumes "yields (plain_for E ep) (next ctx)"
  shows "yields (plain_for E ep) (Headers (Limit E r (RequestLogger E next)) ctx)"
proof -
  have "yields (plain_for E ep) (RequestLogger E next ctx)"
    unfolding RequestLogger_def
    by (intro yields_bind yields_bind_if [OF assms] yields_return)
  then show ?thesis
    unfolding Headers_def Limit_def
    by (intro yields_rules; simp add: plain_for_def)
qed

lemma extractBearerToken_addr [simp]:
  "extractBearerToken (r\<lparr>h_RemoteAddr := a\<rparr>) = extractBearerToken r"
  by (simp add: extractBearerToken_def header_Get_def)

lemma serve_plain:
  assumes C: "chi_documented C"
    and tok: "yields (\<lambda>c. \<not> t_StepUp c) (VerifyAccessToken E (extractBearerToken r))"
    and s: "serve E D C ep r c = (rep, c')"
  shows "plain_for E ep rep"
proof -
  let ?r = "r\<lparr>h_RemoteAddr := chi_RealIP C r\<rparr>"
  let ?m = "Headers (Limit E ?r (RequestLogger E (route E D C ep ?r))) None"
  have y: "yields (plain_for E ep) ?m"
    using tok by (intro yields_plain_outer yields_plain_route C) simp
  obtain out v where m: "?m (c\<lparr>cn_header := []\<rparr>) = (out, v)" by fastforce
  have "plain_for E ep (chi_Recovered C)"
    using C by (simp add: chi_documented_def plain_for_def plain_reply_def tokens_of_def)
  with s m y show ?thesis
    by (cases out) (auto simp: serve_def dest: yieldsD)
qed

text \<open>The invariant of honest runs: every token ever handed out is plain.\<close>

lemma honest_issued_plain:
  assumes "json_keeps_step_up E" and "chi_documented C"
  shows "honest_runs E D C tr c \<Longrightarrow> \<forall>t \<in> set (issued tr). plain_token E t"
proof (induction rule: honest_runs.induct)
  case honest_start
  then show ?case by simp
next
  case (honest_request tr c ep r rep c')
  have "yields (\<lambda>c. \<not> t_StepUp c) (VerifyAccessToken E (extractBearerToken r))"
    using plain_claims [OF assms(1) honest_request.IH] honest_request.hyps(3) by blast
  from serve_plain [OF assms(2) this honest_request.hyps(2)] honest_request.IH
  show ?case by (auto simp: plain_for_def plain_reply_def)
next
  case (honest_cleanup tr c c')
  then show ?case by simp
qed

lemma honest_no_payment:
  assumes "json_keeps_step_up E" and "chi_documented C"
  shows "honest_runs E D C tr c \<Longrightarrow> Request PostPaymentAuthorize r rep \<in> set tr \<Longrightarrow>
    r_status rep \<noteq> StatusOK"
proof (induction rule: honest_runs.induct)
  case honest_start
  then show ?case by simp
next
  case (honest_request tr c ep r' rep' c')
  have "yields (\<lambda>c. \<not> t_StepUp c) (VerifyAccessToken E (extractBearerToken r'))"
    using plain_claims [OF assms(1) honest_issued_plain [OF assms honest_request.hyps(1)]]
      honest_request.hyps(3) by blast
  from serve_plain [OF assms(2) this honest_request.hyps(2)] honest_request
  show ?case by (auto simp: plain_for_def)
next
  case (honest_cleanup tr c c')
  then show ?case by simp
qed


section \<open>What a protected endpoint has checked\<close>

definition usable_device :: "world \<Rightarrow> TokenClaims \<Rightarrow> bool" where
  "usable_device w claims = (case repo_get (devices w) (t_DeviceID claims) of
     None \<Rightarrow> False
   | Some d \<Rightarrow> d_UserID d = t_UserID claims \<and> d_Status d \<noteq> DeviceStatusRevoked
       \<and> d_Status d \<noteq> DeviceStatusBlocked \<and> \<not> d_IsRooted d \<and> \<not> d_IsJailbroken d)"

lemma http_Error_apply:
  "\<exists>c'. http_Error msg st c = (Ok \<lparr>r_status = st, r_body = TextBody (msg @ [CHR 0x0A])\<rparr>, c')
     \<and> cn_world c' = cn_world c"
  by (simp add: http_Error_def set_header_def)

lemma mw_ValidateDevice_Ok:
  assumes "mw_ValidateDevice next (Some claims) c = (Ok rep, c')" and "r_status rep \<noteq> StatusForbidden"
  shows "usable_device (cn_world c) claims" and "next (Some claims) c = (Ok rep, c')"
proof -
  obtain r where v: "ValidateDevice (t_DeviceID claims) (t_UserID claims) (cn_world c) = (r, cn_world c)"
    using ValidateDevice_world by (metis prod.collapse)
  have err: "http_Error m StatusForbidden c \<noteq> (Ok rep, c')" for m
    using http_Error_apply [of m StatusForbidden c] assms(2) by auto
  from assms(1) v err obtain d where d: "r = Ok d" "\<not> d_IsRooted d" "\<not> d_IsJailbroken d"
    and n: "next (Some claims) c = (Ok rep, c')"
    by (cases r) (auto simp: mw_ValidateDevice_def split: if_splits)
  from v d show "usable_device (cn_world c) claims"
    by (auto simp: usable_device_def ValidateDevice_Ok_iff)
  show "next (Some claims) c = (Ok rep, c')" by (rule n)
qed

lemma mw_Authenticate_Ok:
  assumes "mw_Authenticate E r next ctx c = (Ok rep, c')" and "r_status rep \<noteq> StatusUnauthorized"
  obtains claims w where "VerifyAccessToken E (extractBearerToken r) (cn_world c) = (Ok claims, w)"
    "next (Some claims) (c\<lparr>cn_world := w\<rparr>) = (Ok rep, c')"
proof -
  have err: "http_Error m StatusUnauthorized v \<noteq> (Ok rep, c')" for m v
    using http_Error_apply [of m StatusUnauthorized v] assms(2) by auto
  obtain x w where v: "VerifyAccessToken E (extractBearerToken r) (cn_world c) = (x, w)" by fastforce
  show ?thesis
    using that assms(1) v err by (cases x) (auto simp: mw_Authenticate_def Let_def split: if_splits)
qed

lemma Headers_apply:
  "\<exists>h. Headers next ctx c = next ctx (c\<lparr>cn_header := h\<rparr>)"
  by (auto simp: Headers_def del_header_def)

lemma Limit_Ok:
  assumes "Limit E r next ctx c = (Ok rep, c')" and "r_status rep \<noteq> StatusTooManyRequests"
  shows "\<exists>c0. next ctx c0 = (Ok rep, c') \<and> cn_world c0 = tick (cn_world c)"
proof -
  let ?l = "limit_entry (repo_get (cn_clients c) (extractIP r)) (now_at E (clock (cn_world c)))"
  let ?c = "c\<lparr>cn_world := tick (cn_world c),
             cn_clients := repo_put (extractIP r) (snd ?l) (cn_clients c)\<rparr>"
  have "next ctx ?c = (Ok rep, c')"
    using assms by (auto simp: Limit_apply Let_def split: prod.splits if_splits)
  then show ?thesis by (intro exI [of _ ?c]) simp
qed

lemma serve_protected:
  assumes s: "serve E D C ep r c = (rep, c')" and C: "chi_documented C" and ep: "\<not> public ep"
    and rep: "r_status rep = StatusOK"
  obtains claims w where
    "VerifyAccessToken E (extractBearerToken r) (tick (tick (cn_world c))) = (Ok claims, w)"
    "usable_device (cn_world c) claims"
proof -
  let ?r = "r\<lparr>h_RemoteAddr := chi_RealIP C r\<rparr>"
  let ?m = "Headers (Limit E ?r (RequestLogger E (route E D C ep ?r))) None"
  obtain out v where m: "?m (c\<lparr>cn_header := []\<rparr>) = (out, v)" by fastforce
  from s m rep C have "out = Ok rep" "v = c'"
    by (cases out; auto simp: serve_def chi_documented_def)+
  with m Headers_apply obtain h where
    l: "Limit E ?r (RequestLogger E (route E D C ep ?r)) None (c\<lparr>cn_header := h\<rparr>) = (Ok rep, c')"
    by (metis (no_types, lifting) conn.fold_congs(3) conn.surjective conn.update_convs(3))
  with rep obtain c0 where c0: "cn_world c0 = tick (cn_world c)"
    "RequestLogger E (route E D C ep ?r) None c0 = (Ok rep, c')"
    using Limit_Ok [OF l] by auto
  then obtain u where
    "route E D C ep ?r None (c0\<lparr>cn_world := tick (cn_world c0)\<rparr>) = (Ok rep, u)"
    by (auto simp: RequestLogger_def tick_def elim!: go_bind_OkE)
  then have "mw_Authenticate E ?r (mw_ValidateDevice (endpoint_handler E D C ep ?r)) None
       (c0\<lparr>cn_world := tick (cn_world c0)\<rparr>) = (Ok rep, u)"
    using ep by (simp add: route_def)
  with rep c0(1) obtain claims w where
    v: "VerifyAccessToken E (extractBearerToken r) (tick (tick (cn_world c))) = (Ok claims, w)"
    and n: "mw_ValidateDevice (endpoint_handler E D C ep ?r) (Some claims)
       (c0\<lparr>cn_world := w\<rparr>) = (Ok rep, u)"
    by (elim mw_Authenticate_Ok) auto
  have "devices w = devices (cn_world c)"
    using v verify_state by (elim VerifyAccessToken_Ok) (fastforce simp: tick_def)
  moreover have "usable_device w claims"
    using mw_ValidateDevice_Ok(1) [OF n] rep by simp
  ultimately show ?thesis
    using that v by (simp add: usable_device_def)
qed


section \<open>Properties\<close>

text \<open>
  C5: The payment endpoint can never succeed. In every run without forged signatures no
  request to it is answered with 200: it demands a step-up token, and the only operation that
  issues one is the endpoint itself. (The hypotheses are that JSON keeps the step-up flag and
  that the router answers as documented.)
\<close>

theorem payment_never_authorized:
  assumes "json_keeps_step_up E" and "chi_documented C"
    and "honest_runs E D C tr c" and "Request PostPaymentAuthorize r rep \<in> set tr"
  shows "r_status rep \<noteq> 200"
  using honest_no_payment [OF assms] .

text \<open>
  C6: What stands in front of every protected endpoint. A request to one is answered with 200
  only if its bearer token verifies as an access token at that moment, and the device named
  in the token exists, belongs to the token's user, is neither revoked nor blocked and is
  neither rooted nor jailbroken.
\<close>

theorem protected_endpoint_checks:
  assumes "serve E D C ep r c = (rep, c')" and "chi_documented C" and "\<not> public ep"
    and "r_status rep = 200"
  shows "\<exists>claims w. VerifyAccessToken E (extractBearerToken r) (tick (tick (cn_world c))) = (Ok claims, w)
    \<and> usable_device (cn_world c) claims"
  using assms by (elim serve_protected) auto


text \<open>
  C23: The state invariant. In every state the server reaches by any sequence of requests and
  clean-ups, every user, device, session and challenge is stored exactly once, under its own
  identifier.
\<close>

theorem reachable_states_well_formed:
  assumes "runs E D C tr c"
  shows "world_wf (cn_world c)"
  using assms by (rule runs_wf)

text \<open>
  C24: The audit log is append-only. No request, whatever its outcome, removes, reorders or
  changes an entry of the log.
\<close>

theorem audit_log_append_only:
  assumes "serve E D C ep r c = (rep, c')"
  shows "\<exists>ls. audits (cn_world c') = audits (cn_world c) @ ls"
proof -
  have "log_extends (audits (cn_world c)) (cn_world c)" by (simp add: log_extends_def)
  from log.serve_keeps [OF this assms] show ?thesis by (simp add: log_extends_iff)
qed

text \<open>
  No service error escapes a handler. Whatever the endpoint, the request, the claims in its context and
  the state, the chain of an endpoint ends in a reply or in a panic, which the recovery
  middleware turns into a reply.
\<close>

lemma handlers_answer_every_error:
  "fst (route E D C ep r ctx c) \<noteq> Err e"
  using never_err_route [of E D C ep r ctx] by (simp add: never_err_def)


section \<open>The hypotheses hold together\<close>

definition demo_chi :: chi where
  "demo_chi = \<lparr>chi_RealIP = h_RemoteAddr,
     chi_Recovered = \<lparr>r_status = 500, r_body = EmptyBody\<rparr>,
     chi_NotFound = \<lparr>r_status = 404, r_body = TextBody ''404 page not found''\<rparr>\<rparr>"

definition demo_decoders :: decoders where
  "demo_decoders = \<lparr>dec_login = (\<lambda>_ _. None), dec_otp = (\<lambda>_ _. None), dec_refresh = (\<lambda>_ _. None),
     dec_payment = (\<lambda>_ _. None), dec_action = (\<lambda>_ _. None), dec_enroll = (\<lambda>_ _. None),
     dec_authenticate = (\<lambda>_ _. None)\<rparr>"

definition demo_request :: "string \<Rightarrow> http_request" where
  "demo_request tok = \<lparr>h_Header = [(''Authorization'', ''Bearer '' @ tok)], h_RemoteAddr = ''10.0.0.1'',
     h_Body = [], h_PathValue = []\<rparr>"

lemma demo_chi_documented: "chi_documented demo_chi"
  by (simp add: chi_documented_def demo_chi_def tokens_of_def)

lemma demo_json_step_up: "json_keeps_step_up demo_env"
  using demo_json_inverse by (auto simp: json_keeps_step_up_def)

lemma demo_bearer: "extractBearerToken (demo_request tok) = tok"
  by (simp add: extractBearerToken_def demo_request_def header_Get_def Let_def
      trim_prefix_append [of "''Bearer ''", simplified] has_prefix_append [of "''Bearer ''", simplified])

theorem payment_never_authorized_witness:
  "\<exists>rep c. honest_runs demo_env demo_decoders demo_chi
       [Request PostPaymentAuthorize (demo_request ''x'') rep] c \<and> r_status rep \<noteq> 200"
proof -
  obtain rep c where s: "serve demo_env demo_decoders demo_chi PostPaymentAuthorize (demo_request ''x'')
      (start demo_env) = (rep, c)" by fastforce
  have "\<not> well_signed demo_env (AccessTokenSecret (cfg demo_env)) (extractBearerToken (demo_request ''x''))"
    by (simp add: demo_bearer well_signed_def)
  then have h: "honest_runs demo_env demo_decoders demo_chi
      [Request PostPaymentAuthorize (demo_request ''x'') rep] c"
    using honest_request [OF honest_start s] by blast
  from payment_never_authorized [OF demo_json_step_up demo_chi_documented h] h show ?thesis by auto
qed

definition demo_access_payload :: tokenPayload where
  "demo_access_payload = access_payload demo_env ''user_001'' ''phone'' ''s1'' ''f1'' 0 ''j2''"

definition demo_access :: string where
  "demo_access = (case sign demo_env demo_access_payload ''A'' of Ok t \<Rightarrow> t | _ \<Rightarrow> [])"

definition demo_claims :: TokenClaims where
  "demo_claims = \<lparr>t_UserID = ''user_001'', t_DeviceID = ''phone'', t_SessionID = ''s1'',
     t_TokenType = TokenTypeAccess, t_StepUp = False, t_StepUpExp = None\<rparr>"

definition demo_conn :: conn where
  "demo_conn = \<lparr>cn_world = demo_device_world, cn_clients = [], cn_header = []\<rparr>"

lemma demo_access_verified:
  "clock v \<le> 900 \<Longrightarrow> VerifyAccessToken demo_env demo_access v = (Ok demo_claims, tick v)"
proof -
  assume v: "clock v \<le> 900"
  have "sign demo_env demo_access_payload ''A'' = Ok demo_access"
    using jwt.mk_succeeds [OF demo_json, of demo_access_payload "''A''"] by (auto simp: demo_access_def)
  from jwt.chk_mk [OF demo_json this, of v] v show ?thesis
    by (simp add: VerifyAccessToken_def demo_access_payload_def access_payload_def demo_claims_def
        unix_of_def minute_def second_def)
qed

lemma demo_access_nonempty: "demo_access \<noteq> []"
  using jwt.mk_succeeds [OF demo_json, of demo_access_payload "''A''"]
  by (auto simp: demo_access_def sign_eq token_text_def Let_def split: sum.splits)

lemma demo_served:
  "\<exists>rep c'. serve demo_env demo_decoders demo_chi DeleteUnenroll (demo_request demo_access) demo_conn
     = (rep, c') \<and> r_status rep = 200"
proof -
  let ?r = "demo_request demo_access"
  have addr: "?r\<lparr>h_RemoteAddr := chi_RealIP demo_chi ?r\<rparr> = ?r"
    by (simp add: demo_chi_def demo_request_def)
  have route: "\<exists>c'. route demo_env demo_decoders demo_chi DeleteUnenroll ?r None c =
      (Ok \<lparr>r_status = 200, r_body = JSONBody [(''status'', JString ''unenrolled'')]\<rparr>, c')"
    if w: "clock (cn_world c) \<le> 900" "devices (cn_world c) = [(''phone'', demo_device)]" for c
  proof -
    have dev: "repo_get [(''phone'', demo_device)] ''phone'' = Some demo_device"
      by (simp add: repo_get_def)
    have "ValidateDevice ''phone'' ''user_001'' (tick (cn_world c)) = (Ok demo_device, tick (cn_world c))"
      using w(2) dev by (simp add: ValidateDevice_Ok_iff tick_def demo_device_def status_consts)
    then show ?thesis
      using demo_access_verified [OF w(1)] demo_access_nonempty
      by (simp add: route_def mw_Authenticate_def mw_ValidateDevice_def demo_bearer demo_claims_def
          handle_Unenroll_def demo_device_def zero_Device_def Let_def)
  qed
  let ?next = "RequestLogger demo_env (route demo_env demo_decoders demo_chi DeleteUnenroll ?r)"
  obtain h where h: "Headers (Limit demo_env ?r ?next) None (demo_conn\<lparr>cn_header := []\<rparr>)
      = Limit demo_env ?r ?next None (demo_conn\<lparr>cn_header := h\<rparr>)"
    using Headers_apply [of "Limit demo_env ?r ?next" None "demo_conn\<lparr>cn_header := []\<rparr>"] by auto
  define c1 where "c1 = \<lparr>cn_world = tick demo_device_world,
      cn_clients = repo_put (extractIP ?r) \<lparr>e_count = 1,
        e_windowStart = int (clock demo_device_world) * second\<rparr> [], cn_header = h\<rparr>"
  have c1: "cn_world c1 = tick demo_device_world"
    "Limit demo_env ?r ?next None (demo_conn\<lparr>cn_header := h\<rparr>) = ?next None c1"
    by (simp_all add: Limit_apply demo_conn_def limit_entry_def Let_def c1_def)
  have "clock (cn_world c1) = 2" using c1(1) by (simp add: tick_def demo_device_world_def)
  moreover have "devices (cn_world c1) = [(''phone'', demo_device)]"
    using c1(1) by (simp add: tick_def demo_device_world_def)
  ultimately obtain c2 where "?next None c1 =
      (Ok \<lparr>r_status = 200, r_body = JSONBody [(''status'', JString ''unenrolled'')]\<rparr>, c2)"
    using route [of "c1\<lparr>cn_world := tick (cn_world c1)\<rparr>"]
    by (auto simp: RequestLogger_def tick_def)
  with h c1 addr show ?thesis by (simp add: serve_def)
qed

theorem protected_endpoint_witness:
  "\<exists>rep c' claims w. serve demo_env demo_decoders demo_chi DeleteUnenroll (demo_request demo_access) demo_conn
      = (rep, c') \<and> r_status rep = 200
    \<and> VerifyAccessToken demo_env demo_access (tick (tick (cn_world demo_conn))) = (Ok claims, w)
    \<and> usable_device (cn_world demo_conn) claims"
proof -
  obtain rep c' where s: "serve demo_env demo_decoders demo_chi DeleteUnenroll (demo_request demo_access)
      demo_conn = (rep, c')" "r_status rep = 200"
    using demo_served by blast
  from protected_endpoint_checks [OF s(1) demo_chi_documented _ s(2)] s show ?thesis
    by (auto simp: demo_bearer)
qed


theorem reachable_witness:
  "\<exists>rep c. runs demo_env demo_decoders demo_chi [Request PostOTPSend (demo_request []) rep] c
     \<and> world_wf (cn_world c)"
proof -
  obtain rep c where "serve demo_env demo_decoders demo_chi PostOTPSend (demo_request []) (start demo_env)
      = (rep, c)" by fastforce
  then have r: "runs demo_env demo_decoders demo_chi [Request PostOTPSend (demo_request []) rep] c"
    using runs_request [OF runs_start] by blast
  from reachable_states_well_formed [OF r] r show ?thesis by blast
qed

theorem audit_log_witness:
  "\<exists>rep c ls. serve demo_env demo_decoders demo_chi PostOTPSend (demo_request []) (start demo_env) = (rep, c)
     \<and> audits (cn_world c) = audits (cn_world (start demo_env)) @ ls"
proof -
  obtain rep c where s: "serve demo_env demo_decoders demo_chi PostOTPSend (demo_request []) (start demo_env)
      = (rep, c)" by fastforce
  from audit_log_append_only [OF s] s show ?thesis by blast
qed

end
