(* ===== verification/Go_Text.thy ===== *)
theory Go_Text
  imports Go_Time
begin

text \<open>
  The parts of Go's \<^verbatim>\<open>strings\<close>, \<^verbatim>\<open>unicode\<close> and \<^verbatim>\<open>strconv\<close> packages that the services use on
  user input. Strings are byte sequences, as in Go. \<^verbatim>\<open>TrimSpace\<close> is exact: the white-space
  code points are listed by their UTF-8 encodings. \<^verbatim>\<open>ToLower\<close> is exact on ASCII strings; the
  case mapping of other strings is an argument.
\<close>

type_synonym os_env = "string \<Rightarrow> string"

section \<open>Trimming white space\<close>

text \<open>\<^verbatim>\<open>unicode.IsSpace\<close>: the encodings of the white-space code points.\<close>

definition space_seqs :: "string list" where
  "space_seqs =
     map (\<lambda>n. [byte n]) [9, 10, 11, 12, 13, 32] @
     [[byte 0xC2, byte 0x85], [byte 0xC2, byte 0xA0], [byte 0xE1, byte 0x9A, byte 0x80]] @
     map (\<lambda>n. [byte 0xE2, byte 0x80, byte n])
       [0x80, 0x81, 0x82, 0x83, 0x84, 0x85, 0x86, 0x87, 0x88, 0x89, 0x8A, 0xA8, 0xA9, 0xAF] @
     [[byte 0xE2, byte 0x81, byte 0x9F], [byte 0xE3, byte 0x80, byte 0x80]]"

text \<open>The first of the sequences the string starts with.\<close>

fun strip_one :: "string list \<Rightarrow> string \<Rightarrow> string option" where
  "strip_one [] s = None"
| "strip_one (p # ps) s =
     (if p \<noteq> [] \<and> has_prefix s p then Some (trim_prefix s p) else strip_one ps s)"

lemma strip_one_shorter: "strip_one ps s = Some t \<Longrightarrow> length t < length s"
proof (induction ps s rule: strip_one.induct)
  case (1 s)
  then show ?case by simp
next
  case (2 p ps s)
  have "s \<noteq> []" if "p \<noteq> []" "has_prefix s p" using that by (auto simp: has_prefix_def)
  with 2 show ?case by (auto simp: trim_prefix_def split: if_splits)
qed

function strip_all :: "string list \<Rightarrow> string \<Rightarrow> string" where
  "strip_all ps s = (case strip_one ps s of None \<Rightarrow> s | Some t \<Rightarrow> strip_all ps t)"
  by pat_completeness auto
termination
  by (relation "measure (\<lambda>(ps, s). length s)") (auto dest: strip_one_shorter)

declare strip_all.simps [simp del]

definition TrimSpace :: "string \<Rightarrow> string" where
  "TrimSpace s = rev (strip_all (map rev space_seqs) (rev (strip_all space_seqs s)))"

lemma strip_all_stuck: "strip_one ps (strip_all ps s) = None"
proof (induction ps s rule: strip_all.induct)
  case (1 ps s)
  then show ?case by (cases "strip_one ps s") (simp_all add: strip_all.simps [of ps s])
qed

lemma strip_all_id: "strip_one ps s = None \<Longrightarrow> strip_all ps s = s"
  by (simp add: strip_all.simps)

lemma strip_one_suffix: "strip_one ps s = Some t \<Longrightarrow> \<exists>p. s = p @ t"
  by (induction ps s rule: strip_one.induct)
     (auto simp: has_prefix_def trim_prefix_def split: if_splits
           intro: append_take_drop_id [symmetric])

lemma strip_all_suffix: "\<exists>p. s = p @ strip_all ps s"
proof (induction ps s rule: strip_all.induct)
  case (1 ps s)
  show ?case
  proof (cases "strip_one ps s")
    case None
    then show ?thesis by (simp add: strip_all_id)
  next
    case (Some t)
    then obtain p q where "s = p @ t" "t = q @ strip_all ps t"
      using strip_one_suffix 1 by blast
    moreover have "strip_all ps s = strip_all ps t" using Some by (simp add: strip_all.simps [of ps s])
    ultimately have "s = (p @ q) @ strip_all ps s" by simp
    then show ?thesis by blast
  qed
qed

lemma strip_one_None_iff: "strip_one ps s = None \<longleftrightarrow> (\<forall>p \<in> set ps. p \<noteq> [] \<longrightarrow> \<not> has_prefix s p)"
  by (induction ps s rule: strip_one.induct) auto

lemma has_prefix_longer: "has_prefix s p \<Longrightarrow> has_prefix (s @ t) p"
  by (metis append_assoc append_take_drop_id has_prefix_append has_prefix_def)

text \<open>A trimmed string neither begins nor ends in white space, so trimming it again is idle.\<close>

lemma TrimSpace_stuck:
  "strip_one space_seqs (TrimSpace s) = None"
  "strip_one (map rev space_seqs) (rev (TrimSpace s)) = None"
proof -
  let ?u = "strip_all space_seqs s"
  obtain q where q: "rev ?u = q @ strip_all (map rev space_seqs) (rev ?u)"
    using strip_all_suffix by blast
  then have "?u = TrimSpace s @ rev q"
    unfolding TrimSpace_def by (metis rev_append rev_rev_ident)
  moreover have "strip_one space_seqs ?u = None" by (rule strip_all_stuck)
  ultimately show "strip_one space_seqs (TrimSpace s) = None"
    using has_prefix_longer by (auto simp: strip_one_None_iff)
  show "strip_one (map rev space_seqs) (rev (TrimSpace s)) = None"
    by (simp add: TrimSpace_def strip_all_stuck)
qed

lemma TrimSpace_idem [simp]: "TrimSpace (TrimSpace s) = TrimSpace s"
proof -
  have "strip_all space_seqs (TrimSpace s) = TrimSpace s"
    by (rule strip_all_id) (rule TrimSpace_stuck)
  moreover have "strip_all (map rev space_seqs) (rev (TrimSpace s)) = rev (TrimSpace s)"
    by (rule strip_all_id) (rule TrimSpace_stuck)
  ultimately show ?thesis by (subst TrimSpace_def) simp
qed

lemma TrimSpace_Nil [simp]: "TrimSpace [] = []"
proof -
  have "strip_one space_seqs [] = None" "strip_one (map rev space_seqs) [] = None"
    by (auto simp: strip_one_None_iff has_prefix_def)
  then show ?thesis by (simp add: TrimSpace_def strip_all_id)
qed


section \<open>Lower case\<close>

definition is_ascii :: "string \<Rightarrow> bool" where
  "is_ascii s \<longleftrightarrow> list_all (\<lambda>c. code c < 128) s"

definition lower_char :: "char \<Rightarrow> char" where
  "lower_char c = (if 65 \<le> code c \<and> code c \<le> 90 then byte (code c + 32) else c)"

text \<open>\<open>uni\<close> maps the strings with other than ASCII bytes.\<close>

definition ToLower :: "(string \<Rightarrow> string) \<Rightarrow> string \<Rightarrow> string" where
  "ToLower uni s = (if is_ascii s then map lower_char s else uni s)"

lemma lower_char_idem [simp]: "lower_char (lower_char c) = lower_char c"
  by (simp add: lower_char_def)

lemma ToLower_idem: "is_ascii s \<Longrightarrow> ToLower uni (ToLower uni s) = ToLower uni s"
  by (auto simp: ToLower_def is_ascii_def list_all_iff lower_char_def)


section \<open>Decimal numbers\<close>

text \<open>\<^verbatim>\<open>strconv.Atoi\<close>: an optional sign and decimal digits, within 64 bits.\<close>

definition digits_value :: "string \<Rightarrow> nat option" where
  "digits_value s = (if s \<noteq> [] \<and> list_all is_digit s then Some (read_nat s) else None)"

definition int64 :: "int \<Rightarrow> int option" where
  "int64 i = (if - (2 ^ 63) \<le> i \<and> i < 2 ^ 63 then Some i else None)"

text \<open>The number a string spells, however large.\<close>

definition signed_value :: "string \<Rightarrow> int option" where
  "signed_value s = (case s of
     [] \<Rightarrow> None
   | c # t \<Rightarrow>
       if c = CHR ''-'' then map_option (\<lambda>n. - int n) (digits_value t)
       else if c = CHR ''+'' then map_option int (digits_value t)
       else map_option int (digits_value s))"

definition Atoi :: "string \<Rightarrow> int option" where
  "Atoi s = Option.bind (signed_value s) int64"

text \<open>
  \<^verbatim>\<open>n, _ := strconv.Atoi(s)\<close>: what is left in \<^verbatim>\<open>n\<close> when the error is dropped: zero after a
  syntax error, the nearest representable number after a range error.
\<close>

definition Atoi_value :: "string \<Rightarrow> int" where
  "Atoi_value s = (case signed_value s of
     None \<Rightarrow> 0
   | Some i \<Rightarrow> max (- (2 ^ 63)) (min i (2 ^ 63 - 1)))"

lemma signed_value_itoa: "signed_value (itoa i) = Some i"
proof -
  have dv: "digits_value (show_nat n) = Some n" for n
    using show_nat_digits by (simp add: digits_value_def list_all_iff)
  show ?thesis
  proof (cases "i < 0")
    case True
    then show ?thesis by (simp add: signed_value_def itoa_def dv)
  next
    case False
    obtain c t where ct: "show_nat (nat i) = c # t" by (cases "show_nat (nat i)") auto
    then have "is_digit c" using show_nat_digits [of c "nat i"] by simp
    then have "c \<noteq> CHR ''-''" "c \<noteq> CHR ''+''" by (auto simp: is_digit_def code_def)
    with False ct dv [of "nat i"] show ?thesis
      by (simp add: signed_value_def itoa_def)
  qed
qed

text \<open>\<^verbatim>\<open>Atoi\<close> reads back what \<^verbatim>\<open>Itoa\<close> prints.\<close>

lemma Atoi_itoa: "- (2 ^ 63) \<le> i \<Longrightarrow> i < 2 ^ 63 \<Longrightarrow> Atoi (itoa i) = Some i"
  by (simp add: Atoi_def signed_value_itoa int64_def)

lemma Atoi_value_itoa: "- (2 ^ 63) \<le> i \<Longrightarrow> i < 2 ^ 63 \<Longrightarrow> Atoi_value (itoa i) = i"
  by (simp add: Atoi_value_def signed_value_itoa)

lemma Atoi_value_range: "- (2 ^ 63) \<le> Atoi_value s \<and> Atoi_value s < 2 ^ 63"
  by (auto simp: Atoi_value_def split: option.splits)

end
