(* ===== verification/Config.thy ===== *)
theory Config
  imports Domain Go_Text
begin

text \<open>
  \<^verbatim>\<open>biometric-auth/internal/config/config.go\<close>: the configuration read from the process
  environment. The environment is a function from names to values (the empty string for an
  unset variable); \<^verbatim>\<open>time.ParseDuration\<close> is an argument.
\<close>

definition getEnv :: "os_env \<Rightarrow> string \<Rightarrow> string \<Rightarrow> string" where
  "getEnv os key def = (if os key \<noteq> [] then os key else def)"

definition requireEnv :: "os_env \<Rightarrow> string \<Rightarrow> (go_error, string) outcome" where
  "requireEnv os key = (if os key = [] then Panic else Ok (os key))"

definition getDuration :: "os_env \<Rightarrow> (string \<Rightarrow> int option) \<Rightarrow> string \<Rightarrow> int \<Rightarrow> int" where
  "getDuration os parse key def =
     (if os key \<noteq> [] then (case parse (os key) of Some d \<Rightarrow> d | None \<Rightarrow> def) else def)"

definition getInt :: "os_env \<Rightarrow> string \<Rightarrow> int \<Rightarrow> int" where
  "getInt os key def =
     (if os key \<noteq> [] then (case Atoi (os key) of Some i \<Rightarrow> i | None \<Rightarrow> def) else def)"

definition hour :: int where
  "hour = 60 * minute"

text \<open>The fields are evaluated in order; a missing secret panics.\<close>

definition Load :: "os_env \<Rightarrow> (string \<Rightarrow> int option) \<Rightarrow> (go_error, config) outcome" where
  "Load os parse =
     (case requireEnv os ''ACCESS_TOKEN_SECRET'' of
        Ok accessSecret \<Rightarrow>
     (case requireEnv os ''REFRESH_TOKEN_SECRET'' of
        Ok refreshSecret \<Rightarrow>
     (case requireEnv os ''CHALLENGE_SECRET'' of
        Ok challengeSecret \<Rightarrow>
          Ok \<lparr>ServerAddr = getEnv os ''SERVER_ADDR'' '':8443'',
              TLSCert = getEnv os ''TLS_CERT'' ''certs/server.crt'',
              TLSKey = getEnv os ''TLS_KEY'' ''certs/server.key'',
              AccessTokenSecret = accessSecret,
              RefreshTokenSecret = refreshSecret,
              AccessTokenTTL = getDuration os parse ''ACCESS_TOKEN_TTL'' (15 * minute),
              RefreshTokenTTL = getDuration os parse ''REFRESH_TOKEN_TTL'' (30 * 24 * hour),
              StepUpTokenTTL = getDuration os parse ''STEP_UP_TOKEN_TTL'' (5 * minute),
              ChallengeSecret = challengeSecret,
              ChallengeTTL = getDuration os parse ''CHALLENGE_TTL'' (2 * minute),
              MaxDevicesPerUser = getInt os ''MAX_DEVICES_PER_USER'' 5,
              SignatureAlgo = getEnv os ''SIGNATURE_ALGO'' ''ES256'',
              MaxLoginAttempts = getInt os ''MAX_LOGIN_ATTEMPTS'' 5,
              LockoutDuration = getDuration os parse ''LOCKOUT_DURATION'' (15 * minute),
              ReplayWindowSize = getDuration os parse ''REPLAY_WINDOW'' (5 * minute),
              MaxTokensPerDevice = getInt os ''MAX_TOKENS_PER_DEVICE'' 3,
              HashMemory = 64 * 1024,
              HashIterations = 3,
              HashParallelism = 2,
              HashKeyLength = 32,
              Environment = getEnv os ''ENV'' ''production''\<rparr>
      | Err e \<Rightarrow> Err e | Panic \<Rightarrow> Panic)
      | Err e \<Rightarrow> Err e | Panic \<Rightarrow> Panic)
      | Err e \<Rightarrow> Err e | Panic \<Rightarrow> Panic)"

text \<open>
  Start-up insists on the secrets. Loading the configuration panics exactly if one of the
  three secrets is missing; otherwise it returns a configuration whose secrets are the
  environment's, all non-empty, and an integer setting holds the number its variable spells
  or its default.
\<close>

lemma load_config_secrets:
  "(Load os parse = Panic \<longleftrightarrow>
      os ''ACCESS_TOKEN_SECRET'' = [] \<or> os ''REFRESH_TOKEN_SECRET'' = [] \<or> os ''CHALLENGE_SECRET'' = [])
   \<and> (\<forall>c. Load os parse = Ok c \<longrightarrow>
        AccessTokenSecret c = os ''ACCESS_TOKEN_SECRET'' \<and> AccessTokenSecret c \<noteq> []
        \<and> RefreshTokenSecret c = os ''REFRESH_TOKEN_SECRET'' \<and> RefreshTokenSecret c \<noteq> []
        \<and> ChallengeSecret c = os ''CHALLENGE_SECRET'' \<and> ChallengeSecret c \<noteq> []
        \<and> (\<forall>i. - (2 ^ 63) \<le> i \<and> i < 2 ^ 63 \<and> os ''MAX_LOGIN_ATTEMPTS'' = itoa i \<longrightarrow> MaxLoginAttempts c = i)
        \<and> (os ''MAX_LOGIN_ATTEMPTS'' = [] \<longrightarrow> MaxLoginAttempts c = 5))
   \<and> (\<forall>e. Load os parse \<noteq> Err e)"
proof -
  have "itoa i \<noteq> []" for i by (simp add: itoa_def)
  then show ?thesis
    by (auto simp: Load_def requireEnv_def getInt_def Atoi_itoa split: if_splits)
qed

definition demo_os :: os_env where
  "demo_os key = (if key \<in> {''ACCESS_TOKEN_SECRET'', ''REFRESH_TOKEN_SECRET'', ''CHALLENGE_SECRET''}
                  then ''secret'' else [])"

lemma load_config_witness:
  "\<exists>c. Load demo_os (\<lambda>_. None) = Ok c \<and> AccessTokenSecret c = ''secret'' \<and> MaxLoginAttempts c = 5"
proof -
  have "Load demo_os (\<lambda>_. None) \<noteq> Panic" "\<forall>e. Load demo_os (\<lambda>_. None) \<noteq> Err e"
    using load_config_secrets [of demo_os "\<lambda>_. None"] by (auto simp: demo_os_def)
  then obtain c where c: "Load demo_os (\<lambda>_. None) = Ok c"
    by (cases "Load demo_os (\<lambda>_. None)") auto
  with load_config_secrets [of demo_os "\<lambda>_. None"] show ?thesis by (auto simp: demo_os_def)
qed

end
