(* ===== verification/Sql.thy ===== *)
theory Sql
  imports Prelude "HOL-Library.Multiset"
begin

text \<open>
  What a statement meets at a database server, shared by the services that use one: the
  server's clock, the order in which it scans rows, and possibly a fault. A fault refuses the
  statement (\<open>Refused\<close>: no connection, a cancelled context, a value that does not fit its
  column) or loses the answer of an executed one (\<open>Lost\<close>).
\<close>

datatype fault = Refused string | Lost string

record turn =
  t_now :: int
  t_scan :: "nat \<Rightarrow> nat list"
  t_fault :: "fault option"

text \<open>
  The rows of a scan, in the order the database picks: \<open>t_scan n\<close> lists the positions of a
  table of \<open>n\<close> rows. A list that is not a permutation of the positions is no scan order; the
  rows then come as stored.
\<close>

definition scan :: "turn \<Rightarrow> 'r list \<Rightarrow> 'r list" where
  "scan t rows =
     (let ps = t_scan t (length rows)
      in if sort ps = [0..<length rows] then map (\<lambda>i. rows ! i) ps else rows)"

lemma set_scan [simp]: "set (scan t rows) = set rows"
proof (cases "sort (t_scan t (length rows)) = [0..<length rows]")
  case True
  then have "set (t_scan t (length rows)) = {0..<length rows}"
    by (metis set_sort set_upt)
  then show ?thesis using True by (auto simp: scan_def in_set_conv_nth)
qed (simp add: scan_def)

lemma mset_scan [simp]: "mset (scan t rows) = mset rows"
proof (cases "sort (t_scan t (length rows)) = [0..<length rows]")
  case True
  then have "mset (t_scan t (length rows)) = mset [0..<length rows]" by (metis mset_sort)
  then have "mset (map (\<lambda>i. rows ! i) (t_scan t (length rows))) = mset (map (\<lambda>i. rows ! i) [0..<length rows])"
    by (metis mset_map)
  then show ?thesis using True by (simp add: scan_def map_nth)
qed (simp add: scan_def)

lemma distinct_scan [simp]: "distinct (scan t rows) = distinct rows"
  by (metis mset_eq_imp_distinct_iff mset_scan)

lemma length_scan [simp]: "length (scan t rows) = length rows"
  by (metis mset_scan size_mset)

text \<open>One statement: whatever happens, the tables are left alone or changed as it says.\<close>

definition execute ::
  "turn \<Rightarrow> (string \<Rightarrow> 'e) \<Rightarrow> (turn \<Rightarrow> 'd \<Rightarrow> ('e, 'a) outcome \<times> 'd) \<Rightarrow> 'd \<Rightarrow> ('e, 'a) outcome \<times> 'd" where
  "execute t err f d =
     (case t_fault t of
        None \<Rightarrow> f t d
      | Some (Refused msg) \<Rightarrow> (Err (err msg), d)
      | Some (Lost msg) \<Rightarrow> (Err (err msg), snd (f t d)))"

lemma execute_ok [simp]: "t_fault t = None \<Longrightarrow> execute t err f d = f t d"
  by (simp add: execute_def)

lemma execute_Ok: "execute t err f d = (Ok x, d') \<Longrightarrow> f t d = (Ok x, d')"
  by (auto simp: execute_def split: option.splits fault.splits)

lemma execute_keeps: "(\<And>t d. I d \<Longrightarrow> I (snd (f t d))) \<Longrightarrow> I d \<Longrightarrow> I (snd (execute t err f d))"
  by (auto simp: execute_def split: option.splits fault.splits)

end
