(* ===== verification/Access_Store.thy ===== *)
theory Access_Store
  imports Go_Text Sql "HOL-Library.List_Lexorder" "HOL-Library.Char_ord"
begin

text \<open>
  Access-control service: the domain types (\<^verbatim>\<open>internal/domain\<close>), the tables of
  \<^verbatim>\<open>migrations/001_access_control.sql\<close> and the repository
  (\<^verbatim>\<open>internal/adapter/repository/postgres/access_repo.go\<close>), one definition per SQL statement.

  Tables are lists of rows; the order of the list has no meaning, because the database
  permutes the rows of every query (\<open>t_scan\<close>), and a statement may meet a fault. Metadata
  objects (\<open>'m\<close>) are only passed through.
\<close>

section \<open>Domain\<close>

type_synonym AccountStatus = string

definition UserPending :: AccountStatus where "UserPending = ''pending''"
definition UserActive :: AccountStatus where "UserActive = ''active''"
definition UserLocked :: AccountStatus where "UserLocked = ''locked''"
definition UserDisabled :: AccountStatus where "UserDisabled = ''disabled''"
definition UserDeleted :: AccountStatus where "UserDeleted = ''deleted''"

record 'm account =
  ac_ID :: string
  ac_Email :: string
  ac_Phone :: string
  ac_DisplayName :: string
  ac_Status :: AccountStatus
  ac_Metadata :: "'m option"
  ac_CreatedAt :: int
  ac_UpdatedAt :: int

record Role =
  role_ID :: string
  role_Name :: string
  role_Description :: string
  role_CreatedAt :: int

record Permission =
  perm_ID :: string
  perm_Key :: string
  perm_Resource :: string
  perm_Action :: string
  perm_Description :: string

record UserRole =
  ur_UserID :: string
  ur_RoleID :: string
  ur_TenantID :: string
  ur_CreatedAt :: int

record Decision =
  Allowed :: bool
  Reason :: string
  Permissions :: "string list"


section \<open>Tables and statements\<close>

text \<open>The row of the \<^verbatim>\<open>users\<close> table: the metadata column holds a JSON text.\<close>

record user_row =
  uw_id :: string
  uw_email :: string
  uw_phone :: string
  uw_display_name :: string
  uw_status :: string
  uw_metadata :: string
  uw_created_at :: int
  uw_updated_at :: int

record database =
  tb_users :: "user_row list"
  tb_roles :: "Role list"
  tb_permissions :: "Permission list"
  tb_role_permissions :: "(string \<times> string) list"
  tb_user_roles :: "UserRole list"

definition empty_database :: database where
  "empty_database = \<lparr>tb_users = [], tb_roles = [], tb_permissions = [],
     tb_role_permissions = [], tb_user_roles = []\<rparr>"

datatype access_error =
    Fault string
  | UniqueViolation string
  | ForeignKeyViolation string
  | NotNullViolation string
  | InvalidJson
  | NegativeOffset
  | NoRows

type_synonym 'a statement = "turn \<Rightarrow> database \<Rightarrow> (access_error, 'a) outcome \<times> database"

definition sql_insert_user :: "user_row \<Rightarrow> user_row statement" where
  "sql_insert_user u t d =
     (if uw_id u \<in> uw_id ` set (tb_users d) then (Err (UniqueViolation ''users_pkey''), d)
      else if uw_email u \<in> uw_email ` set (tb_users d)
      then (Err (UniqueViolation ''users_email_key''), d)
      else (Ok u, d\<lparr>tb_users := tb_users d @ [u]\<rparr>))"

definition sql_select_user :: "(user_row \<Rightarrow> bool) \<Rightarrow> user_row statement" where
  "sql_select_user P t d =
     (case filter P (scan t (tb_users d)) of
        [] \<Rightarrow> (Err NoRows, d)
      | u # _ \<Rightarrow> (Ok u, d))"

definition sql_set_status :: "string \<Rightarrow> AccountStatus \<Rightarrow> unit statement" where
  "sql_set_status i st t d =
     (Ok (), d\<lparr>tb_users := map (\<lambda>u. if uw_id u = i
                                     then u\<lparr>uw_status := st, uw_updated_at := t_now t\<rparr> else u)
                             (tb_users d)\<rparr>)"

text \<open>\<^verbatim>\<open>order by created_at desc limit $1 offset $2\<close>; ties come in scan order.\<close>

definition sql_list_users :: "int \<Rightarrow> int \<Rightarrow> (user_row list) statement" where
  "sql_list_users limit offset t d =
     (if offset < 0 then (Err NegativeOffset, d)
      else (Ok (take (nat limit) (drop (nat offset)
              (sort_key (\<lambda>u. - uw_created_at u) (scan t (tb_users d))))), d))"

definition sql_insert_role :: "string \<Rightarrow> string \<Rightarrow> string \<Rightarrow> int statement" where
  "sql_insert_role i name desc t d =
     (if i \<in> role_ID ` set (tb_roles d) then (Err (UniqueViolation ''roles_pkey''), d)
      else if name \<in> role_Name ` set (tb_roles d)
      then (Err (UniqueViolation ''roles_name_key''), d)
      else (Ok (t_now t), d\<lparr>tb_roles := tb_roles d @
              [\<lparr>role_ID = i, role_Name = name, role_Description = desc,
                role_CreatedAt = t_now t\<rparr>]\<rparr>))"

text \<open>\<open>collate\<close> gives the sort key of a name in the database's collation.\<close>

definition sql_list_roles :: "(string \<Rightarrow> string) \<Rightarrow> (Role list) statement" where
  "sql_list_roles collate t d =
     (Ok (sort_key (\<lambda>r. collate (role_Name r)) (scan t (tb_roles d))), d)"

definition sql_insert_permission :: "Permission \<Rightarrow> unit statement" where
  "sql_insert_permission p t d =
     (if perm_ID p \<in> perm_ID ` set (tb_permissions d)
      then (Err (UniqueViolation ''permissions_pkey''), d)
      else if perm_Key p \<in> perm_Key ` set (tb_permissions d)
      then (Err (UniqueViolation ''permissions_key_key''), d)
      else (Ok (), d\<lparr>tb_permissions := tb_permissions d @ [p]\<rparr>))"

text \<open>\<^verbatim>\<open>on conflict do nothing\<close>: an existing row is no error; then the foreign keys.\<close>

definition sql_grant :: "string \<Rightarrow> string \<Rightarrow> unit statement" where
  "sql_grant role perm t d =
     (if (role, perm) \<in> set (tb_role_permissions d) then (Ok (), d)
      else if role \<notin> role_ID ` set (tb_roles d)
      then (Err (ForeignKeyViolation ''role_permissions_role_id_fkey''), d)
      else if perm \<notin> perm_ID ` set (tb_permissions d)
      then (Err (ForeignKeyViolation ''role_permissions_permission_id_fkey''), d)
      else (Ok (), d\<lparr>tb_role_permissions := tb_role_permissions d @ [(role, perm)]\<rparr>))"

definition ur_key :: "UserRole \<Rightarrow> string \<times> string \<times> string" where
  "ur_key r = (ur_UserID r, ur_RoleID r, ur_TenantID r)"

definition sql_assign :: "string \<Rightarrow> string \<Rightarrow> string \<Rightarrow> unit statement" where
  "sql_assign user role tenant t d =
     (if (user, role, tenant) \<in> ur_key ` set (tb_user_roles d) then (Ok (), d)
      else if role \<notin> role_ID ` set (tb_roles d)
      then (Err (ForeignKeyViolation ''user_roles_role_id_fkey''), d)
      else (Ok (), d\<lparr>tb_user_roles := tb_user_roles d @
              [\<lparr>ur_UserID = user, ur_RoleID = role, ur_TenantID = tenant,
                ur_CreatedAt = t_now t\<rparr>]\<rparr>))"

definition sql_remove :: "string \<Rightarrow> string \<Rightarrow> string \<Rightarrow> unit statement" where
  "sql_remove user role tenant t d =
     (Ok (), d\<lparr>tb_user_roles :=
        filter (\<lambda>r. ur_key r \<noteq> (user, role, tenant)) (tb_user_roles d)\<rparr>)"

text \<open>
  \<^verbatim>\<open>select distinct p.key from user_roles ur join role_permissions rp ... join permissions p\<close>:
  the keys of the joined rows, each once.
\<close>

definition joined_keys :: "string \<Rightarrow> string \<Rightarrow> database \<Rightarrow> string list" where
  "joined_keys user tenant d =
     concat (map (\<lambda>ur. concat (map (\<lambda>(role, perm).
         if role = ur_RoleID ur
         then map perm_Key (filter (\<lambda>p. perm_ID p = perm) (tb_permissions d)) else [])
       (tb_role_permissions d)))
     (filter (\<lambda>ur. ur_UserID ur = user \<and> ur_TenantID ur = tenant) (tb_user_roles d)))"

definition sql_user_permissions :: "string \<Rightarrow> string \<Rightarrow> (string list) statement" where
  "sql_user_permissions user tenant t d = (Ok (scan t (remdups (joined_keys user tenant d))), d)"


section \<open>The repository\<close>

text \<open>
  The environment: the turns of the database, the clock and identifiers of the service, the
  JSON codec of metadata (\<open>None\<close> where it fails) with what the \<^verbatim>\<open>jsonb\<close> column makes of a
  text, the rounding of time stamps to the column's precision, and what happens to a
  published event.
\<close>

record 'm access_env =
  pg_turn :: "nat \<Rightarrow> turn"
  pg_jsonb :: "string \<Rightarrow> string option"
  pg_timestamptz :: "int \<Rightarrow> int"
  pg_collate :: "string \<Rightarrow> string"
  meta_Marshal :: "'m option \<Rightarrow> string option"
  meta_Unmarshal :: "string \<Rightarrow> 'm option"
  ac_now :: "nat \<Rightarrow> int"
  ac_uuid :: "nat \<Rightarrow> string"
  ac_lower :: "string \<Rightarrow> string"
  ac_publish :: "nat \<Rightarrow> bool"

datatype 'm event_payload =
    UserEvent "'m account"
  | RoleEvent Role
  | PermissionEvent Permission
  | FieldsEvent "(string \<times> string) list"

text \<open>The state: the database, the sent events, and the headers of the current response.\<close>

record 'm access =
  db :: database
  published :: "(string \<times> 'm event_payload) list"
  stmts :: nat
  ac_clock :: nat
  ac_uuids :: nat
  ac_sends :: nat
  resp_header :: "string repo"

type_synonym ('m, 'a) acc = "('m access, access_error, 'a) go"

definition run_sql :: "'m access_env \<Rightarrow> 'a statement \<Rightarrow> ('m, 'a) acc" where
  "run_sql E f w =
     (case execute (pg_turn E (stmts w)) Fault f (db w) of
        (r, d) \<Rightarrow> (r, w\<lparr>stmts := stmts w + 1, db := d\<rparr>))"

definition scanUser :: "'m access_env \<Rightarrow> user_row \<Rightarrow> 'm account" where
  "scanUser E u =
     \<lparr>ac_ID = uw_id u, ac_Email = uw_email u, ac_Phone = uw_phone u,
      ac_DisplayName = uw_display_name u, ac_Status = uw_status u,
      ac_Metadata = meta_Unmarshal E (uw_metadata u),
      ac_CreatedAt = uw_created_at u, ac_UpdatedAt = uw_updated_at u\<rparr>"

text \<open>A failed \<^verbatim>\<open>json.Marshal\<close> leaves nil, which the column refuses.\<close>

definition repo_CreateUser :: "'m access_env \<Rightarrow> 'm account \<Rightarrow> ('m, 'm account) acc" where
  "repo_CreateUser E u =
     go_bind (run_sql E (\<lambda>t d.
        case meta_Marshal E (ac_Metadata u) of
          None \<Rightarrow> (Err (NotNullViolation ''metadata''), d)
        | Some meta \<Rightarrow>
            (case pg_jsonb E meta of
               None \<Rightarrow> (Err InvalidJson, d)
             | Some stored \<Rightarrow>
                 sql_insert_user
                   \<lparr>uw_id = ac_ID u, uw_email = ac_Email u, uw_phone = ac_Phone u,
                    uw_display_name = ac_DisplayName u, uw_status = ac_Status u,
                    uw_metadata = stored,
                    uw_created_at = pg_timestamptz E (ac_CreatedAt u),
                    uw_updated_at = pg_timestamptz E (ac_UpdatedAt u)\<rparr> t d)))
       (\<lambda>row. go_return (scanUser E row))"

definition repo_GetUserByID :: "'m access_env \<Rightarrow> string \<Rightarrow> ('m, 'm account) acc" where
  "repo_GetUserByID E i =
     go_bind (run_sql E (sql_select_user (\<lambda>u. uw_id u = i))) (\<lambda>row. go_return (scanUser E row))"

definition repo_GetUserByEmail :: "'m access_env \<Rightarrow> string \<Rightarrow> ('m, 'm account) acc" where
  "repo_GetUserByEmail E email =
     go_bind (run_sql E (sql_select_user (\<lambda>u. uw_email u = email)))
       (\<lambda>row. go_return (scanUser E row))"

definition repo_SetUserStatus :: "'m access_env \<Rightarrow> string \<Rightarrow> AccountStatus \<Rightarrow> ('m, unit) acc" where
  "repo_SetUserStatus E i st = run_sql E (sql_set_status i st)"

definition repo_ListUsers :: "'m access_env \<Rightarrow> int \<Rightarrow> int \<Rightarrow> ('m, 'm account list) acc" where
  "repo_ListUsers E limit offset =
     go_bind (run_sql E (sql_list_users limit offset)) (\<lambda>rows. go_return (map (scanUser E) rows))"

definition repo_CreateRole :: "'m access_env \<Rightarrow> Role \<Rightarrow> ('m, Role) acc" where
  "repo_CreateRole E r =
     go_bind (run_sql E (sql_insert_role (role_ID r) (role_Name r) (role_Description r)))
       (\<lambda>created. go_return (r\<lparr>role_CreatedAt := created\<rparr>))"

definition repo_ListRoles :: "'m access_env \<Rightarrow> ('m, Role list) acc" where
  "repo_ListRoles E = run_sql E (sql_list_roles (pg_collate E))"

definition repo_CreatePermission :: "'m access_env \<Rightarrow> Permission \<Rightarrow> ('m, Permission) acc" where
  "repo_CreatePermission E p =
     go_bind (run_sql E (sql_insert_permission p)) (\<lambda>_. go_return p)"

definition repo_GrantPermissionToRole :: "'m access_env \<Rightarrow> string \<Rightarrow> string \<Rightarrow> ('m, unit) acc" where
  "repo_GrantPermissionToRole E role perm = run_sql E (sql_grant role perm)"

definition repo_AssignRole :: "'m access_env \<Rightarrow> string \<Rightarrow> string \<Rightarrow> string \<Rightarrow> ('m, unit) acc" where
  "repo_AssignRole E user role tenant = run_sql E (sql_assign user role tenant)"

definition repo_RemoveRole :: "'m access_env \<Rightarrow> string \<Rightarrow> string \<Rightarrow> string \<Rightarrow> ('m, unit) acc" where
  "repo_RemoveRole E user role tenant = run_sql E (sql_remove user role tenant)"

definition repo_UserPermissions ::
  "'m access_env \<Rightarrow> string \<Rightarrow> string \<Rightarrow> ('m, string list) acc" where
  "repo_UserPermissions E user tenant = run_sql E (sql_user_permissions user tenant)"


section \<open>Constraints and the access relation\<close>

text \<open>What the constraints of the migration say about a database state.\<close>

definition db_ok :: "database \<Rightarrow> bool" where
  "db_ok d \<longleftrightarrow>
     distinct (map uw_id (tb_users d)) \<and> distinct (map uw_email (tb_users d))
   \<and> distinct (map role_ID (tb_roles d)) \<and> distinct (map role_Name (tb_roles d))
   \<and> distinct (map perm_ID (tb_permissions d)) \<and> distinct (map perm_Key (tb_permissions d))
   \<and> distinct (tb_role_permissions d) \<and> distinct (map ur_key (tb_user_roles d))
   \<and> (\<forall>(role, perm) \<in> set (tb_role_permissions d).
        role \<in> role_ID ` set (tb_roles d) \<and> perm \<in> perm_ID ` set (tb_permissions d))
   \<and> (\<forall>ur \<in> set (tb_user_roles d). ur_RoleID ur \<in> role_ID ` set (tb_roles d))"

text \<open>
  Role-based access control: a user holds a key in a tenant through a role assigned there
  that was granted the permission with that key.
\<close>

definition rbac_allows :: "database \<Rightarrow> string \<Rightarrow> string \<Rightarrow> string \<Rightarrow> bool" where
  "rbac_allows d user tenant key \<longleftrightarrow>
     (\<exists>role perm. (user, role, tenant) \<in> ur_key ` set (tb_user_roles d)
        \<and> (role, perm) \<in> set (tb_role_permissions d)
        \<and> (perm, key) \<in> (\<lambda>p. (perm_ID p, perm_Key p)) ` set (tb_permissions d))"

lemma set_joined_keys: "set (joined_keys user tenant d) = {key. rbac_allows d user tenant key}"
  by (fastforce simp: joined_keys_def rbac_allows_def ur_key_def image_iff)

text \<open>A statement without a fault is executed; whatever happens, the database is either left
  alone or changed as the statement says.\<close>

lemma run_sql_ok:
  "t_fault (pg_turn E (stmts w)) = None \<Longrightarrow>
   run_sql E f w = (fst (f (pg_turn E (stmts w)) (db w)),
      w\<lparr>stmts := stmts w + 1, db := snd (f (pg_turn E (stmts w)) (db w))\<rparr>)"
  by (simp add: run_sql_def split: prod.splits)

lemma run_sql_Ok:
  assumes "run_sql E f w = (Ok x, w')"
  shows "f (pg_turn E (stmts w)) (db w) = (Ok x, db w')"
    and "w' = w\<lparr>stmts := stmts w + 1, db := db w'\<rparr>"
  using assms by (auto simp: run_sql_def split: prod.splits dest: execute_Ok)

lemma run_sql_keeps:
  "(\<And>t d. I d \<Longrightarrow> I (snd (f t d))) \<Longrightarrow> keeps (\<lambda>w. I (db w)) (run_sql E f)"
  by (auto simp: keeps_def run_sql_def split: prod.splits) (metis execute_keeps snd_conv)

text \<open>
  A property of the database that the statements the service issues keep: the laws are one
  per statement. The guards say which permission keys may be created, which permissions
  granted to which roles, and which roles assigned; the repository, the service and the
  server keep the property when they stay within the guards.
\<close>

locale sql_guarded =
  fixes I :: "database \<Rightarrow> bool"
    and key_ok :: "string \<Rightarrow> bool"
    and grant_ok :: "string \<Rightarrow> string \<Rightarrow> bool"
    and assign_ok :: "string \<Rightarrow> string \<Rightarrow> string \<Rightarrow> bool"
  assumes insert_user: "I d \<Longrightarrow> I (snd (sql_insert_user u t d))"
    and set_status: "I d \<Longrightarrow> I (snd (sql_set_status i st t d))"
    and insert_role: "I d \<Longrightarrow> I (snd (sql_insert_role i name desc t d))"
    and insert_permission: "key_ok (perm_Key p) \<Longrightarrow> I d \<Longrightarrow> I (snd (sql_insert_permission p t d))"
    and grant: "grant_ok role perm \<Longrightarrow> I d \<Longrightarrow> I (snd (sql_grant role perm t d))"
    and assign: "assign_ok user role tenant \<Longrightarrow> I d \<Longrightarrow> I (snd (sql_assign user role tenant t d))"
begin

lemma reads_keep:
  "I d \<Longrightarrow> I (snd (sql_select_user P t d))" "I d \<Longrightarrow> I (snd (sql_list_users limit offset t d))"
  "I d \<Longrightarrow> I (snd (sql_list_roles collate t d))" "I d \<Longrightarrow> I (snd (sql_user_permissions user tenant t d))"
  by (simp_all add: sql_select_user_def sql_list_users_def sql_list_roles_def
        sql_user_permissions_def split: list.splits)

lemma repository_keeps:
  "keeps (\<lambda>w. I (db w)) (repo_CreateUser E u)"
  "keeps (\<lambda>w. I (db w)) (repo_GetUserByID E i)"
  "keeps (\<lambda>w. I (db w)) (repo_SetUserStatus E i st)"
  "keeps (\<lambda>w. I (db w)) (repo_ListUsers E limit offset)"
  "keeps (\<lambda>w. I (db w)) (repo_CreateRole E r)"
  "keeps (\<lambda>w. I (db w)) (repo_ListRoles E)"
  "key_ok (perm_Key p) \<Longrightarrow> keeps (\<lambda>w. I (db w)) (repo_CreatePermission E p)"
  "grant_ok role perm \<Longrightarrow> keeps (\<lambda>w. I (db w)) (repo_GrantPermissionToRole E role perm)"
  "assign_ok user role tenant \<Longrightarrow> keeps (\<lambda>w. I (db w)) (repo_AssignRole E user role tenant)"
  "keeps (\<lambda>w. I (db w)) (repo_UserPermissions E user tenant)"
  unfolding repo_CreateUser_def repo_GetUserByID_def repo_SetUserStatus_def repo_ListUsers_def
    repo_CreateRole_def repo_ListRoles_def repo_CreatePermission_def
    repo_GrantPermissionToRole_def repo_AssignRole_def repo_UserPermissions_def
  by (intro keeps_bind keeps_return run_sql_keeps;
      auto simp: reads_keep insert_user set_status insert_role insert_permission grant assign
           split: option.splits)+

end

text \<open>Without guards: whatever is created, granted and assigned.\<close>

locale sql_invariant = sql_guarded I "\<lambda>_. True" "\<lambda>_ _. True" "\<lambda>_ _ _. True"
  for I :: "database \<Rightarrow> bool"

interpretation constraints: sql_invariant db_ok
proof unfold_locales
  show "db_ok d \<Longrightarrow> db_ok (snd (sql_insert_user u t d))" for d u t
    by (auto simp: db_ok_def sql_insert_user_def)
  show "db_ok d \<Longrightarrow> db_ok (snd (sql_set_status i st t d))" for d i st t
    by (simp add: db_ok_def sql_set_status_def comp_def if_distrib [of uw_id] if_distrib [of uw_email] cong: if_cong)
  show "db_ok d \<Longrightarrow> db_ok (snd (sql_insert_role i name desc t d))" for d i name desc t
    by (auto simp: db_ok_def sql_insert_role_def)
  show "db_ok d \<Longrightarrow> db_ok (snd (sql_insert_permission p t d))" for d p t
    by (auto simp: db_ok_def sql_insert_permission_def)
  show "db_ok d \<Longrightarrow> db_ok (snd (sql_grant role perm t d))" for d role perm t
    by (auto simp: db_ok_def sql_grant_def)
  show "db_ok d \<Longrightarrow> db_ok (snd (sql_assign user role tenant t d))" for d user role tenant t
    by (auto simp: db_ok_def sql_assign_def ur_key_def)
qed

text \<open>No statement the service issues takes access away.\<close>

interpretation granted: sql_invariant "\<lambda>d. rbac_allows d user tenant key" for user tenant key
proof unfold_locales
  fix d assume a: "rbac_allows d user tenant key"
  show "rbac_allows (snd (sql_insert_user u t d)) user tenant key" for u t
    using a by (simp add: rbac_allows_def sql_insert_user_def)
  show "rbac_allows (snd (sql_set_status i st t d)) user tenant key" for i st t
    using a by (simp add: rbac_allows_def sql_set_status_def)
  show "rbac_allows (snd (sql_insert_role i name desc t d)) user tenant key" for i name desc t
    using a by (simp add: rbac_allows_def sql_insert_role_def)
  show "rbac_allows (snd (sql_insert_permission p t d)) user tenant key" for p t
    using a by (fastforce simp: rbac_allows_def sql_insert_permission_def)
  show "rbac_allows (snd (sql_grant role perm t d)) user tenant key" for role perm t
    using a by (fastforce simp: rbac_allows_def sql_grant_def)
  show "rbac_allows (snd (sql_assign us role te t d)) user tenant key" for us role te t
    using a by (fastforce simp: rbac_allows_def sql_assign_def)
qed

end
