(* ===== verification/Access_Control.thy ===== *)
theory Access_Control
  imports Access_Store
begin

text \<open>
  Access-control service: the application service
  (\<^verbatim>\<open>internal/application/access/service.go\<close>) and the event publisher
  (\<^verbatim>\<open>internal/infra/event/nats.go\<close>). Every operation is one repository call; a successful
  change is then announced, and a failed announcement is dropped.
\<close>

section \<open>Clock, identifiers, events\<close>

definition access_now :: "'m access_env \<Rightarrow> ('m, int) acc" where
  "access_now E = go_get (\<lambda>w. go_bind (go_put (\<lambda>w. w\<lparr>ac_clock := ac_clock w + 1\<rparr>))
     (\<lambda>_. go_return (ac_now E (ac_clock w))))"

definition uuid_NewString :: "'m access_env \<Rightarrow> ('m, string) acc" where
  "uuid_NewString E = go_get (\<lambda>w. go_bind (go_put (\<lambda>w. w\<lparr>ac_uuids := ac_uuids w + 1\<rparr>))
     (\<lambda>_. go_return (ac_uuid E (ac_uuids w))))"

text \<open>Encoding the payload or handing it to the connection may fail; then nothing is sent.\<close>

definition Publish :: "'m access_env \<Rightarrow> string \<Rightarrow> 'm event_payload \<Rightarrow> ('m, unit) acc" where
  "Publish E subject payload = go_get (\<lambda>w.
     go_bind (go_put (\<lambda>w. w\<lparr>ac_sends := ac_sends w + 1\<rparr>)) (\<lambda>_.
     if ac_publish E (ac_sends w)
     then go_put (\<lambda>w. w\<lparr>published := published w @ [(subject, payload)]\<rparr>)
     else go_fail (Fault ''publish'')))"

text \<open>\<^verbatim>\<open>out, err := m; if err == nil { _ = s.events.Publish(...) }; return out, err\<close>\<close>

definition announced ::
  "'m access_env \<Rightarrow> ('m, 'a) acc \<Rightarrow> string \<Rightarrow> ('a \<Rightarrow> 'm event_payload) \<Rightarrow> ('m, 'a) acc" where
  "announced E m subject payload =
     go_bind m (\<lambda>out. go_ignore (Publish E subject (payload out)) (go_return out))"


section \<open>Operations\<close>

record 'm CreateUserCommand =
  cu_Email :: string
  cu_Phone :: string
  cu_DisplayName :: string
  cu_Metadata :: "'m option"

definition CreateUser :: "'m access_env \<Rightarrow> 'm CreateUserCommand \<Rightarrow> ('m, 'm account) acc" where
  "CreateUser E cmd =
     go_bind (access_now E) (\<lambda>now.
     go_bind (uuid_NewString E) (\<lambda>i.
     announced E (repo_CreateUser E
         \<lparr>ac_ID = i, ac_Email = ToLower (ac_lower E) (TrimSpace (cu_Email cmd)),
          ac_Phone = TrimSpace (cu_Phone cmd), ac_DisplayName = TrimSpace (cu_DisplayName cmd),
          ac_Status = UserPending, ac_Metadata = cu_Metadata cmd,
          ac_CreatedAt = now, ac_UpdatedAt = now\<rparr>)
       ''access.user.created'' UserEvent))"

definition GetUser :: "'m access_env \<Rightarrow> string \<Rightarrow> ('m, 'm account) acc" where
  "GetUser E i = repo_GetUserByID E i"

definition ListUsers :: "'m access_env \<Rightarrow> int \<Rightarrow> int \<Rightarrow> ('m, 'm account list) acc" where
  "ListUsers E limit offset =
     repo_ListUsers E (if limit \<le> 0 \<or> limit > 200 then 50 else limit) offset"

definition ActivateUser :: "'m access_env \<Rightarrow> string \<Rightarrow> ('m, unit) acc" where
  "ActivateUser E i =
     announced E (repo_SetUserStatus E i UserActive) ''access.user.activated''
       (\<lambda>_. FieldsEvent [(''user_id'', i)])"

definition LockUser :: "'m access_env \<Rightarrow> string \<Rightarrow> ('m, unit) acc" where
  "LockUser E i =
     announced E (repo_SetUserStatus E i UserLocked) ''access.user.locked''
       (\<lambda>_. FieldsEvent [(''user_id'', i)])"

text \<open>The creation time of a new role is the database's; the service leaves it zero.\<close>

definition CreateRole :: "'m access_env \<Rightarrow> string \<Rightarrow> string \<Rightarrow> ('m, Role) acc" where
  "CreateRole E name desc =
     go_bind (uuid_NewString E) (\<lambda>i.
     announced E (repo_CreateRole E \<lparr>role_ID = i, role_Name = TrimSpace name,
                    role_Description = desc, role_CreatedAt = 0\<rparr>)
       ''access.role.created'' RoleEvent)"

definition ListRoles :: "'m access_env \<Rightarrow> ('m, Role list) acc" where
  "ListRoles E = repo_ListRoles E"

definition CreatePermission ::
  "'m access_env \<Rightarrow> string \<Rightarrow> string \<Rightarrow> string \<Rightarrow> string \<Rightarrow> ('m, Permission) acc" where
  "CreatePermission E key res action desc =
     go_bind (uuid_NewString E) (\<lambda>i.
     announced E (repo_CreatePermission E \<lparr>perm_ID = i, perm_Key = key, perm_Resource = res,
                    perm_Action = action, perm_Description = desc\<rparr>)
       ''access.permission.created'' PermissionEvent)"

definition Grant :: "'m access_env \<Rightarrow> string \<Rightarrow> string \<Rightarrow> ('m, unit) acc" where
  "Grant E roleID permissionID =
     announced E (repo_GrantPermissionToRole E roleID permissionID)
       ''access.role.permission.granted''
       (\<lambda>_. FieldsEvent [(''role_id'', roleID), (''permission_id'', permissionID)])"

definition tenant_or_default :: "string \<Rightarrow> string" where
  "tenant_or_default tenantID = (if tenantID = [] then ''default'' else tenantID)"

definition AssignRole :: "'m access_env \<Rightarrow> string \<Rightarrow> string \<Rightarrow> string \<Rightarrow> ('m, unit) acc" where
  "AssignRole E userID roleID tenantID =
     (let tenant = tenant_or_default tenantID
      in announced E (repo_AssignRole E userID roleID tenant) ''access.user.role.assigned''
           (\<lambda>_. FieldsEvent [(''user_id'', userID), (''role_id'', roleID), (''tenant_id'', tenant)]))"

definition Check :: "'m access_env \<Rightarrow> string \<Rightarrow> string \<Rightarrow> string \<Rightarrow> ('m, Decision) acc" where
  "Check E userID tenantID permission =
     go_bind (repo_UserPermissions E userID (tenant_or_default tenantID)) (\<lambda>perms.
     if list_ex (\<lambda>p. p = permission \<or> p = ''*'') perms
     then go_return \<lparr>Allowed = True, Reason = ''permission granted'', Permissions = perms\<rparr>
     else go_return \<lparr>Allowed = False, Reason = ''permission missing'', Permissions = perms\<rparr>)"


section \<open>What the operations keep\<close>

lemma keeps_environment [keeps_rules]:
  "keeps (\<lambda>w. I (db w)) (access_now E)" "keeps (\<lambda>w. I (db w)) (uuid_NewString E)"
  "keeps (\<lambda>w. I (db w)) (Publish E subject payload)"
  by (simp_all add: keeps_def access_now_def uuid_NewString_def Publish_def)

lemma keeps_announced [keeps_rules]:
  "keeps (\<lambda>w. I (db w)) m \<Longrightarrow> keeps (\<lambda>w. I (db w)) (announced E m subject payload)"
  unfolding announced_def by (intro keeps_rules)

context sql_guarded
begin

lemma operations_keep:
  "keeps (\<lambda>w. I (db w)) (CreateUser E cmd)"
  "keeps (\<lambda>w. I (db w)) (GetUser E i)"
  "keeps (\<lambda>w. I (db w)) (ListUsers E limit offset)"
  "keeps (\<lambda>w. I (db w)) (ActivateUser E i)"
  "keeps (\<lambda>w. I (db w)) (LockUser E i)"
  "keeps (\<lambda>w. I (db w)) (CreateRole E name desc)"
  "keeps (\<lambda>w. I (db w)) (ListRoles E)"
  "key_ok key \<Longrightarrow> keeps (\<lambda>w. I (db w)) (CreatePermission E key res action desc)"
  "grant_ok roleID permissionID \<Longrightarrow> keeps (\<lambda>w. I (db w)) (Grant E roleID permissionID)"
  "assign_ok userID roleID (tenant_or_default tenantID) \<Longrightarrow>
     keeps (\<lambda>w. I (db w)) (AssignRole E userID roleID tenantID)"
  "keeps (\<lambda>w. I (db w)) (Check E userID tenantID permission)"
  unfolding CreateUser_def GetUser_def ListUsers_def ActivateUser_def LockUser_def CreateRole_def
    ListRoles_def CreatePermission_def Grant_def AssignRole_def Check_def
  by (intro keeps_rules repository_keeps; simp)+

end

text \<open>An announced call answers as the call itself and leaves the same database.\<close>

lemma announced_fst: "fst (announced E m subject payload w) = fst (m w)"
  by (auto simp: announced_def go_bind_def go_ignore_def go_try_def Publish_def
      split: prod.splits outcome.splits)

lemma announced_db: "db (snd (announced E m subject payload w)) = db (snd (m w))"
  by (auto simp: announced_def go_bind_def go_ignore_def go_try_def Publish_def
      split: prod.splits outcome.splits)


section \<open>Decisions\<close>

definition fault_free :: "'m access_env \<Rightarrow> 'm access \<Rightarrow> bool" where
  "fault_free E w \<longleftrightarrow> t_fault (pg_turn E (stmts w)) = None"

text \<open>
  C7: The permission check decides role-based access control. When the database answers, the
  check returns a decision and changes no table: access is allowed exactly if the user holds
  the permission's key or the key \<open>*\<close> in the tenant (\<open>default\<close> if none is given), through a
  role assigned in that tenant; the decision lists exactly the keys held there, each once.
  When the database does not answer, the check returns its error and no decision.
\<close>

theorem check_decides_rbac:
  "(fault_free E w \<longrightarrow>
     (\<exists>d w'. Check E user tenant perm w = (Ok d, w') \<and> db w' = db w
        \<and> (Allowed d \<longleftrightarrow> (\<exists>key \<in> {perm, ''*''}. rbac_allows (db w) user (tenant_or_default tenant) key))
        \<and> Reason d = (if Allowed d then ''permission granted'' else ''permission missing'')
        \<and> set (Permissions d) = {key. rbac_allows (db w) user (tenant_or_default tenant) key}
        \<and> distinct (Permissions d)))
   \<and> (\<not> fault_free E w \<longrightarrow>
        (\<exists>msg w'. Check E user tenant perm w = (Err (Fault msg), w') \<and> db w' = db w))"
proof (cases "t_fault (pg_turn E (stmts w))")
  case None
  then show ?thesis
    by (auto simp: fault_free_def Check_def repo_UserPermissions_def go_bind_def go_try_def
        run_sql_ok sql_user_permissions_def set_joined_keys list_ex_iff)
next
  case (Some f)
  then show ?thesis
    by (cases f) (simp_all add: fault_free_def Check_def repo_UserPermissions_def
        run_sql_def execute_def sql_user_permissions_def)
qed

text \<open>Without a fault, granting and assigning are their statement followed by the event.\<close>

lemma Grant_run:
  assumes "fault_free E w"
  obtains t where "fst (Grant E role perm w) = fst (sql_grant role perm t (db w))"
    and "db (snd (Grant E role perm w)) = snd (sql_grant role perm t (db w))"
  using assms by (simp add: Grant_def announced_fst announced_db repo_GrantPermissionToRole_def
      run_sql_ok fault_free_def)

lemma AssignRole_run:
  assumes "fault_free E w"
  obtains t where
    "fst (AssignRole E user role tenant w) = fst (sql_assign user role (tenant_or_default tenant) t (db w))"
    and "db (snd (AssignRole E user role tenant w)) =
           snd (sql_assign user role (tenant_or_default tenant) t (db w))"
  using assms by (simp add: AssignRole_def Let_def announced_fst announced_db repo_AssignRole_def
      run_sql_ok fault_free_def)

lemma rbac_allows_alt:
  "rbac_allows d user tenant key \<longleftrightarrow>
     (\<exists>role. \<exists>p \<in> set (tb_permissions d). (user, role, tenant) \<in> ur_key ` set (tb_user_roles d)
        \<and> (role, perm_ID p) \<in> set (tb_role_permissions d) \<and> perm_Key p = key)"
  unfolding rbac_allows_def by blast

lemma sql_grant_effect:
  assumes "role \<in> role_ID ` set (tb_roles d)" and "perm \<in> perm_ID ` set (tb_permissions d)"
  shows "fst (sql_grant role perm t d) = Ok ()"
    and "rbac_allows (snd (sql_grant role perm t d)) u te k \<longleftrightarrow> rbac_allows d u te k
           \<or> (u, role, te) \<in> ur_key ` set (tb_user_roles d)
             \<and> (\<exists>p \<in> set (tb_permissions d). perm_ID p = perm \<and> perm_Key p = k)"
    and "sql_grant role perm t' (snd (sql_grant role perm t d)) = (Ok (), snd (sql_grant role perm t d))"
proof -
  show "fst (sql_grant role perm t d) = Ok ()" using assms by (simp add: sql_grant_def)
  have "(role, perm) \<in> set (tb_role_permissions (snd (sql_grant role perm t d)))"
    using assms by (simp add: sql_grant_def)
  then show "sql_grant role perm t' (snd (sql_grant role perm t d)) = (Ok (), snd (sql_grant role perm t d))"
    by (simp add: sql_grant_def [of role perm t'])
  have "set (tb_role_permissions (snd (sql_grant role perm t d))) = insert (role, perm) (set (tb_role_permissions d))"
    and "tb_user_roles (snd (sql_grant role perm t d)) = tb_user_roles d"
    and "tb_permissions (snd (sql_grant role perm t d)) = tb_permissions d"
    using assms by (auto simp: sql_grant_def)
  then show "rbac_allows (snd (sql_grant role perm t d)) u te k \<longleftrightarrow> rbac_allows d u te k
           \<or> (u, role, te) \<in> ur_key ` set (tb_user_roles d)
             \<and> (\<exists>p \<in> set (tb_permissions d). perm_ID p = perm \<and> perm_Key p = k)"
    unfolding rbac_allows_alt by auto
qed

lemma sql_assign_effect:
  assumes "role \<in> role_ID ` set (tb_roles d)"
  shows "fst (sql_assign user role tenant t d) = Ok ()"
    and "rbac_allows (snd (sql_assign user role tenant t d)) u te k \<longleftrightarrow> rbac_allows d u te k
           \<or> u = user \<and> te = tenant
             \<and> (\<exists>p \<in> set (tb_permissions d). (role, perm_ID p) \<in> set (tb_role_permissions d) \<and> perm_Key p = k)"
    and "sql_assign user role tenant t' (snd (sql_assign user role tenant t d)) =
           (Ok (), snd (sql_assign user role tenant t d))"
proof -
  show "fst (sql_assign user role tenant t d) = Ok ()" using assms by (simp add: sql_assign_def)
  have ins: "ur_key ` set (tb_user_roles (snd (sql_assign user role tenant t d))) =
        insert (user, role, tenant) (ur_key ` set (tb_user_roles d))"
    and "tb_role_permissions (snd (sql_assign user role tenant t d)) = tb_role_permissions d"
    and "tb_permissions (snd (sql_assign user role tenant t d)) = tb_permissions d"
    using assms by (auto simp: sql_assign_def ur_key_def)
  then show "rbac_allows (snd (sql_assign user role tenant t d)) u te k \<longleftrightarrow> rbac_allows d u te k
           \<or> u = user \<and> te = tenant
             \<and> (\<exists>p \<in> set (tb_permissions d). (role, perm_ID p) \<in> set (tb_role_permissions d) \<and> perm_Key p = k)"
    unfolding rbac_allows_alt by auto
  show "sql_assign user role tenant t' (snd (sql_assign user role tenant t d)) =
           (Ok (), snd (sql_assign user role tenant t d))"
    using ins by (simp add: sql_assign_def [of user role tenant t'])
qed

text \<open>
  C26: Assigning and granting take effect, exactly. When the database answers and the role (and
  the permission) exist, a grant or an assignment succeeds; afterwards a user holds a key
  exactly if they held it before or the new pair connects them: no other user, tenant or key
  is affected, and repeating the call changes nothing more. A missing role or permission is
  refused without a change.
\<close>

theorem grant_and_assign_effect:
  assumes "fault_free E w"
  shows "(role \<in> role_ID ` set (tb_roles (db w)) \<and> perm \<in> perm_ID ` set (tb_permissions (db w)) \<longrightarrow>
           (let (r, w') = Grant E role perm w
            in r = Ok ()
              \<and> (\<forall>u t k. rbac_allows (db w') u t k \<longleftrightarrow> rbac_allows (db w) u t k
                   \<or> (u, role, t) \<in> ur_key ` set (tb_user_roles (db w))
                     \<and> (\<exists>p \<in> set (tb_permissions (db w)). perm_ID p = perm \<and> perm_Key p = k))
              \<and> (fault_free E w' \<longrightarrow> fst (Grant E role perm w') = Ok ()
                   \<and> db (snd (Grant E role perm w')) = db w')))
   \<and> (role \<in> role_ID ` set (tb_roles (db w)) \<longrightarrow>
           (let (r, w') = AssignRole E user role tenant w
            in r = Ok ()
              \<and> (\<forall>u t k. rbac_allows (db w') u t k \<longleftrightarrow> rbac_allows (db w) u t k
                   \<or> u = user \<and> t = tenant_or_default tenant
                     \<and> (\<exists>p \<in> set (tb_permissions (db w)).
                          (role, perm_ID p) \<in> set (tb_role_permissions (db w)) \<and> perm_Key p = k))
              \<and> (fault_free E w' \<longrightarrow> fst (AssignRole E user role tenant w') = Ok ()
                   \<and> db (snd (AssignRole E user role tenant w')) = db w')))
   \<and> (role \<notin> role_ID ` set (tb_roles (db w)) \<and> db_ok (db w) \<longrightarrow>
           fst (Grant E role perm w) = Err (ForeignKeyViolation ''role_permissions_role_id_fkey'')
         \<and> fst (AssignRole E user role tenant w) = Err (ForeignKeyViolation ''user_roles_role_id_fkey'')
         \<and> db (snd (Grant E role perm w)) = db w \<and> db (snd (AssignRole E user role tenant w)) = db w)"
    (is "?grant \<and> ?assign \<and> ?missing")
proof (intro conjI)
  let ?te = "tenant_or_default tenant"
  let ?g = "snd (Grant E role perm w)" and ?a = "snd (AssignRole E user role tenant w)"
  obtain t where g: "fst (Grant E role perm w) = fst (sql_grant role perm t (db w))"
      "db ?g = snd (sql_grant role perm t (db w))"
    using Grant_run [OF assms] .
  obtain s where a: "fst (AssignRole E user role tenant w) = fst (sql_assign user role ?te s (db w))"
      "db ?a = snd (sql_assign user role ?te s (db w))"
    using AssignRole_run [OF assms] .
  show ?grant
  proof (intro impI, elim conjE)
    assume e: "role \<in> role_ID ` set (tb_roles (db w))" "perm \<in> perm_ID ` set (tb_permissions (db w))"
    have "fst (Grant E role perm ?g) = Ok () \<and> db (snd (Grant E role perm ?g)) = db ?g"
      if f: "fault_free E ?g"
      using Grant_run [OF f, of role perm] sql_grant_effect(3) [OF e] g(2) by (metis fst_conv snd_conv)
    with sql_grant_effect(1,2) [OF e, of t] g
    show "let (r, w') = Grant E role perm w
            in r = Ok ()
              \<and> (\<forall>u t k. rbac_allows (db w') u t k \<longleftrightarrow> rbac_allows (db w) u t k
                   \<or> (u, role, t) \<in> ur_key ` set (tb_user_roles (db w))
                     \<and> (\<exists>p \<in> set (tb_permissions (db w)). perm_ID p = perm \<and> perm_Key p = k))
              \<and> (fault_free E w' \<longrightarrow> fst (Grant E role perm w') = Ok ()
                   \<and> db (snd (Grant E role perm w')) = db w')"
      by (simp add: case_prod_beta Let_def)
  qed
  show ?assign
  proof
    assume e: "role \<in> role_ID ` set (tb_roles (db w))"
    have "fst (AssignRole E user role tenant ?a) = Ok ()
        \<and> db (snd (AssignRole E user role tenant ?a)) = db ?a" if f: "fault_free E ?a"
      using AssignRole_run [OF f, of user role tenant] sql_assign_effect(3) [OF e] a(2)
      by (metis fst_conv snd_conv)
    with sql_assign_effect(1,2) [OF e, of user ?te s] a
    show "let (r, w') = AssignRole E user role tenant w
            in r = Ok ()
              \<and> (\<forall>u t k. rbac_allows (db w') u t k \<longleftrightarrow> rbac_allows (db w) u t k
                   \<or> u = user \<and> t = ?te
                     \<and> (\<exists>p \<in> set (tb_permissions (db w)).
                          (role, perm_ID p) \<in> set (tb_role_permissions (db w)) \<and> perm_Key p = k))
              \<and> (fault_free E w' \<longrightarrow> fst (AssignRole E user role tenant w') = Ok ()
                   \<and> db (snd (AssignRole E user role tenant w')) = db w')"
      by (simp add: case_prod_beta Let_def)
  qed
  show ?missing
    using g a by (auto simp: sql_grant_def sql_assign_def db_ok_def ur_key_def)
qed

definition page_limit :: "int \<Rightarrow> nat" where
  "page_limit limit = (if 0 < limit \<and> limit \<le> 200 then nat limit else 50)"

text \<open>
  A page of users. When the database answers, a listing with a non-negative offset returns
  a window of all users in an order by falling creation time: at most as many as asked for,
  50 if the request is not between 1 and 200, and fewer only at the end of the list; a
  negative offset is the database's error. Listing changes no table.
\<close>

lemma list_users_page:
  assumes "fault_free E w"
  shows "\<exists>w'. db w' = db w \<and>
    (if offset < 0 then ListUsers E limit offset w = (Err NegativeOffset, w')
     else \<exists>all. mset all = mset (tb_users (db w))
        \<and> sorted_wrt (\<lambda>u v. uw_created_at u \<ge> uw_created_at v) all
        \<and> ListUsers E limit offset w =
            (Ok (map (scanUser E) (take (page_limit limit) (drop (nat offset) all))), w')
        \<and> length (take (page_limit limit) (drop (nat offset) all)) =
            min (page_limit limit) (length (tb_users (db w)) - nat offset)
        \<and> page_limit limit \<le> 200)"
proof -
  let ?t = "pg_turn E (stmts w)"
  let ?all = "sort_key (\<lambda>u. - uw_created_at u) (scan ?t (tb_users (db w)))"
  let ?w = "w\<lparr>stmts := stmts w + 1, db := db w\<rparr>"
  have ms: "mset ?all = mset (tb_users (db w))" by simp
  have "sorted (map (\<lambda>u. - uw_created_at u) ?all)" by (rule sorted_sort_key)
  then have so: "sorted_wrt (\<lambda>u v. uw_created_at u \<ge> uw_created_at v) ?all"
    by (simp add: sorted_map)
  have run: "ListUsers E limit offset w =
      (if offset < 0 then (Err NegativeOffset, ?w)
       else (Ok (map (scanUser E) (take (page_limit limit) (drop (nat offset) ?all))), ?w))"
    using assms by (simp add: ListUsers_def repo_ListUsers_def go_bind_def go_try_def run_sql_ok
        sql_list_users_def fault_free_def page_limit_def)
  have le: "page_limit limit \<le> 200" by (auto simp: page_limit_def)
  show ?thesis
  proof (cases "offset < 0")
    case True
    with run show ?thesis by (intro exI [of _ ?w]) simp
  next
    case False
    with run ms so le show ?thesis
      by (intro exI [of _ ?w]) (simp, intro exI [of _ ?all], simp)
  qed
qed


section \<open>A small instance\<close>

definition demo_turn :: turn where
  "demo_turn = \<lparr>t_now = 0, t_scan = (\<lambda>n. rev [0..<n]), t_fault = None\<rparr>"

definition demo_access_env :: "string access_env" where
  "demo_access_env =
     \<lparr>pg_turn = (\<lambda>_. demo_turn), pg_jsonb = Some, pg_timestamptz = (\<lambda>t. t div 1000 * 1000),
      pg_collate = (\<lambda>s. s),
      meta_Marshal = (\<lambda>m. case m of None \<Rightarrow> Some ''null'' | Some s \<Rightarrow> Some s),
      meta_Unmarshal = Some, ac_now = int, ac_uuid = show_nat, ac_lower = (\<lambda>s. s),
      ac_publish = (\<lambda>_. True)\<rparr>"

definition demo_role :: Role where
  "demo_role = \<lparr>role_ID = ''r'', role_Name = ''editor'', role_Description = [], role_CreatedAt = 0\<rparr>"

definition demo_permission :: Permission where
  "demo_permission = \<lparr>perm_ID = ''p'', perm_Key = ''docs:write'', perm_Resource = ''docs'',
     perm_Action = ''write'', perm_Description = []\<rparr>"

definition demo_database :: database where
  "demo_database = empty_database\<lparr>tb_roles := [demo_role], tb_permissions := [demo_permission],
     tb_role_permissions := [(''r'', ''p'')]\<rparr>"

definition demo_acs :: "string access" where
  "demo_acs = \<lparr>db = demo_database, published = [], stmts = 0, ac_clock = 0, ac_uuids = 0,
     ac_sends = 0, resp_header = []\<rparr>"

lemma demo_fault_free [simp]: "fault_free demo_access_env w"
  by (simp add: fault_free_def demo_access_env_def demo_turn_def)

lemmas demo_acs_simps = demo_acs_def demo_database_def demo_role_def demo_permission_def
  empty_database_def

lemma demo_database_rows:
  "tb_roles (db demo_acs) = [demo_role]" "tb_permissions (db demo_acs) = [demo_permission]"
  "tb_user_roles (db demo_acs) = []" "tb_role_permissions (db demo_acs) = [(''r'', ''p'')]"
  "tb_users (db demo_acs) = []"
  by (simp_all add: demo_acs_simps)

theorem check_decides_witness:
  "\<exists>d w'. Check demo_access_env ''u'' [] ''docs:write'' demo_acs = (Ok d, w') \<and> \<not> Allowed d"
  using check_decides_rbac [of demo_access_env demo_acs "''u''" "[]" "''docs:write''"]
  by (auto simp: rbac_allows_def demo_database_rows)

theorem grant_and_assign_witness:
  "fst (AssignRole demo_access_env ''u'' ''r'' [] demo_acs) = Ok ()
   \<and> rbac_allows (db (snd (AssignRole demo_access_env ''u'' ''r'' [] demo_acs)))
       ''u'' ''default'' ''docs:write''
   \<and> \<not> rbac_allows (db (snd (AssignRole demo_access_env ''u'' ''r'' [] demo_acs)))
       ''u'' ''other'' ''docs:write''"
  using grant_and_assign_effect [OF demo_fault_free [of demo_acs], of "''r''" "''p''" "''u''" "[]"]
  by (simp add: case_prod_beta Let_def tenant_or_default_def rbac_allows_def demo_database_rows
      demo_role_def demo_permission_def)

lemma list_users_witness:
  "(\<exists>w'. ListUsers demo_access_env 500 0 demo_acs = (Ok [], w'))
   \<and> (\<exists>w'. ListUsers demo_access_env 500 (-1) demo_acs = (Err NegativeOffset, w'))"
  using list_users_page [OF demo_fault_free [of demo_acs], of 0 500]
    list_users_page [OF demo_fault_free [of demo_acs], of "-1" 500]
  by (auto simp: demo_database_rows)

end
