(* ===== verification/Access_Http.thy ===== *)
theory Access_Http
  imports Access_Control
begin

text \<open>
  Access-control service: handlers and routes (\<^verbatim>\<open>internal/adapter/http/router.go\<close>), middleware
  (\<^verbatim>\<open>internal/adapter/http/middleware.go\<close>), the reply helpers (\<^verbatim>\<open>internal/platform/response.go\<close>),
  the configuration, and the runs of the server. The router package's matching of a path is
  represented by the endpoint with its path parameters; JSON decoders are arguments.
\<close>

section \<open>Requests and replies\<close>

datatype 'm access_body =
    FieldsBody "(string \<times> string) list"
  | UserBody "'m account"
  | UsersBody "'m account list"
  | RoleBody Role
  | RolesBody "Role list"
  | PermissionBody Permission
  | DecisionBody Decision
  | AcceptedBody string
  | PlainBody string

record 'm access_reply =
  ar_code :: int
  ar_body :: "'m access_body"

record access_request =
  aq_Header :: "(string \<times> string) list"
  aq_Query :: "(string \<times> string) list"
  aq_Body :: string

definition first_value :: "(string \<times> string) list \<Rightarrow> string \<Rightarrow> string" where
  "first_value m k = (case map_of m k of None \<Rightarrow> [] | Some v \<Rightarrow> v)"

text \<open>The endpoints with their path parameters.\<close>

datatype access_endpoint =
    Healthz
  | PostUsers
  | GetUsers
  | GetUserID string
  | PostActivate string
  | PostLock string
  | PostRoles
  | GetRoles
  | PostPermissions
  | PostGrant string string
  | PostAssign string string
  | GetCheck string string
  | PostAdminControl

record roleRequest =
  rq_Name :: string
  rq_Description :: string

record permissionRequest =
  pq_Key :: string
  pq_Resource :: string
  pq_Action :: string
  pq_Description :: string

text \<open>
  The decoders: \<open>None\<close> where the code tests the error. For roles and permissions the error is
  dropped, so their decoders return whatever they left in the struct. For the control
  message: whether it is JSON, and its \<^verbatim>\<open>action\<close> if that is a string.
\<close>

record 'm access_codec =
  dec_user :: "string \<Rightarrow> 'm CreateUserCommand option"
  dec_role :: "string \<Rightarrow> roleRequest"
  dec_permission :: "string \<Rightarrow> permissionRequest"
  dec_control :: "string \<Rightarrow> string option option"
  err_text :: "access_error \<Rightarrow> string"

type_synonym 'm access_handler = "('m, 'm access_reply) acc"


section \<open>Handlers\<close>

text \<open>\<^verbatim>\<open>platform.JSON\<close>, \<^verbatim>\<open>platform.Error\<close>\<close>

definition set_resp_header :: "string \<Rightarrow> string \<Rightarrow> ('m, unit) acc" where
  "set_resp_header k v = go_put (\<lambda>w. w\<lparr>resp_header := repo_put k v (resp_header w)\<rparr>)"

definition platform_JSON :: "int \<Rightarrow> 'm access_body \<Rightarrow> 'm access_handler" where
  "platform_JSON status v =
     go_bind (set_resp_header ''Content-Type'' ''application/json'') (\<lambda>_.
     go_return \<lparr>ar_code = status, ar_body = v\<rparr>)"

definition platform_Error :: "int \<Rightarrow> string \<Rightarrow> 'm access_handler" where
  "platform_Error status msg = platform_JSON status (FieldsBody [(''error'', msg)])"

definition createUser ::
  "'m access_env \<Rightarrow> 'm access_codec \<Rightarrow> access_request \<Rightarrow> 'm access_handler" where
  "createUser E D r =
     (case dec_user D (aq_Body r) of
        None \<Rightarrow> platform_Error 400 ''invalid json''
      | Some req \<Rightarrow>
          go_try (CreateUser E req) (\<lambda>err. platform_Error 500 (err_text D err))
            (\<lambda>u. platform_JSON 201 (UserBody u)))"

definition listUsers ::
  "'m access_env \<Rightarrow> 'm access_codec \<Rightarrow> access_request \<Rightarrow> 'm access_handler" where
  "listUsers E D r =
     (let limit = Atoi_value (first_value (aq_Query r) ''limit'');
          offset = Atoi_value (first_value (aq_Query r) ''offset'')
      in go_try (ListUsers E limit offset) (\<lambda>err. platform_Error 500 (err_text D err))
           (\<lambda>users. platform_JSON 200 (UsersBody users)))"

definition getUser :: "'m access_env \<Rightarrow> 'm access_codec \<Rightarrow> string \<Rightarrow> 'm access_handler" where
  "getUser E D i =
     go_try (GetUser E i) (\<lambda>err. platform_Error 404 (err_text D err))
       (\<lambda>u. platform_JSON 200 (UserBody u))"

definition activateUser :: "'m access_env \<Rightarrow> 'm access_codec \<Rightarrow> string \<Rightarrow> 'm access_handler" where
  "activateUser E D i =
     go_try (ActivateUser E i) (\<lambda>err. platform_Error 500 (err_text D err))
       (\<lambda>_. platform_JSON 200 (FieldsBody [(''status'', ''activated'')]))"

definition lockUser :: "'m access_env \<Rightarrow> 'm access_codec \<Rightarrow> string \<Rightarrow> 'm access_handler" where
  "lockUser E D i =
     go_try (LockUser E i) (\<lambda>err. platform_Error 500 (err_text D err))
       (\<lambda>_. platform_JSON 200 (FieldsBody [(''status'', ''locked'')]))"

definition createRole ::
  "'m access_env \<Rightarrow> 'm access_codec \<Rightarrow> access_request \<Rightarrow> 'm access_handler" where
  "createRole E D r =
     (let req = dec_role D (aq_Body r)
      in go_try (CreateRole E (rq_Name req) (rq_Description req))
           (\<lambda>err. platform_Error 500 (err_text D err)) (\<lambda>role. platform_JSON 201 (RoleBody role)))"

definition listRoles :: "'m access_env \<Rightarrow> 'm access_codec \<Rightarrow> 'm access_handler" where
  "listRoles E D =
     go_try (ListRoles E) (\<lambda>err. platform_Error 500 (err_text D err))
       (\<lambda>roles. platform_JSON 200 (RolesBody roles))"

definition createPermission ::
  "'m access_env \<Rightarrow> 'm access_codec \<Rightarrow> access_request \<Rightarrow> 'm access_handler" where
  "createPermission E D r =
     (let req = dec_permission D (aq_Body r)
      in go_try (CreatePermission E (pq_Key req) (pq_Resource req) (pq_Action req) (pq_Description req))
           (\<lambda>err. platform_Error 500 (err_text D err)) (\<lambda>p. platform_JSON 201 (PermissionBody p)))"

definition grant :: "'m access_env \<Rightarrow> 'm access_codec \<Rightarrow> string \<Rightarrow> string \<Rightarrow> 'm access_handler" where
  "grant E D roleID permissionID =
     go_try (Grant E roleID permissionID) (\<lambda>err. platform_Error 500 (err_text D err))
       (\<lambda>_. platform_JSON 200 (FieldsBody [(''status'', ''granted'')]))"

definition assign ::
  "'m access_env \<Rightarrow> 'm access_codec \<Rightarrow> string \<Rightarrow> string \<Rightarrow> access_request \<Rightarrow> 'm access_handler" where
  "assign E D userID roleID r =
     go_try (AssignRole E userID roleID (first_value (aq_Query r) ''tenant_id''))
       (\<lambda>err. platform_Error 500 (err_text D err))
       (\<lambda>_. platform_JSON 200 (FieldsBody [(''status'', ''assigned'')]))"

definition check ::
  "'m access_env \<Rightarrow> 'm access_codec \<Rightarrow> string \<Rightarrow> string \<Rightarrow> access_request \<Rightarrow> 'm access_handler" where
  "check E D userID permission r =
     go_try (Check E userID (first_value (aq_Query r) ''tenant_id'') permission)
       (\<lambda>err. platform_Error 500 (err_text D err)) (\<lambda>d. platform_JSON 200 (DecisionBody d))"

text \<open>An unset secret opens the endpoint.\<close>

definition adminControl :: "os_env \<Rightarrow> 'm access_codec \<Rightarrow> access_request \<Rightarrow> 'm access_handler" where
  "adminControl os D r =
     (let secret = TrimSpace (os ''ADMIN_CONTROL_SHARED_SECRET'')
      in if secret \<noteq> [] \<and> first_value (aq_Header r) ''X-Admin-Secret'' \<noteq> secret
         then platform_Error 401 ''unauthorized''
         else (case dec_control D (aq_Body r) of
             None \<Rightarrow> platform_Error 400 ''invalid json''
           | Some req \<Rightarrow>
               (let action = (case req of None \<Rightarrow> [] | Some a \<Rightarrow> a)
                in if TrimSpace action = [] then platform_Error 400 ''action required''
                   else platform_JSON 202 (AcceptedBody action))))"

definition access_route ::
  "os_env \<Rightarrow> 'm access_env \<Rightarrow> 'm access_codec \<Rightarrow> access_endpoint \<Rightarrow> access_request \<Rightarrow> 'm access_handler" where
  "access_route os E D ep r = (case ep of
     Healthz \<Rightarrow> platform_JSON 200 (FieldsBody [(''status'', ''ok'')])
   | PostUsers \<Rightarrow> createUser E D r
   | GetUsers \<Rightarrow> listUsers E D r
   | GetUserID i \<Rightarrow> getUser E D i
   | PostActivate i \<Rightarrow> activateUser E D i
   | PostLock i \<Rightarrow> lockUser E D i
   | PostRoles \<Rightarrow> createRole E D r
   | GetRoles \<Rightarrow> listRoles E D
   | PostPermissions \<Rightarrow> createPermission E D r
   | PostGrant roleID permissionID \<Rightarrow> grant E D roleID permissionID
   | PostAssign userID roleID \<Rightarrow> assign E D userID roleID r
   | GetCheck userID permission \<Rightarrow> check E D userID permission r
   | PostAdminControl \<Rightarrow> adminControl os D r)"


section \<open>Middleware and the server\<close>

definition RequestID ::
  "'m access_env \<Rightarrow> access_request \<Rightarrow> 'm access_handler \<Rightarrow> 'm access_handler" where
  "RequestID E r next =
     (let i = first_value (aq_Header r) ''X-Request-Id''
      in go_bind (if i = [] then uuid_NewString E else go_return i) (\<lambda>i.
         go_bind (set_resp_header ''X-Request-Id'' i) (\<lambda>_. next)))"

text \<open>\<^verbatim>\<open>http.Error(w, "internal error", 500)\<close> after a panic; headers already set stay.\<close>

definition Recover :: "'m access_handler \<Rightarrow> 'm access_handler" where
  "Recover next w =
     (case next w of
        (Panic, w') \<Rightarrow>
          go_bind (set_resp_header ''Content-Type'' ''text/plain; charset=utf-8'') (\<lambda>_.
          go_bind (set_resp_header ''X-Content-Type-Options'' ''nosniff'') (\<lambda>_.
          go_return \<lparr>ar_code = 500, ar_body = PlainBody (''internal error'' @ [CHR 0x0A])\<rparr>)) w'
      | (r, w') \<Rightarrow> (r, w'))"

definition Security :: "'m access_handler \<Rightarrow> 'm access_handler" where
  "Security next =
     go_bind (set_resp_header ''X-Content-Type-Options'' ''nosniff'') (\<lambda>_.
     go_bind (set_resp_header ''X-Frame-Options'' ''DENY'') (\<lambda>_. next))"

text \<open>
  \<^verbatim>\<open>http.TimeoutHandler\<close>: after ten seconds the client is answered 503 without the headers
  of the handler, which goes on and whose effects stay.
\<close>

definition Timeout :: "bool \<Rightarrow> 'm access_handler \<Rightarrow> 'm access_handler" where
  "Timeout late next =
     go_bind next (\<lambda>rep.
       if late then
         go_bind (go_put (\<lambda>w. w\<lparr>resp_header := []\<rparr>)) (\<lambda>_.
         go_return \<lparr>ar_code = 503, ar_body = PlainBody ''{\"error\":\"timeout\"}''\<rparr>)
       else go_return rep)"

definition NewRouter ::
  "os_env \<Rightarrow> 'm access_env \<Rightarrow> 'm access_codec \<Rightarrow> bool \<Rightarrow> access_endpoint \<Rightarrow> access_request
     \<Rightarrow> 'm access_handler" where
  "NewRouter os E D late ep r =
     go_bind (go_put (\<lambda>w. w\<lparr>resp_header := []\<rparr>)) (\<lambda>_.
     Timeout late (RequestID E r (Recover (Security (access_route os E D ep r)))))"


section \<open>Runs\<close>

definition access_start :: "'m access" where
  "access_start = \<lparr>db = empty_database, published = [], stmts = 0, ac_clock = 0, ac_uuids = 0,
     ac_sends = 0, resp_header = []\<rparr>"

inductive access_runs ::
  "os_env \<Rightarrow> 'm access_env \<Rightarrow> 'm access_codec \<Rightarrow> (access_endpoint \<times> access_request) list
     \<Rightarrow> 'm access \<Rightarrow> bool"
  for os :: os_env and E :: "'m access_env" and D :: "'m access_codec" where
  access_runs_start: "access_runs os E D [] access_start"
| access_runs_request:
    "access_runs os E D tr w \<Longrightarrow> NewRouter os E D late ep r w = (rep, w') \<Longrightarrow>
     access_runs os E D ((ep, r) # tr) w'"

inductive_cases access_runs_ConsE: "access_runs os E D (q # tr) w"
inductive_simps access_runs_Nil: "access_runs os E D [] w"

lemma keeps_http [keeps_rules]:
  "keeps (\<lambda>w. I (db w)) (set_resp_header k v)"
  "keeps (\<lambda>w. I (db w)) (platform_JSON status body)"
  "keeps (\<lambda>w. I (db w)) (platform_Error status msg)"
  by (simp_all add: keeps_def set_resp_header_def platform_JSON_def platform_Error_def)

lemma keeps_Recover [keeps_rules]:
  assumes "keeps (\<lambda>w. I (db w)) m"
  shows "keeps (\<lambda>w. I (db w)) (Recover m)"
  using assms
  by (auto simp: keeps_def Recover_def set_resp_header_def split: prod.splits outcome.splits)

lemma keeps_router:
  assumes "keeps (\<lambda>w. I (db w)) (access_route os E D ep r)"
  shows "keeps (\<lambda>w. I (db w)) (NewRouter os E D late ep r)"
  unfolding NewRouter_def Timeout_def RequestID_def Security_def
  by (intro keeps_rules assms) simp_all

text \<open>What a request creates, grants or assigns, tested against guards.\<close>

definition within ::
  "(string \<Rightarrow> bool) \<Rightarrow> (string \<Rightarrow> string \<Rightarrow> bool) \<Rightarrow> (string \<Rightarrow> string \<Rightarrow> string \<Rightarrow> bool) \<Rightarrow>
   'm access_codec \<Rightarrow> access_endpoint \<Rightarrow> access_request \<Rightarrow> bool" where
  "within key_ok grant_ok assign_ok D ep r = (case ep of
     PostPermissions \<Rightarrow> key_ok (pq_Key (dec_permission D (aq_Body r)))
   | PostGrant role perm \<Rightarrow> grant_ok role perm
   | PostAssign user role \<Rightarrow>
       assign_ok user role (tenant_or_default (first_value (aq_Query r) ''tenant_id''))
   | _ \<Rightarrow> True)"

context sql_guarded
begin

lemma handlers_keep:
  "within key_ok grant_ok assign_ok D ep r \<Longrightarrow> keeps (\<lambda>w. I (db w)) (access_route os E D ep r)"
  unfolding access_route_def createUser_def listUsers_def getUser_def activateUser_def lockUser_def
    createRole_def listRoles_def createPermission_def grant_def assign_def check_def adminControl_def
    within_def
  by (cases ep) (simp_all only: access_endpoint.case, (intro keeps_rules operations_keep; simp)+)

lemma router_keeps:
  assumes "within key_ok grant_ok assign_ok D ep r" and "I (db w)"
    and "NewRouter os E D late ep r w = (rep, w')"
  shows "I (db w')"
  using keepsD [OF keeps_router [OF handlers_keep [OF assms(1)]]] assms(2,3) by blast

end

context sql_invariant
begin

lemma within_any: "within (\<lambda>_. True) (\<lambda>_ _. True) (\<lambda>_ _ _. True) D ep r"
  by (simp add: within_def split: access_endpoint.splits)

lemma runs_keep_from:
  assumes "I empty_database" and "access_runs os E D tr w"
  shows "I (db w)"
  using assms(2)
proof induction
  case access_runs_start
  then show ?case using assms(1) by (simp add: access_start_def)
next
  case (access_runs_request tr w late ep r rep w')
  then show ?case using router_keeps [OF within_any] by blast
qed

end



section \<open>Where access comes from\<close>

text \<open>Every row of the three relations behind a decision has a request of the run behind it.\<close>

definition assigned_in ::
  "(access_endpoint \<times> access_request) list \<Rightarrow> string \<Rightarrow> string \<Rightarrow> string \<Rightarrow> bool" where
  "assigned_in tr user role tenant \<longleftrightarrow>
     (\<exists>r. (PostAssign user role, r) \<in> set tr
        \<and> tenant = tenant_or_default (first_value (aq_Query r) ''tenant_id''))"

definition granted_in :: "(access_endpoint \<times> access_request) list \<Rightarrow> string \<Rightarrow> string \<Rightarrow> bool" where
  "granted_in tr role perm \<longleftrightarrow> (\<exists>r. (PostGrant role perm, r) \<in> set tr)"

definition created_in ::
  "'m access_codec \<Rightarrow> (access_endpoint \<times> access_request) list \<Rightarrow> string \<Rightarrow> bool" where
  "created_in D tr key \<longleftrightarrow>
     (\<exists>r. (PostPermissions, r) \<in> set tr \<and> pq_Key (dec_permission D (aq_Body r)) = key)"

definition sourced ::
  "'m access_codec \<Rightarrow> (access_endpoint \<times> access_request) list \<Rightarrow> database \<Rightarrow> bool" where
  "sourced D tr d \<longleftrightarrow>
     (\<forall>(user, role, tenant) \<in> ur_key ` set (tb_user_roles d). assigned_in tr user role tenant)
   \<and> (\<forall>(role, perm) \<in> set (tb_role_permissions d). granted_in tr role perm)
   \<and> (\<forall>key \<in> perm_Key ` set (tb_permissions d). created_in D tr key)"

interpretation sources:
  sql_guarded "sourced D tr" "created_in D tr" "granted_in tr" "assigned_in tr" for D tr
proof unfold_locales
  show "sourced D tr d \<Longrightarrow> sourced D tr (snd (sql_insert_user u t d))" for d u t
    by (simp add: sourced_def sql_insert_user_def)
  show "sourced D tr d \<Longrightarrow> sourced D tr (snd (sql_set_status i st t d))" for d i st t
    by (simp add: sourced_def sql_set_status_def)
  show "sourced D tr d \<Longrightarrow> sourced D tr (snd (sql_insert_role i name desc t d))" for d i name desc t
    by (simp add: sourced_def sql_insert_role_def)
  show "created_in D tr (perm_Key p) \<Longrightarrow> sourced D tr d \<Longrightarrow> sourced D tr (snd (sql_insert_permission p t d))"
    for d p t by (simp add: sourced_def sql_insert_permission_def)
  show "granted_in tr role perm \<Longrightarrow> sourced D tr d \<Longrightarrow> sourced D tr (snd (sql_grant role perm t d))"
    for d role perm t by (simp add: sourced_def sql_grant_def)
  show "assigned_in tr user role tenant \<Longrightarrow> sourced D tr d \<Longrightarrow> sourced D tr (snd (sql_assign user role tenant t d))"
    for d user role tenant t by (simp add: sourced_def sql_assign_def ur_key_def)
qed

lemma sourced_mono: "set tr \<subseteq> set tr' \<Longrightarrow> sourced D tr d \<Longrightarrow> sourced D tr' d"
  unfolding sourced_def assigned_in_def granted_in_def created_in_def by fast

lemma runs_sourced: "access_runs os E D tr w \<Longrightarrow> sourced D tr (db w)"
proof (induction rule: access_runs.induct)
  case access_runs_start
  then show ?case by (simp add: sourced_def access_start_def empty_database_def)
next
  case (access_runs_request tr w late ep r rep w')
  let ?tr = "(ep, r) # tr"
  have "within (created_in D ?tr) (granted_in ?tr) (assigned_in ?tr) D ep r"
    by (auto simp: within_def created_in_def granted_in_def assigned_in_def split: access_endpoint.splits)
  moreover have "sourced D ?tr (db w)"
    by (rule sourced_mono [OF _ access_runs_request.IH]) auto
  ultimately show ?case using access_runs_request.hyps(2) by (rule sources.router_keeps)
qed


text \<open>
  Access, once given, stays. No request the server can serve takes access away: what a check
  allows before a request it allows after it, locking the user included, because the
  decision does not read the user's status and no route removes a role or a permission.
\<close>

lemma access_never_withdrawn:
  assumes "rbac_allows (db w) user tenant key"
    and "NewRouter os E D late ep r w = (rep, w')"
  shows "rbac_allows (db w') user tenant key"
  using granted.router_keeps [OF granted.within_any assms] .


section \<open>A small run\<close>

definition demo_codec :: "string access_codec" where
  "demo_codec =
     \<lparr>dec_user = (\<lambda>b. Some \<lparr>cu_Email = b, cu_Phone = [], cu_DisplayName = [], cu_Metadata = None\<rparr>),
      dec_role = (\<lambda>b. \<lparr>rq_Name = b, rq_Description = []\<rparr>),
      dec_permission = (\<lambda>b. \<lparr>pq_Key = b, pq_Resource = [], pq_Action = [], pq_Description = []\<rparr>),
      dec_control = (\<lambda>b. Some (Some b)), err_text = (\<lambda>_. ''error'')\<rparr>"

definition demo_acreq :: "string \<Rightarrow> access_request" where
  "demo_acreq b = \<lparr>aq_Header = [(''X-Request-Id'', ''q'')], aq_Query = [], aq_Body = b\<rparr>"

text \<open>A role, a permission, the grant, the assignment; the latest request first.\<close>

definition demo_requests :: "(access_endpoint \<times> access_request) list" where
  "demo_requests =
     [(PostAssign ''u'' ''0'', demo_acreq []), (PostGrant ''0'' ''1'', demo_acreq []),
      (PostPermissions, demo_acreq ''docs:write''), (PostRoles, demo_acreq ''editor'')]"

fun demo_after :: "(access_endpoint \<times> access_request) list \<Rightarrow> string access" where
  "demo_after [] = access_start"
| "demo_after ((ep, r) # tr) =
     snd (NewRouter (\<lambda>_. []) demo_access_env demo_codec False ep r (demo_after tr))"

lemma demo_after_runs: "access_runs (\<lambda>_. []) demo_access_env demo_codec tr (demo_after tr)"
proof (induction tr)
  case Nil
  then show ?case by (simp add: access_runs_start)
next
  case (Cons q tr)
  then show ?case by (cases q) (auto intro: access_runs_request prod.collapse [symmetric])
qed

lemma demo_allowed:
  "map_outcome id Allowed (fst (Check demo_access_env ''u'' [] ''docs:write'' (demo_after demo_requests))) = Ok True"
  by code_simp

lemma demo_decision:
  obtains d w' where
    "Check demo_access_env ''u'' [] ''docs:write'' (demo_after demo_requests) = (Ok d, w')" and "Allowed d"
proof -
  obtain o' w' where c: "Check demo_access_env ''u'' [] ''docs:write'' (demo_after demo_requests) = (o', w')"
    by fastforce
  with demo_allowed obtain d where "o' = Ok d" "Allowed d" by (cases o') auto
  with c that show ?thesis by blast
qed



lemma access_never_withdrawn_witness:
  "rbac_allows (db (demo_after ((PostLock ''u'', demo_acreq []) # demo_requests)))
     ''u'' ''default'' ''docs:write''"
proof -
  have "''docs:write'' \<in> set (joined_keys ''u'' ''default'' (db (demo_after demo_requests)))"
    by code_simp
  then have "rbac_allows (db (demo_after demo_requests)) ''u'' ''default'' ''docs:write''"
    by (simp add: set_joined_keys)
  from access_never_withdrawn [OF this prod.collapse [symmetric]] show ?thesis by simp
qed

end
