(* ===== verification/Identity.thy ===== *)
theory Identity
  imports Go_Text
begin

text \<open>
  Auth service: users behind the \<^verbatim>\<open>IdentityGateway\<close> interface
  (\<^verbatim>\<open>internal/interface/repository/identity_gateway.go\<close>) with its two providers, the
  in-memory store (\<^verbatim>\<open>local_identity_store.go\<close>) and the gRPC client (\<^verbatim>\<open>identity_client.go\<close>), and
  the input checks (\<^verbatim>\<open>pkg/authguard\<close>). A nil pointer is \<open>None\<close>; errors are their texts.
\<close>

section \<open>Input checks\<close>

definition CleanString :: "string \<Rightarrow> string" where
  "CleanString v = TrimSpace v"

definition CleanEmail :: "(string \<Rightarrow> string) \<Rightarrow> string \<Rightarrow> string" where
  "CleanEmail uni v = ToLower uni (TrimSpace v)"

definition Required :: "string \<Rightarrow> string \<Rightarrow> string option" where
  "Required name v = (if TrimSpace v = [] then Some (name @ '' is required'') else None)"

definition MaxLen :: "string \<Rightarrow> string \<Rightarrow> nat \<Rightarrow> string option" where
  "MaxLen name v n = (if length v > n then Some (name @ '' is too long'') else None)"

definition StrongPassword :: "string \<Rightarrow> string option" where
  "StrongPassword password =
     (if length password < 8 then Some ''password must be at least 8 characters'' else None)"

text \<open>
  \<^verbatim>\<open>^[^@\s]+@[^@\s]+\.[^@\s]+$\<close>: one at-sign, no ASCII white space (the regular-expression
  class has no vertical tab), something before it, and a dot after it with something on both
  sides.
\<close>

definition regex_space :: "char \<Rightarrow> bool" where
  "regex_space c \<longleftrightarrow> code c \<in> {9, 10, 12, 13, 32}"

fun inner_dot :: "string \<Rightarrow> bool" where
  "inner_dot (a # b # c # s) = (b = CHR ''.'' \<or> inner_dot (b # c # s))"
| "inner_dot s = False"

definition email_matches :: "string \<Rightarrow> bool" where
  "email_matches s =
     (case split_on CHR ''@'' s of
        [l, d] \<Rightarrow> l \<noteq> [] \<and> list_all (\<lambda>c. \<not> regex_space c) s \<and> inner_dot d
      | _ \<Rightarrow> False)"

definition ValidateEmail :: "string \<Rightarrow> string option" where
  "ValidateEmail email = (if email_matches (TrimSpace email) then None else Some ''invalid email'')"


section \<open>The gateway\<close>

record IdentityUser =
  iu_ID :: string
  iu_Name :: string
  iu_Email :: string
  iu_Phone :: string
  iu_Password :: string

record IdentityRole =
  ir_Name :: string

record 's IdentityGateway =
  gw_GetUserByEmail :: "string \<Rightarrow> ('s, string, IdentityUser option) go"
  gw_CreateEmailUser :: "string \<Rightarrow> string \<Rightarrow> string \<Rightarrow> ('s, string, IdentityUser option) go"
  gw_GetUserRoles :: "string \<Rightarrow> ('s, string, IdentityRole list) go"
  gw_Health :: "('s, string, unit) go"

subsection \<open>The in-memory store\<close>

record LocalIdentityStore =
  byEmail :: "IdentityUser repo"
  userRole :: "(IdentityRole list) repo"

type_synonym 'a lis = "(LocalIdentityStore, string, 'a) go"

definition NewLocalIdentityStore :: LocalIdentityStore where
  "NewLocalIdentityStore = \<lparr>byEmail = [], userRole = []\<rparr>"

definition local_GetUserByEmail :: "(string \<Rightarrow> string) \<Rightarrow> string \<Rightarrow> (IdentityUser option) lis" where
  "local_GetUserByEmail uni email =
     (let key = ToLower uni (TrimSpace email)
      in go_get (\<lambda>s. go_return (repo_get (byEmail s) key)))"

text \<open>\<^verbatim>\<open>strings.ReplaceAll(key, "@", "_")\<close>\<close>

definition user_id_of :: "string \<Rightarrow> string" where
  "user_id_of key = ''usr_'' @ map (\<lambda>c. if c = CHR ''@'' then CHR ''_'' else c) key"

definition local_CreateEmailUser ::
  "(string \<Rightarrow> string) \<Rightarrow> string \<Rightarrow> string \<Rightarrow> string \<Rightarrow> (IdentityUser option) lis" where
  "local_CreateEmailUser uni name email password =
     (let key = ToLower uni (TrimSpace email)
      in go_get (\<lambda>s.
         if repo_get (byEmail s) key \<noteq> None then go_fail ''email already exists''
         else
           let u = \<lparr>iu_ID = user_id_of key, iu_Name = TrimSpace name, iu_Email = key, iu_Phone = [],
                    iu_Password = password\<rparr>
           in go_bind (go_put (\<lambda>s. s\<lparr>byEmail := repo_put key u (byEmail s),
                                    userRole := repo_put (iu_ID u) [\<lparr>ir_Name = ''user''\<rparr>] (userRole s)\<rparr>)) (\<lambda>_.
              go_return (Some u))))"

definition local_GetUserRoles :: "string \<Rightarrow> (IdentityRole list) lis" where
  "local_GetUserRoles userID = go_get (\<lambda>s.
     case repo_get (userRole s) userID of
       Some roles \<Rightarrow> go_return roles
     | None \<Rightarrow> go_return [\<lparr>ir_Name = ''user''\<rparr>])"

definition local_Health :: "unit lis" where
  "local_Health = go_return ()"

definition local_gateway :: "(string \<Rightarrow> string) \<Rightarrow> LocalIdentityStore IdentityGateway" where
  "local_gateway uni =
     \<lparr>gw_GetUserByEmail = local_GetUserByEmail uni, gw_CreateEmailUser = local_CreateEmailUser uni,
      gw_GetUserRoles = local_GetUserRoles, gw_Health = local_Health\<rparr>"

subsection \<open>The gRPC client\<close>

text \<open>The remote service: the answers of its calls, as the generated client returns them.\<close>

record 's identity_rpc =
  rpc_GetUserByEmail :: "string \<Rightarrow> ('s, string, IdentityUser) go"
  rpc_CreateEmailUser :: "string \<Rightarrow> string \<Rightarrow> string \<Rightarrow> ('s, string, IdentityUser) go"
  rpc_GetUserRoles :: "string \<Rightarrow> ('s, string, string list) go"
  rpc_Health :: "('s, string, unit) go"

text \<open>A reply without an identifier means that there is no such user.\<close>

definition client_GetUserByEmail ::
  "'s identity_rpc \<Rightarrow> string \<Rightarrow> ('s, string, IdentityUser option) go" where
  "client_GetUserByEmail R email =
     go_bind (rpc_GetUserByEmail R email) (\<lambda>res.
     if iu_ID res = [] then go_return None else go_return (Some res))"

definition client_CreateEmailUser ::
  "'s identity_rpc \<Rightarrow> string \<Rightarrow> string \<Rightarrow> string \<Rightarrow> ('s, string, IdentityUser option) go" where
  "client_CreateEmailUser R name email password =
     go_bind (rpc_CreateEmailUser R name email password) (\<lambda>res. go_return (Some res))"

definition client_GetUserRoles :: "'s identity_rpc \<Rightarrow> string \<Rightarrow> ('s, string, IdentityRole list) go" where
  "client_GetUserRoles R userID =
     go_bind (rpc_GetUserRoles R userID) (\<lambda>names. go_return (map (\<lambda>n. \<lparr>ir_Name = n\<rparr>) names))"

definition client_Health :: "'s identity_rpc \<Rightarrow> ('s, string, unit) go" where
  "client_Health R = rpc_Health R"

definition client_gateway :: "'s identity_rpc \<Rightarrow> 's IdentityGateway" where
  "client_gateway R =
     \<lparr>gw_GetUserByEmail = client_GetUserByEmail R, gw_CreateEmailUser = client_CreateEmailUser R,
      gw_GetUserRoles = client_GetUserRoles R, gw_Health = client_Health R\<rparr>"


section \<open>The contract of a gateway\<close>

text \<open>
  \<open>users\<close> is what a state of the provider holds, by normalised address. A lookup returns the
  user of the address; creating a user adds exactly that user or refuses a taken address;
  roles are always answered; nothing else changes.
\<close>

locale identity_gateway =
  fixes G :: "'s IdentityGateway"
    and norm :: "string \<Rightarrow> string"
    and users :: "'s \<Rightarrow> string \<Rightarrow> IdentityUser option"
    and invar :: "'s \<Rightarrow> bool"
  assumes get_user: "gw_GetUserByEmail G email s = (Ok (users s (norm email)), s)"
    and create_taken: "users s (norm email) \<noteq> None \<Longrightarrow>
           \<exists>e. gw_CreateEmailUser G name email pw s = (Err e, s)"
    and create_fresh: "users s (norm email) = None \<Longrightarrow>
           \<exists>u s'. gw_CreateEmailUser G name email pw s = (Ok (Some u), s')
             \<and> users s' = (users s)(norm email \<mapsto> u) \<and> iu_Password u = pw \<and> iu_Email u = norm email"
    and create_invar: "invar s \<Longrightarrow> invar (snd (gw_CreateEmailUser G name email pw s))"
    and invar_email: "invar s \<Longrightarrow> users s key = Some u \<Longrightarrow> iu_Email u = key"
    and get_roles: "\<exists>roles. gw_GetUserRoles G i s = (Ok roles, s)"

definition local_users :: "LocalIdentityStore \<Rightarrow> string \<Rightarrow> IdentityUser option" where
  "local_users s = repo_get (byEmail s)"

definition local_wf :: "LocalIdentityStore \<Rightarrow> bool" where
  "local_wf s \<longleftrightarrow> repo_wf iu_Email (byEmail s)"

interpretation local_store: identity_gateway "local_gateway uni" "CleanEmail uni" local_users local_wf for uni
proof unfold_locales
  show "gw_GetUserByEmail (local_gateway uni) email s = (Ok (local_users s (CleanEmail uni email)), s)" for email s
    by (simp add: local_gateway_def local_GetUserByEmail_def local_users_def CleanEmail_def Let_def)
  show "\<exists>e. gw_CreateEmailUser (local_gateway uni) name email pw s = (Err e, s)"
    if "local_users s (CleanEmail uni email) \<noteq> None" for s email name pw
    using that by (simp add: local_gateway_def local_CreateEmailUser_def local_users_def CleanEmail_def Let_def)
  show "\<exists>u s'. gw_CreateEmailUser (local_gateway uni) name email pw s = (Ok (Some u), s')
             \<and> local_users s' = (local_users s)(CleanEmail uni email \<mapsto> u)
             \<and> iu_Password u = pw \<and> iu_Email u = CleanEmail uni email"
    if "local_users s (CleanEmail uni email) = None" for s email name pw
    using that by (simp add: local_gateway_def local_CreateEmailUser_def local_users_def CleanEmail_def Let_def)
      (auto simp: fun_eq_iff)
  show "local_wf (snd (gw_CreateEmailUser (local_gateway uni) name email pw s))" if "local_wf s" for s name email pw
    using that by (simp add: local_gateway_def local_CreateEmailUser_def local_wf_def Let_def repo_wf_put)
  show "iu_Email u = key" if "local_wf s" "local_users s key = Some u" for s key u
    using that by (auto simp: local_wf_def local_users_def intro: repo_wf_key)
  show "\<exists>roles. gw_GetUserRoles (local_gateway uni) i s = (Ok roles, s)" for i s
    by (simp add: local_gateway_def local_GetUserRoles_def split: option.splits)
qed

end
