(* ===== verification/Email_Config.thy ===== *)
theory Email_Config
  imports Go_Text
begin

text \<open>
  Auth service: the configuration (\<^verbatim>\<open>config/config.go\<close>). The file is read and parsed by the
  environment (\<open>yaml\<close>: the zero configuration overlaid with the file, or an error); the
  process environment then overrides it, defaults fill what is left, and the result is
  validated.
\<close>

record AuthConfig =
  JWTSecret :: string
  RefreshJWTSecret :: string
  AccessTokenExpires :: string
  RefreshTokenExpires :: string

record ServicesConfig =
  IdentityURL :: string
  IdentityGRPCAddr :: string
  RedisAddr :: string

record CORSConfig =
  AllowOrigins :: "string list"
  AllowHeaders :: "string list"
  AllowMethods :: "string list"

record ServerConfig =
  Port :: int
  ReadTimeoutSec :: int
  WriteTimeoutSec :: int
  IdleTimeoutSec :: int
  ShutdownSec :: int
  CORS :: CORSConfig

record AppConfig =
  cf_Server :: ServerConfig
  cf_Auth :: AuthConfig
  cf_Services :: ServicesConfig

definition overrideString :: "os_env \<Rightarrow> string \<Rightarrow> string \<Rightarrow> string" where
  "overrideString os key dest =
     (let v = TrimSpace (os key) in if v \<noteq> [] then v else dest)"

definition overrideInt :: "os_env \<Rightarrow> string \<Rightarrow> int \<Rightarrow> int" where
  "overrideInt os key dest =
     (let v = TrimSpace (os key)
      in if v \<noteq> [] then (case Atoi v of Some n \<Rightarrow> n | None \<Rightarrow> dest) else dest)"

definition applyEnvOverrides :: "os_env \<Rightarrow> AppConfig \<Rightarrow> AppConfig" where
  "applyEnvOverrides os c =
     \<lparr>cf_Server = (cf_Server c)
        \<lparr>Port := overrideInt os ''SERVER_PORT'' (Port (cf_Server c)),
         ReadTimeoutSec := overrideInt os ''SERVER_READ_TIMEOUT_SECONDS'' (ReadTimeoutSec (cf_Server c)),
         WriteTimeoutSec := overrideInt os ''SERVER_WRITE_TIMEOUT_SECONDS'' (WriteTimeoutSec (cf_Server c)),
         IdleTimeoutSec := overrideInt os ''SERVER_IDLE_TIMEOUT_SECONDS'' (IdleTimeoutSec (cf_Server c)),
         ShutdownSec := overrideInt os ''SERVER_SHUTDOWN_TIMEOUT_SECONDS'' (ShutdownSec (cf_Server c))\<rparr>,
      cf_Auth =
        \<lparr>JWTSecret = overrideString os ''AUTH_JWT_SECRET'' (JWTSecret (cf_Auth c)),
         RefreshJWTSecret = overrideString os ''AUTH_REFRESH_JWT_SECRET'' (RefreshJWTSecret (cf_Auth c)),
         AccessTokenExpires = overrideString os ''AUTH_ACCESS_TOKEN_EXPIRES'' (AccessTokenExpires (cf_Auth c)),
         RefreshTokenExpires = overrideString os ''AUTH_REFRESH_TOKEN_EXPIRES'' (RefreshTokenExpires (cf_Auth c))\<rparr>,
      cf_Services =
        \<lparr>IdentityURL = overrideString os ''IDENTITY_URL'' (IdentityURL (cf_Services c)),
         IdentityGRPCAddr = overrideString os ''IDENTITY_GRPC_ADDR'' (IdentityGRPCAddr (cf_Services c)),
         RedisAddr = overrideString os ''REDIS_ADDR'' (RedisAddr (cf_Services c))\<rparr>\<rparr>"

definition or_default :: "int \<Rightarrow> int \<Rightarrow> int" where
  "or_default d n = (if n \<le> 0 then d else n)"

definition or_values :: "string list \<Rightarrow> string list \<Rightarrow> string list" where
  "or_values d xs = (if xs = [] then d else xs)"

definition applyDefaults :: "AppConfig \<Rightarrow> AppConfig" where
  "applyDefaults c =
     c\<lparr>cf_Server :=
         \<lparr>Port = (if Port (cf_Server c) = 0 then 3010 else Port (cf_Server c)),
          ReadTimeoutSec = or_default 10 (ReadTimeoutSec (cf_Server c)),
          WriteTimeoutSec = or_default 10 (WriteTimeoutSec (cf_Server c)),
          IdleTimeoutSec = or_default 60 (IdleTimeoutSec (cf_Server c)),
          ShutdownSec = or_default 10 (ShutdownSec (cf_Server c)),
          CORS =
            \<lparr>AllowOrigins = or_values [''http://localhost:3000'', ''http://localhost:5173'']
               (AllowOrigins (CORS (cf_Server c))),
             AllowHeaders = or_values [''Origin'', ''Content-Type'', ''Authorization'', ''X-Request-ID'']
               (AllowHeaders (CORS (cf_Server c))),
             AllowMethods = or_values [''GET'', ''POST'', ''PUT'', ''PATCH'', ''DELETE'', ''OPTIONS'']
               (AllowMethods (CORS (cf_Server c)))\<rparr>\<rparr>,
       cf_Services := (cf_Services c)
         \<lparr>IdentityGRPCAddr := (if IdentityGRPCAddr (cf_Services c) = [] then ''localhost:9091''
                             else IdentityGRPCAddr (cf_Services c))\<rparr>\<rparr>"

definition validate :: "AppConfig \<Rightarrow> string option" where
  "validate c =
     (if JWTSecret (cf_Auth c) = [] \<or> RefreshJWTSecret (cf_Auth c) = [] then Some ''auth secrets are required''
      else if IdentityGRPCAddr (cf_Services c) = [] then Some ''services.identity_grpc_addr is required''
      else if Port (cf_Server c) \<le> 0 then Some ''server.port must be greater than zero''
      else None)"

text \<open>\<open>yaml\<close>: the parsed file or the error of reading or parsing it.\<close>

definition email_Load :: "os_env \<Rightarrow> string + AppConfig \<Rightarrow> string + AppConfig" where
  "email_Load os yaml =
     (case yaml of
        Inl err \<Rightarrow> Inl err
      | Inr cfg \<Rightarrow>
          (let c = applyDefaults (applyEnvOverrides os cfg)
           in case validate c of Some err \<Rightarrow> Inl err | None \<Rightarrow> Inr c))"

lemma or_default_pos: "0 < d \<Longrightarrow> 0 < or_default d n"
  by (simp add: or_default_def)

lemma validate_None:
  "validate c = None \<longleftrightarrow> JWTSecret (cf_Auth c) \<noteq> [] \<and> RefreshJWTSecret (cf_Auth c) \<noteq> []
     \<and> IdentityGRPCAddr (cf_Services c) \<noteq> [] \<and> 0 < Port (cf_Server c)"
  by (auto simp: validate_def)

text \<open>
  What the rest of the service relies on: a loaded configuration has both secrets, an
  address, a positive port and positive timeouts.
\<close>

lemma email_Load_ok:
  assumes "email_Load os yaml = Inr c"
  shows "JWTSecret (cf_Auth c) \<noteq> []" "RefreshJWTSecret (cf_Auth c) \<noteq> []" "IdentityGRPCAddr (cf_Services c) \<noteq> []"
    "0 < Port (cf_Server c)" "0 < ReadTimeoutSec (cf_Server c)" "0 < WriteTimeoutSec (cf_Server c)"
    "0 < IdleTimeoutSec (cf_Server c)" "0 < ShutdownSec (cf_Server c)"
proof -
  obtain cfg where c: "c = applyDefaults cfg" and v: "validate c = None"
    using assms by (auto simp: email_Load_def Let_def split: sum.splits option.splits)
  show "JWTSecret (cf_Auth c) \<noteq> []" "RefreshJWTSecret (cf_Auth c) \<noteq> []" "IdentityGRPCAddr (cf_Services c) \<noteq> []"
    "0 < Port (cf_Server c)"
    using v by (simp_all add: validate_None)
  show "0 < ReadTimeoutSec (cf_Server c)" "0 < WriteTimeoutSec (cf_Server c)"
    "0 < IdleTimeoutSec (cf_Server c)" "0 < ShutdownSec (cf_Server c)"
    by (simp_all add: c applyDefaults_def or_default_pos)
qed

text \<open>Filling in defaults twice is filling them in once.\<close>

lemma applyDefaults_idem: "applyDefaults (applyDefaults c) = applyDefaults c"
  by (simp add: applyDefaults_def or_default_def or_values_def)

end
