(* ===== verification/Email_Auth.thy ===== *)
theory Email_Auth
  imports Identity Email_Config
begin

text \<open>
  Auth service: tokens and passwords (\<^verbatim>\<open>internal/utils/jwt.go\<close>, \<^verbatim>\<open>password.go\<close>) and the
  authentication service (\<^verbatim>\<open>internal/service/auth_service.go\<close>). The service reaches its users
  through a gateway, whose state is part of the service's state. The token package, bcrypt
  and \<^verbatim>\<open>time.ParseDuration\<close> are arguments (\<open>email_env\<close>); what the lemmas need of them is named
  below.
\<close>

section \<open>Libraries\<close>

record JWTClaims =
  jc_Sub :: string
  jc_Name :: string
  jc_Email :: string
  jc_Role :: string
  jc_TokenType :: string
  jc_IssuedAt :: int
  jc_ExpiresAt :: int

text \<open>
  \<open>jwt_Sign\<close> signs claims with HMAC-SHA256; \<open>jwt_Parse\<close> is \<^verbatim>\<open>ParseWithClaims\<close>: it asks the key
  function for the key of the token's method (whether that is an HMAC), and returns the
  claims with the token's validity, or an error. Dates are seconds.
\<close>

record email_env =
  jwt_Sign :: "string \<Rightarrow> JWTClaims \<Rightarrow> string option"
  jwt_Parse :: "string \<Rightarrow> (bool \<Rightarrow> string option) \<Rightarrow> int \<Rightarrow> (JWTClaims \<times> bool) option"
  bcrypt_Generate :: "nat \<Rightarrow> string \<Rightarrow> string option"
  bcrypt_Compare :: "string \<Rightarrow> string \<Rightarrow> bool"
  parse_Duration :: "string \<Rightarrow> int option"
  em_now :: "nat \<Rightarrow> int"
  em_cfg :: AppConfig

record 's email =
  em_store :: 's
  em_clock :: nat
  em_salts :: nat
  em_metrics :: "(string \<times> int) list"

type_synonym ('s, 'a) eml = "('s email, string, 'a) go"

definition on_store :: "('s, string, 'a) go \<Rightarrow> ('s, 'a) eml" where
  "on_store m w = (case m (em_store w) of (r, s) \<Rightarrow> (r, w\<lparr>em_store := s\<rparr>))"

definition em_Now :: "email_env \<Rightarrow> ('s, int) eml" where
  "em_Now E = go_get (\<lambda>w. go_bind (go_put (\<lambda>w. w\<lparr>em_clock := em_clock w + 1\<rparr>))
     (\<lambda>_. go_return (em_now E (em_clock w))))"

definition email_HashPassword :: "email_env \<Rightarrow> string \<Rightarrow> ('s, string) eml" where
  "email_HashPassword E password = go_get (\<lambda>w.
     go_bind (go_put (\<lambda>w. w\<lparr>em_salts := em_salts w + 1\<rparr>)) (\<lambda>_.
     case bcrypt_Generate E (em_salts w) password of
       None \<Rightarrow> go_fail ''bcrypt''
     | Some h \<Rightarrow> go_return h))"

definition CheckPassword :: "email_env \<Rightarrow> string \<Rightarrow> string \<Rightarrow> string option" where
  "CheckPassword E password h = (if bcrypt_Compare E h password then None else Some ''mismatch'')"

definition GenerateJWT ::
  "email_env \<Rightarrow> string \<Rightarrow> string \<Rightarrow> string \<Rightarrow> string \<Rightarrow> string \<Rightarrow> string \<Rightarrow> string \<Rightarrow> ('s, string) eml" where
  "GenerateJWT E sub name email role tokenType secret expires =
     (case parse_Duration E expires of
        None \<Rightarrow> go_fail ''invalid duration''
      | Some duration \<Rightarrow>
          go_bind (em_Now E) (\<lambda>now.
          case jwt_Sign E secret
                 \<lparr>jc_Sub = sub, jc_Name = name, jc_Email = email, jc_Role = role,
                  jc_TokenType = tokenType, jc_IssuedAt = unix_of now,
                  jc_ExpiresAt = unix_of (now + duration)\<rparr> of
            None \<Rightarrow> go_fail ''sign''
          | Some t \<Rightarrow> go_return t))"

text \<open>The key function refuses a token whose method is not an HMAC.\<close>

definition ParseJWT :: "email_env \<Rightarrow> string \<Rightarrow> string \<Rightarrow> ('s, JWTClaims) eml" where
  "ParseJWT E tokenStr secret =
     go_bind (em_Now E) (\<lambda>now.
     case jwt_Parse E tokenStr (\<lambda>hmac. if hmac then Some secret else None) (unix_of now) of
       None \<Rightarrow> go_fail ''parse''
     | Some (claims, valid) \<Rightarrow>
         if \<not> valid then go_fail ''invalid token'' else go_return claims)"


section \<open>The service\<close>

record UserProfile =
  up_ID :: string
  up_Name :: string
  up_Email :: string
  up_Phone :: string

record AuthResponse =
  re_User :: UserProfile
  re_AccessToken :: string
  re_RefreshToken :: string

record RegisterEmailRequest =
  rg_Name :: string
  rg_Email :: string
  rg_Password :: string

record LoginEmailRequest =
  lg_Email :: string
  lg_Password :: string

text \<open>\<^verbatim>\<open>defer func(start time.Time) { metrics.ObserveAuthLatency(start, op) }(time.Now())\<close>\<close>

definition Milliseconds :: "int \<Rightarrow> int" where
  "Milliseconds d = (if d < 0 then - (- d div 1000000) else d div 1000000)"

definition observed :: "email_env \<Rightarrow> string \<Rightarrow> ('s, 'a) eml \<Rightarrow> ('s, 'a) eml" where
  "observed E op m =
     go_bind (em_Now E) (\<lambda>start w.
       case m w of (r, w') \<Rightarrow>
         (r, w'\<lparr>em_clock := em_clock w' + 1,
                em_metrics := em_metrics w' @ [(''auth.'' @ op @ ''.latency_ms'',
                   Milliseconds (time_Sub (em_now E (em_clock w')) start))]\<rparr>))"

definition deref_user :: "IdentityUser option \<Rightarrow> (IdentityUser \<Rightarrow> ('s, 'a) eml) \<Rightarrow> ('s, 'a) eml" where
  "deref_user u k = (case u of None \<Rightarrow> go_panic | Some u \<Rightarrow> k u)"

text \<open>A failed role lookup counts as no roles.\<close>

definition buildAuthResponse ::
  "email_env \<Rightarrow> 's IdentityGateway \<Rightarrow> IdentityUser option \<Rightarrow> ('s, AuthResponse) eml" where
  "buildAuthResponse E G user =
     deref_user user (\<lambda>user.
     go_bind (go_try (on_store (gw_GetUserRoles G (iu_ID user))) (\<lambda>_. go_return []) go_return) (\<lambda>roles.
     let role = join_with CHR '','' (map ir_Name roles)
     in go_bind (GenerateJWT E (iu_ID user) (iu_Name user) (iu_Email user) role ''access''
                   (JWTSecret (cf_Auth (em_cfg E))) (AccessTokenExpires (cf_Auth (em_cfg E)))) (\<lambda>access.
        go_bind (GenerateJWT E (iu_ID user) (iu_Name user) (iu_Email user) role ''refresh''
                   (RefreshJWTSecret (cf_Auth (em_cfg E))) (RefreshTokenExpires (cf_Auth (em_cfg E)))) (\<lambda>refresh.
        go_return
          \<lparr>re_User = \<lparr>up_ID = iu_ID user, up_Name = iu_Name user, up_Email = iu_Email user,
                      up_Phone = iu_Phone user\<rparr>,
           re_AccessToken = access, re_RefreshToken = refresh\<rparr>))))"

definition RegisterEmail ::
  "email_env \<Rightarrow> 's IdentityGateway \<Rightarrow> RegisterEmailRequest \<Rightarrow> ('s, AuthResponse) eml" where
  "RegisterEmail E G req =
     observed E ''register'' (
     go_bind (email_HashPassword E (rg_Password req)) (\<lambda>hashed.
     go_bind (on_store (gw_CreateEmailUser G (rg_Name req) (rg_Email req) hashed)) (\<lambda>user.
     buildAuthResponse E G user)))"

definition LoginEmail ::
  "email_env \<Rightarrow> 's IdentityGateway \<Rightarrow> LoginEmailRequest \<Rightarrow> ('s, AuthResponse) eml" where
  "LoginEmail E G req =
     observed E ''login'' (
     go_try (on_store (gw_GetUserByEmail G (lg_Email req))) (\<lambda>_. go_fail ''user not found'') (\<lambda>user.
     case user of
       None \<Rightarrow> go_fail ''user not found''
     | Some u \<Rightarrow>
         if CheckPassword E (lg_Password req) (iu_Password u) \<noteq> None then go_fail ''invalid credentials''
         else buildAuthResponse E G user))"

definition email_RefreshToken ::
  "email_env \<Rightarrow> 's IdentityGateway \<Rightarrow> string \<Rightarrow> ('s, AuthResponse) eml" where
  "email_RefreshToken E G refreshToken =
     observed E ''refresh'' (
     go_try (ParseJWT E refreshToken (RefreshJWTSecret (cf_Auth (em_cfg E))))
       (\<lambda>_. go_fail ''invalid refresh token'') (\<lambda>claims.
     if jc_TokenType claims \<noteq> ''refresh'' then go_fail ''invalid token type''
     else
       go_try (on_store (gw_GetUserByEmail G (jc_Email claims))) (\<lambda>_. go_fail ''user not found'') (\<lambda>user.
       case user of
         None \<Rightarrow> go_fail ''user not found''
       | Some u \<Rightarrow>
           if iu_ID u \<noteq> jc_Sub claims then go_fail ''token subject mismatch''
           else buildAuthResponse E G user)))"

definition Me :: "email_env \<Rightarrow> string \<Rightarrow> ('s, UserProfile) eml" where
  "Me E accessToken =
     go_try (ParseJWT E accessToken (JWTSecret (cf_Auth (em_cfg E))))
       (\<lambda>_. go_fail ''invalid access token'') (\<lambda>claims.
     if jc_TokenType claims \<noteq> ''access'' then go_fail ''invalid token type''
     else go_return \<lparr>up_ID = jc_Sub claims, up_Name = jc_Name claims, up_Email = jc_Email claims,
                     up_Phone = []\<rparr>)"

definition email_Logout :: "string \<Rightarrow> ('s, unit) eml" where
  "email_Logout refreshToken = go_return ()"


section \<open>What the libraries promise\<close>

text \<open>A signed token parses under its key, as its claims, until it expires.\<close>

definition jwt_roundtrip :: "email_env \<Rightarrow> bool" where
  "jwt_roundtrip E \<longleftrightarrow>
     (\<forall>secret c t key now. jwt_Sign E secret c = Some t \<longrightarrow> key True = Some secret \<longrightarrow>
        jwt_Parse E t key now = (if now < jc_ExpiresAt c then Some (c, True) else None))"

text \<open>Whatever the key, a parsed token yields the claims that were signed.\<close>

definition jwt_carries_claims :: "email_env \<Rightarrow> bool" where
  "jwt_carries_claims E \<longleftrightarrow>
     (\<forall>secret c t key now c' v. jwt_Sign E secret c = Some t \<longrightarrow>
        jwt_Parse E t key now = Some (c', v) \<longrightarrow> c' = c)"

definition bcrypt_accepts :: "email_env \<Rightarrow> bool" where
  "bcrypt_accepts E \<longleftrightarrow> (\<forall>i p h. bcrypt_Generate E i p = Some h \<longrightarrow> bcrypt_Compare E h p)"

text \<open>Both lifetimes are readable and signing succeeds.\<close>

definition can_issue :: "email_env \<Rightarrow> int \<Rightarrow> int \<Rightarrow> bool" where
  "can_issue E da dr \<longleftrightarrow>
     parse_Duration E (AccessTokenExpires (cf_Auth (em_cfg E))) = Some da
   \<and> parse_Duration E (RefreshTokenExpires (cf_Auth (em_cfg E))) = Some dr
   \<and> (\<forall>secret c. jwt_Sign E secret c \<noteq> None)"


section \<open>Library lemmas\<close>

lemma em_Now_apply [simp]:
  "em_Now E w = (Ok (em_now E (em_clock w)), w\<lparr>em_clock := em_clock w + 1\<rparr>)"
  by (simp add: em_Now_def)

lemma on_store_apply [simp]: "m (em_store w) = (r, s) \<Longrightarrow> on_store m w = (r, w\<lparr>em_store := s\<rparr>)"
  by (simp add: on_store_def)

lemma observed_fst: "fst (observed E op m w) = fst (m (w\<lparr>em_clock := em_clock w + 1\<rparr>))"
  by (simp add: observed_def split: prod.splits)

lemma observed_store:
  "em_store (snd (observed E op m w)) = em_store (snd (m (w\<lparr>em_clock := em_clock w + 1\<rparr>)))"
  by (simp add: observed_def split: prod.splits)

definition claims_of :: "IdentityUser \<Rightarrow> string \<Rightarrow> string \<Rightarrow> int \<Rightarrow> int \<Rightarrow> JWTClaims" where
  "claims_of u role ty now d =
     \<lparr>jc_Sub = iu_ID u, jc_Name = iu_Name u, jc_Email = iu_Email u, jc_Role = role,
      jc_TokenType = ty, jc_IssuedAt = unix_of now, jc_ExpiresAt = unix_of (now + d)\<rparr>"

definition profile_of :: "IdentityUser \<Rightarrow> UserProfile" where
  "profile_of u = \<lparr>up_ID = iu_ID u, up_Name = iu_Name u, up_Email = iu_Email u, up_Phone = iu_Phone u\<rparr>"

lemma claims_of_simps [simp]:
  "jc_Sub (claims_of u role ty now d) = iu_ID u" "jc_Name (claims_of u role ty now d) = iu_Name u"
  "jc_Email (claims_of u role ty now d) = iu_Email u" "jc_TokenType (claims_of u role ty now d) = ty"
  "jc_ExpiresAt (claims_of u role ty now d) = unix_of (now + d)"
  by (simp_all add: claims_of_def)

lemma GenerateJWT_apply:
  assumes "parse_Duration E expires = Some d" and "jwt_Sign E secret
     (claims_of u role ty (em_now E (em_clock w)) d) = Some t"
  shows "GenerateJWT E (iu_ID u) (iu_Name u) (iu_Email u) role ty secret expires w =
           (Ok t, w\<lparr>em_clock := em_clock w + 1\<rparr>)"
  using assms by (simp add: GenerateJWT_def claims_of_def)

lemma GenerateJWT_OkD:
  assumes "GenerateJWT E (iu_ID u) (iu_Name u) (iu_Email u) role ty secret expires w = (Ok t, w')"
  obtains now d where "jwt_Sign E secret (claims_of u role ty now d) = Some t"
  using assms that by (auto simp: GenerateJWT_def claims_of_def split: option.splits)

text \<open>An issued response carries an access token and a refresh token for the user.\<close>

lemma buildAuthResponse_OkD:
  fixes w w' :: "'s email"
  assumes "buildAuthResponse E G (Some u) w = (Ok r, w')"
  obtains role n1 d1 n2 d2 where
    "jwt_Sign E (JWTSecret (cf_Auth (em_cfg E))) (claims_of u role ''access'' n1 d1) = Some (re_AccessToken r)"
    and "jwt_Sign E (RefreshJWTSecret (cf_Auth (em_cfg E))) (claims_of u role ''refresh'' n2 d2) = Some (re_RefreshToken r)"
    and "re_User r = profile_of u"
proof -
  let ?a = "cf_Auth (em_cfg E)"
  obtain access refresh and roles :: "IdentityRole list" and w1 w2 w3 :: "'s email" where
      a: "GenerateJWT E (iu_ID u) (iu_Name u) (iu_Email u) (join_with CHR '','' (map ir_Name roles)) ''access''
         (JWTSecret ?a) (AccessTokenExpires ?a) w1 = (Ok access, w2)"
      and f: "GenerateJWT E (iu_ID u) (iu_Name u) (iu_Email u) (join_with CHR '','' (map ir_Name roles)) ''refresh''
         (RefreshJWTSecret ?a) (RefreshTokenExpires ?a) w2 = (Ok refresh, w3)"
      and r: "\<lparr>re_User = profile_of u, re_AccessToken = access, re_RefreshToken = refresh\<rparr> = r"
    using assms unfolding buildAuthResponse_def deref_user_def profile_of_def Let_def option.case
    by (elim go_bind_OkE) auto
  obtain n1 d1 where "jwt_Sign E (JWTSecret ?a)
      (claims_of u (join_with CHR '','' (map ir_Name roles)) ''access'' n1 d1) = Some access"
    using a by (rule GenerateJWT_OkD)
  moreover obtain n2 d2 where "jwt_Sign E (RefreshJWTSecret ?a)
      (claims_of u (join_with CHR '','' (map ir_Name roles)) ''refresh'' n2 d2) = Some refresh"
    using f by (rule GenerateJWT_OkD)
  ultimately show ?thesis using that r by auto
qed

lemma ParseJWT_fst:
  "fst (ParseJWT E t secret w) =
     (case jwt_Parse E t (\<lambda>hmac. if hmac then Some secret else None) (unix_of (em_now E (em_clock w))) of
        None \<Rightarrow> Err ''parse''
      | Some (claims, valid) \<Rightarrow> if valid then Ok claims else Err ''invalid token'')"
  by (simp add: ParseJWT_def split: option.splits prod.splits)

lemma ParseJWT_store: "em_store (snd (ParseJWT E t secret w)) = em_store w"
  by (simp add: ParseJWT_def split: option.splits prod.splits)

lemma ParseJWT_signed:
  assumes "jwt_carries_claims E" and "jwt_Sign E secret c = Some t" and "ParseJWT E t secret' w = (Ok c', w')"
  shows "c' = c"
proof -
  obtain v where "jwt_Parse E t (\<lambda>hmac. if hmac then Some secret' else None)
      (unix_of (em_now E (em_clock w))) = Some (c', v)"
    using assms(3) ParseJWT_fst [of E t secret' w] by (auto split: option.splits if_splits)
  with assms(1,2) show ?thesis unfolding jwt_carries_claims_def by blast
qed

lemma ParseJWT_roundtrip:
  assumes "jwt_roundtrip E" and "jwt_Sign E secret c = Some t"
    and "unix_of (em_now E (em_clock w)) < jc_ExpiresAt c"
  shows "ParseJWT E t secret w = (Ok c, w\<lparr>em_clock := em_clock w + 1\<rparr>)"
proof -
  have "jwt_Parse E t (\<lambda>hmac. if hmac then Some secret else None)
      (unix_of (em_now E (em_clock w))) = Some (c, True)"
    using assms unfolding jwt_roundtrip_def by (metis (mono_tags, lifting))
  then show ?thesis by (simp add: ParseJWT_def)
qed

text \<open>Clients of the gateway.\<close>

context identity_gateway
begin

lemma build_Ok:
  assumes "can_issue E da dr"
  obtains r w' role where "buildAuthResponse E G (Some u) w = (Ok r, w')"
    and "em_store w' = em_store w" and "re_User r = profile_of u"
    and "jwt_Sign E (JWTSecret (cf_Auth (em_cfg E)))
           (claims_of u role ''access'' (em_now E (em_clock w)) da) = Some (re_AccessToken r)"
    and "jwt_Sign E (RefreshJWTSecret (cf_Auth (em_cfg E)))
           (claims_of u role ''refresh'' (em_now E (em_clock w + 1)) dr) = Some (re_RefreshToken r)"
proof -
  obtain roles where roles: "gw_GetUserRoles G (iu_ID u) (em_store w) = (Ok roles, em_store w)"
    using get_roles by blast
  let ?role = "join_with CHR '','' (map ir_Name roles)"
  obtain a where a: "jwt_Sign E (JWTSecret (cf_Auth (em_cfg E)))
           (claims_of u ?role ''access'' (em_now E (em_clock w)) da) = Some a"
    using assms by (auto simp: can_issue_def)
  obtain f where f: "jwt_Sign E (RefreshJWTSecret (cf_Auth (em_cfg E)))
           (claims_of u ?role ''refresh'' (em_now E (em_clock w + 1)) dr) = Some f"
    using assms by (auto simp: can_issue_def)
  have "buildAuthResponse E G (Some u) w =
      (Ok \<lparr>re_User = profile_of u, re_AccessToken = a, re_RefreshToken = f\<rparr>, w\<lparr>em_clock := em_clock w + 2\<rparr>)"
    using roles a f assms
    by (simp add: buildAuthResponse_def deref_user_def profile_of_def Let_def can_issue_def
        GenerateJWT_apply)
  with a f that show ?thesis by simp
qed

lemma register_Ok:
  assumes "can_issue E da dr" and "bcrypt_Generate E (em_salts w) pw = Some h"
    and "users (em_store w) (norm email) = None"
  obtains r w' u where
    "RegisterEmail E G \<lparr>rg_Name = name, rg_Email = email, rg_Password = pw\<rparr> w = (Ok r, w')"
    and "re_User r = profile_of u" and "iu_Password u = h" and "iu_Email u = norm email"
    and "users (em_store w') = (users (em_store w))(norm email \<mapsto> u)"
proof -
  let ?w = "w\<lparr>em_clock := em_clock w + 1, em_salts := em_salts w + 1\<rparr>"
  obtain u s' where c: "gw_CreateEmailUser G name email h (em_store w) = (Ok (Some u), s')"
    and u: "users s' = (users (em_store w))(norm email \<mapsto> u)" "iu_Password u = h" "iu_Email u = norm email"
    using create_fresh [OF assms(3)] by blast
  obtain r w2 where b: "buildAuthResponse E G (Some u) (?w\<lparr>em_store := s'\<rparr>) = (Ok r, w2)"
    and r: "em_store w2 = s'" "re_User r = profile_of u"
    by (rule build_Ok [OF assms(1), of u "?w\<lparr>em_store := s'\<rparr>"]) simp
  let ?m = "RegisterEmail E G \<lparr>rg_Name = name, rg_Email = email, rg_Password = pw\<rparr> w"
  have "fst ?m = Ok r" "em_store (snd ?m) = s'"
    using c b r assms(2)
    by (simp_all add: RegisterEmail_def observed_fst observed_store email_HashPassword_def)
  then show ?thesis using that [of r "snd ?m" u] u r by (metis prod.collapse)
qed

lemma login_found:
  assumes "users (em_store w) (norm email) = Some u"
  shows "fst (LoginEmail E G \<lparr>lg_Email = email, lg_Password = pw\<rparr> w) =
           (if bcrypt_Compare E (iu_Password u) pw
            then fst (buildAuthResponse E G (Some u) (w\<lparr>em_clock := em_clock w + 1\<rparr>))
            else Err ''invalid credentials'')"
    and "\<not> bcrypt_Compare E (iu_Password u) pw \<Longrightarrow>
           em_store (snd (LoginEmail E G \<lparr>lg_Email = email, lg_Password = pw\<rparr> w)) = em_store w"
  using assms
  by (simp_all add: LoginEmail_def observed_fst observed_store on_store_apply [OF get_user] CheckPassword_def)

lemma refresh_Ok:
  assumes "can_issue E da dr" and "jwt_roundtrip E"
    and "jwt_Sign E (RefreshJWTSecret (cf_Auth (em_cfg E))) (claims_of u role ''refresh'' now d) = Some t"
    and "users (em_store w) (norm (iu_Email u)) = Some u"
    and "unix_of (em_now E (em_clock w + 1)) < unix_of (now + d)"
  obtains r where "fst (email_RefreshToken E G t w) = Ok r" and "re_User r = profile_of u"
    and "em_store (snd (email_RefreshToken E G t w)) = em_store w"
proof -
  let ?w = "w\<lparr>em_clock := em_clock w + 1\<rparr>"
  have p: "ParseJWT E t (RefreshJWTSecret (cf_Auth (em_cfg E))) ?w =
      (Ok (claims_of u role ''refresh'' now d), w\<lparr>em_clock := em_clock w + 2\<rparr>)"
    using ParseJWT_roundtrip [OF assms(2,3), of ?w] assms(5) by simp
  obtain r w2 where b: "buildAuthResponse E G (Some u) (w\<lparr>em_clock := em_clock w + 2\<rparr>) = (Ok r, w2)"
    and r: "em_store w2 = em_store w" "re_User r = profile_of u"
    by (rule build_Ok [OF assms(1), of u "w\<lparr>em_clock := em_clock w + 2\<rparr>"]) simp
  have "fst (email_RefreshToken E G t w) = Ok r" "em_store (snd (email_RefreshToken E G t w)) = em_store w"
    using p b r assms(4)
    by (simp_all add: email_RefreshToken_def observed_fst observed_store on_store_apply [OF get_user])
  with that r(2) show ?thesis by blast
qed

end


section \<open>Properties\<close>


text \<open>
  Access and refresh tokens are not interchangeable. Of the two tokens a login returns, the
  refresh token is never recognised as an access token and the access token never renews,
  even if both secrets are the same.
\<close>

lemma email_token_types:
  assumes "jwt_carries_claims E"
    and "LoginEmail E G \<lparr>lg_Email = address, lg_Password = pw\<rparr> w = (Ok r, w1)"
  shows "(\<exists>e. fst (Me E (re_RefreshToken r) w2) = Err e)
       \<and> (\<exists>e. fst (email_RefreshToken E G (re_AccessToken r) w3) = Err e)"
proof -
  have "fst (LoginEmail E G \<lparr>lg_Email = address, lg_Password = pw\<rparr> w) = Ok r" using assms(2) by simp
  then obtain u w' w'' where "buildAuthResponse E G (Some u) w' = (Ok r, w'')"
    unfolding LoginEmail_def observed_fst
    by (auto simp: go_try_def split: prod.splits outcome.splits option.splits if_splits) (metis prod.collapse)
  then obtain role n1 d1 n2 d2 where
      a: "jwt_Sign E (JWTSecret (cf_Auth (em_cfg E))) (claims_of u role ''access'' n1 d1) = Some (re_AccessToken r)"
    and f: "jwt_Sign E (RefreshJWTSecret (cf_Auth (em_cfg E))) (claims_of u role ''refresh'' n2 d2) = Some (re_RefreshToken r)"
    by (rule buildAuthResponse_OkD)
  have "\<exists>e. fst (Me E (re_RefreshToken r) w2) = Err e"
    using ParseJWT_signed [OF assms(1) f, of "JWTSecret (cf_Auth (em_cfg E))" w2]
      ParseJWT_fst [of E "re_RefreshToken r" "JWTSecret (cf_Auth (em_cfg E))" w2]
    by (auto simp: Me_def go_try_def split: prod.splits outcome.splits option.splits if_splits)
  moreover have "\<exists>e. fst (email_RefreshToken E G (re_AccessToken r) w3) = Err e"
    using ParseJWT_signed [OF assms(1) a, of "RefreshJWTSecret (cf_Auth (em_cfg E))" "w3\<lparr>em_clock := em_clock w3 + 1\<rparr>"]
      ParseJWT_fst [of E "re_AccessToken r" "RefreshJWTSecret (cf_Auth (em_cfg E))" "w3\<lparr>em_clock := em_clock w3 + 1\<rparr>"]
    by (auto simp: email_RefreshToken_def observed_fst go_try_def
        split: prod.splits outcome.splits option.splits if_splits)
  ultimately show ?thesis ..
qed

text \<open>
  Logging out withdraws nothing. A refresh token issued to a stored user renews for as long
  as it has not expired, after any number of renewals and after a logout with that very
  token: the logout returns successfully and the next renewal still succeeds for the same user.
\<close>

lemma logout_withdraws_nothing:
  assumes "can_issue E da dr" and "jwt_roundtrip E"
    and "jwt_Sign E (RefreshJWTSecret (cf_Auth (em_cfg E))) (claims_of u role ''refresh'' now d) = Some t"
    and "local_users (em_store w) (CleanEmail uni (iu_Email u)) = Some u"
    and "unix_of (em_now E (em_clock w + 1)) < unix_of (now + d)"
  shows "\<exists>r w'. go_bind (email_Logout t) (\<lambda>_. email_RefreshToken E (local_gateway uni) t) w = (Ok r, w')
           \<and> re_User r = profile_of u \<and> em_store w' = em_store w"
proof -
  obtain r where "fst (email_RefreshToken E (local_gateway uni) t w) = Ok r" "re_User r = profile_of u"
      "em_store (snd (email_RefreshToken E (local_gateway uni) t w)) = em_store w"
    by (rule local_store.refresh_Ok [OF assms])
  moreover have "go_bind (email_Logout t) (\<lambda>_. email_RefreshToken E (local_gateway uni) t) w =
      email_RefreshToken E (local_gateway uni) t w"
    by (simp add: email_Logout_def)
  ultimately show ?thesis by (metis prod.collapse)
qed

text \<open>When two addresses get the same identifier.\<close>

lemma user_id_of_eq:
  "user_id_of k = user_id_of k' \<longleftrightarrow>
     list_all2 (\<lambda>c c'. c = c' \<or> {c, c'} = {CHR ''@'', CHR ''_''}) k k'"
proof (induction k arbitrary: k')
  case Nil
  then show ?case by (cases k') (simp_all add: user_id_of_def)
next
  case (Cons c k)
  then show ?case by (cases k') (auto simp: user_id_of_def doubleton_eq_iff)
qed

text \<open>
  Identifiers of users are not unique. Two valid addresses can be registered side by side,
  as two users with different addresses and passwords and the same identifier: the
  identifier replaces the at-sign by an underscore, which an address may contain itself.
\<close>

lemma distinct_users_share_an_identifier:
  "\<exists>a b u v s.
     ValidateEmail a = None \<and> ValidateEmail b = None
   \<and> go_bind (gw_CreateEmailUser (local_gateway uni) ''A'' a ''p'') (\<lambda>x.
       go_bind (gw_CreateEmailUser (local_gateway uni) ''B'' b ''q'') (\<lambda>y. go_return (x, y))) NewLocalIdentityStore
       = (Ok (Some u, Some v), s)
   \<and> local_users s a = Some u \<and> local_users s b = Some v
   \<and> iu_Email u \<noteq> iu_Email v \<and> iu_Password u \<noteq> iu_Password v \<and> iu_ID u = iu_ID v"
proof -
  let ?a = "''a@b_c.io''" and ?b = "''a_b@c.io''"
  have n: "ToLower uni (TrimSpace ?a) = ?a" "ToLower uni (TrimSpace ?b) = ?b"
  proof -
    have t: "TrimSpace ?a = ?a" "TrimSpace ?b = ?b" by code_simp+
    have "is_ascii ?a" "is_ascii ?b" "map lower_char ?a = ?a" "map lower_char ?b = ?b" by code_simp+
    then show "ToLower uni (TrimSpace ?a) = ?a" "ToLower uni (TrimSpace ?b) = ?b"
      unfolding t ToLower_def by simp_all
  qed
  have v: "ValidateEmail ?a = None" "ValidateEmail ?b = None" by code_simp+
  have i: "user_id_of ?a = user_id_of ?b" by code_simp
  let ?u = "\<lparr>iu_ID = user_id_of ?a, iu_Name = TrimSpace ''A'', iu_Email = ?a, iu_Phone = [], iu_Password = ''p''\<rparr>"
  let ?v = "\<lparr>iu_ID = user_id_of ?b, iu_Name = TrimSpace ''B'', iu_Email = ?b, iu_Phone = [], iu_Password = ''q''\<rparr>"
  show ?thesis
    using n v i
    by (intro exI [of _ ?a] exI [of _ ?b] exI [of _ ?u] exI [of _ ?v])
       (auto simp: local_gateway_def local_CreateEmailUser_def NewLocalIdentityStore_def Let_def local_users_def)
qed


section \<open>A concrete environment\<close>

text \<open>
  Tokens that list the secret and the claims in hexadecimal: the promises above hold together.
\<close>

definition demo_jwt_Sign :: "string \<Rightarrow> JWTClaims \<Rightarrow> string option" where
  "demo_jwt_Sign secret c = Some (join_with CHR ''|'' (map hex_encode
     [secret, jc_Sub c, jc_Name c, jc_Email c, jc_Role c, jc_TokenType c,
      itoa (jc_IssuedAt c), itoa (jc_ExpiresAt c)]))"

definition demo_jwt_Parse :: "string \<Rightarrow> (bool \<Rightarrow> string option) \<Rightarrow> int \<Rightarrow> (JWTClaims \<times> bool) option" where
  "demo_jwt_Parse t key now =
     (case map hex_decode (split_on CHR ''|'' t) of
        [Inr s, Inr a, Inr b, Inr c, Inr d, Inr e, Inr f, Inr g] \<Rightarrow>
          (case (signed_value f, signed_value g) of
             (Some iat, Some exp) \<Rightarrow>
               if key True = Some s \<and> now < exp
               then Some (\<lparr>jc_Sub = a, jc_Name = b, jc_Email = c, jc_Role = d, jc_TokenType = e,
                           jc_IssuedAt = iat, jc_ExpiresAt = exp\<rparr>, True)
               else None
           | _ \<Rightarrow> None)
      | _ \<Rightarrow> None)"

lemma demo_jwt:
  assumes "demo_jwt_Sign secret c = Some t"
  shows "demo_jwt_Parse t key now =
           (if key True = Some secret \<and> now < jc_ExpiresAt c then Some (c, True) else None)"
proof -
  have "map hex_decode (split_on CHR ''|'' t) = map Inr
     [secret, jc_Sub c, jc_Name c, jc_Email c, jc_Role c, jc_TokenType c,
      itoa (jc_IssuedAt c), itoa (jc_ExpiresAt c)]"
    using assms by (auto simp: demo_jwt_Sign_def simp del: list.map
        intro!: hex.fields_parse) (simp_all add: hex_table_def)
  then show ?thesis by (simp add: demo_jwt_Parse_def signed_value_itoa)
qed

definition demo_app_config :: AppConfig where
  "demo_app_config =
     \<lparr>cf_Server = \<lparr>Port = 1, ReadTimeoutSec = 1, WriteTimeoutSec = 1, IdleTimeoutSec = 1, ShutdownSec = 1,
                  CORS = \<lparr>AllowOrigins = [], AllowHeaders = [], AllowMethods = []\<rparr>\<rparr>,
      cf_Auth = \<lparr>JWTSecret = ''s'', RefreshJWTSecret = ''s'', AccessTokenExpires = ''15m'',
                RefreshTokenExpires = ''24h''\<rparr>,
      cf_Services = \<lparr>IdentityURL = [], IdentityGRPCAddr = [], RedisAddr = []\<rparr>\<rparr>"

definition demo_email_env :: email_env where
  "demo_email_env =
     \<lparr>jwt_Sign = demo_jwt_Sign, jwt_Parse = demo_jwt_Parse, bcrypt_Generate = (\<lambda>_ p. Some p),
      bcrypt_Compare = (=), parse_Duration = (\<lambda>_. Some (900 * second)),
      em_now = (\<lambda>n. int n * second), em_cfg = demo_app_config\<rparr>"

definition demo_email :: "LocalIdentityStore email" where
  "demo_email = \<lparr>em_store = NewLocalIdentityStore, em_clock = 0, em_salts = 0, em_metrics = []\<rparr>"

lemma demo_promises:
  "can_issue demo_email_env (900 * second) (900 * second)" "jwt_roundtrip demo_email_env"
  "jwt_carries_claims demo_email_env" "bcrypt_accepts demo_email_env"
proof -
  show "can_issue demo_email_env (900 * second) (900 * second)"
    by (simp add: can_issue_def demo_email_env_def demo_jwt_Sign_def)
  show "jwt_roundtrip demo_email_env" "jwt_carries_claims demo_email_env"
    by (auto simp: jwt_roundtrip_def jwt_carries_claims_def demo_email_env_def demo_jwt split: if_splits)
  show "bcrypt_accepts demo_email_env"
    by (simp add: bcrypt_accepts_def demo_email_env_def)
qed

lemma demo_spellings: "CleanEmail (\<lambda>s. s) '' A@b.io'' = CleanEmail (\<lambda>s. s) ''a@b.io''"
  by code_simp

lemma demo_free_address: "local_users (em_store demo_email) key = None"
  by (simp add: local_users_def demo_email_def NewLocalIdentityStore_def)


lemma email_token_types_witness:
  "\<exists>r w1 e. LoginEmail demo_email_env (local_gateway (\<lambda>s. s))
       \<lparr>lg_Email = ''a@b.io'', lg_Password = ''p''\<rparr>
       (snd (RegisterEmail demo_email_env (local_gateway (\<lambda>s. s))
          \<lparr>rg_Name = ''A'', rg_Email = ''a@b.io'', rg_Password = ''p''\<rparr> demo_email)) = (Ok r, w1)
     \<and> fst (Me demo_email_env (re_RefreshToken r) demo_email) = Err e"
proof -
  let ?w = "snd (RegisterEmail demo_email_env (local_gateway (\<lambda>s. s))
          \<lparr>rg_Name = ''A'', rg_Email = ''a@b.io'', rg_Password = ''p''\<rparr> demo_email)"
  have "bcrypt_Generate demo_email_env (em_salts demo_email) ''p'' = Some ''p''"
    by (simp add: demo_email_env_def)
  from local_store.register_Ok [where name = "''A''", OF demo_promises(1) this demo_free_address]
  obtain r0 w0 u where reg: "RegisterEmail demo_email_env (local_gateway (\<lambda>s. s))
          \<lparr>rg_Name = ''A'', rg_Email = ''a@b.io'', rg_Password = ''p''\<rparr> demo_email = (Ok r0, w0)"
    and u: "iu_Password u = ''p''"
      "local_users (em_store w0) = (local_users (em_store demo_email))(CleanEmail (\<lambda>s. s) ''a@b.io'' \<mapsto> u)"
    by metis
  from local_store.build_Ok [OF demo_promises(1), where u = u and w = "w0\<lparr>em_clock := em_clock w0 + 1\<rparr>"]
  obtain r where "fst (buildAuthResponse demo_email_env (local_gateway (\<lambda>s. s)) (Some u)
      (w0\<lparr>em_clock := em_clock w0 + 1\<rparr>)) = Ok r" by (metis fst_conv)
  then have "fst (LoginEmail demo_email_env (local_gateway (\<lambda>s. s))
       \<lparr>lg_Email = ''a@b.io'', lg_Password = ''p''\<rparr> w0) = Ok r"
    using local_store.login_found(1) [where w = w0 and u = u and email = "''a@b.io''" and uni = "\<lambda>s. s"] u
    by (simp add: demo_email_env_def)
  then obtain w1 where "LoginEmail demo_email_env (local_gateway (\<lambda>s. s))
       \<lparr>lg_Email = ''a@b.io'', lg_Password = ''p''\<rparr> ?w = (Ok r, w1)"
    using reg by (metis prod.collapse snd_conv)
  moreover from email_token_types [OF demo_promises(3) this, of demo_email]
  obtain e where "fst (Me demo_email_env (re_RefreshToken r) demo_email) = Err e" by blast
  ultimately show ?thesis by blast
qed

definition demo_identity :: IdentityUser where
  "demo_identity = \<lparr>iu_ID = ''i'', iu_Name = ''A'', iu_Email = ''a@b.io'', iu_Phone = [], iu_Password = ''p''\<rparr>"

lemma logout_witness:
  "\<exists>t r w'. go_bind (email_Logout t) (\<lambda>_. email_RefreshToken demo_email_env (local_gateway (\<lambda>s. s)) t)
       (demo_email\<lparr>em_store := \<lparr>byEmail = [(''a@b.io'', demo_identity)], userRole = []\<rparr>\<rparr>) = (Ok r, w')
     \<and> re_User r = profile_of demo_identity"
proof -
  let ?w = "demo_email\<lparr>em_store := \<lparr>byEmail = [(''a@b.io'', demo_identity)], userRole = []\<rparr>\<rparr>"
  obtain t where t: "jwt_Sign demo_email_env (RefreshJWTSecret (cf_Auth (em_cfg demo_email_env)))
      (claims_of demo_identity ''user'' ''refresh'' 0 (900 * second)) = Some t"
    using demo_promises(1) by (auto simp: can_issue_def)
  have "CleanEmail (\<lambda>s. s) ''a@b.io'' = ''a@b.io''" by code_simp
  then have st: "local_users (em_store ?w) (CleanEmail (\<lambda>s. s) (iu_Email demo_identity)) = Some demo_identity"
    by (simp add: local_users_def demo_identity_def repo_get_def)
  have ex: "unix_of (em_now demo_email_env (em_clock ?w + 1)) < unix_of (0 + 900 * second)"
    by (simp add: demo_email_env_def demo_email_def unix_of_def second_def)
  from logout_withdraws_nothing [OF demo_promises(1,2) t st ex] show ?thesis by blast
qed

end
