(* ===== verification/Verification.thy ===== *)
theory Verification
  imports Go_Text "HOL-Library.Word"
begin

text \<open>
  Auth service: one-time codes, face checks and risk scores
  (\<^verbatim>\<open>internal/service/verification_service.go\<close>). The state is the map of challenges and the
  audit list under one mutex, so each critical section is one step. The providers behind
  HTTP are the environment's: the answer to the n-th post, or none. A \<^verbatim>\<open>float64\<close> is its bit
  pattern.
\<close>

section \<open>State and environment\<close>

type_synonym float64 = "64 word"

definition float_090 :: float64 where "float_090 = 0x3FECCCCCCCCCCCCD"

record otpChallenge =
  oc_UserID :: string
  oc_Channel :: string
  oc_Target :: string
  oc_CodeHash :: string
  oc_ExpiresAt :: int
  oc_Status :: string

record verification_event =
  ve_time :: int
  ve_user_id :: string
  ve_type :: string
  ve_outcome :: string
  ve_score :: "float64 option"

record http_response =
  hr_StatusCode :: int
  hr_Body :: string

record verification_env =
  vn_sha256 :: "string \<Rightarrow> string"
  vn_now :: "nat \<Rightarrow> int"
  vn_rand :: "nat \<Rightarrow> nat \<Rightarrow> string"
  vn_lower :: "string \<Rightarrow> string"
  vn_post :: "nat \<Rightarrow> string \<Rightarrow> (string \<times> string) list \<Rightarrow> http_response option"
  vn_decode_face :: "string \<Rightarrow> (bool \<times> float64) option"

record verification =
  vs_otp :: "otpChallenge repo"
  vs_audits :: "verification_event list"
  vs_smsURL :: string
  vs_emailURL :: string
  vs_faceURL :: string
  vs_clock :: nat
  vs_randoms :: nat
  vs_posts :: "(string \<times> (string \<times> string) list) list"

type_synonym 'a ver = "(verification, string, 'a) go"

text \<open>\<^verbatim>\<open>strings.TrimRight(s, "/")\<close>\<close>

definition TrimRight_slash :: "string \<Rightarrow> string" where
  "TrimRight_slash s = rev (dropWhile (\<lambda>c. c = CHR ''/'') (rev s))"

definition NewVerificationService :: "os_env \<Rightarrow> verification" where
  "NewVerificationService os =
     \<lparr>vs_otp = [], vs_audits = [],
      vs_smsURL = TrimRight_slash (os ''OTP_SMS_PROVIDER_URL''),
      vs_emailURL = TrimRight_slash (os ''OTP_EMAIL_PROVIDER_URL''),
      vs_faceURL = TrimRight_slash (os ''FACE_PROVIDER_URL''),
      vs_clock = 0, vs_randoms = 0, vs_posts = []\<rparr>"

definition ver_now :: "verification_env \<Rightarrow> int ver" where
  "ver_now E = go_get (\<lambda>s. go_bind (go_put (\<lambda>s. s\<lparr>vs_clock := vs_clock s + 1\<rparr>))
     (\<lambda>_. go_return (vn_now E (vs_clock s))))"

text \<open>\<^verbatim>\<open>token\<close>: the error of the random source is dropped.\<close>

definition ver_token :: "verification_env \<Rightarrow> nat \<Rightarrow> string ver" where
  "ver_token E n = go_get (\<lambda>s. go_bind (go_put (\<lambda>s. s\<lparr>vs_randoms := vs_randoms s + 1\<rparr>))
     (\<lambda>_. go_return (hex_encode (vn_rand E (vs_randoms s) n))))"

definition hash :: "verification_env \<Rightarrow> string \<Rightarrow> string" where
  "hash E v = hex_encode (vn_sha256 E v)"

definition append_audit :: "verification_env \<Rightarrow> (int \<Rightarrow> verification_event) \<Rightarrow> unit ver" where
  "append_audit E ev =
     go_bind (ver_now E) (\<lambda>now. go_put (\<lambda>s. s\<lparr>vs_audits := vs_audits s @ [ev now]\<rparr>))"

text \<open>\<^verbatim>\<open>client.Do\<close>: the call is recorded, the provider answers or fails.\<close>

definition client_Do ::
  "verification_env \<Rightarrow> string \<Rightarrow> (string \<times> string) list \<Rightarrow> http_response ver" where
  "client_Do E url body = go_get (\<lambda>s.
     go_bind (go_put (\<lambda>s. s\<lparr>vs_posts := vs_posts s @ [(url, body)]\<rparr>)) (\<lambda>_.
     case vn_post E (length (vs_posts s)) url body of
       None \<Rightarrow> go_fail ''post''
     | Some resp \<Rightarrow> go_return resp))"


section \<open>Operations\<close>

definition dispatchOTP :: "verification_env \<Rightarrow> string \<Rightarrow> string \<Rightarrow> string \<Rightarrow> unit ver" where
  "dispatchOTP E channel target otp = go_get (\<lambda>s.
     let url = (if channel = ''sms'' then vs_smsURL s else vs_emailURL s)
     in if url = [] then go_return ()
        else go_bind (client_Do E (url @ ''/v1/otp/send'')
                [(''channel'', channel), (''code'', otp), (''target'', target)]) (\<lambda>resp.
          if hr_StatusCode resp \<ge> 300 then go_fail (''provider status '' @ itoa (hr_StatusCode resp))
          else go_return ()))"

definition dispatchFace ::
  "verification_env \<Rightarrow> string \<Rightarrow> string \<Rightarrow> string \<Rightarrow> (bool \<times> float64) ver" where
  "dispatchFace E userID livenessToken selfieRef = go_get (\<lambda>s.
     go_bind (client_Do E (vs_faceURL s @ ''/v1/face/verify'')
        [(''liveness_token'', livenessToken), (''selfie_ref'', selfieRef), (''user_id'', userID)]) (\<lambda>resp.
     if hr_StatusCode resp \<ge> 300 then go_fail (''provider status '' @ itoa (hr_StatusCode resp))
     else (case vn_decode_face E (hr_Body resp) of
             None \<Rightarrow> go_fail ''decode''
           | Some out \<Rightarrow> go_return out)))"

definition otp_code :: string where
  "otp_code = ''123456''"

definition CreateOTP ::
  "verification_env \<Rightarrow> string \<Rightarrow> string \<Rightarrow> string \<Rightarrow> int \<Rightarrow> (string \<times> string) ver" where
  "CreateOTP E userID channel0 target ttl0 =
     (let channel = ToLower (vn_lower E) (TrimSpace channel0);
          ttlSec = (if ttl0 \<le> 0 then 300 else ttl0)
      in if userID = [] \<or> target = [] then go_fail ''user_id and target are required''
         else if channel \<noteq> ''sms'' \<and> channel \<noteq> ''email'' then go_fail ''channel must be sms or email''
         else
           go_bind (ver_token E 8) (\<lambda>tok.
           let chID = ''otp_'' @ tok
           in go_bind (ver_now E) (\<lambda>now.
              go_bind (go_put (\<lambda>s. s\<lparr>vs_otp := repo_put chID
                 \<lparr>oc_UserID = userID, oc_Channel = channel, oc_Target = target,
                  oc_CodeHash = hash E (userID @ '':'' @ otp_code),
                  oc_ExpiresAt = now + wrap64 (ttlSec * second), oc_Status = ''pending''\<rparr> (vs_otp s)\<rparr>)) (\<lambda>_.
              go_bind (append_audit E (\<lambda>t. \<lparr>ve_time = t, ve_user_id = userID,
                 ve_type = ''otp.challenge'', ve_outcome = ''success'', ve_score = None\<rparr>)) (\<lambda>_.
              go_ignore (dispatchOTP E channel target otp_code)
                (go_return (chID, otp_code)))))))"

text \<open>
  The condition is evaluated from left to right: the clock is read only for a challenge of
  this user.
\<close>

definition ver_VerifyOTP :: "verification_env \<Rightarrow> string \<Rightarrow> string \<Rightarrow> string \<Rightarrow> bool ver" where
  "ver_VerifyOTP E userID challengeID otp = go_get (\<lambda>s.
     case repo_get (vs_otp s) challengeID of
       None \<Rightarrow> go_return False
     | Some ch \<Rightarrow>
         if oc_UserID ch \<noteq> userID then go_return False
         else go_bind (ver_now E) (\<lambda>now.
           if now > oc_ExpiresAt ch \<or> oc_Status ch \<noteq> ''pending'' then go_return False
           else if oc_CodeHash ch \<noteq> hash E (userID @ '':'' @ otp) then go_return False
           else
             go_bind (go_put (\<lambda>s. s\<lparr>vs_otp :=
                repo_put challengeID (ch\<lparr>oc_Status := ''verified''\<rparr>) (vs_otp s)\<rparr>)) (\<lambda>_.
             go_bind (append_audit E (\<lambda>t. \<lparr>ve_time = t, ve_user_id = userID,
                ve_type = ''otp.verify'', ve_outcome = ''success'', ve_score = None\<rparr>)) (\<lambda>_.
             go_return True))))"

definition VerifyFace ::
  "verification_env \<Rightarrow> string \<Rightarrow> string \<Rightarrow> string \<Rightarrow> (bool \<times> float64) ver" where
  "VerifyFace E userID livenessToken selfieRef =
     (if userID = [] \<or> livenessToken = [] \<or> selfieRef = []
      then go_fail ''user_id, liveness_token, selfie_ref are required''
      else
        let local = (has_prefix livenessToken ''live_'', float_090)
        in go_bind (go_get (\<lambda>s.
             if vs_faceURL s \<noteq> []
             then go_try (dispatchFace E userID livenessToken selfieRef)
                    (\<lambda>_. go_return local) go_return
             else go_return local)) (\<lambda>(approved, score).
           go_bind (append_audit E (\<lambda>t. \<lparr>ve_time = t, ve_user_id = userID,
              ve_type = ''face.verify'',
              ve_outcome = (if approved then ''approved'' else ''rejected''), ve_score = Some score\<rparr>)) (\<lambda>_.
           go_return (approved, score))))"

text \<open>\<^verbatim>\<open>strings.Contains\<close>\<close>

fun contains :: "string \<Rightarrow> string \<Rightarrow> bool" where
  "contains [] p = (p = [])"
| "contains (c # s) p = (has_prefix (c # s) p \<or> contains s p)"

definition EvaluateRisk ::
  "verification_env \<Rightarrow> string \<Rightarrow> string \<Rightarrow> string \<Rightarrow> string \<Rightarrow> int \<times> string" where
  "EvaluateRisk E userID action ip deviceID =
     (let s1 = (if deviceID = [] then 30 else 0);
          s2 = (if ip = [] then s1 + 20 else s1);
          score = (if contains (ToLower (vn_lower E) action) ''admin'' then s2 + 40 else s2)
      in (score, if score \<ge> 70 then ''high'' else if score \<ge> 40 then ''medium'' else ''low''))"

definition ListAudit :: "int \<Rightarrow> verification \<Rightarrow> verification_event list" where
  "ListAudit limit0 s =
     (let limit = (if limit0 \<le> 0 \<or> limit0 > 500 then 100 else limit0)
      in if int (length (vs_audits s)) \<le> limit then vs_audits s
         else drop (length (vs_audits s) - nat limit) (vs_audits s))"


section \<open>Properties\<close>

lemma ver_now_apply [simp]:
  "ver_now E s = (Ok (vn_now E (vs_clock s)), s\<lparr>vs_clock := vs_clock s + 1\<rparr>)"
  by (simp add: ver_now_def)

lemma ver_token_apply [simp]:
  "ver_token E n s = (Ok (hex_encode (vn_rand E (vs_randoms s) n)), s\<lparr>vs_randoms := vs_randoms s + 1\<rparr>)"
  by (simp add: ver_token_def)

lemma append_audit_apply [simp]:
  "append_audit E ev s = (Ok (), s\<lparr>vs_clock := vs_clock s + 1,
     vs_audits := vs_audits s @ [ev (vn_now E (vs_clock s))]\<rparr>)"
  by (simp add: append_audit_def)

definition otp_accepts :: "verification_env \<Rightarrow> string \<Rightarrow> string \<Rightarrow> string \<Rightarrow> verification \<Rightarrow> bool" where
  "otp_accepts E userID challengeID otp s \<longleftrightarrow>
     (\<exists>ch. repo_get (vs_otp s) challengeID = Some ch \<and> oc_UserID ch = userID
        \<and> vn_now E (vs_clock s) \<le> oc_ExpiresAt ch \<and> oc_Status ch = ''pending''
        \<and> oc_CodeHash ch = hash E (userID @ '':'' @ otp))"

lemma ver_VerifyOTP_iff:
  "\<exists>s'. ver_VerifyOTP E userID challengeID otp s = (Ok (otp_accepts E userID challengeID otp s), s')"
  by (auto simp: ver_VerifyOTP_def otp_accepts_def split: option.splits)


text \<open>A refused code changes no challenge and leaves no trace in the audit list.\<close>

lemma ver_VerifyOTP_refused:
  assumes "ver_VerifyOTP E userID challengeID otp s = (Ok False, s')"
  shows "vs_otp s' = vs_otp s" and "vs_audits s' = vs_audits s"
  using assms by (auto simp: ver_VerifyOTP_def split: option.splits if_splits)

lemma ver_VerifyOTP_accepted:
  assumes "ver_VerifyOTP E userID challengeID otp s = (Ok True, s')"
  obtains ch t where "repo_get (vs_otp s) challengeID = Some ch" and "oc_Status ch = ''pending''"
    and "vs_otp s' = repo_put challengeID (ch\<lparr>oc_Status := ''verified''\<rparr>) (vs_otp s)"
    and "vs_audits s' = vs_audits s @ [\<lparr>ve_time = t, ve_user_id = userID,
           ve_type = ''otp.verify'', ve_outcome = ''success'', ve_score = None\<rparr>]"
  using assms by (auto simp: ver_VerifyOTP_def split: option.splits if_splits)

text \<open>Attempts at a challenge, as uses of a single-use resource.\<close>

definition otp_use ::
  "verification_env \<Rightarrow> string \<Rightarrow> string \<times> string \<Rightarrow> verification \<Rightarrow> bool \<times> verification" where
  "otp_use E k i s =
     (case ver_VerifyOTP E (fst i) k (snd i) s of (r, s') \<Rightarrow> (r = Ok True, s'))"

definition otp_spent :: "string \<Rightarrow> verification \<Rightarrow> bool" where
  "otp_spent k s \<longleftrightarrow> (\<exists>ch. repo_get (vs_otp s) k = Some ch \<and> oc_Status ch \<noteq> ''pending'')"

lemma otp_use_cases:
  obtains (refused) "\<not> fst (otp_use E k i s)" and "vs_otp (snd (otp_use E k i s)) = vs_otp s"
    | (accepted) ch where "fst (otp_use E k i s)" and "repo_get (vs_otp s) k = Some ch"
        and "oc_Status ch = ''pending''"
        and "vs_otp (snd (otp_use E k i s)) = repo_put k (ch\<lparr>oc_Status := ''verified''\<rparr>) (vs_otp s)"
proof -
  obtain b s' where v: "ver_VerifyOTP E (fst i) k (snd i) s = (Ok b, s')"
    using ver_VerifyOTP_iff by blast
  show ?thesis
  proof (cases b)
    case True
    with v obtain ch where "repo_get (vs_otp s) k = Some ch" "oc_Status ch = ''pending''"
        "vs_otp s' = repo_put k (ch\<lparr>oc_Status := ''verified''\<rparr>) (vs_otp s)"
      by (auto elim: ver_VerifyOTP_accepted)
    with True v show ?thesis by (intro accepted) (auto simp: otp_use_def)
  next
    case False
    with v ver_VerifyOTP_refused(1) [of E "fst i" k "snd i" s s'] show ?thesis
      by (intro refused) (auto simp: otp_use_def)
  qed
qed

interpretation otp: single_use "otp_use E" otp_spent "\<lambda>_. True" for E
proof unfold_locales
  fix s k i s'
  assume "otp_use E k i s = (True, s')"
  then show "otp_spent k s'"
    by (cases rule: otp_use_cases [of E k i s]) (auto simp: otp_spent_def)
next
  fix s k i
  assume "otp_spent k s"
  then show "\<not> fst (otp_use E k i s)"
    by (cases rule: otp_use_cases [of E k i s]) (auto simp: otp_spent_def)
next
  fix s k k' i
  assume "otp_spent k s"
  then show "otp_spent k (snd (otp_use E k' i s))"
    by (cases rule: otp_use_cases [of E k' i s]) (auto simp: otp_spent_def)
qed simp

text \<open>
  C10: A one-time code is accepted at most once. Over any sequence of attempts, by any users and
  with any codes, at most one attempt at a challenge succeeds; an attempt succeeds exactly if
  the challenge is that user's, has not expired, is still pending and the code's hash is the
  stored one; a refused attempt changes no challenge.
\<close>

theorem otp_single_use:
  "successes k (attempts (otp_use E) as s) \<le> 1
   \<and> fst (ver_VerifyOTP E userID k otp s) = Ok (otp_accepts E userID k otp s)
   \<and> (\<not> otp_accepts E userID k otp s \<longrightarrow> vs_otp (snd (ver_VerifyOTP E userID k otp s)) = vs_otp s)"
proof -
  obtain s' where v: "ver_VerifyOTP E userID k otp s = (Ok (otp_accepts E userID k otp s), s')"
    using ver_VerifyOTP_iff by blast
  have "successes k (attempts (otp_use E) as s) \<le> 1" by (rule otp.at_most_once) simp
  with v ver_VerifyOTP_refused(1) [of E userID k otp s s'] show ?thesis by (simp split: if_splits)
qed

text \<open>Sending the code changes neither challenges nor clock.\<close>

lemma dispatchOTP_frame:
  "fst (dispatchOTP E channel target otp s) \<noteq> Panic"
  "vs_otp (snd (dispatchOTP E channel target otp s)) = vs_otp s"
  "vs_clock (snd (dispatchOTP E channel target otp s)) = vs_clock s"
  by (auto simp: dispatchOTP_def client_Do_def Let_def go_bind_def go_try_def split: option.splits)

definition issued_challenge ::
  "verification_env \<Rightarrow> string \<Rightarrow> string \<Rightarrow> string \<Rightarrow> int \<Rightarrow> int \<Rightarrow> otpChallenge" where
  "issued_challenge E userID channel target ttl now =
     \<lparr>oc_UserID = userID, oc_Channel = ToLower (vn_lower E) (TrimSpace channel), oc_Target = target,
      oc_CodeHash = hash E (userID @ '':'' @ otp_code),
      oc_ExpiresAt = now + wrap64 ((if ttl \<le> 0 then 300 else ttl) * second), oc_Status = ''pending''\<rparr>"

lemma issued_challenge_simps [simp]:
  "oc_UserID (issued_challenge E u ch ta ttl now) = u"
  "oc_Status (issued_challenge E u ch ta ttl now) = ''pending''"
  "oc_CodeHash (issued_challenge E u ch ta ttl now) = hash E (u @ '':'' @ otp_code)"
  "oc_ExpiresAt (issued_challenge E u ch ta ttl now) =
     now + wrap64 ((if ttl \<le> 0 then 300 else ttl) * second)"
  by (simp_all add: issued_challenge_def)

definition otp_request_ok :: "verification_env \<Rightarrow> string \<Rightarrow> string \<Rightarrow> string \<Rightarrow> bool" where
  "otp_request_ok E userID channel target \<longleftrightarrow> userID \<noteq> [] \<and> target \<noteq> []
     \<and> ToLower (vn_lower E) (TrimSpace channel) \<in> {''sms'', ''email''}"

lemma CreateOTP_run:
  assumes "otp_request_ok E userID channel target"
  obtains s' where
    "CreateOTP E userID channel target ttl s =
       (Ok (''otp_'' @ hex_encode (vn_rand E (vs_randoms s) 8), otp_code), s')"
    and "vs_clock s' = vs_clock s + 2"
    and "vs_otp s' = repo_put (''otp_'' @ hex_encode (vn_rand E (vs_randoms s) 8))
           (issued_challenge E userID channel target ttl (vn_now E (vs_clock s))) (vs_otp s)"
proof -
  let ?ch = "ToLower (vn_lower E) (TrimSpace channel)"
  let ?i = "''otp_'' @ hex_encode (vn_rand E (vs_randoms s) 8)"
  obtain s3 where run: "CreateOTP E userID channel target ttl s =
        go_ignore (dispatchOTP E ?ch target otp_code) (go_return (?i, otp_code)) s3"
      and s3: "vs_clock s3 = vs_clock s + 2"
        "vs_otp s3 = repo_put ?i (issued_challenge E userID channel target ttl (vn_now E (vs_clock s))) (vs_otp s)"
    using assms by (simp add: CreateOTP_def otp_request_ok_def issued_challenge_def Let_def
        cong del: if_cong) fastforce
  obtain r s' where d: "dispatchOTP E ?ch target otp_code s3 = (r, s')" by fastforce
  with dispatchOTP_frame [of E ?ch target otp_code s3]
  have "r \<noteq> Panic" "vs_clock s' = vs_clock s3" "vs_otp s' = vs_otp s3" by auto
  with run d s3 that [of s'] show ?thesis by (cases r) auto
qed

lemma CreateOTP_refused:
  assumes "\<not> otp_request_ok E userID channel target"
  obtains e where "CreateOTP E userID channel target ttl s = (Err e, s)"
proof (cases "userID = [] \<or> target = []")
  case True
  then have "CreateOTP E userID channel target ttl s = (Err ''user_id and target are required'', s)"
    by (simp add: CreateOTP_def Let_def)
  then show ?thesis by (rule that)
next
  case False
  with assms have "CreateOTP E userID channel target ttl s = (Err ''channel must be sms or email'', s)"
    by (simp add: CreateOTP_def otp_request_ok_def Let_def)
  then show ?thesis by (rule that)
qed

text \<open>
  Issuing and checking a code. A request with a user, a target and a known channel is always
  answered with a fresh challenge, and then the issued code is accepted until the challenge
  expires, 300 seconds after a request without a lifetime; any other code is accepted only
  if it hashes alike. The issued code is the constant \<open>123456\<close>. Other requests are refused and
  change nothing.
\<close>

lemma otp_challenge_roundtrip:
  "(otp_request_ok E userID channel target \<longrightarrow>
     (\<exists>i s'. CreateOTP E userID channel target ttl s = (Ok (i, ''123456''), s')
        \<and> (\<forall>otp. otp_accepts E userID i otp s' \<longleftrightarrow>
              vn_now E (vs_clock s + 2) \<le>
                vn_now E (vs_clock s) + wrap64 ((if ttl \<le> 0 then 300 else ttl) * second)
              \<and> hash E (userID @ '':123456'') = hash E (userID @ '':'' @ otp))
        \<and> (\<forall>k. k \<noteq> i \<longrightarrow> repo_get (vs_otp s') k = repo_get (vs_otp s) k)))
   \<and> (\<not> otp_request_ok E userID channel target \<longrightarrow>
        (\<exists>e. CreateOTP E userID channel target ttl s = (Err e, s)))"
proof (intro conjI impI)
  assume "otp_request_ok E userID channel target"
  then obtain s' where c: "CreateOTP E userID channel target ttl s =
       (Ok (''otp_'' @ hex_encode (vn_rand E (vs_randoms s) 8), otp_code), s')"
    and s': "vs_clock s' = vs_clock s + 2"
      "vs_otp s' = repo_put (''otp_'' @ hex_encode (vn_rand E (vs_randoms s) 8))
           (issued_challenge E userID channel target ttl (vn_now E (vs_clock s))) (vs_otp s)"
    by (rule CreateOTP_run)
  show "\<exists>i s'. CreateOTP E userID channel target ttl s = (Ok (i, ''123456''), s')
        \<and> (\<forall>otp. otp_accepts E userID i otp s' \<longleftrightarrow>
              vn_now E (vs_clock s + 2) \<le>
                vn_now E (vs_clock s) + wrap64 ((if ttl \<le> 0 then 300 else ttl) * second)
              \<and> hash E (userID @ '':123456'') = hash E (userID @ '':'' @ otp))
        \<and> (\<forall>k. k \<noteq> i \<longrightarrow> repo_get (vs_otp s') k = repo_get (vs_otp s) k)"
    using c s' by (intro exI [of _ "''otp_'' @ hex_encode (vn_rand E (vs_randoms s) 8)"] exI [of _ s'])
      (simp add: otp_code_def otp_accepts_def)
next
  assume "\<not> otp_request_ok E userID channel target"
  then show "\<exists>e. CreateOTP E userID channel target ttl s = (Err e, s)"
    by (rule CreateOTP_refused) blast
qed

text \<open>The risk score and its level, exactly.\<close>

lemma EvaluateRisk_levels:
  assumes "EvaluateRisk E userID action ip deviceID = (score, level)"
  shows "0 \<le> score \<and> score \<le> 90"
    and "level = ''high'' \<longleftrightarrow> contains (ToLower (vn_lower E) action) ''admin'' \<and> deviceID = []"
    and "level = ''low'' \<longleftrightarrow> \<not> contains (ToLower (vn_lower E) action) ''admin'' \<and> \<not> (deviceID = [] \<and> ip = [])"
  using assms by (auto simp: EvaluateRisk_def Let_def split: if_splits)

text \<open>The latest events, at most as many as asked for and never more than 500.\<close>

lemma ListAudit_suffix:
  "\<exists>older. vs_audits s = older @ ListAudit limit s"
  "length (ListAudit limit s) \<le> 500"
proof -
  show "\<exists>older. vs_audits s = older @ ListAudit limit s"
    by (auto simp: ListAudit_def Let_def) (metis append_take_drop_id)+
  show "length (ListAudit limit s) \<le> 500"
    by (auto simp: ListAudit_def Let_def)
qed


section \<open>A small instance\<close>

definition demo_ver_env :: verification_env where
  "demo_ver_env = \<lparr>vn_sha256 = (\<lambda>s. s), vn_now = (\<lambda>n. int n * second), vn_rand = (\<lambda>_ n. replicate n CHR ''r''),
     vn_lower = (\<lambda>s. s), vn_post = (\<lambda>_ _ _. None), vn_decode_face = (\<lambda>_. None)\<rparr>"

lemma demo_otp_request: "otp_request_ok demo_ver_env ''u'' '' SMS'' ''+1''"
  by (simp add: otp_request_ok_def) code_simp

lemma otp_roundtrip_witness:
  "\<exists>i s'. CreateOTP demo_ver_env ''u'' '' SMS'' ''+1'' 0 (NewVerificationService (\<lambda>_. []))
            = (Ok (i, ''123456''), s')
     \<and> otp_accepts demo_ver_env ''u'' i ''123456'' s'"
proof -
  let ?s = "NewVerificationService (\<lambda>_. [])"
  obtain i s' where c: "CreateOTP demo_ver_env ''u'' '' SMS'' ''+1'' 0 ?s = (Ok (i, ''123456''), s')"
    and a: "otp_accepts demo_ver_env ''u'' i ''123456'' s' \<longleftrightarrow>
              vn_now demo_ver_env (vs_clock ?s + 2) \<le> vn_now demo_ver_env (vs_clock ?s) + wrap64 (300 * second)
              \<and> hash demo_ver_env (''u'' @ '':123456'') = hash demo_ver_env (''u'' @ '':'' @ ''123456'')"
    using otp_challenge_roundtrip [of demo_ver_env "''u''" "'' SMS''" "''+1''" 0 ?s] demo_otp_request
    by auto
  have "wrap64 (300 * second) = 300 * second" by (rule wrap64_id) (simp_all add: second_def)
  then have "otp_accepts demo_ver_env ''u'' i ''123456'' s'"
    unfolding a by (simp add: demo_ver_env_def second_def NewVerificationService_def)
  with c show ?thesis by blast
qed

theorem otp_single_use_witness:
  "\<not> fst (otp_use demo_ver_env ''k'' (''u'', ''1'') (NewVerificationService (\<lambda>_. [])))
   \<and> vs_otp (snd (ver_VerifyOTP demo_ver_env ''u'' ''k'' ''1'' (NewVerificationService (\<lambda>_. [])))) = []"
proof -
  have no: "\<not> otp_accepts demo_ver_env ''u'' ''k'' ''1'' (NewVerificationService (\<lambda>_. []))"
    by (simp add: otp_accepts_def NewVerificationService_def)
  with otp_single_use [of "''k''" demo_ver_env "[]" "NewVerificationService (\<lambda>_. [])" "''u''" "''1''"]
  show ?thesis by (auto simp: otp_use_def NewVerificationService_def split: prod.splits)
qed

end
