(* ===== verification/Email_Http.thy ===== *)
theory Email_Http
  imports Email_Auth Verification
begin

text \<open>
  Auth service: handlers (\<^verbatim>\<open>internal/adapter/inbound/http\<close>: \<^verbatim>\<open>auth_handler.go\<close>,
  \<^verbatim>\<open>verification_handler.go\<close>, \<^verbatim>\<open>health_handler.go\<close>, \<^verbatim>\<open>response.go\<close>), the middleware of
  \<^verbatim>\<open>middleware.go\<close> in the order of \<^verbatim>\<open>internal/app/wire_middleware.go\<close>, and the routes of
  \<^verbatim>\<open>internal/route/auth.go\<close>. The web framework's binding of request structs with their
  validation tags, the CORS package and the error envelope of the guard package are arguments
  (\<open>gin\<close>). A reply holds the headers set when it was written.
\<close>

section \<open>Requests, replies, state\<close>

datatype email_body =
    AuthBody AuthResponse
  | ProfileBody UserProfile
  | ErrorBody string int string string
  | GinH "(string \<times> string) list"
  | VerifiedBody bool
  | FaceBody bool float64
  | RiskBody int string
  | AuditBody "verification_event list"

record email_reply =
  er_status :: int
  er_header :: "string repo"
  er_body :: email_body

record email_request =
  eq_Method :: string
  eq_Header :: "(string \<times> string) list"
  eq_Query :: "(string \<times> string) list"
  eq_Body :: string

record otpCreateRequest =
  xq_UserID :: string
  xq_Channel :: string
  xq_Target :: string
  xq_TTL :: int

record otpVerifyRequest =
  vq_UserID :: string
  vq_ChallengeID :: string
  vq_Code :: string

record faceRequest =
  fq_UserID :: string
  fq_LivenessToken :: string
  fq_SelfieRef :: string

record riskRequest =
  kq_UserID :: string
  kq_Action :: string
  kq_IP :: string
  kq_DeviceID :: string

text \<open>
  The packages: \<^verbatim>\<open>ShouldBindJSON\<close> per request type (its error text, or the struct) on the
  body that could be read and whether reading it failed at the size limit; the status the
  error envelope is sent with; the reply of the CORS package if it answers itself.
\<close>

record gin =
  bind_register :: "string \<Rightarrow> bool \<Rightarrow> string + RegisterEmailRequest"
  bind_login :: "string \<Rightarrow> bool \<Rightarrow> string + LoginEmailRequest"
  bind_token :: "string \<Rightarrow> bool \<Rightarrow> string + string"
  bind_otp :: "string \<Rightarrow> bool \<Rightarrow> string + otpCreateRequest"
  bind_verify :: "string \<Rightarrow> bool \<Rightarrow> string + otpVerifyRequest"
  bind_face :: "string \<Rightarrow> bool \<Rightarrow> string + faceRequest"
  bind_risk :: "string \<Rightarrow> bool \<Rightarrow> string + riskRequest"
  envelope_status :: "string \<Rightarrow> int \<Rightarrow> string \<Rightarrow> int"
  cors_reply :: "email_request \<Rightarrow> email_reply option"
  gin_uuid :: "nat \<Rightarrow> string"
  gin_lower :: "string \<Rightarrow> string"

text \<open>The process state with the headers and the keys (\<^verbatim>\<open>c.Set\<close>) of the current request.\<close>

record 's email_conn =
  ec_email :: "'s email"
  ec_ver :: verification
  ec_header :: "string repo"
  ec_keys :: "string repo"
  ec_uuids :: nat

type_synonym ('s, 'a) ginm = "('s email_conn, string, 'a) go"
type_synonym 's gin_handler = "('s, email_reply) ginm"

definition on_email :: "('s, 'a) eml \<Rightarrow> ('s, 'a) ginm" where
  "on_email m c = (case m (ec_email c) of (r, w) \<Rightarrow> (r, c\<lparr>ec_email := w\<rparr>))"

definition on_ver :: "'a ver \<Rightarrow> ('s, 'a) ginm" where
  "on_ver m c = (case m (ec_ver c) of (r, v) \<Rightarrow> (r, c\<lparr>ec_ver := v\<rparr>))"

definition gin_Header :: "string \<Rightarrow> string \<Rightarrow> ('s, unit) ginm" where
  "gin_Header k v = go_put (\<lambda>c. c\<lparr>ec_header := repo_put k v (ec_header c)\<rparr>)"

definition gin_Set :: "string \<Rightarrow> string \<Rightarrow> ('s, unit) ginm" where
  "gin_Set k v = go_put (\<lambda>c. c\<lparr>ec_keys := repo_put k v (ec_keys c)\<rparr>)"

definition lookup :: "(string \<times> string) list \<Rightarrow> string \<Rightarrow> string" where
  "lookup m k = (case map_of m k of None \<Rightarrow> [] | Some v \<Rightarrow> v)"

definition gin_JSON :: "int \<Rightarrow> email_body \<Rightarrow> 's gin_handler" where
  "gin_JSON status body =
     go_bind (gin_Header ''Content-Type'' ''application/json; charset=utf-8'') (\<lambda>_.
     go_get (\<lambda>c. go_return \<lparr>er_status = status, er_header = ec_header c, er_body = body\<rparr>))"

text \<open>\<^verbatim>\<open>response.go\<close>: the error envelope with the request's identifier.\<close>

definition gin_writeError :: "gin \<Rightarrow> int \<Rightarrow> string \<Rightarrow> string \<Rightarrow> 's gin_handler" where
  "gin_writeError N status errcode msg = go_get (\<lambda>c.
     gin_JSON (envelope_status N errcode status msg)
       (ErrorBody errcode status msg (case repo_get (ec_keys c) ''request_id'' of None \<Rightarrow> [] | Some i \<Rightarrow> i)))"

text \<open>\<^verbatim>\<open>BodyLimitMiddleware(1 << 20)\<close>: what a handler can read of the body.\<close>

definition body_limit :: nat where
  "body_limit = 2 ^ 20"

definition ShouldBindJSON :: "(string \<Rightarrow> bool \<Rightarrow> string + 'a) \<Rightarrow> email_request \<Rightarrow> string + 'a" where
  "ShouldBindJSON dec r = dec (take body_limit (eq_Body r)) (length (eq_Body r) > body_limit)"


section \<open>Authentication handlers\<close>

text \<open>\<open>require e k\<close>: \<^verbatim>\<open>if err := e; err != nil { writeError(400, "invalid_request", err) ... }\<close>\<close>

definition require :: "gin \<Rightarrow> string option \<Rightarrow> 's gin_handler \<Rightarrow> 's gin_handler" where
  "require N e k =
     (case e of Some err \<Rightarrow> gin_writeError N 400 ''invalid_request'' err | None \<Rightarrow> k)"

definition gin_RegisterEmail ::
  "gin \<Rightarrow> email_env \<Rightarrow> 's IdentityGateway \<Rightarrow> email_request \<Rightarrow> 's gin_handler" where
  "gin_RegisterEmail N E G r =
     (case ShouldBindJSON (bind_register N) r of
        Inl err \<Rightarrow> gin_writeError N 400 ''invalid_request'' err
      | Inr req0 \<Rightarrow>
          let req = req0\<lparr>rg_Name := CleanString (rg_Name req0),
                         rg_Email := CleanEmail (gin_lower N) (rg_Email req0)\<rparr>
          in require N (Required ''name'' (rg_Name req))
             (require N (MaxLen ''name'' (rg_Name req) 100)
             (require N (ValidateEmail (rg_Email req))
             (require N (Required ''password'' (rg_Password req))
             (go_try (on_email (RegisterEmail E G req))
                (\<lambda>err. gin_writeError N 400 ''register_failed'' err)
                (\<lambda>res. gin_JSON 201 (AuthBody res)))))))"

definition gin_LoginEmail ::
  "gin \<Rightarrow> email_env \<Rightarrow> 's IdentityGateway \<Rightarrow> email_request \<Rightarrow> 's gin_handler" where
  "gin_LoginEmail N E G r =
     (case ShouldBindJSON (bind_login N) r of
        Inl err \<Rightarrow> gin_writeError N 400 ''invalid_request'' err
      | Inr req0 \<Rightarrow>
          let req = req0\<lparr>lg_Email := CleanEmail (gin_lower N) (lg_Email req0)\<rparr>
          in require N (ValidateEmail (lg_Email req))
             (require N (Required ''password'' (lg_Password req))
             (go_try (on_email (LoginEmail E G req))
                (\<lambda>err. gin_writeError N 401 ''auth_failed'' err)
                (\<lambda>res. gin_JSON 200 (AuthBody res)))))"

definition gin_RefreshToken ::
  "gin \<Rightarrow> email_env \<Rightarrow> 's IdentityGateway \<Rightarrow> email_request \<Rightarrow> 's gin_handler" where
  "gin_RefreshToken N E G r =
     (case ShouldBindJSON (bind_token N) r of
        Inl err \<Rightarrow> gin_writeError N 400 ''invalid_request'' err
      | Inr tok0 \<Rightarrow>
          let tok = CleanString tok0
          in require N (Required ''refresh_token'' tok)
             (go_try (on_email (email_RefreshToken E G tok))
                (\<lambda>err. gin_writeError N 401 ''refresh_failed'' err)
                (\<lambda>res. gin_JSON 200 (AuthBody res))))"

definition gin_Logout :: "gin \<Rightarrow> email_request \<Rightarrow> 's gin_handler" where
  "gin_Logout N r =
     (case ShouldBindJSON (bind_token N) r of
        Inl err \<Rightarrow> gin_writeError N 400 ''invalid_request'' err
      | Inr tok0 \<Rightarrow>
          let tok = CleanString tok0
          in require N (Required ''refresh_token'' tok)
             (go_try (on_email (email_Logout tok))
                (\<lambda>err. gin_writeError N 400 ''logout_failed'' err)
                (\<lambda>_. gin_JSON 200 (GinH [(''status'', ''logged_out'')]))))"

definition gin_Me :: "gin \<Rightarrow> email_env \<Rightarrow> 's gin_handler" where
  "gin_Me N E = go_get (\<lambda>c.
     case repo_get (ec_keys c) ''access_token'' of
       None \<Rightarrow> gin_writeError N 401 ''unauthorized'' ''missing access token''
     | Some token \<Rightarrow>
         go_try (on_email (Me E token)) (\<lambda>err. gin_writeError N 401 ''invalid_token'' err)
           (\<lambda>profile. gin_JSON 200 (ProfileBody profile)))"


section \<open>Verification handlers\<close>

definition gin_CreateOTP :: "gin \<Rightarrow> verification_env \<Rightarrow> email_request \<Rightarrow> 's gin_handler" where
  "gin_CreateOTP N V r =
     (case ShouldBindJSON (bind_otp N) r of
        Inl _ \<Rightarrow> gin_writeError N 400 ''invalid_request'' ''invalid payload''
      | Inr req \<Rightarrow>
          go_try (on_ver (CreateOTP V (xq_UserID req) (xq_Channel req) (xq_Target req) (xq_TTL req)))
            (\<lambda>err. gin_writeError N 400 ''otp_create_failed'' err)
            (\<lambda>(i, otp). gin_JSON 201 (GinH [(''challenge_id'', i), (''dev_code'', otp)])))"

definition gin_VerifyOTP :: "gin \<Rightarrow> verification_env \<Rightarrow> email_request \<Rightarrow> 's gin_handler" where
  "gin_VerifyOTP N V r =
     (case ShouldBindJSON (bind_verify N) r of
        Inl _ \<Rightarrow> gin_writeError N 400 ''invalid_request'' ''invalid payload''
      | Inr req \<Rightarrow>
          go_try (on_ver (ver_VerifyOTP V (vq_UserID req) (vq_ChallengeID req) (vq_Code req)))
            (\<lambda>err. gin_writeError N 400 ''otp_verify_failed'' err)
            (\<lambda>ok. gin_JSON 200 (VerifiedBody ok)))"

definition gin_VerifyFace :: "gin \<Rightarrow> verification_env \<Rightarrow> email_request \<Rightarrow> 's gin_handler" where
  "gin_VerifyFace N V r =
     (case ShouldBindJSON (bind_face N) r of
        Inl _ \<Rightarrow> gin_writeError N 400 ''invalid_request'' ''invalid payload''
      | Inr req \<Rightarrow>
          go_try (on_ver (VerifyFace V (fq_UserID req) (fq_LivenessToken req) (fq_SelfieRef req)))
            (\<lambda>err. gin_writeError N 400 ''face_verify_failed'' err)
            (\<lambda>(approved, score). gin_JSON 200 (FaceBody approved score)))"

definition gin_EvaluateRisk :: "gin \<Rightarrow> verification_env \<Rightarrow> email_request \<Rightarrow> 's gin_handler" where
  "gin_EvaluateRisk N V r =
     (case ShouldBindJSON (bind_risk N) r of
        Inl _ \<Rightarrow> gin_writeError N 400 ''invalid_request'' ''invalid payload''
      | Inr req \<Rightarrow>
          (case EvaluateRisk V (kq_UserID req) (kq_Action req) (kq_IP req) (kq_DeviceID req) of
             (score, level) \<Rightarrow> gin_JSON 200 (RiskBody score level)))"

text \<open>\<^verbatim>\<open>c.DefaultQuery("limit", "100")\<close>: the default applies to an absent key only.\<close>

definition gin_ListAudit :: "email_request \<Rightarrow> 's gin_handler" where
  "gin_ListAudit r =
     (let limit = Atoi_value (case map_of (eq_Query r) ''limit'' of None \<Rightarrow> ''100'' | Some v \<Rightarrow> v)
      in go_get (\<lambda>c. gin_JSON 200 (AuditBody (ListAudit limit (ec_ver c)))))"


section \<open>Health and bearer tokens\<close>

definition gin_Health :: "'s gin_handler" where
  "gin_Health = gin_JSON 200 (GinH [(''status'', ''ok''), (''service'', ''auth-service'')])"

definition gin_Ready :: "gin \<Rightarrow> 's IdentityGateway \<Rightarrow> 's gin_handler" where
  "gin_Ready N G =
     go_try (on_email (on_store (gw_Health G)))
       (\<lambda>_. gin_writeError N 503 ''dependency_unavailable'' ''identity service unavailable'')
       (\<lambda>_. gin_JSON 200 (GinH [(''status'', ''ready'')]))"

text \<open>\<^verbatim>\<open>authz[7:]\<close> panics on a shorter string.\<close>

definition AuthBearerMiddleware :: "gin \<Rightarrow> email_request \<Rightarrow> 's gin_handler \<Rightarrow> 's gin_handler" where
  "AuthBearerMiddleware N r next =
     (let authz = TrimSpace (lookup (eq_Header r) ''Authorization'')
      in if authz = [] \<or> \<not> has_prefix (ToLower (gin_lower N) authz) ''bearer ''
         then gin_writeError N 401 ''unauthorized'' ''missing bearer token''
         else if length authz < 7 then go_panic
         else
           let token = TrimSpace (drop 7 authz)
           in if token = [] then gin_writeError N 401 ''unauthorized'' ''invalid bearer token''
              else go_bind (gin_Set ''access_token'' token) (\<lambda>_. next))"


section \<open>Middleware and routes\<close>

definition RequestIDMiddleware :: "gin \<Rightarrow> email_request \<Rightarrow> 's gin_handler \<Rightarrow> 's gin_handler" where
  "RequestIDMiddleware N r next =
     (let i = lookup (eq_Header r) ''X-Request-ID''
      in go_bind (if i = [] then go_get (\<lambda>c. go_bind (go_put (\<lambda>c. c\<lparr>ec_uuids := ec_uuids c + 1\<rparr>))
                                    (\<lambda>_. go_return (gin_uuid N (ec_uuids c))))
                  else go_return i) (\<lambda>i.
         go_bind (gin_Set ''request_id'' i) (\<lambda>_.
         go_bind (gin_Header ''X-Request-ID'' i) (\<lambda>_. next))))"

definition RecoveryMiddleware :: "gin \<Rightarrow> 's gin_handler \<Rightarrow> 's gin_handler" where
  "RecoveryMiddleware N next c =
     (case next c of
        (Panic, c') \<Rightarrow> gin_writeError N 500 ''internal_error'' ''internal server error'' c'
      | (r, c') \<Rightarrow> (r, c'))"

definition SecurityHeadersMiddleware :: "'s gin_handler \<Rightarrow> 's gin_handler" where
  "SecurityHeadersMiddleware next =
     go_bind (gin_Header ''X-Content-Type-Options'' ''nosniff'') (\<lambda>_.
     go_bind (gin_Header ''X-Frame-Options'' ''DENY'') (\<lambda>_.
     go_bind (gin_Header ''Referrer-Policy'' ''no-referrer'') (\<lambda>_. next)))"

text \<open>The idempotency, audit and rate-limit middleware of this file pass the request on.\<close>

definition RateLimitMiddleware :: "'s gin_handler \<Rightarrow> 's gin_handler" where
  "RateLimitMiddleware next = next"

definition IdempotencyMiddleware :: "'s gin_handler \<Rightarrow> 's gin_handler" where
  "IdempotencyMiddleware next = next"

definition AuditMiddleware :: "'s gin_handler \<Rightarrow> 's gin_handler" where
  "AuditMiddleware next = next"

text \<open>The latency header is set after the reply was written (\<open>latency\<close> is its text).\<close>

definition AccessLogMiddleware :: "string \<Rightarrow> 's gin_handler \<Rightarrow> 's gin_handler" where
  "AccessLogMiddleware latency next =
     go_bind next (\<lambda>rep.
     go_bind (gin_Header ''X-Auth-Service-Latency-Ms'' latency) (\<lambda>_. go_return rep))"

datatype email_endpoint =
    GetHealth | GetReady
  | PostRegisterEmail | PostLoginEmail | PostRefresh | PostEmailLogout
  | GetMe
  | PostOTPChallenges | PostOTPCheck | PostFaceVerify | PostRiskEvaluate | GetAuditEvents

definition email_handler ::
  "gin \<Rightarrow> email_env \<Rightarrow> verification_env \<Rightarrow> 's IdentityGateway \<Rightarrow> email_endpoint \<Rightarrow> email_request
     \<Rightarrow> 's gin_handler" where
  "email_handler N E V G ep r = (case ep of
     GetHealth \<Rightarrow> gin_Health
   | GetReady \<Rightarrow> gin_Ready N G
   | PostRegisterEmail \<Rightarrow> gin_RegisterEmail N E G r
   | PostLoginEmail \<Rightarrow> gin_LoginEmail N E G r
   | PostRefresh \<Rightarrow> gin_RefreshToken N E G r
   | PostEmailLogout \<Rightarrow> gin_Logout N r
   | GetMe \<Rightarrow> AuthBearerMiddleware N r (gin_Me N E)
   | PostOTPChallenges \<Rightarrow> gin_CreateOTP N V r
   | PostOTPCheck \<Rightarrow> gin_VerifyOTP N V r
   | PostFaceVerify \<Rightarrow> gin_VerifyFace N V r
   | PostRiskEvaluate \<Rightarrow> gin_EvaluateRisk N V r
   | GetAuditEvents \<Rightarrow> gin_ListAudit r)"

definition cors :: "gin \<Rightarrow> email_request \<Rightarrow> 's gin_handler \<Rightarrow> 's gin_handler" where
  "cors N r next = (case cors_reply N r of Some rep \<Rightarrow> go_return rep | None \<Rightarrow> next)"

text \<open>One request, through the middleware in the order it is installed.\<close>

definition email_serve ::
  "gin \<Rightarrow> email_env \<Rightarrow> verification_env \<Rightarrow> 's IdentityGateway \<Rightarrow> string \<Rightarrow> email_endpoint \<Rightarrow> email_request
     \<Rightarrow> 's gin_handler" where
  "email_serve N E V G latency ep r =
     go_bind (go_put (\<lambda>c. c\<lparr>ec_header := [], ec_keys := []\<rparr>)) (\<lambda>_.
     RequestIDMiddleware N r (RecoveryMiddleware N (SecurityHeadersMiddleware
       (IdempotencyMiddleware (AuditMiddleware (RateLimitMiddleware (AccessLogMiddleware latency
         (cors N r (email_handler N E V G ep r)))))))))"

definition Bootstrap :: "os_env \<Rightarrow> LocalIdentityStore email_conn" where
  "Bootstrap os =
     \<lparr>ec_email = \<lparr>em_store = NewLocalIdentityStore, em_clock = 0, em_salts = 0, em_metrics = []\<rparr>,
      ec_ver = NewVerificationService os, ec_header = [], ec_keys = [], ec_uuids = 0\<rparr>"

end
