(* ===== verification/Email_Middleware.thy ===== *)
theory Email_Middleware
  imports Email_Http
begin

text \<open>
  Auth service: the audit and idempotency middleware of \<^verbatim>\<open>audit.go\<close> and \<^verbatim>\<open>idempotency.go\<close>. The
  packages they build on are not in the repository: the audit logger is a list of the entries
  handed to it, the idempotency manager is an argument with its own state. They work on pairs
  of the connection state and that state.
\<close>

section \<open>Methods and statuses\<close>

datatype audit_action = ActionCreate | ActionUpdate | ActionDelete | ActionRead
datatype audit_outcome = OutcomeSuccess | OutcomeDenied | OutcomeFailure
datatype audit_severity = SeverityCritical | SeverityWarning | SeverityInfo

definition auditActionFromMethod :: "string \<Rightarrow> audit_action" where
  "auditActionFromMethod m =
     (if m = ''POST'' then ActionCreate
      else if m = ''PUT'' \<or> m = ''PATCH'' then ActionUpdate
      else if m = ''DELETE'' then ActionDelete
      else ActionRead)"

definition auditOutcomeFromStatus :: "int \<Rightarrow> audit_outcome" where
  "auditOutcomeFromStatus status =
     (if status \<ge> 200 \<and> status < 300 then OutcomeSuccess
      else if status = 403 \<or> status = 401 then OutcomeDenied
      else OutcomeFailure)"

definition auditSeverityFromStatus :: "int \<Rightarrow> audit_severity" where
  "auditSeverityFromStatus status =
     (if status \<ge> 500 then SeverityCritical else if status \<ge> 400 then SeverityWarning else SeverityInfo)"

definition isSafeMethod :: "string \<Rightarrow> bool" where
  "isSafeMethod m \<longleftrightarrow> m = ''GET'' \<or> m = ''HEAD'' \<or> m = ''OPTIONS''"

definition isMutatingMethod :: "string \<Rightarrow> bool" where
  "isMutatingMethod m \<longleftrightarrow> m = ''POST'' \<or> m = ''PUT'' \<or> m = ''PATCH'' \<or> m = ''DELETE''"

fun coalesce :: "string list \<Rightarrow> string" where
  "coalesce [] = []"
| "coalesce (v # vs) = (if v \<noteq> [] then v else coalesce vs)"

definition routeOrPath :: "string \<Rightarrow> string \<Rightarrow> string" where
  "routeOrPath fullPath path = (if fullPath \<noteq> [] then fullPath else path)"

lemma mutating_not_safe: "isMutatingMethod m \<Longrightarrow> \<not> isSafeMethod m"
  by (auto simp: isMutatingMethod_def isSafeMethod_def)

lemma denied_is_warning:
  "auditOutcomeFromStatus status = OutcomeDenied \<Longrightarrow> auditSeverityFromStatus status = SeverityWarning"
  by (auto simp: auditOutcomeFromStatus_def auditSeverityFromStatus_def split: if_splits)

lemma critical_is_failure:
  "auditSeverityFromStatus status = SeverityCritical \<Longrightarrow> auditOutcomeFromStatus status = OutcomeFailure"
  by (auto simp: auditOutcomeFromStatus_def auditSeverityFromStatus_def split: if_splits)


section \<open>The audit middleware\<close>

record audit_entry =
  au_RequestID :: string
  au_CorrelationID :: string
  au_UserID :: string
  au_Action :: audit_action
  au_Outcome :: audit_outcome
  au_Severity :: audit_severity
  au_Operation :: string
  au_Method :: string
  au_Status :: int
  au_Error :: "string option"

text \<open>What the middleware knows of the request beside its headers, and \<^verbatim>\<open>http.StatusText\<close>.\<close>

record audit_request =
  aw_FullPath :: string
  aw_Path :: string
  aw_StatusText :: "int \<Rightarrow> string"

definition key_of :: "'s email_conn \<Rightarrow> string \<Rightarrow> string" where
  "key_of c k = (case repo_get (ec_keys c) k of None \<Rightarrow> [] | Some v \<Rightarrow> v)"

definition enterprise_AuditMiddleware ::
  "audit_request \<Rightarrow> email_request \<Rightarrow> 's gin_handler
     \<Rightarrow> ('s email_conn \<times> audit_entry list, string, email_reply) go" where
  "enterprise_AuditMiddleware a r next s =
     (case s of (c, log) \<Rightarrow>
      let requestID = key_of c ''request_id'';
          userID = key_of c ''user_id'';
          op = routeOrPath (aw_FullPath a) (aw_Path a)
      in case next c of
           (Ok rep, c') \<Rightarrow>
             (let status = er_status rep
              in if isSafeMethod (eq_Method r) \<and> status < 400 then (Ok rep, (c', log))
                 else (Ok rep, (c', log @
                   [\<lparr>au_RequestID = requestID,
                     au_CorrelationID = coalesce [lookup (eq_Header r) ''X-Correlation-ID'', requestID],
                     au_UserID = userID,
                     au_Action = auditActionFromMethod (eq_Method r),
                     au_Outcome = auditOutcomeFromStatus status,
                     au_Severity = auditSeverityFromStatus status,
                     au_Operation = op, au_Method = eq_Method r, au_Status = status,
                     au_Error = (if status \<ge> 400 then Some (aw_StatusText a status) else None)\<rparr>])))
         | (Err e, c') \<Rightarrow> (Err e, (c', log))
         | (Panic, c') \<Rightarrow> (Panic, (c', log)))"

text \<open>
  Every answered request that changes something or fails is recorded once, with the status it
  was answered with; reads that succeed are not. The reply itself is passed through.
\<close>

lemma audit_middleware_records:
  assumes "next c = (Ok rep, c')"
  obtains entries where
    "enterprise_AuditMiddleware a r next (c, log) = (Ok rep, (c', log @ entries))"
    and "length entries = (if isSafeMethod (eq_Method r) \<and> er_status rep < 400 then 0 else 1)"
    and "\<forall>e \<in> set entries. au_Status e = er_status rep \<and> au_Method e = eq_Method r
           \<and> (au_Error e = None \<longleftrightarrow> er_status rep < 400)"
  using assms that by (cases "isSafeMethod (eq_Method r) \<and> er_status rep < 400")
    (auto simp: enterprise_AuditMiddleware_def Let_def)


section \<open>The idempotency middleware\<close>

record cachedHTTPResponse =
  cb_Status :: int
  cb_ContentType :: string
  cb_Body :: email_body

record idempotency_request =
  iq_Key :: string
  iq_Namespace :: string
  iq_Method :: string
  iq_Route :: string
  iq_Body :: string
  iq_UserID :: string
  iq_TTL :: int

datatype evaluation = KeyConflict | RequestInFlight | EvaluationError | CachedResult int | FreshResult

record 'k idempotency_manager =
  Evaluate :: "idempotency_request \<Rightarrow> 'k \<Rightarrow> evaluation \<times> 'k"
  GetCachedResponse :: "string \<Rightarrow> string \<Rightarrow> 'k \<Rightarrow> cachedHTTPResponse option"
  Fail :: "string \<Rightarrow> string \<Rightarrow> int \<Rightarrow> 'k \<Rightarrow> 'k"
  Complete :: "string \<Rightarrow> string \<Rightarrow> cachedHTTPResponse \<Rightarrow> int \<Rightarrow> 'k \<Rightarrow> 'k"

definition on_conn :: "'s gin_handler \<Rightarrow> ('s email_conn \<times> 'k, string, email_reply) go" where
  "on_conn m s = (case m (fst s) of (r, c) \<Rightarrow> (r, (c, snd s)))"

definition idempotency_TTL :: "int \<Rightarrow> int" where
  "idempotency_TTL ttl = (if ttl \<le> 0 then 10 * minute else ttl)"

definition enterprise_IdempotencyMiddleware ::
  "gin \<Rightarrow> 'k idempotency_manager \<Rightarrow> int \<Rightarrow> audit_request \<Rightarrow> email_request \<Rightarrow> 's gin_handler
     \<Rightarrow> ('s email_conn \<times> 'k, string, email_reply) go" where
  "enterprise_IdempotencyMiddleware N I ttl a r next =
     (let key = lookup (eq_Header r) ''Idempotency-Key'';
          route = routeOrPath (aw_FullPath a) (aw_Path a)
      in if \<not> isMutatingMethod (eq_Method r) \<or> key = [] then on_conn next
         else if length (eq_Body r) > body_limit
         then on_conn (gin_writeError N 400 ''invalid_request_body'' ''failed to read request body'')
         else go_get (\<lambda>s.
           case Evaluate I \<lparr>iq_Key = key, iq_Namespace = ''http'', iq_Method = eq_Method r,
                            iq_Route = route, iq_Body = eq_Body r,
                            iq_UserID = key_of (fst s) ''user_id'',
                            iq_TTL = idempotency_TTL ttl\<rparr> (snd s) of
             (ev, k) \<Rightarrow>
               go_bind (go_put (\<lambda>s. (fst s, k))) (\<lambda>_.
               case ev of
                 KeyConflict \<Rightarrow> on_conn (gin_writeError N 409 ''idempotency_conflict''
                    ''idempotency key was reused with a different payload'')
               | RequestInFlight \<Rightarrow> on_conn (gin_writeError N 409 ''idempotency_in_flight''
                    ''an identical request is already being processed'')
               | EvaluationError \<Rightarrow> on_conn (gin_writeError N 500 ''idempotency_failed''
                    ''failed to evaluate idempotency state'')
               | CachedResult status \<Rightarrow>
                   (case GetCachedResponse I ''http'' key k of
                      Some cached \<Rightarrow>
                        (let contentType = (if cb_ContentType cached = [] then ''application/json''
                                            else cb_ContentType cached)
                         in on_conn (go_bind (gin_Header ''Content-Type'' contentType) (\<lambda>_.
                              go_get (\<lambda>c. go_return \<lparr>er_status = cb_Status cached,
                                 er_header = ec_header c, er_body = cb_Body cached\<rparr>))))
                    | None \<Rightarrow> on_conn (go_get (\<lambda>c. go_return \<lparr>er_status = status,
                                 er_header = ec_header c, er_body = GinH []\<rparr>)))
               | FreshResult \<Rightarrow>
                   go_bind (on_conn next) (\<lambda>rep.
                   go_bind (go_put (\<lambda>s. (fst s,
                     if er_status rep \<ge> 500 then Fail I ''http'' key (er_status rep) (snd s)
                     else Complete I ''http'' key
                            \<lparr>cb_Status = er_status rep,
                             cb_ContentType = (case repo_get (ec_header (fst s)) ''Content-Type'' of
                                                 None \<Rightarrow> [] | Some t \<Rightarrow> t),
                             cb_Body = er_body rep\<rparr> (er_status rep) (snd s)))) (\<lambda>_.
                   go_return rep)))))"

text \<open>
  A repeated request is answered from the cache and does not reach the handler: whatever the
  handler is, the reply is the stored one and the services' state is as before.
\<close>

lemma idempotent_replay:
  assumes "isMutatingMethod (eq_Method r)" and "lookup (eq_Header r) ''Idempotency-Key'' = key" and "key \<noteq> []"
    and "length (eq_Body r) \<le> body_limit"
    and "Evaluate I \<lparr>iq_Key = key, iq_Namespace = ''http'', iq_Method = eq_Method r,
           iq_Route = routeOrPath (aw_FullPath a) (aw_Path a), iq_Body = eq_Body r,
           iq_UserID = key_of c ''user_id'', iq_TTL = idempotency_TTL ttl\<rparr> k = (CachedResult st, k')"
    and "GetCachedResponse I ''http'' key k' = Some cached"
  obtains rep c' where "enterprise_IdempotencyMiddleware N I ttl a r next (c, k) = (Ok rep, (c', k'))"
    and "er_status rep = cb_Status cached" and "er_body rep = cb_Body cached"
    and "ec_email c' = ec_email c" and "ec_ver c' = ec_ver c"
  using assms that
  by (simp add: enterprise_IdempotencyMiddleware_def on_conn_def gin_Header_def Let_def)

text \<open>A fresh request runs once, and a reply below 500 is stored as it was sent.\<close>

lemma idempotent_fresh:
  assumes "isMutatingMethod (eq_Method r)" and "lookup (eq_Header r) ''Idempotency-Key'' = key" and "key \<noteq> []"
    and "length (eq_Body r) \<le> body_limit"
    and "Evaluate I \<lparr>iq_Key = key, iq_Namespace = ''http'', iq_Method = eq_Method r,
           iq_Route = routeOrPath (aw_FullPath a) (aw_Path a), iq_Body = eq_Body r,
           iq_UserID = key_of c ''user_id'', iq_TTL = idempotency_TTL ttl\<rparr> k = (FreshResult, k')"
    and "next c = (Ok rep, c')" and "er_status rep < 500"
  obtains cached where
    "enterprise_IdempotencyMiddleware N I ttl a r next (c, k) =
       (Ok rep, (c', Complete I ''http'' key cached (er_status rep) k'))"
    and "cb_Status cached = er_status rep" and "cb_Body cached = er_body rep"
  using assms that
  by (simp add: enterprise_IdempotencyMiddleware_def on_conn_def Let_def)

end
