(* ===== verification/Session_Engine.thy ===== *)
theory Session_Engine
  imports Go_Text
begin

text \<open>
  Auth service, shared packages: the session engine (\<^verbatim>\<open>pkg/authengine\<close>), the health checker
  (\<^verbatim>\<open>pkg/health\<close>) and the business counters (\<^verbatim>\<open>pkg/metrics\<close>). Each method holds its mutex
  throughout and is one step; the order in which a map is ranged over is an argument.
\<close>

section \<open>The session engine\<close>

record engine_session =
  es_ID :: string
  es_UserID :: string
  es_RefreshToken :: string
  es_ExpiresAt :: int
  es_CreatedAt :: int

record engine_env =
  en_now :: "nat \<Rightarrow> int"
  en_rand :: "nat \<Rightarrow> string"

record Engine =
  en_sessions :: "engine_session repo"
  en_revoked :: "int repo"
  en_clock :: nat
  en_randoms :: nat

type_synonym 'a eng = "(Engine, string, 'a) go"

definition NewEngine :: Engine where
  "NewEngine = \<lparr>en_sessions = [], en_revoked = [], en_clock = 0, en_randoms = 0\<rparr>"

definition engine_Now :: "engine_env \<Rightarrow> int eng" where
  "engine_Now E = go_get (\<lambda>s. go_bind (go_put (\<lambda>s. s\<lparr>en_clock := en_clock s + 1\<rparr>))
     (\<lambda>_. go_return (en_now E (en_clock s))))"

definition randomID :: "engine_env \<Rightarrow> string \<Rightarrow> string eng" where
  "randomID E prefix = go_get (\<lambda>s. go_bind (go_put (\<lambda>s. s\<lparr>en_randoms := en_randoms s + 1\<rparr>))
     (\<lambda>_. go_return (prefix @ ''_'' @ hex_encode (en_rand E (en_randoms s)))))"

definition CreateSession :: "engine_env \<Rightarrow> string \<Rightarrow> string \<Rightarrow> int \<Rightarrow> engine_session eng" where
  "CreateSession E userID refreshToken ttl =
     (if TrimSpace userID = [] then go_fail ''user_id required''
      else
        go_bind (randomID E ''sess'') (\<lambda>i.
        go_bind (engine_Now E) (\<lambda>now1.
        go_bind (engine_Now E) (\<lambda>now2.
        let s = \<lparr>es_ID = i, es_UserID = userID, es_RefreshToken = refreshToken,
                 es_ExpiresAt = now1 + ttl, es_CreatedAt = now2\<rparr>
        in go_bind (go_put (\<lambda>e. e\<lparr>en_sessions := repo_put i s (en_sessions e)\<rparr>)) (\<lambda>_.
           go_return s)))))"

definition RevokeRefreshToken :: "engine_env \<Rightarrow> string \<Rightarrow> unit eng" where
  "RevokeRefreshToken E token =
     go_bind (engine_Now E) (\<lambda>now. go_put (\<lambda>e. e\<lparr>en_revoked := repo_put token now (en_revoked e)\<rparr>))"

definition IsRefreshTokenRevoked :: "string \<Rightarrow> Engine \<Rightarrow> bool" where
  "IsRefreshTokenRevoked token e \<longleftrightarrow> repo_get (en_revoked e) token \<noteq> None"

definition engine_Cleanup :: "int \<Rightarrow> unit eng" where
  "engine_Cleanup now =
     go_put (\<lambda>e. e\<lparr>en_sessions := repo_drop (\<lambda>s. now > es_ExpiresAt s) (en_sessions e)\<rparr>)"

datatype engine_op = OpCreate string string int | OpRevoke string | OpCleanup int

fun engine_step :: "engine_env \<Rightarrow> engine_op \<Rightarrow> Engine \<Rightarrow> Engine" where
  "engine_step E (OpCreate u t d) e = snd (CreateSession E u t d e)"
| "engine_step E (OpRevoke t) e = snd (RevokeRefreshToken E t e)"
| "engine_step E (OpCleanup now) e = snd (engine_Cleanup now e)"

definition engine_wf :: "Engine \<Rightarrow> bool" where
  "engine_wf e \<longleftrightarrow> repo_wf es_ID (en_sessions e)"

lemma engine_Now_apply [simp]:
  "engine_Now E s = (Ok (en_now E (en_clock s)), s\<lparr>en_clock := en_clock s + 1\<rparr>)"
  by (simp add: engine_Now_def)

lemma randomID_apply [simp]:
  "randomID E p s = (Ok (p @ ''_'' @ hex_encode (en_rand E (en_randoms s))), s\<lparr>en_randoms := en_randoms s + 1\<rparr>)"
  by (simp add: randomID_def)

lemma engine_step_wf: "engine_wf e \<Longrightarrow> engine_wf (engine_step E op e)"
  by (cases op) (auto simp: engine_wf_def CreateSession_def RevokeRefreshToken_def engine_Cleanup_def
      Let_def repo_wf_put repo_wf_drop)

text \<open>A revoked token stays revoked, whatever the engine does afterwards.\<close>

lemma engine_revoked_forever:
  assumes "IsRefreshTokenRevoked t e"
  shows "IsRefreshTokenRevoked t (fold (engine_step E) ops e)"
  using assms
proof (induction ops arbitrary: e)
  case (Cons op ops)
  have "IsRefreshTokenRevoked t (engine_step E op e)"
    using Cons.prems by (cases op) (auto simp: IsRefreshTokenRevoked_def CreateSession_def
        RevokeRefreshToken_def engine_Cleanup_def Let_def)
  with Cons.IH show ?case by simp
qed simp

text \<open>The clean-up removes exactly the expired sessions.\<close>

lemma engine_Cleanup_exact:
  assumes "engine_wf e"
  shows "repo_get (en_sessions (snd (engine_Cleanup now e))) i =
           (case repo_get (en_sessions e) i of
              None \<Rightarrow> None
            | Some s \<Rightarrow> if now > es_ExpiresAt s then None else Some s)"
  using assms by (simp add: engine_Cleanup_def repo_get_drop engine_wf_def repo_wf_def)


section \<open>The health checker\<close>

text \<open>
  A check returns nil (\<open>None\<close>) or an error text. \<open>order\<close> is the order in which the map of
  checks is ranged over.
\<close>

record Checker =
  hc_service :: string
  hc_version :: string
  hc_checks :: "(string option) repo"

definition NewChecker :: "string \<Rightarrow> string \<Rightarrow> Checker" where
  "NewChecker service version = \<lparr>hc_service = service, hc_version = version, hc_checks = []\<rparr>"

definition Register :: "string \<Rightarrow> string option \<Rightarrow> Checker \<Rightarrow> Checker" where
  "Register name fn c = c\<lparr>hc_checks := repo_put name fn (hc_checks c)\<rparr>"

definition LiveHandler :: "Checker \<Rightarrow> int \<times> (string \<times> string) list" where
  "LiveHandler c = (200, [(''status'', ''ok''), (''service'', hc_service c), (''version'', hc_version c)])"

fun run_checks :: "string list \<Rightarrow> Checker \<Rightarrow> string repo \<Rightarrow> bool \<Rightarrow> string repo \<times> bool" where
  "run_checks [] c deps ok = (deps, ok)"
| "run_checks (name # names) c deps ok =
     (case repo_get (hc_checks c) name of
        None \<Rightarrow> run_checks names c deps ok
      | Some (Some err) \<Rightarrow> run_checks names c (repo_put name err deps) False
      | Some None \<Rightarrow> run_checks names c (repo_put name ''ok'' deps) ok)"

definition ReadyHandler :: "(string list \<Rightarrow> string list) \<Rightarrow> Checker \<Rightarrow> int \<times> string \<times> string repo" where
  "ReadyHandler order c =
     (let (deps, ok) = run_checks (order (map fst (hc_checks c))) c [] True
      in if ok then (200, ''ready'', deps) else (503, ''not_ready'', deps))"

lemma run_checks_ok:
  "snd (run_checks names c deps ok) \<longleftrightarrow>
     ok \<and> (\<forall>name \<in> set names. \<forall>err. repo_get (hc_checks c) name \<noteq> Some (Some err))"
  by (induction names c deps ok rule: run_checks.induct) (auto split: option.splits)

lemma run_checks_deps:
  "repo_get (fst (run_checks names c deps ok)) name =
     (if name \<in> set names
      then (case repo_get (hc_checks c) name of
              None \<Rightarrow> repo_get deps name
            | Some None \<Rightarrow> Some ''ok''
            | Some (Some err) \<Rightarrow> Some err)
      else repo_get deps name)"
  by (induction names c deps ok rule: run_checks.induct) (auto split: option.splits)

text \<open>
  Whatever the order, the service is ready exactly if no registered check fails, and every
  check is reported under its name.
\<close>

lemma ReadyHandler_iff:
  assumes "set (order (map fst (hc_checks c))) = set (map fst (hc_checks c))"
  shows "fst (ReadyHandler order c) = 200 \<longleftrightarrow>
           (\<forall>name err. repo_get (hc_checks c) name \<noteq> Some (Some err))"
    and "repo_get (snd (snd (ReadyHandler order c))) name =
           map_option (case_option ''ok'' (\<lambda>err. err)) (repo_get (hc_checks c) name)"
proof -
  let ?names = "order (map fst (hc_checks c))"
  have known: "name \<in> set ?names" if "repo_get (hc_checks c) name \<noteq> None" for name
    using that assms by (auto simp: repo_get_def map_of_eq_None_iff)
  have "snd (run_checks ?names c [] True) \<longleftrightarrow> (\<forall>name err. repo_get (hc_checks c) name \<noteq> Some (Some err))"
    unfolding run_checks_ok using known by blast
  then show "fst (ReadyHandler order c) = 200 \<longleftrightarrow> (\<forall>name err. repo_get (hc_checks c) name \<noteq> Some (Some err))"
    by (simp add: ReadyHandler_def Let_def case_prod_beta)
  have "repo_get (fst (run_checks ?names c [] True)) name =
      map_option (case_option ''ok'' (\<lambda>err. err)) (repo_get (hc_checks c) name)"
    using known [of name] by (simp add: run_checks_deps split: option.splits)
  then show "repo_get (snd (snd (ReadyHandler order c))) name =
      map_option (case_option ''ok'' (\<lambda>err. err)) (repo_get (hc_checks c) name)"
    by (simp add: ReadyHandler_def Let_def case_prod_beta)
qed


section \<open>Business counters\<close>

text \<open>The calls made on the metrics registry, in order; \<open>mt_once\<close> guards the first.\<close>

datatype registry_call = RegSet string int | RegInc string

record metrics =
  mt_once :: bool
  mt_calls :: "registry_call list"

definition initMetrics :: "metrics \<Rightarrow> metrics" where
  "initMetrics m = (if mt_once m then m
     else m\<lparr>mt_once := True, mt_calls := mt_calls m @ [RegSet ''auth_service.info'' 1]\<rparr>)"

definition record_outcome :: "string \<Rightarrow> bool \<Rightarrow> metrics \<Rightarrow> metrics" where
  "record_outcome area success m0 =
     (let m = initMetrics m0
      in m\<lparr>mt_calls := mt_calls m @
             [RegInc (''auth.'' @ area @ ''.total''),
              RegInc (''auth.'' @ area @ (if success then ''.success'' else ''.failed''))]\<rparr>)"

definition RecordLogin :: "bool \<Rightarrow> metrics \<Rightarrow> metrics" where
  "RecordLogin = record_outcome ''login''"

definition RecordRegister :: "bool \<Rightarrow> metrics \<Rightarrow> metrics" where
  "RecordRegister = record_outcome ''register''"

definition RecordTokenRefresh :: "bool \<Rightarrow> metrics \<Rightarrow> metrics" where
  "RecordTokenRefresh = record_outcome ''refresh''"

definition incs :: "metrics \<Rightarrow> string \<Rightarrow> nat" where
  "incs m key = length (filter (\<lambda>c. c = RegInc key) (mt_calls m))"

text \<open>Logins are counted once in the total and once by outcome.\<close>

lemma RecordLogin_counts:
  "incs (fold RecordLogin outcomes m) ''auth.login.total'' = incs m ''auth.login.total'' + length outcomes"
  "incs (fold RecordLogin outcomes m) ''auth.login.success'' =
     incs m ''auth.login.success'' + length (filter id outcomes)"
  "incs (fold RecordLogin outcomes m) ''auth.login.failed'' =
     incs m ''auth.login.failed'' + length (filter Not outcomes)"
proof -
  have one: "incs (RecordLogin b m) ''auth.login.total'' = Suc (incs m ''auth.login.total'')"
    "incs (RecordLogin b m) ''auth.login.success'' = (if b then Suc else id) (incs m ''auth.login.success'')"
    "incs (RecordLogin b m) ''auth.login.failed'' = (if b then id else Suc) (incs m ''auth.login.failed'')" for b m
    by (simp_all add: RecordLogin_def record_outcome_def initMetrics_def incs_def Let_def)
  show "incs (fold RecordLogin outcomes m) ''auth.login.total'' = incs m ''auth.login.total'' + length outcomes"
    "incs (fold RecordLogin outcomes m) ''auth.login.success'' =
       incs m ''auth.login.success'' + length (filter id outcomes)"
    "incs (fold RecordLogin outcomes m) ''auth.login.failed'' =
       incs m ''auth.login.failed'' + length (filter Not outcomes)"
    by (induction outcomes arbitrary: m) (simp_all add: one)
qed

end
