(* ===== verification/Legacy_Config.thy ===== *)
theory Legacy_Config
  imports Go_Text "HOL-Library.Word"
begin

text \<open>
  Legacy auth engine: the settings (\<^verbatim>\<open>internal/config/config.go\<close>), as far as modelled code reads
  them. Reading the file and the environment and decoding the values is the configuration
  package's (\<open>viper\<close>); the defaults it is given are modelled. Durations are nanoseconds, the
  thresholds of faces the bits of 32-bit floats.
\<close>

record JWTConfig =
  AccessSecret :: string
  RefreshSecret :: string
  AccessExpiry :: int
  RefreshExpiry :: int
  Issuer :: string
  Algorithm :: string
  RotationEnabled :: bool
  RotationInterval :: int

record OTPConfig =
  otp_Length :: int
  otp_Expiry :: int
  MaxAttempts :: int
  CooldownPeriod :: int
  TOTPEnabled :: bool
  TOTPIssuer :: string

record GoogleOAuthConfig =
  google_ClientID :: string
  google_ClientSecret :: string
  google_RedirectURL :: string
  google_Scopes :: "string list"

record AppleOAuthConfig =
  apple_ClientID :: string
  apple_TeamID :: string
  apple_KeyID :: string
  apple_PrivateKey :: string
  apple_RedirectURL :: string

record OAuthConfig =
  Google :: GoogleOAuthConfig
  Apple :: AppleOAuthConfig

record FaceConfig =
  ModelPath :: string
  Tolerance :: "32 word"
  MinConfidence :: "32 word"
  StoragePath :: string
  MaxFaceSize :: int
  LivenessEnabled :: bool

record RateLimitConfig =
  LoginPerMinute :: int
  OTPPerHour :: int
  RegisterPerDay :: int
  GlobalPerSecond :: int

record SecurityConfig =
  BcryptCost :: int
  MaxLoginAttempts :: int
  LockoutDuration :: int
  PasswordMinLength :: int
  PasswordRequireUpper :: bool
  PasswordRequireLower :: bool
  PasswordRequireDigit :: bool
  PasswordRequireSpec :: bool
  SessionMaxDevices :: int
  MFARequired :: bool
  IPWhitelist :: "string list"
  RateLimit :: RateLimitConfig

record AuditConfig =
  audit_Enabled :: bool
  LogLevel :: string
  RetentionDays :: int
  WebhookURL :: string

text \<open>The configuration without the sections of the server, the stores and the message providers.\<close>

record v2_config =
  cfg_JWT :: JWTConfig
  cfg_OTP :: OTPConfig
  cfg_OAuth :: OAuthConfig
  cfg_Face :: FaceConfig
  cfg_Security :: SecurityConfig
  cfg_Audit :: AuditConfig

definition v2_defaults :: "(string \<times> string) list" where
  "v2_defaults =
     [(''server.host'', ''0.0.0.0''), (''server.port'', ''8080''), (''server.mode'', ''release''),
      (''jwt.access_expiry'', ''15m''), (''jwt.refresh_expiry'', ''7d''), (''jwt.algorithm'', ''HS512''),
      (''otp.length'', ''6''), (''otp.expiry'', ''5m''), (''otp.max_attempts'', ''5''),
      (''security.bcrypt_cost'', ''12''), (''security.max_login_attempts'', ''5''),
      (''security.lockout_duration'', ''15m''), (''security.password_min_length'', ''8'')]"

datatype read_result = ReadOk "(string \<times> string) list" | FileNotFound | ReadError string

text \<open>
  \<open>unmarshal\<close> is given the defaults and the settings of the file; its error is returned.
\<close>

definition v2_Load ::
  "read_result \<Rightarrow> ((string \<times> string) list \<Rightarrow> (string \<times> string) list \<Rightarrow> (string, 'c) outcome) \<Rightarrow> (string, 'c) outcome" where
  "v2_Load file unmarshal =
     (case file of
        ReadError e \<Rightarrow> Err e
      | FileNotFound \<Rightarrow> unmarshal v2_defaults []
      | ReadOk settings \<Rightarrow> unmarshal v2_defaults settings)"

end
