(* ===== verification/Legacy_Password.thy ===== *)
theory Legacy_Password
  imports Legacy_Config
begin

text \<open>
  Legacy auth engine: password policies (\<^verbatim>\<open>pkg/validator/password.go\<close>) and the service's own
  strength check (\<^verbatim>\<open>validatePasswordStrength\<close> of \<^verbatim>\<open>internal/auth/service.go\<close>). A \<^verbatim>\<open>range\<close> over a
  string decodes UTF-8, which is modelled; the categories of code points from 128 on are an
  argument (\<open>unicode_tables\<close>).
\<close>

section \<open>Code points of a string\<close>

definition cont :: "char \<Rightarrow> bool" where
  "cont c \<longleftrightarrow> 0x80 \<le> code c \<and> code c \<le> 0xBF"

text \<open>The range of the second byte after a leading byte of three and four byte sequences.\<close>

definition second_ok :: "nat \<Rightarrow> nat \<Rightarrow> bool" where
  "second_ok b0 b1 \<longleftrightarrow>
     (if b0 = 0xE0 then 0xA0 \<le> b1 \<and> b1 \<le> 0xBF
      else if b0 = 0xED then 0x80 \<le> b1 \<and> b1 \<le> 0x9F
      else if b0 = 0xF0 then 0x90 \<le> b1 \<and> b1 \<le> 0xBF
      else if b0 = 0xF4 then 0x80 \<le> b1 \<and> b1 \<le> 0x8F
      else 0x80 \<le> b1 \<and> b1 \<le> 0xBF)"

text \<open>The first code point and its width; an invalid sequence is U+FFFD of width one.\<close>

definition decode_rune :: "char \<Rightarrow> string \<Rightarrow> nat \<times> nat" where
  "decode_rune c s =
     (let b0 = code c
      in if b0 < 0x80 then (b0, 1)
         else if 0xC2 \<le> b0 \<and> b0 \<le> 0xDF then
           (case s of
              c1 # _ \<Rightarrow> if cont c1 then ((b0 - 0xC0) * 64 + (code c1 - 0x80), 2) else (0xFFFD, 1)
            | _ \<Rightarrow> (0xFFFD, 1))
         else if 0xE0 \<le> b0 \<and> b0 \<le> 0xEF then
           (case s of
              c1 # c2 # _ \<Rightarrow>
                if second_ok b0 (code c1) \<and> cont c2
                then ((b0 - 0xE0) * 4096 + (code c1 - 0x80) * 64 + (code c2 - 0x80), 3) else (0xFFFD, 1)
            | _ \<Rightarrow> (0xFFFD, 1))
         else if 0xF0 \<le> b0 \<and> b0 \<le> 0xF4 then
           (case s of
              c1 # c2 # c3 # _ \<Rightarrow>
                if second_ok b0 (code c1) \<and> cont c2 \<and> cont c3
                then ((b0 - 0xF0) * 262144 + (code c1 - 0x80) * 4096 + (code c2 - 0x80) * 64
                        + (code c3 - 0x80), 4)
                else (0xFFFD, 1)
            | _ \<Rightarrow> (0xFFFD, 1))
         else (0xFFFD, 1))"

function runes :: "string \<Rightarrow> nat list" where
  "runes [] = []"
| "runes (c # s) = (case decode_rune c s of (r, w) \<Rightarrow> r # runes (drop (w - 1) s))"
  by pat_completeness auto
termination
  by (relation "measure length") auto

lemma runes_ascii: "is_ascii s \<Longrightarrow> runes s = map code s"
  by (induction s) (simp_all add: is_ascii_def decode_rune_def Let_def)

lemma length_runes: "length (runes s) \<le> length s"
proof (induction s rule: runes.induct)
  case (2 c s)
  obtain r w where d: "decode_rune c s = (r, w)" by fastforce
  have "length (runes (drop (w - 1) s)) \<le> length (drop (w - 1) s)" using 2 d by simp
  with d show ?case by simp
qed simp


section \<open>Character classes\<close>

record unicode_tables =
  un_upper :: "nat \<Rightarrow> bool"
  un_lower :: "nat \<Rightarrow> bool"
  un_digit :: "nat \<Rightarrow> bool"
  un_letter :: "nat \<Rightarrow> bool"
  un_ToLower :: "string \<Rightarrow> string"

definition IsUpper :: "unicode_tables \<Rightarrow> nat \<Rightarrow> bool" where
  "IsUpper U r = (if r < 128 then 65 \<le> r \<and> r \<le> 90 else un_upper U r)"

definition IsLower :: "unicode_tables \<Rightarrow> nat \<Rightarrow> bool" where
  "IsLower U r = (if r < 128 then 97 \<le> r \<and> r \<le> 122 else un_lower U r)"

definition IsDigit :: "unicode_tables \<Rightarrow> nat \<Rightarrow> bool" where
  "IsDigit U r = (if r < 128 then 48 \<le> r \<and> r \<le> 57 else un_digit U r)"

definition IsLetter :: "unicode_tables \<Rightarrow> nat \<Rightarrow> bool" where
  "IsLetter U r = (if r < 128 then 65 \<le> r \<and> r \<le> 90 \<or> 97 \<le> r \<and> r \<le> 122 else un_letter U r)"

record classes =
  hasUpper :: bool
  hasLower :: bool
  hasDigit :: bool
  hasSpecial :: bool

definition no_classes :: classes where
  "no_classes = \<lparr>hasUpper = False, hasLower = False, hasDigit = False, hasSpecial = False\<rparr>"

definition classify :: "unicode_tables \<Rightarrow> nat \<Rightarrow> classes \<Rightarrow> classes" where
  "classify U c k =
     (if IsUpper U c then k\<lparr>hasUpper := True\<rparr>
      else if IsLower U c then k\<lparr>hasLower := True\<rparr>
      else if IsDigit U c then k\<lparr>hasDigit := True\<rparr>
      else if \<not> IsLetter U c \<and> \<not> IsDigit U c then k\<lparr>hasSpecial := True\<rparr>
      else k)"

definition scan_classes :: "unicode_tables \<Rightarrow> string \<Rightarrow> classes" where
  "scan_classes U password = fold (classify U) (runes password) no_classes"


section \<open>Patterns\<close>

text \<open>\<^verbatim>\<open>hasRepeatingChars\<close>: the loop over positions 1, 2, ... with its counter.\<close>

fun repeat_loop :: "nat \<Rightarrow> char \<Rightarrow> nat \<Rightarrow> string \<Rightarrow> bool" where
  "repeat_loop mx prev count [] = False"
| "repeat_loop mx prev count (c # s) =
     (if c = prev then (count + 1 > mx \<or> repeat_loop mx c (count + 1) s)
      else repeat_loop mx c 1 s)"

definition hasRepeatingChars :: "string \<Rightarrow> nat \<Rightarrow> bool" where
  "hasRepeatingChars s mx = (case s of [] \<Rightarrow> False | c # t \<Rightarrow> repeat_loop mx c 1 t)"

definition commonPasswords :: "string list" where
  "commonPasswords = [''password'', ''123456'', ''password1'', ''qwerty'', ''abc123'', ''letmein'',
     ''monkey'', ''1234567890'', ''iloveyou'']"

definition letterSequences :: "string list" where
  "letterSequences = [''abc'', ''bcd'', ''cde'', ''def'', ''efg'', ''fgh'', ''ghi'', ''hij'', ''ijk'',
     ''jkl'', ''klm'', ''lmn'', ''mno'', ''nop'', ''opq'', ''pqr'', ''qrs'', ''rst'', ''stu'', ''tuv'',
     ''uvw'', ''vwx'', ''wxy'', ''xyz'']"

definition digitSequences :: "string list" where
  "digitSequences = [''012'', ''123'', ''234'', ''345'', ''456'', ''567'', ''678'', ''789'', ''890'']"

definition keyboardSequences :: "string list" where
  "keyboardSequences = [''qwe'', ''wer'', ''ert'', ''rty'', ''tyu'', ''yui'', ''uio'', ''iop'', ''asd'',
     ''sdf'', ''dfg'', ''fgh'', ''ghj'', ''hjk'', ''jkl'', ''zxc'', ''xcv'', ''cvb'', ''vbn'', ''bnm'']"

fun substring_of :: "string \<Rightarrow> string \<Rightarrow> bool" where
  "substring_of p [] = (p = [])"
| "substring_of p (c # s) = (has_prefix (c # s) p \<or> substring_of p s)"

text \<open>
  Case folding of the patterns with \<^verbatim>\<open>(?i)\<close>: beside the ASCII letters, the long s (U+017F) and
  the Kelvin sign (U+212A) fold to letters of the patterns.
\<close>

fun fold_case :: "string \<Rightarrow> string" where
  "fold_case (a # b # c # s) =
     (if code a = 0xC5 \<and> code b = 0xBF then CHR ''s'' # fold_case (c # s)
      else if code a = 0xE2 \<and> code b = 0x84 \<and> code c = 0xAA then CHR ''k'' # fold_case s
      else lower_char a # fold_case (b # c # s))"
| "fold_case [a, b] =
     (if code a = 0xC5 \<and> code b = 0xBF then ''s'' else [lower_char a, lower_char b])"
| "fold_case [a] = [lower_char a]"
| "fold_case [] = []"

definition hasSequentialChars :: "unicode_tables \<Rightarrow> string \<Rightarrow> bool" where
  "hasSequentialChars U s =
     (let lower = ToLower (un_ToLower U) s
      in list_ex (\<lambda>p. substring_of p (fold_case lower)) letterSequences
       \<or> list_ex (\<lambda>p. substring_of p lower) digitSequences
       \<or> list_ex (\<lambda>p. substring_of p (fold_case lower)) keyboardSequences)"


section \<open>Policies\<close>

record PasswordPolicy =
  MinLength :: int
  MaxLength :: int
  RequireUpper :: bool
  RequireLower :: bool
  RequireDigit :: bool
  RequireSpecial :: bool
  ForbidCommon :: bool
  ForbidRepeat :: int
  ForbidSequential :: bool

definition DefaultPolicy :: PasswordPolicy where
  "DefaultPolicy = \<lparr>MinLength = 8, MaxLength = 128, RequireUpper = True, RequireLower = True,
     RequireDigit = True, RequireSpecial = False, ForbidCommon = True, ForbidRepeat = 3,
     ForbidSequential = True\<rparr>"

definition EnterprisePolicy :: PasswordPolicy where
  "EnterprisePolicy = \<lparr>MinLength = 12, MaxLength = 128, RequireUpper = True, RequireLower = True,
     RequireDigit = True, RequireSpecial = True, ForbidCommon = True, ForbidRepeat = 3,
     ForbidSequential = True\<rparr>"

definition violation :: "bool \<Rightarrow> string \<Rightarrow> string list" where
  "violation b msg = (if b then [msg] else [])"

text \<open>The violations in order; the empty list is the nil error.\<close>

definition ValidatePassword :: "unicode_tables \<Rightarrow> string \<Rightarrow> PasswordPolicy \<Rightarrow> string list" where
  "ValidatePassword U password policy =
     (let k = scan_classes U password; n = int (length password)
      in violation (n < MinLength policy) (''must be at least '' @ itoa (MinLength policy) @ '' characters'')
       @ violation (MaxLength policy > 0 \<and> n > MaxLength policy)
           (''must be at most '' @ itoa (MaxLength policy) @ '' characters'')
       @ violation (RequireUpper policy \<and> \<not> hasUpper k) ''must contain at least one uppercase letter''
       @ violation (RequireLower policy \<and> \<not> hasLower k) ''must contain at least one lowercase letter''
       @ violation (RequireDigit policy \<and> \<not> hasDigit k) ''must contain at least one digit''
       @ violation (RequireSpecial policy \<and> \<not> hasSpecial k) ''must contain at least one special character''
       @ violation (ForbidCommon policy \<and> ToLower (un_ToLower U) password \<in> set commonPasswords)
           ''password is too common''
       @ violation (ForbidRepeat policy > 0 \<and> hasRepeatingChars password (nat (ForbidRepeat policy)))
           (''must not contain more than '' @ itoa (ForbidRepeat policy) @ '' consecutive identical characters'')
       @ violation (ForbidSequential policy \<and> hasSequentialChars U password)
           ''must not contain sequential characters (e.g. 'abc', '123')'')"

definition Strength :: "unicode_tables \<Rightarrow> string \<Rightarrow> int" where
  "Strength U password =
     (let n = length password;
          k = scan_classes U password;
          s1 = (if n \<ge> 8 then 1 else 0);
          s2 = (if n \<ge> 12 then s1 + 1 else s1);
          variety = length (filter id [hasUpper k, hasLower k, hasDigit k, hasSpecial k]);
          s3 = (if variety \<ge> 3 then s2 + 1 else s2);
          s4 = (if variety = 4 \<and> n \<ge> 12 then s3 + 1 else s3)
      in if s4 > 4 then 4 else s4)"

text \<open>\<^verbatim>\<open>validatePasswordStrength\<close> reads the security settings.\<close>

definition classify_ascii :: "nat \<Rightarrow> classes \<Rightarrow> classes" where
  "classify_ascii c k =
     (if 65 \<le> c \<and> c \<le> 90 then k\<lparr>hasUpper := True\<rparr>
      else if 97 \<le> c \<and> c \<le> 122 then k\<lparr>hasLower := True\<rparr>
      else if 48 \<le> c \<and> c \<le> 57 then k\<lparr>hasDigit := True\<rparr>
      else k\<lparr>hasSpecial := True\<rparr>)"

definition validatePasswordStrength :: "SecurityConfig \<Rightarrow> string \<Rightarrow> string option" where
  "validatePasswordStrength cfg password =
     (if int (length password) < PasswordMinLength cfg
      then Some (''password must be at least '' @ itoa (PasswordMinLength cfg) @ '' characters'')
      else
        let k = fold classify_ascii (runes password) no_classes
        in if PasswordRequireUpper cfg \<and> \<not> hasUpper k then Some ''password must contain uppercase letter''
           else if PasswordRequireLower cfg \<and> \<not> hasLower k then Some ''password must contain lowercase letter''
           else if PasswordRequireDigit cfg \<and> \<not> hasDigit k then Some ''password must contain digit''
           else if PasswordRequireSpec cfg \<and> \<not> hasSpecial k then Some ''password must contain special character''
           else None)"


section \<open>Correctness\<close>

text \<open>
  The loop finds exactly the runs: \<open>count\<close> equal bytes have been seen, the last of them \<open>prev\<close>.
\<close>

definition has_run :: "nat \<Rightarrow> string \<Rightarrow> bool" where
  "has_run n s \<longleftrightarrow> (\<exists>pre c post. s = pre @ replicate n c @ post)"

lemma has_runI: "s = pre @ replicate n c @ post \<Longrightarrow> has_run n s"
  unfolding has_run_def by blast

lemma has_run_Cons_iff:
  "has_run n (c # s) \<longleftrightarrow> (\<exists>d post. c # s = replicate n d @ post) \<or> has_run n s"
proof
  assume "has_run n (c # s)"
  then obtain pre d post where e: "c # s = pre @ replicate n d @ post" unfolding has_run_def by blast
  show "(\<exists>d post. c # s = replicate n d @ post) \<or> has_run n s"
  proof (cases pre)
    case Nil
    with e show ?thesis by auto
  next
    case (Cons x pre')
    with e have "s = pre' @ replicate n d @ post" by simp
    then show ?thesis by (blast intro: has_runI)
  qed
next
  assume "(\<exists>d post. c # s = replicate n d @ post) \<or> has_run n s"
  then show "has_run n (c # s)"
  proof
    assume "\<exists>d post. c # s = replicate n d @ post"
    then show ?thesis by (metis append_Nil has_runI)
  next
    assume "has_run n s"
    then show ?thesis unfolding has_run_def by (metis append_Cons)
  qed
qed

lemma has_run_replicate_ne:
  assumes "c \<noteq> d" and "k < n"
  shows "has_run n (replicate k d @ c # s) \<longleftrightarrow> has_run n (c # s)"
  using assms(2)
proof (induction k)
  case (Suc k)
  have "\<not> (\<exists>e post. d # replicate k d @ c # s = replicate n e @ post)"
  proof clarify
    fix e post
    assume e: "d # replicate k d @ c # s = replicate n e @ post"
    have "(d # replicate k d @ c # s) ! 0 = e" and "(d # replicate k d @ c # s) ! Suc k = e"
      using Suc.prems unfolding e by (simp_all add: nth_append)
    with \<open>c \<noteq> d\<close> show False by (simp add: nth_append)
  qed
  with Suc show ?case by (simp add: has_run_Cons_iff [of n d])
qed simp

lemma has_run_short: "length s < n \<Longrightarrow> \<not> has_run n s"
  by (auto simp: has_run_def)

lemma repeat_loop_run:
  assumes "0 < k" and "k \<le> mx"
  shows "repeat_loop mx p k s \<longleftrightarrow> has_run (Suc mx) (replicate k p @ s)"
  using assms
proof (induction mx p k s rule: repeat_loop.induct)
  case (1 mx p k)
  then show ?case by (simp add: has_run_short)
next
  case (2 mx p k c s)
  show ?case
  proof (cases "c = p")
    case same: True
    have shift: "replicate k p @ p # s = replicate (Suc k) p @ s"
      by (simp add: replicate_app_Cons_same)
    show ?thesis
    proof (cases "k = mx")
      case True
      then have "has_run (Suc mx) (replicate k p @ p # s)"
        unfolding shift by (intro has_runI [of _ "[]" _ p s]) simp
      with same True show ?thesis by simp
    next
      case False
      with 2 same have "repeat_loop mx c (k + 1) s \<longleftrightarrow> has_run (Suc mx) (replicate (k + 1) c @ s)"
        by simp
      with same False 2 show ?thesis by (simp add: replicate_app_Cons_same)
    qed
  next
    case False
    with 2 have "repeat_loop mx c 1 s \<longleftrightarrow> has_run (Suc mx) (c # s)" by simp
    with False 2 show ?thesis by (simp add: has_run_replicate_ne)
  qed
qed

lemma hasRepeatingChars_run: "0 < mx \<Longrightarrow> hasRepeatingChars s mx \<longleftrightarrow> has_run (Suc mx) s"
  by (cases s) (simp_all add: hasRepeatingChars_def has_run_short repeat_loop_run)

text \<open>The flags of the scan are existential statements over the code points.\<close>

lemma fold_classify:
  "hasUpper (fold (classify U) rs k) \<longleftrightarrow> hasUpper k \<or> (\<exists>r \<in> set rs. IsUpper U r)"
  "hasLower (fold (classify U) rs k) \<longleftrightarrow> hasLower k \<or> (\<exists>r \<in> set rs. \<not> IsUpper U r \<and> IsLower U r)"
  "hasDigit (fold (classify U) rs k) \<longleftrightarrow>
     hasDigit k \<or> (\<exists>r \<in> set rs. \<not> IsUpper U r \<and> \<not> IsLower U r \<and> IsDigit U r)"
  "hasSpecial (fold (classify U) rs k) \<longleftrightarrow>
     hasSpecial k \<or> (\<exists>r \<in> set rs. \<not> IsUpper U r \<and> \<not> IsLower U r \<and> \<not> IsLetter U r \<and> \<not> IsDigit U r)"
  by (induction rs arbitrary: k) (auto simp: classify_def)

lemma scan_classes_ascii:
  assumes "is_ascii password"
  shows "hasUpper (scan_classes U password) \<longleftrightarrow> (\<exists>c \<in> set password. 65 \<le> code c \<and> code c \<le> 90)"
    and "hasLower (scan_classes U password) \<longleftrightarrow> (\<exists>c \<in> set password. 97 \<le> code c \<and> code c \<le> 122)"
    and "hasDigit (scan_classes U password) \<longleftrightarrow> (\<exists>c \<in> set password. 48 \<le> code c \<and> code c \<le> 57)"
  using assms
  unfolding scan_classes_def fold_classify runes_ascii [OF assms] is_ascii_def list_all_iff
  by (auto simp: no_classes_def IsUpper_def IsLower_def IsDigit_def) (force+)

lemma violation_Nil [simp]: "violation b m = [] \<longleftrightarrow> \<not> b"
  by (simp add: violation_def)

lemma Strength_bounds: "0 \<le> Strength U p \<and> Strength U p \<le> 4"
  by (simp add: Strength_def Let_def)

lemma Strength_four:
  "Strength U p = 4 \<longleftrightarrow>
     12 \<le> length p \<and> hasUpper (scan_classes U p) \<and> hasLower (scan_classes U p)
     \<and> hasDigit (scan_classes U p) \<and> hasSpecial (scan_classes U p)"
  by (auto simp: Strength_def Let_def)

text \<open>
  What the default policy accepts, for passwords of ASCII characters: the length, one character of
  each of three classes, no run of four equal characters, no common password, no sequence.
\<close>

lemma default_policy_accepts:
  assumes "is_ascii password"
  shows "ValidatePassword U password DefaultPolicy = [] \<longleftrightarrow>
     8 \<le> length password \<and> length password \<le> 128
     \<and> (\<exists>c \<in> set password. 65 \<le> code c \<and> code c \<le> 90)
     \<and> (\<exists>c \<in> set password. 97 \<le> code c \<and> code c \<le> 122)
     \<and> (\<exists>c \<in> set password. 48 \<le> code c \<and> code c \<le> 57)
     \<and> map lower_char password \<notin> set commonPasswords
     \<and> \<not> has_run 4 password
     \<and> \<not> hasSequentialChars U password"
proof -
  have l: "ToLower (un_ToLower U) password = map lower_char password"
    using assms by (simp add: ToLower_def)
  have r: "hasRepeatingChars password 3 \<longleftrightarrow> has_run 4 password"
    by (simp add: hasRepeatingChars_run)
  show ?thesis
    unfolding ValidatePassword_def Let_def append_is_Nil_conv violation_Nil DefaultPolicy_def
    by (simp add: l r scan_classes_ascii [OF assms] not_less)
qed

text \<open>The policy for enterprises is stricter: what it accepts the default policy accepts.\<close>

lemma enterprise_stricter:
  "ValidatePassword U p EnterprisePolicy = [] \<Longrightarrow> ValidatePassword U p DefaultPolicy = []"
  by (simp add: ValidatePassword_def Let_def EnterprisePolicy_def DefaultPolicy_def)

end
