(* ===== verification/Legacy_Base.thy ===== *)
theory Legacy_Base
  imports Legacy_Config Sql
begin

text \<open>
  Legacy auth engine: the rows of \<^verbatim>\<open>deployments/migrations.sql\<close>, the errors of the packages, what
  the engine takes from its surroundings, and its state. The package of the row types is not
  in the repository; the records have the columns of the schema, apart from \<^verbatim>\<open>metadata\<close> and the
  stored provider tokens, which no code reads or writes. Identifiers are canonical texts of
  UUIDs.
\<close>

section \<open>Rows\<close>

type_synonym v2_UserStatus = string

definition UserStatusPending :: v2_UserStatus where "UserStatusPending = ''pending''"
definition v2_StatusActive :: v2_UserStatus where "v2_StatusActive = ''active''"
definition UserStatusSuspended :: v2_UserStatus where "UserStatusSuspended = ''suspended''"

record v2_User =
  us_ID :: string
  us_Email :: "string option"
  us_Phone :: "string option"
  us_PasswordHash :: "string option"
  us_DisplayName :: string
  us_AvatarURL :: "string option"
  us_Status :: v2_UserStatus
  us_Role :: string
  us_EmailVerified :: bool
  us_PhoneVerified :: bool
  us_FaceEnrolled :: bool
  us_MFAEnabled :: bool
  us_MFASecret :: "string option"
  us_MFABackupCodes :: "string list"
  us_FailedLoginCount :: int
  us_LockedUntil :: "int option"
  us_LastLoginAt :: "int option"
  us_LastLoginIP :: "string option"
  us_PasswordChangedAt :: "int option"
  us_CreatedAt :: int
  us_UpdatedAt :: int
  us_DeletedAt :: "int option"

record v2_Session =
  ss_ID :: string
  ss_UserID :: string
  ss_RefreshToken :: string
  ss_DeviceInfo :: string
  ss_IPAddress :: string
  ss_UserAgent :: string
  ss_IsActive :: bool
  ss_ExpiresAt :: int
  ss_LastSeenAt :: int
  ss_CreatedAt :: int

record v2_OAuthProvider =
  oa_ID :: string
  oa_UserID :: string
  oa_Provider :: string
  oa_ProviderUID :: string

text \<open>Descriptors are lists of 32-bit floats, given by their bits.\<close>

record v2_FaceEnrollment =
  fe_ID :: string
  fe_UserID :: string
  fe_Descriptor :: "32 word list"
  fe_Confidence :: "32 word"
  fe_IsActive :: bool

text \<open>The risk score of an entry in hundredths.\<close>

record v2_AuditLog =
  al_ID :: string
  al_UserID :: "string option"
  al_Action :: string
  al_Resource :: string
  al_IPAddress :: string
  al_UserAgent :: string
  al_Status :: string
  al_Details :: "(string \<times> string) list"
  al_RiskScore :: int
  al_CreatedAt :: int

record v2_APIKey =
  ak_ID :: string
  ak_UserID :: string
  ak_Name :: string
  ak_KeyHash :: string
  ak_Prefix :: string
  ak_Permissions :: "string list"
  ak_Scopes :: "string list"
  ak_RateLimit :: int
  ak_ExpiresAt :: "int option"
  ak_LastUsedAt :: "int option"
  ak_IsActive :: bool
  ak_CreatedAt :: int

record v2_db =
  tb_users :: "v2_User list"
  tb_sessions :: "v2_Session list"
  tb_oauth_providers :: "v2_OAuthProvider list"
  tb_face_enrollments :: "v2_FaceEnrollment list"
  tb_audit_logs :: "v2_AuditLog list"
  tb_api_keys :: "v2_APIKey list"


section \<open>Errors\<close>

text \<open>
  Errors are compared by identity: a wrapped error is not the error it wraps. \<open>Plain\<close> stands for
  the errors made on the spot and for those of libraries.
\<close>

datatype v2_error =
    ErrNotFound
  | ErrInvalidCredentials
  | ErrEmailAlreadyExists
  | ErrPhoneAlreadyExists
  | ErrAccountLocked
  | ErrAccountSuspended
  | ErrInvalidToken
  | ErrSessionExpired
  | ErrSessionLimitReached
  | ErrInvalidMFACode
  | ErrUserNotFound
  | JwtErrInvalidToken
  | JwtErrExpiredToken
  | ErrOTPNotFound
  | ErrOTPExpired
  | ErrOTPInvalid
  | ErrOTPMaxAttempts
  | ErrNotEnrolled
  | ErrLowConfidence
  | ErrLivenessCheck
  | ErrInvalidAPIKey
  | ErrAPIKeyRevoked
  | ErrAPIKeyExpired
  | UniqueViolation string
  | ForeignKeyViolation string
  | DbFault string
  | Plain string
  | Wrapped string v2_error

fun v2_error_text :: "v2_error \<Rightarrow> string" where
  "v2_error_text ErrNotFound = ''record not found''"
| "v2_error_text ErrInvalidCredentials = ''invalid credentials''"
| "v2_error_text ErrEmailAlreadyExists = ''email already registered''"
| "v2_error_text ErrPhoneAlreadyExists = ''phone already registered''"
| "v2_error_text ErrAccountLocked = ''account locked due to multiple failed attempts''"
| "v2_error_text ErrAccountSuspended = ''account suspended''"
| "v2_error_text ErrInvalidToken = ''invalid or expired token''"
| "v2_error_text ErrSessionExpired = ''session expired''"
| "v2_error_text ErrSessionLimitReached = ''session limit reached''"
| "v2_error_text ErrInvalidMFACode = ''invalid mfa code''"
| "v2_error_text ErrUserNotFound = ''user not found''"
| "v2_error_text JwtErrInvalidToken = ''invalid token''"
| "v2_error_text JwtErrExpiredToken = ''token expired''"
| "v2_error_text ErrOTPNotFound = ''otp not found''"
| "v2_error_text ErrOTPExpired = ''otp expired''"
| "v2_error_text ErrOTPInvalid = ''otp invalid''"
| "v2_error_text ErrOTPMaxAttempts = ''max otp attempts reached''"
| "v2_error_text ErrNotEnrolled = ''face not enrolled''"
| "v2_error_text ErrLowConfidence = ''face confidence too low''"
| "v2_error_text ErrLivenessCheck = ''liveness check failed''"
| "v2_error_text ErrInvalidAPIKey = ''invalid api key''"
| "v2_error_text ErrAPIKeyRevoked = ''api key revoked''"
| "v2_error_text ErrAPIKeyExpired = ''api key expired''"
| "v2_error_text (UniqueViolation c) = ''duplicate key value violates unique constraint '' @ c"
| "v2_error_text (ForeignKeyViolation c) = ''violates foreign key constraint '' @ c"
| "v2_error_text (DbFault m) = m"
| "v2_error_text (Plain m) = m"
| "v2_error_text (Wrapped m e) = m @ '': '' @ v2_error_text e"


text \<open>A one-time code as it is stored, and the claims of a token.\<close>

record v2_OTP =
  ot_ID :: string
  ot_UserID :: string
  ot_Code :: string
  ot_Purpose :: string
  ot_Channel :: string
  ot_Recipient :: string
  ot_Attempts :: int
  ot_Verified :: bool
  ot_ExpiresAt :: int

record v2_Claims =
  cl_UserID :: string
  cl_SessionID :: string
  cl_Role :: string
  cl_Email :: "string option"
  cl_Phone :: "string option"
  cl_MFADone :: bool
  cl_TokenType :: string
  cl_ID :: string
  cl_Issuer :: string
  cl_IssuedAt :: int
  cl_NotBefore :: int
  cl_ExpiresAt :: int

record v2_Manager =
  accessSecret :: string
  refreshSecret :: string
  accessExpiry :: int
  refreshExpiry :: int
  issuer :: string


section \<open>Surroundings\<close>

text \<open>
  A Redis server over states \<open>'r\<close>: each command is given the server's time and may fail.
\<close>

record 'r redis =
  rd_Get :: "int \<Rightarrow> string \<Rightarrow> ('r, string, string option) go"
  rd_Set :: "int \<Rightarrow> string \<Rightarrow> string \<Rightarrow> int \<Rightarrow> ('r, string, unit) go"
  rd_Incr :: "int \<Rightarrow> string \<Rightarrow> ('r, string, int) go"
  rd_Expire :: "int \<Rightarrow> string \<Rightarrow> int \<Rightarrow> ('r, string, bool) go"
  rd_Keys :: "int \<Rightarrow> string \<Rightarrow> ('r, string, string list) go"
  rd_Del :: "int \<Rightarrow> string list \<Rightarrow> ('r, string, int) go"
  rd_ZRemRangeByScore :: "int \<Rightarrow> string \<Rightarrow> int \<Rightarrow> int \<Rightarrow> ('r, string, int) go"
  rd_ZAdd :: "int \<Rightarrow> string \<Rightarrow> int \<Rightarrow> string \<Rightarrow> ('r, string, int) go"
  rd_ZCard :: "int \<Rightarrow> string \<Rightarrow> ('r, string, int) go"
  rd_HMGet :: "int \<Rightarrow> string \<Rightarrow> string list \<Rightarrow> ('r, string, string option list) go"
  rd_HMSet :: "int \<Rightarrow> string \<Rightarrow> (string \<times> string) list \<Rightarrow> ('r, string, unit) go"

text \<open>The arithmetic of 32-bit floats, on their bits.\<close>

record float32 =
  f32_add :: "32 word \<Rightarrow> 32 word \<Rightarrow> 32 word"
  f32_sub :: "32 word \<Rightarrow> 32 word \<Rightarrow> 32 word"
  f32_mul :: "32 word \<Rightarrow> 32 word \<Rightarrow> 32 word"
  f32_sqrt :: "32 word \<Rightarrow> 32 word"
  f32_less :: "32 word \<Rightarrow> 32 word \<Rightarrow> bool"
  f32_le :: "32 word \<Rightarrow> 32 word \<Rightarrow> bool"

text \<open>What the token endpoint of Google answers, and the claims of an identity token.\<close>

record google_info =
  gi_Sub :: string
  gi_Email :: string
  gi_EmailVerified :: string
  gi_Name :: string
  gi_Picture :: string
  gi_Aud :: string

record apple_claims =
  ap_Sub :: string
  ap_Email :: string
  ap_Aud :: string

datatype jwt_result = JwtParsed v2_Claims bool | JwtExpired | JwtRefused

text \<open>
  The surroundings: the turns of the database and the precision of its time columns, the
  clock, identifiers and random bytes, SHA-256, bcrypt, AES-GCM, the token and TOTP packages,
  the JSON form of a stored code and of the identity providers' answers, HTTP, the message
  providers, the Redis server with its clock, floats, the Unicode tables, \<^verbatim>\<open>Duration.Seconds\<close>,
  and the constants of the absent package (channels and purposes of codes).
\<close>

record 'r v2_env =
  v2_cfg :: v2_config
  v2_turn :: "nat \<Rightarrow> turn"
  v2_stamp :: "int \<Rightarrow> int"
  v2_now :: "nat \<Rightarrow> int"
  v2_uuid :: "nat \<Rightarrow> string"
  v2_rand :: "nat \<Rightarrow> nat \<Rightarrow> string option"
  v2_rand_Int :: "nat \<Rightarrow> int \<Rightarrow> int option"
  v2_sha256 :: "string \<Rightarrow> string"
  v2_bcrypt_Generate :: "nat \<Rightarrow> string \<Rightarrow> int \<Rightarrow> string option"
  v2_bcrypt_Compare :: "string \<Rightarrow> string \<Rightarrow> bool"
  v2_gcm_Seal :: "string \<Rightarrow> string \<Rightarrow> string \<Rightarrow> string"
  v2_gcm_Open :: "string \<Rightarrow> string \<Rightarrow> string \<Rightarrow> string option"
  v2_jwt_Sign :: "string \<Rightarrow> v2_Claims \<Rightarrow> string option"
  v2_jwt_Parse :: "string \<Rightarrow> (bool \<Rightarrow> string option) \<Rightarrow> int \<Rightarrow> jwt_result"
  v2_totp_Generate :: "nat \<Rightarrow> string \<Rightarrow> string \<Rightarrow> (string \<times> string) option"
  v2_totp_Validate :: "string \<Rightarrow> string \<Rightarrow> int \<Rightarrow> bool"
  v2_otp_Marshal :: "v2_OTP \<Rightarrow> string option"
  v2_otp_Unmarshal :: "string \<Rightarrow> v2_OTP option"
  v2_deliver :: "nat \<Rightarrow> string option"
  v2_redis :: "'r redis"
  v2_redis_time :: "nat \<Rightarrow> int"
  v2_uni :: "string \<Rightarrow> string"
  v2_f32 :: float32
  v2_Seconds :: "int \<Rightarrow> int"
  v2_http_Get :: "nat \<Rightarrow> string \<Rightarrow> (string, int \<times> string) outcome"
  v2_google_Unmarshal :: "string \<Rightarrow> google_info option"
  v2_apple_Unmarshal :: "string \<Rightarrow> apple_claims option"
  OTPChannelEmail :: string
  OTPChannelSMS :: string
  OTPPurposeVerifyEmail :: string
  OTPPurposeVerifyPhone :: string
  OTPPurposePasswordReset :: string

text \<open>The state: the tables, the Redis server, the messages sent, and what has been drawn so far.\<close>

record 'r v2 =
  v_db :: v2_db
  v_redis :: 'r
  v_sent :: "(string \<times> string \<times> string \<times> string) list"
  v_stmts :: nat
  v_cmds :: nat
  v_clock :: nat
  v_uuids :: nat
  v_rands :: nat
  v_gets :: nat

type_synonym ('r, 'a) eng = "('r v2, v2_error, 'a) go"

definition time_Now :: "'r v2_env \<Rightarrow> ('r, int) eng" where
  "time_Now E w = (Ok (v2_now E (v_clock w)), w\<lparr>v_clock := v_clock w + 1\<rparr>)"

definition uuid_New :: "'r v2_env \<Rightarrow> ('r, string) eng" where
  "uuid_New E w = (Ok (v2_uuid E (v_uuids w)), w\<lparr>v_uuids := v_uuids w + 1\<rparr>)"

text \<open>A draw that can fail: \<open>f\<close> is given the number of earlier draws.\<close>

definition v2_draw :: "(nat \<Rightarrow> 'a option) \<Rightarrow> string \<Rightarrow> ('r, 'a) eng" where
  "v2_draw f msg w =
     (case f (v_rands w) of
        None \<Rightarrow> (Err (Plain msg), w\<lparr>v_rands := v_rands w + 1\<rparr>)
      | Some x \<Rightarrow> (Ok x, w\<lparr>v_rands := v_rands w + 1\<rparr>))"

definition run_db :: "'r v2_env \<Rightarrow> (turn \<Rightarrow> v2_db \<Rightarrow> (v2_error, 'a) outcome \<times> v2_db) \<Rightarrow> ('r, 'a) eng" where
  "run_db E f w =
     (case execute (v2_turn E (v_stmts w)) DbFault f (v_db w) of
        (r, d) \<Rightarrow> (r, w\<lparr>v_stmts := v_stmts w + 1, v_db := d\<rparr>))"

definition run_redis :: "'r v2_env \<Rightarrow> (int \<Rightarrow> ('r, string, 'a) go) \<Rightarrow> ('r, 'a) eng" where
  "run_redis E f w =
     (case f (v2_redis_time E (v_cmds w)) (v_redis w) of
        (r, s) \<Rightarrow>
          (case r of Ok x \<Rightarrow> Ok x | Err m \<Rightarrow> Err (Plain m) | Panic \<Rightarrow> Panic,
           w\<lparr>v_cmds := v_cmds w + 1, v_redis := s\<rparr>))"

text \<open>\<^verbatim>\<open>fmt.Errorf("...: %w", err)\<close>\<close>

definition wrapped :: "string \<Rightarrow> ('r, 'a) eng \<Rightarrow> ('r, 'a) eng" where
  "wrapped msg m = go_try m (\<lambda>e. go_fail (Wrapped msg e)) go_return"

text \<open>\<^verbatim>\<open>if err := m; err != nil { return e }\<close>\<close>

definition else_err :: "('r, 'a) eng \<Rightarrow> v2_error \<Rightarrow> ('r, 'a) eng" where
  "else_err m e = go_try m (\<lambda>_. go_fail e) go_return"


section \<open>Library lemmas\<close>

text \<open>Truth values, which the general rules do not instantiate.\<close>

lemma go_bind_bool [simp]:
  "m s = (Ok False, s') \<Longrightarrow> go_bind m k s = k False s'" "m s = (Ok True, s') \<Longrightarrow> go_bind m k s = k True s'"
  by simp_all

lemma v2_time_Now_apply [simp]:
  "time_Now E w = (Ok (v2_now E (v_clock w)), w\<lparr>v_clock := v_clock w + 1\<rparr>)"
  by (simp add: time_Now_def)

lemma uuid_New_apply [simp]:
  "uuid_New E w = (Ok (v2_uuid E (v_uuids w)), w\<lparr>v_uuids := v_uuids w + 1\<rparr>)"
  by (simp add: uuid_New_def)

lemma wrapped_OkD: "wrapped msg m w = (Ok x, w') \<Longrightarrow> m w = (Ok x, w')"
  by (cases "m w") (auto simp: wrapped_def go_try_def split: outcome.splits)

lemma wrapped_Ok [simp]: "m w = (Ok x, w') \<Longrightarrow> wrapped msg m w = (Ok x, w')"
  by (simp add: wrapped_def)

lemma else_err_OkD: "else_err m e w = (Ok x, w') \<Longrightarrow> m w = (Ok x, w')"
  by (cases "m w") (auto simp: else_err_def go_try_def split: outcome.splits)

lemma else_err_Ok [simp]: "m w = (Ok x, w') \<Longrightarrow> else_err m e w = (Ok x, w')"
  by (simp add: else_err_def)

text \<open>A statement without a fault is executed.\<close>

definition db_up :: "'r v2_env \<Rightarrow> bool" where
  "db_up E \<longleftrightarrow> (\<forall>n. t_fault (v2_turn E n) = None)"

lemma run_db_up:
  "db_up E \<Longrightarrow>
   run_db E f w = (fst (f (v2_turn E (v_stmts w)) (v_db w)),
      w\<lparr>v_stmts := v_stmts w + 1, v_db := snd (f (v2_turn E (v_stmts w)) (v_db w))\<rparr>)"
  by (simp add: run_db_def db_up_def split: prod.splits)

lemma run_db_Ok:
  assumes "run_db E f w = (Ok x, w')"
  shows "f (v2_turn E (v_stmts w)) (v_db w) = (Ok x, v_db w')"
    and "w' = w\<lparr>v_stmts := v_stmts w + 1, v_db := v_db w'\<rparr>"
  using assms by (auto simp: run_db_def split: prod.splits dest: execute_Ok)

text \<open>
  Invariants of the tables, with what is known of the identifiers still to be drawn: what the
  surroundings are asked for does not touch them.
\<close>

definition v2_safe :: "'r v2_env \<Rightarrow> (v2_db \<Rightarrow> bool) \<Rightarrow> (string \<Rightarrow> bool) \<Rightarrow> 'r v2 \<Rightarrow> bool" where
  "v2_safe E I ok w \<longleftrightarrow> I (v_db w) \<and> (\<forall>n \<ge> v_uuids w. ok (v2_uuid E n))"

lemma keeps_db_run:
  "(\<And>t d. I d \<Longrightarrow> I (snd (f t d))) \<Longrightarrow> keeps (v2_safe E I ok) (run_db E f)"
  by (auto simp: keeps_def v2_safe_def run_db_def split: prod.splits) (metis execute_keeps snd_conv)

lemma keeps_db_surroundings [keeps_rules]:
  "keeps (v2_safe E I ok) (time_Now E)" "keeps (v2_safe E I ok) (uuid_New E)"
  "keeps (v2_safe E I ok) (v2_draw f msg)" "keeps (v2_safe E I ok) (run_redis E g)"
  by (auto simp: keeps_def v2_safe_def v2_draw_def run_redis_def split: option.splits prod.splits)

text \<open>The identifier drawn is one that may be drawn.\<close>

lemma keeps_uuid:
  assumes "\<And>i. ok i \<Longrightarrow> keeps (v2_safe E I ok) (k i)"
  shows "keeps (v2_safe E I ok) (go_bind (uuid_New E) k)"
proof (rule keepsI)
  fix w
  assume w: "v2_safe E I ok w"
  then have "ok (v2_uuid E (v_uuids w))" and "v2_safe E I ok (w\<lparr>v_uuids := v_uuids w + 1\<rparr>)"
    by (simp_all add: v2_safe_def)
  then show "v2_safe E I ok (snd (go_bind (uuid_New E) k w))"
    using assms by (simp add: keeps_def)
qed

lemma keeps_wrapped [keeps_rules]: "keeps I m \<Longrightarrow> keeps I (wrapped msg m)"
  unfolding wrapped_def by (intro keeps_rules)

lemma keeps_else_err [keeps_rules]: "keeps I m \<Longrightarrow> keeps I (else_err m e)"
  unfolding else_err_def by (intro keeps_rules)

end
