(* ===== verification/Legacy_Crypto.thy ===== *)
theory Legacy_Crypto
  imports Legacy_Base
begin

text \<open>
  Legacy auth engine: \<^verbatim>\<open>internal/crypto/crypto.go\<close> and the token manager \<^verbatim>\<open>pkg/jwt/jwt.go\<close>.
  SHA-256, bcrypt, AES-GCM, the random source and the token package are arguments; base64 with
  padding and the formats of codes are modelled.
\<close>

section \<open>Base64 with padding\<close>

definition b64_pad :: "string \<Rightarrow> string \<Rightarrow> string" where
  "b64_pad a s = b64_encode a s @ replicate ((3 - length s mod 3) mod 3) CHR ''=''"

definition is_newline :: "char \<Rightarrow> bool" where
  "is_newline c \<longleftrightarrow> c = CHR 0x0A \<or> c = CHR 0x0D"

text \<open>
  Padding may follow two or three sextets of the last group and ends the input; newlines are
  skipped everywhere.
\<close>

fun b64_scan_padded :: "string \<Rightarrow> nat list \<Rightarrow> string \<Rightarrow> string + string" where
  "b64_scan_padded a buf [] = (if buf = [] then Inr [] else Inl ''illegal base64 data'')"
| "b64_scan_padded a buf (c # cs) =
     (case index_of c a of
        Some v \<Rightarrow>
          (case buf of
             [p, q, r] \<Rightarrow>
               (case b64_scan_padded a [] cs of
                  Inl e \<Rightarrow> Inl e
                | Inr out \<Rightarrow> Inr (byte (p * 4 + q div 16) # byte (q mod 16 * 16 + r div 4)
                                   # byte (r mod 4 * 64 + v) # out))
           | _ \<Rightarrow> b64_scan_padded a (buf @ [v]) cs)
      | None \<Rightarrow>
          if is_newline c then b64_scan_padded a buf cs
          else if c = CHR ''='' then
            (case (buf, filter (Not \<circ> is_newline) cs) of
               ([p, q], [d]) \<Rightarrow>
                 if d = CHR ''='' then Inr [byte (p * 4 + q div 16)] else Inl ''illegal base64 data''
             | ([p, q, r], []) \<Rightarrow> Inr [byte (p * 4 + q div 16), byte (q mod 16 * 16 + r div 4)]
             | _ \<Rightarrow> Inl ''illegal base64 data'')
          else Inl ''illegal base64 data'')"

definition StdEncoding_Encode :: "string \<Rightarrow> string" where
  "StdEncoding_Encode = b64_pad std_alphabet"

definition StdEncoding_Decode :: "string \<Rightarrow> string + string" where
  "StdEncoding_Decode = b64_scan_padded std_alphabet []"

definition URLEncoding_Encode :: "string \<Rightarrow> string" where
  "URLEncoding_Encode = b64_pad url_alphabet"

definition URLEncoding_Decode :: "string \<Rightarrow> string + string" where
  "URLEncoding_Decode = b64_scan_padded url_alphabet []"


section \<open>Passwords and codes\<close>

definition DefaultBcryptCost :: int where "DefaultBcryptCost = 12"
definition APIKeyPrefix :: string where "APIKeyPrefix = ''aek_''"
definition APIKeyLength :: nat where "APIKeyLength = 32"

definition v2_HashPassword :: "'r v2_env \<Rightarrow> string \<Rightarrow> int \<Rightarrow> ('r, string) eng" where
  "v2_HashPassword E password cost =
     (let cost = (if cost = 0 then DefaultBcryptCost else cost)
      in v2_draw (\<lambda>i. v2_bcrypt_Generate E i password cost) ''bcrypt'')"

definition v2_VerifyPassword :: "'r v2_env \<Rightarrow> string \<Rightarrow> string \<Rightarrow> bool" where
  "v2_VerifyPassword E password h = v2_bcrypt_Compare E h password"

text \<open>
  \<^verbatim>\<open>fmt.Sprintf("%0*d", width, n)\<close>: the sign first, then zeros up to the width; a negative width
  pads with blanks on the right, one beyond a million is refused.
\<close>

definition pad_decimal :: "int \<Rightarrow> int \<Rightarrow> string" where
  "pad_decimal width n =
     (let digits = show_nat (nat \<bar>n\<bar>); sign = (if n < 0 then ''-'' else [])
      in if \<bar>width\<bar> > 1000000 then ''%!(BADWIDTH)'' @ sign @ digits
         else if width < 0 then
           sign @ digits @ replicate (nat (- width) - length (sign @ digits)) CHR '' ''
         else sign @ replicate (nat width - length (sign @ digits)) CHR ''0'' @ digits)"

definition GenerateOTP :: "'r v2_env \<Rightarrow> int \<Rightarrow> ('r, string) eng" where
  "GenerateOTP E length0 =
     (let len = (if length0 = 0 then 6 else length0);
          mx = (if len < 0 then 1 else 10 ^ nat len)
      in go_bind (v2_draw (\<lambda>i. v2_rand_Int E i mx) ''rand'') (\<lambda>n.
         go_return (pad_decimal len (wrap64 n))))"


section \<open>API keys\<close>

definition sha256_hex :: "'r v2_env \<Rightarrow> string \<Rightarrow> string" where
  "sha256_hex E s = hex_encode (v2_sha256 E s)"

definition GenerateAPIKey :: "'r v2_env \<Rightarrow> ('r, string \<times> string) eng" where
  "GenerateAPIKey E =
     go_bind (v2_draw (\<lambda>i. v2_rand E i APIKeyLength) ''rand'') (\<lambda>b.
     let plaintext = APIKeyPrefix @ URLEncoding_Encode b
     in go_return (plaintext, sha256_hex E plaintext))"

definition HashAPIKey :: "'r v2_env \<Rightarrow> string \<Rightarrow> string" where
  "HashAPIKey E key = sha256_hex E key"

definition ExtractAPIKeyPrefix :: "string \<Rightarrow> string" where
  "ExtractAPIKeyPrefix key =
     (if \<not> has_prefix key APIKeyPrefix then []
      else let raw = drop (length APIKeyPrefix) key
           in if length raw < 8 then [] else APIKeyPrefix @ take 8 raw)"


section \<open>Encryption\<close>

definition nonceSize :: nat where "nonceSize = 12"

definition Encrypt :: "'r v2_env \<Rightarrow> string \<Rightarrow> string \<Rightarrow> ('r, string) eng" where
  "Encrypt E plaintext key =
     go_bind (v2_draw (\<lambda>i. v2_rand E i nonceSize) ''rand'') (\<lambda>nonce.
     go_return (StdEncoding_Encode (nonce @ v2_gcm_Seal E (v2_sha256 E key) nonce plaintext)))"

definition Decrypt :: "'r v2_env \<Rightarrow> string \<Rightarrow> string \<Rightarrow> (v2_error, string) outcome" where
  "Decrypt E ciphertext64 key =
     (case StdEncoding_Decode ciphertext64 of
        Inl e \<Rightarrow> Err (Plain e)
      | Inr data \<Rightarrow>
          if length data < nonceSize then Err (Plain ''ciphertext too short'')
          else case v2_gcm_Open E (v2_sha256 E key) (take nonceSize data) (drop nonceSize data) of
                 None \<Rightarrow> Err (Plain ''cipher: message authentication failed'')
               | Some p \<Rightarrow> Ok p)"


section \<open>Tokens and backup codes\<close>

definition GenerateSecureToken :: "'r v2_env \<Rightarrow> nat \<Rightarrow> ('r, string) eng" where
  "GenerateSecureToken E len =
     go_bind (v2_draw (\<lambda>i. v2_rand E i len) ''rand'') (\<lambda>b. go_return (URLEncoding_Encode b))"

definition upper_hex :: "string \<Rightarrow> string" where
  "upper_hex s = map (\<lambda>c. if 97 \<le> code c then byte (code c - 32) else c) (hex_encode s)"

definition HashBackupCode :: "'r v2_env \<Rightarrow> string \<Rightarrow> string" where
  "HashBackupCode E c = sha256_hex E c"

definition backup_code :: "string \<Rightarrow> string" where
  "backup_code b = upper_hex (take 3 b) @ ''-'' @ upper_hex (drop 3 b)"

fun GenerateBackupCodes :: "'r v2_env \<Rightarrow> nat \<Rightarrow> ('r, string list \<times> string list) eng" where
  "GenerateBackupCodes E 0 = go_return ([], [])"
| "GenerateBackupCodes E (Suc n) =
     go_bind (v2_draw (\<lambda>i. v2_rand E i 5) ''rand'') (\<lambda>b.
     go_bind (GenerateBackupCodes E n) (\<lambda>(codes, hashes).
     go_return (backup_code b # codes, sha256_hex E (backup_code b) # hashes)))"


section \<open>The token manager\<close>

definition NewManager :: "string \<Rightarrow> string \<Rightarrow> int \<Rightarrow> int \<Rightarrow> string \<Rightarrow> v2_Manager" where
  "NewManager asec rsec aexp rexp iss =
     \<lparr>accessSecret = asec, refreshSecret = rsec, accessExpiry = aexp, refreshExpiry = rexp, issuer = iss\<rparr>"

definition SignedString :: "'r v2_env \<Rightarrow> string \<Rightarrow> v2_Claims \<Rightarrow> ('r, string) eng" where
  "SignedString E secret claims =
     (case v2_jwt_Sign E secret claims of None \<Rightarrow> go_fail (Plain ''sign'') | Some t \<Rightarrow> go_return t)"

definition GenerateAccessToken ::
  "'r v2_env \<Rightarrow> v2_Manager \<Rightarrow> string \<Rightarrow> string \<Rightarrow> string \<Rightarrow> string option \<Rightarrow> string option \<Rightarrow> bool \<Rightarrow> ('r, string) eng" where
  "GenerateAccessToken E m userID sessionID role email phone mfaDone =
     go_bind (time_Now E) (\<lambda>now.
     go_bind (uuid_New E) (\<lambda>i.
     SignedString E (accessSecret m)
       \<lparr>cl_UserID = userID, cl_SessionID = sessionID, cl_Role = role, cl_Email = email, cl_Phone = phone,
        cl_MFADone = mfaDone, cl_TokenType = ''access'', cl_ID = i, cl_Issuer = issuer m,
        cl_IssuedAt = unix_of now, cl_NotBefore = unix_of now,
        cl_ExpiresAt = unix_of (now + accessExpiry m)\<rparr>))"

definition GenerateRefreshToken ::
  "'r v2_env \<Rightarrow> v2_Manager \<Rightarrow> string \<Rightarrow> string \<Rightarrow> ('r, string) eng" where
  "GenerateRefreshToken E m userID sessionID =
     go_bind (time_Now E) (\<lambda>now.
     go_bind (uuid_New E) (\<lambda>i.
     SignedString E (refreshSecret m)
       \<lparr>cl_UserID = userID, cl_SessionID = sessionID, cl_Role = [], cl_Email = None, cl_Phone = None,
        cl_MFADone = False, cl_TokenType = ''refresh'', cl_ID = i, cl_Issuer = issuer m,
        cl_IssuedAt = unix_of now, cl_NotBefore = unix_of now,
        cl_ExpiresAt = unix_of (now + refreshExpiry m)\<rparr>))"

definition GenerateTokenPair ::
  "'r v2_env \<Rightarrow> v2_Manager \<Rightarrow> string \<Rightarrow> string \<Rightarrow> string \<Rightarrow> string option \<Rightarrow> string option \<Rightarrow> bool \<Rightarrow> ('r, string \<times> string) eng" where
  "GenerateTokenPair E m userID sessionID role email phone mfaDone =
     go_bind (wrapped ''generate access token'' (GenerateAccessToken E m userID sessionID role email phone mfaDone)) (\<lambda>a.
     go_bind (wrapped ''generate refresh token'' (GenerateRefreshToken E m userID sessionID)) (\<lambda>r.
     go_return (a, r)))"

definition parseToken :: "'r v2_env \<Rightarrow> v2_Manager \<Rightarrow> string \<Rightarrow> string \<Rightarrow> string \<Rightarrow> ('r, v2_Claims) eng" where
  "parseToken E m tokenStr secret expectedType =
     go_bind (time_Now E) (\<lambda>now.
     case v2_jwt_Parse E tokenStr (\<lambda>hmac. if hmac then Some secret else None) (unix_of now) of
       JwtExpired \<Rightarrow> go_fail JwtErrExpiredToken
     | JwtRefused \<Rightarrow> go_fail JwtErrInvalidToken
     | JwtParsed claims valid \<Rightarrow>
         if \<not> valid then go_fail JwtErrInvalidToken
         else if cl_TokenType claims \<noteq> expectedType then go_fail JwtErrInvalidToken
         else if cl_Issuer claims \<noteq> issuer m then go_fail JwtErrInvalidToken
         else go_return claims)"

definition ParseAccessToken :: "'r v2_env \<Rightarrow> v2_Manager \<Rightarrow> string \<Rightarrow> ('r, v2_Claims) eng" where
  "ParseAccessToken E m tokenStr = parseToken E m tokenStr (accessSecret m) ''access''"

definition ParseRefreshToken :: "'r v2_env \<Rightarrow> v2_Manager \<Rightarrow> string \<Rightarrow> ('r, v2_Claims) eng" where
  "ParseRefreshToken E m tokenStr = parseToken E m tokenStr (refreshSecret m) ''refresh''"

text \<open>The manager the server makes from its settings.\<close>

definition v2_jwt :: "'r v2_env \<Rightarrow> v2_Manager" where
  "v2_jwt E =
     NewManager (AccessSecret (cfg_JWT (v2_cfg E))) (RefreshSecret (cfg_JWT (v2_cfg E)))
       (AccessExpiry (cfg_JWT (v2_cfg E))) (RefreshExpiry (cfg_JWT (v2_cfg E))) (Issuer (cfg_JWT (v2_cfg E)))"


section \<open>Correctness\<close>

lemma b64_scan_padded_encode:
  assumes "distinct a" and "length a = 64" and "CHR ''='' \<notin> set a"
  shows "b64_scan_padded a [] (b64_pad a s) = Inr s"
  using assms
proof (induction a s rule: b64_encode.induct)
  case (1 a)
  then show ?case by (simp add: b64_pad_def)
next
  case (2 a x)
  have "code x div 4 < 64" using code_less [of x] by (simp add: div_less_iff_less_mult)
  moreover have "code x mod 4 * 16 < 64" by simp
  moreover have "index_of CHR ''='' a = None" using 2(3) by (induction a) auto
  ultimately show ?case
    using 2 by (simp add: b64_pad_def index_of_nth is_newline_def numeral_2_eq_2)
next
  case (3 a x y)
  have "code x div 4 < 64" using code_less [of x] by (simp add: div_less_iff_less_mult)
  moreover have "code x mod 4 * 16 + code y div 16 < 64" using code_div_16 [of y] by linarith
  moreover have "code y mod 16 * 4 < 64" by simp
  moreover have "index_of CHR ''='' a = None" using 3(3) by (induction a) auto
  ultimately show ?case using 3 by (simp add: b64_pad_def index_of_nth is_newline_def)
next
  case (4 a x y z r)
  have b1: "code x div 4 < 64" using code_less [of x] by (simp add: div_less_iff_less_mult)
  have b2: "code x mod 4 * 16 + code y div 16 < 64" using code_div_16 [of y] by linarith
  have z: "code z div 64 < 4" using code_less [of z] by (simp add: div_less_iff_less_mult)
  then have b3: "code y mod 16 * 4 + code z div 64 < 64" by linarith
  have e2: "(code y mod 16 * 4 + code z div 64) div 4 = code y mod 16" using z by simp
  have e3: "(code y mod 16 * 4 + code z div 64) mod 4 = code z div 64" using z by simp
  have pad: "Suc (Suc (Suc n)) mod 3 = n mod 3" for n :: nat by presburger
  have "b64_pad a (x # y # z # r) =
      [a ! (code x div 4), a ! (code x mod 4 * 16 + code y div 16),
       a ! (code y mod 16 * 4 + code z div 64), a ! (code z mod 64)] @ b64_pad a r"
    by (simp only: b64_pad_def b64_encode.simps length_Cons pad append_assoc append_Cons append_Nil)
  moreover have "b64_scan_padded a [] (b64_pad a r) = Inr r" using 4 by simp
  ultimately show ?case using 4(2,3) b1 b2 b3 z by (simp add: index_of_nth e2 e3)
qed

lemma pad_free [simp]: "CHR ''='' \<notin> set std_alphabet" "CHR ''='' \<notin> set url_alphabet"
  by (simp_all add: std_alphabet_def url_alphabet_def)

lemma b64_pad_alphabet: "length a = 64 \<Longrightarrow> set (b64_pad a s) \<subseteq> insert CHR ''='' (set a)"
  using b64_encode_alphabet [of a s] by (auto simp: b64_pad_def)

interpretation std_padded: text_codec StdEncoding_Encode StdEncoding_Decode "insert CHR ''='' (set std_alphabet)"
  by unfold_locales
    (simp_all add: StdEncoding_Encode_def StdEncoding_Decode_def b64_scan_padded_encode b64_pad_alphabet)

interpretation url_padded: text_codec URLEncoding_Encode URLEncoding_Decode "insert CHR ''='' (set url_alphabet)"
  by unfold_locales
    (simp_all add: URLEncoding_Encode_def URLEncoding_Decode_def b64_scan_padded_encode b64_pad_alphabet)

text \<open>What AES-GCM promises, and the length of what the random source returns.\<close>

definition gcm_opens :: "'r v2_env \<Rightarrow> bool" where
  "gcm_opens E \<longleftrightarrow> (\<forall>k n p. v2_gcm_Open E k n (v2_gcm_Seal E k n p) = Some p)"

definition rand_length :: "'r v2_env \<Rightarrow> bool" where
  "rand_length E \<longleftrightarrow> (\<forall>i n b. v2_rand E i n = Some b \<longrightarrow> length b = n)"

lemma v2_draw_Ok: "v2_draw f msg w = (Ok x, w') \<Longrightarrow> f (v_rands w) = Some x \<and> w' = w\<lparr>v_rands := v_rands w + 1\<rparr>"
  by (auto simp: v2_draw_def split: option.splits)

lemma decrypt_encrypt:
  assumes "gcm_opens E" and "rand_length E" and "Encrypt E p key w = (Ok c, w')"
  shows "Decrypt E c key = Ok p"
proof -
  obtain nonce where "v2_rand E (v_rands w) nonceSize = Some nonce"
    and c: "c = StdEncoding_Encode (nonce @ v2_gcm_Seal E (v2_sha256 E key) nonce p)"
    using assms(3) by (auto simp: Encrypt_def elim!: go_bind_OkE dest!: v2_draw_Ok)
  with assms(1,2) show ?thesis
    by (simp add: Decrypt_def std_padded.dec_enc rand_length_def gcm_opens_def)
qed

text \<open>Codes of 1 to 18 digits have exactly that many digits.\<close>

lemma pad_decimal_digits:
  assumes "0 < k" and "k \<le> 1000000" and "0 \<le> n" and "n < 10 ^ nat k"
  shows "length (pad_decimal k n) = nat k \<and> (\<forall>c \<in> set (pad_decimal k n). is_digit c)"
proof -
  have short: "length (show_nat m) \<le> j" if "m < 10 ^ j" "0 < j" for m j
    using that
  proof (induction m arbitrary: j rule: show_nat.induct)
    case (1 m)
    show ?case
    proof (cases "m < 10")
      case True
      with 1(3) show ?thesis by (subst show_nat.simps) (simp add: Suc_le_eq)
    next
      case False
      then obtain j' where j: "j = Suc j'" and "0 < j'"
        using 1 by (metis gr0_conv_Suc linorder_neqE_nat mult_1_right not_less_zero power_0 power_Suc)
      then have "m div 10 < 10 ^ j'" using 1(2) by (simp add: less_mult_imp_div_less mult.commute)
      with 1(1) \<open>0 < j'\<close> False j show ?thesis by (subst show_nat.simps) simp
    qed
  qed
  have "nat n < 10 ^ nat k" using assms(3,4) by (metis nat_less_numeral_power_cancel_iff of_nat_numeral)
  then have "length (show_nat (nat n)) \<le> nat k" using short assms(1) by simp
  then show ?thesis using assms
    by (auto simp: pad_decimal_def Let_def is_digit_def code_def dest: show_nat_digits)
qed

text \<open>The token package: a signed token parses under its key as its claims, in its time.\<close>

definition v2_jwt_roundtrip :: "'r v2_env \<Rightarrow> bool" where
  "v2_jwt_roundtrip E \<longleftrightarrow>
     (\<forall>secret c t key now. v2_jwt_Sign E secret c = Some t \<longrightarrow> key True = Some secret \<longrightarrow>
        v2_jwt_Parse E t key now =
          (if now \<ge> cl_ExpiresAt c then JwtExpired
           else if now < cl_NotBefore c then JwtRefused else JwtParsed c True))"

text \<open>Whatever the key, a parsed token yields the claims that were signed.\<close>

definition v2_jwt_carries_claims :: "'r v2_env \<Rightarrow> bool" where
  "v2_jwt_carries_claims E \<longleftrightarrow>
     (\<forall>secret c t key now c' v. v2_jwt_Sign E secret c = Some t \<longrightarrow>
        v2_jwt_Parse E t key now = JwtParsed c' v \<longrightarrow> c' = c)"

lemma parseToken_Ok:
  assumes "parseToken E m t secret ty w = (Ok c, w')"
  shows "v2_jwt_Parse E t (\<lambda>hmac. if hmac then Some secret else None) (unix_of (v2_now E (v_clock w))) = JwtParsed c True"
    and "cl_TokenType c = ty" and "cl_Issuer c = issuer m" and "w' = w\<lparr>v_clock := v_clock w + 1\<rparr>"
  using assms by (auto simp: parseToken_def split: jwt_result.splits if_splits)

lemma parseToken_state: "snd (parseToken E m t secret ty w) = w\<lparr>v_clock := v_clock w + 1\<rparr>"
  by (auto simp: parseToken_def split: jwt_result.splits)

lemma parseToken_no_panic: "fst (parseToken E m t secret ty w) \<noteq> Panic"
  by (auto simp: parseToken_def split: jwt_result.splits)

lemma parse_signed:
  assumes "v2_jwt_roundtrip E" and "v2_jwt_Sign E secret c = Some t"
    and "cl_TokenType c = ty" and "cl_Issuer c = issuer m"
    and "cl_NotBefore c \<le> unix_of (v2_now E (v_clock w))" and "unix_of (v2_now E (v_clock w)) < cl_ExpiresAt c"
  shows "parseToken E m t secret ty w = (Ok c, w\<lparr>v_clock := v_clock w + 1\<rparr>)"
  using assms by (simp add: parseToken_def v2_jwt_roundtrip_def)

lemma keeps_db_crypto [keeps_rules]:
  "keeps (v2_safe E I ok) (v2_HashPassword E p n)" "keeps (v2_safe E I ok) (GenerateOTP E n)"
  "keeps (v2_safe E I ok) (GenerateAPIKey E)" "keeps (v2_safe E I ok) (Encrypt E p k)"
  "keeps (v2_safe E I ok) (GenerateTokenPair E m i j r e ph b)" "keeps (v2_safe E I ok) (GenerateAccessToken E m i j r e ph b)"
  "keeps (v2_safe E I ok) (GenerateRefreshToken E m i j)"
  unfolding v2_HashPassword_def GenerateOTP_def GenerateAPIKey_def Encrypt_def GenerateTokenPair_def
    GenerateAccessToken_def GenerateRefreshToken_def SignedString_def Let_def
  by (intro keeps_rules)+

lemma keeps_db_parse [keeps_rules]: "keeps (v2_safe E I ok) (parseToken E m t s ty)"
  by (simp add: keeps_def parseToken_state v2_safe_def)

lemma keeps_db_backup [keeps_rules]: "keeps (v2_safe E I ok) (GenerateBackupCodes E n)"
  by (induction n; unfold GenerateBackupCodes.simps; intro keeps_rules)

end
