(* ===== verification/Legacy_Redis.thy ===== *)
theory Legacy_Redis
  imports Legacy_Base
begin

text \<open>
  Legacy auth engine: what the Redis server, which is an argument of the model, promises
  (\<open>redis_serves\<close>): the documented effect of each command the engine sends, on keys that hold a
  string, a sorted set or a hash and may have a time to live. Nothing here is code of the
  repository.
\<close>

section \<open>The keyspace\<close>

datatype redis_value =
    RString string
  | RSorted "string \<rightharpoonup> int"
  | RHash "string \<rightharpoonup> string"

text \<open>
  \<open>view r t k\<close> is what is under \<open>k\<close> at time \<open>t\<close> if no other command comes before; \<open>deadline t ttl\<close> is
  when a key given that lifetime at \<open>t\<close> ends.
\<close>

type_synonym 'r keyspace = "'r \<Rightarrow> int \<Rightarrow> string \<Rightarrow> redis_value option"

definition from_on :: "int \<Rightarrow> (int \<Rightarrow> 'a) \<Rightarrow> (int \<Rightarrow> 'a) \<Rightarrow> bool" where
  "from_on t f g \<longleftrightarrow> (\<forall>t' \<ge> t. f t' = g t')"

text \<open>A changed value keeps the time to live of the key; a key that was not there has none.\<close>

definition changed :: "'r keyspace \<Rightarrow> 'r \<Rightarrow> int \<Rightarrow> string \<Rightarrow> redis_value option \<Rightarrow> int \<Rightarrow> string \<Rightarrow> redis_value option" where
  "changed view r t k v t' =
     (view r t')(k := if view r t k \<noteq> None \<and> view r t' k = None then None else v)"

fun string_at :: "redis_value option \<Rightarrow> string option" where
  "string_at (Some (RString s)) = Some s"
| "string_at _ = None"

fun sorted_at :: "redis_value option \<Rightarrow> (string \<rightharpoonup> int) option" where
  "sorted_at None = Some Map.empty"
| "sorted_at (Some (RSorted z)) = Some z"
| "sorted_at _ = None"

fun hash_at :: "redis_value option \<Rightarrow> (string \<rightharpoonup> string) option" where
  "hash_at None = Some Map.empty"
| "hash_at (Some (RHash h)) = Some h"
| "hash_at _ = None"

text \<open>An empty sorted set is no key.\<close>

definition sorted_set :: "(string \<rightharpoonup> int) \<Rightarrow> redis_value option" where
  "sorted_set z = (if z = Map.empty then None else Some (RSorted z))"

definition glob_free :: "string \<Rightarrow> bool" where
  "glob_free p \<longleftrightarrow> set p \<inter> {CHR ''*'', CHR ''?'', CHR ''['', CHR 0x5C} = {}"


section \<open>The commands\<close>

text \<open>A command on a key of another type fails and changes nothing.\<close>

definition serves_GET :: "'r redis \<Rightarrow> 'r keyspace \<Rightarrow> bool" where
  "serves_GET R view \<longleftrightarrow>
     (\<forall>t k r. \<exists>x r'. rd_Get R t k r = (x, r') \<and> from_on t (view r') (view r)
        \<and> (if view r t k = None \<or> string_at (view r t k) \<noteq> None then x = Ok (string_at (view r t k))
           else \<exists>e. x = Err e))"

definition serves_SET :: "'r redis \<Rightarrow> 'r keyspace \<Rightarrow> (int \<Rightarrow> int \<Rightarrow> int) \<Rightarrow> bool" where
  "serves_SET R view deadline \<longleftrightarrow>
     (\<forall>t k v ttl r. 0 < ttl \<longrightarrow> (\<exists>r'. rd_Set R t k v ttl r = (Ok (), r')
        \<and> from_on t (view r') (\<lambda>t'. (view r t')(k := if t' < deadline t ttl then Some (RString v) else None))))"

text \<open>Counting fails on a key that holds no number, or at the end of the range.\<close>

definition serves_INCR :: "'r redis \<Rightarrow> 'r keyspace \<Rightarrow> bool" where
  "serves_INCR R view \<longleftrightarrow>
     (\<forall>t k r. \<exists>x r'. rd_Incr R t k r = (x, r') \<and> x \<noteq> Panic
        \<and> (\<forall>n. (view r t k = None \<and> n = 0 \<or> view r t k = Some (RString (itoa n))) \<longrightarrow> n < 2 ^ 63 - 1 \<longrightarrow>
             x = Ok (n + 1) \<and> from_on t (view r') (changed view r t k (Some (RString (itoa (n + 1))))))
        \<and> (\<forall>k' t'. k' \<noteq> k \<longrightarrow> t \<le> t' \<longrightarrow> view r' t' k' = view r t' k'))"

text \<open>A pattern of \<^verbatim>\<open>KEYS\<close> is only used with a plain prefix and a final star.\<close>

definition serves_KEYS :: "'r redis \<Rightarrow> 'r keyspace \<Rightarrow> bool" where
  "serves_KEYS R view \<longleftrightarrow>
     (\<forall>t p r. glob_free p \<longrightarrow> (\<exists>ks r'. rd_Keys R t (p @ ''*'') r = (Ok ks, r') \<and> from_on t (view r') (view r)
        \<and> (\<forall>k \<in> set ks. has_prefix k p) \<and> (\<forall>k. has_prefix k p \<longrightarrow> view r t k \<noteq> None \<longrightarrow> k \<in> set ks)))"

definition serves_DEL :: "'r redis \<Rightarrow> 'r keyspace \<Rightarrow> bool" where
  "serves_DEL R view \<longleftrightarrow>
     (\<forall>t ks r. \<exists>n r'. rd_Del R t ks r = (Ok n, r')
        \<and> from_on t (view r') (\<lambda>t' k. if k \<in> set ks then None else view r t' k))"

definition serves_EXPIRE :: "'r redis \<Rightarrow> 'r keyspace \<Rightarrow> (int \<Rightarrow> int \<Rightarrow> int) \<Rightarrow> bool" where
  "serves_EXPIRE R view deadline \<longleftrightarrow>
     (\<forall>t k ttl r. 0 < ttl \<longrightarrow> (\<exists>r'. rd_Expire R t k ttl r = (Ok (view r t k \<noteq> None), r')
        \<and> from_on t (view r') (\<lambda>t'. (view r t')(k := if t' < deadline t ttl then view r t k else None))))"

definition serves_ZREM :: "'r redis \<Rightarrow> 'r keyspace \<Rightarrow> bool" where
  "serves_ZREM R view \<longleftrightarrow>
     (\<forall>t k lo hi r z. sorted_at (view r t k) = Some z \<longrightarrow>
        (\<exists>n r'. rd_ZRemRangeByScore R t k lo hi r = (Ok n, r')
           \<and> from_on t (view r') (changed view r t k
                (sorted_set (\<lambda>m. case z m of None \<Rightarrow> None | Some s \<Rightarrow> if lo \<le> s \<and> s \<le> hi then None else Some s)))))"

definition serves_ZADD :: "'r redis \<Rightarrow> 'r keyspace \<Rightarrow> bool" where
  "serves_ZADD R view \<longleftrightarrow>
     (\<forall>t k m s r z. sorted_at (view r t k) = Some z \<longrightarrow>
        (\<exists>n r'. rd_ZAdd R t k s m r = (Ok n, r') \<and> from_on t (view r') (changed view r t k (sorted_set (z(m \<mapsto> s))))))"

definition serves_ZCARD :: "'r redis \<Rightarrow> 'r keyspace \<Rightarrow> bool" where
  "serves_ZCARD R view \<longleftrightarrow>
     (\<forall>t k r z. sorted_at (view r t k) = Some z \<longrightarrow>
        (\<exists>r'. rd_ZCard R t k r = (Ok (int (card (dom z))), r') \<and> from_on t (view r') (view r)))"

definition serves_HM :: "'r redis \<Rightarrow> 'r keyspace \<Rightarrow> bool" where
  "serves_HM R view \<longleftrightarrow>
     (\<forall>t k fs r h. hash_at (view r t k) = Some h \<longrightarrow>
        (\<exists>r'. rd_HMGet R t k fs r = (Ok (map h fs), r') \<and> from_on t (view r') (view r)))
   \<and> (\<forall>t k fvs r h. fvs \<noteq> [] \<longrightarrow> hash_at (view r t k) = Some h \<longrightarrow>
        (\<exists>r'. rd_HMSet R t k fvs r = (Ok (), r')
           \<and> from_on t (view r') (changed view r t k (Some (RHash (h(map fst fvs [\<mapsto>] map snd fvs)))))))"

text \<open>A value does not change by itself, except that its key ends.\<close>

definition keys_rest :: "'r keyspace \<Rightarrow> bool" where
  "keys_rest view \<longleftrightarrow> (\<forall>r t t' k. t \<le> t' \<longrightarrow> view r t' k \<noteq> None \<longrightarrow> view r t' k = view r t k)"

definition redis_serves :: "'r redis \<Rightarrow> 'r keyspace \<Rightarrow> (int \<Rightarrow> int \<Rightarrow> int) \<Rightarrow> bool" where
  "redis_serves R view deadline \<longleftrightarrow>
     serves_GET R view \<and> serves_SET R view deadline \<and> serves_INCR R view \<and> serves_KEYS R view
   \<and> serves_DEL R view \<and> serves_EXPIRE R view deadline \<and> serves_ZREM R view \<and> serves_ZADD R view
   \<and> serves_ZCARD R view \<and> serves_HM R view \<and> keys_rest view"

text \<open>A server that answers, with a clock that does not go back.\<close>

definition redis_ready :: "'r v2_env \<Rightarrow> 'r keyspace \<Rightarrow> (int \<Rightarrow> int \<Rightarrow> int) \<Rightarrow> bool" where
  "redis_ready E view dl \<longleftrightarrow> redis_serves (v2_redis E) view dl \<and> mono (v2_redis_time E)"

lemma redis_readyD:
  assumes "redis_ready E view dl"
  shows "redis_serves (v2_redis E) view dl" and "mono (v2_redis_time E)"
  using assms by (simp_all add: redis_ready_def)


section \<open>Strings\<close>

definition strings :: "'r keyspace \<Rightarrow> 'r \<Rightarrow> int \<Rightarrow> string \<Rightarrow> string option" where
  "strings view r t k = string_at (view r t k)"

lemma from_on_strings:
  "from_on t (view r') (view r) \<Longrightarrow> from_on t (strings view r') (strings view r)"
  by (simp add: from_on_def strings_def fun_eq_iff)

lemma serves_Get:
  assumes "redis_serves R view dl"
  shows "\<exists>x r'. rd_Get R t k r = (x, r') \<and> from_on t (strings view r') (strings view r)
    \<and> (x = Ok (strings view r t k) \<or> (\<exists>e. x = Err e) \<and> strings view r t k = None)"
proof -
  obtain x r' where "rd_Get R t k r = (x, r')" and "from_on t (view r') (view r)"
    and "if view r t k = None \<or> string_at (view r t k) \<noteq> None then x = Ok (string_at (view r t k)) else \<exists>e. x = Err e"
    using assms unfolding redis_serves_def serves_GET_def by meson
  then show ?thesis by (auto simp: strings_def from_on_strings split: if_splits)
qed

lemma serves_Set:
  assumes "redis_serves R view dl" and "0 < ttl"
  shows "\<exists>r'. rd_Set R t k v ttl r = (Ok (), r')
     \<and> from_on t (strings view r') (\<lambda>t'. (strings view r t')(k := if t' < dl t ttl then Some v else None))"
proof -
  obtain r' where "rd_Set R t k v ttl r = (Ok (), r')"
    and "from_on t (view r') (\<lambda>t'. (view r t')(k := if t' < dl t ttl then Some (RString v) else None))"
    using assms unfolding redis_serves_def serves_SET_def by meson
  then show ?thesis by (auto simp: strings_def from_on_def fun_eq_iff)
qed

lemma serves_Incr:
  assumes "redis_serves R view dl"
  shows "\<exists>x r'. rd_Incr R t k r = (x, r') \<and> x \<noteq> Panic
     \<and> (\<forall>k' t'. k' \<noteq> k \<longrightarrow> t \<le> t' \<longrightarrow> strings view r' t' k' = strings view r t' k')"
proof -
  obtain x r' where "rd_Incr R t k r = (x, r')" and "x \<noteq> Panic"
    and "\<forall>k' t'. k' \<noteq> k \<longrightarrow> t \<le> t' \<longrightarrow> view r' t' k' = view r t' k'"
    using assms unfolding redis_serves_def serves_INCR_def by meson
  then show ?thesis by (auto simp: strings_def)
qed

lemma serves_Keys:
  assumes "redis_serves R view dl" and "glob_free p"
  shows "\<exists>ks r'. rd_Keys R t (p @ ''*'') r = (Ok ks, r') \<and> from_on t (strings view r') (strings view r)
     \<and> (\<forall>k. has_prefix k p \<longrightarrow> strings view r t k \<noteq> None \<longrightarrow> k \<in> set ks)"
proof -
  obtain ks r' where "rd_Keys R t (p @ ''*'') r = (Ok ks, r')" and "from_on t (view r') (view r)"
    and all: "\<And>k. has_prefix k p \<Longrightarrow> view r t k \<noteq> None \<Longrightarrow> k \<in> set ks"
    using assms unfolding redis_serves_def serves_KEYS_def by meson
  moreover have "k \<in> set ks" if "has_prefix k p" "strings view r t k \<noteq> None" for k
    using that by (cases "view r t k") (auto simp: strings_def intro: all)
  ultimately show ?thesis by (auto simp: from_on_strings)
qed

lemma serves_Del:
  assumes "redis_serves R view dl"
  shows "\<exists>n r'. rd_Del R t ks r = (Ok n, r')
     \<and> from_on t (strings view r') (\<lambda>t' k. if k \<in> set ks then None else strings view r t' k)"
proof -
  obtain n r' where "rd_Del R t ks r = (Ok n, r')"
    and "from_on t (view r') (\<lambda>t' k. if k \<in> set ks then None else view r t' k)"
    using assms unfolding redis_serves_def serves_DEL_def by meson
  then show ?thesis by (auto simp: strings_def from_on_def fun_eq_iff)
qed

lemma serves_gone:
  assumes "redis_serves R view dl" and "t \<le> t'" and "strings view r t k = None"
  shows "strings view r t' k = None"
proof (cases "view r t' k")
  case (Some v)
  then have "view r t' k = view r t k"
    using assms(1,2) unfolding redis_serves_def keys_rest_def by (metis option.distinct(1))
  with assms(3) show ?thesis by (simp add: strings_def)
qed (simp add: strings_def)

text \<open>Sorted sets, hashes and ends, each clause by itself.\<close>

lemma serves_ZRem:
  "redis_serves R view dl \<Longrightarrow> sorted_at (view r t k) = Some z \<Longrightarrow>
   \<exists>n r'. rd_ZRemRangeByScore R t k lo hi r = (Ok n, r') \<and> from_on t (view r') (changed view r t k
     (sorted_set (\<lambda>m. case z m of None \<Rightarrow> None | Some s \<Rightarrow> if lo \<le> s \<and> s \<le> hi then None else Some s)))"
  unfolding redis_serves_def serves_ZREM_def by blast

lemma serves_ZAdd:
  "redis_serves R view dl \<Longrightarrow> sorted_at (view r t k) = Some z \<Longrightarrow>
   \<exists>n r'. rd_ZAdd R t k s m r = (Ok n, r') \<and> from_on t (view r') (changed view r t k (sorted_set (z(m \<mapsto> s))))"
  unfolding redis_serves_def serves_ZADD_def by blast

lemma serves_ZCard:
  "redis_serves R view dl \<Longrightarrow> sorted_at (view r t k) = Some z \<Longrightarrow>
   \<exists>r'. rd_ZCard R t k r = (Ok (int (card (dom z))), r') \<and> from_on t (view r') (view r)"
  unfolding redis_serves_def serves_ZCARD_def by blast

lemma serves_Expire:
  "redis_serves R view dl \<Longrightarrow> 0 < ttl \<Longrightarrow>
   \<exists>r'. rd_Expire R t k ttl r = (Ok (view r t k \<noteq> None), r')
     \<and> from_on t (view r') (\<lambda>t'. (view r t')(k := if t' < dl t ttl then view r t k else None))"
  unfolding redis_serves_def serves_EXPIRE_def by blast

lemma serves_HMGet:
  "redis_serves R view dl \<Longrightarrow> hash_at (view r t k) = Some h \<Longrightarrow>
   \<exists>r'. rd_HMGet R t k fs r = (Ok (map h fs), r') \<and> from_on t (view r') (view r)"
  unfolding redis_serves_def serves_HM_def by blast

lemma serves_HMSet:
  "redis_serves R view dl \<Longrightarrow> hash_at (view r t k) = Some h \<Longrightarrow> fvs \<noteq> [] \<Longrightarrow>
   \<exists>r'. rd_HMSet R t k fvs r = (Ok (), r')
     \<and> from_on t (view r') (changed view r t k (Some (RHash (h(map fst fvs [\<mapsto>] map snd fvs)))))"
  unfolding redis_serves_def serves_HM_def by blast

lemma run_redis_Ok [simp]:
  "f (v2_redis_time E (v_cmds w)) (v_redis w) = (Ok x, r') \<Longrightarrow>
   run_redis E f w = (Ok x, w\<lparr>v_cmds := v_cmds w + 1, v_redis := r'\<rparr>)"
  by (simp add: run_redis_def)

end
