(* ===== verification/Legacy_Fixture.thy ===== *)
theory Legacy_Fixture
  imports Legacy_Crypto Legacy_Redis "HOL-Library.AList"
begin

text \<open>
  Legacy auth engine: a concrete Redis server and concrete surroundings, on which the
  hypotheses about them are shown to hold together. The server keeps a list of keys with
  their values and ends; claims and stored codes are written as lists of hexadecimal fields.
\<close>

section \<open>A server\<close>

datatype demo_value = DString string | DSorted "(string \<times> int) list" | DHash "(string \<times> string) list"

type_synonym demo_redis = "(string \<times> demo_value \<times> int option) list"

fun alive :: "int option \<Rightarrow> int \<Rightarrow> bool" where
  "alive None t = True"
| "alive (Some e) t = (t < e)"

fun value_of :: "demo_value \<Rightarrow> redis_value" where
  "value_of (DString s) = RString s"
| "value_of (DSorted z) = RSorted (map_of z)"
| "value_of (DHash h) = RHash (map_of h)"

definition held :: "demo_redis \<Rightarrow> int \<Rightarrow> string \<Rightarrow> (demo_value \<times> int option) option" where
  "held r t k = (case map_of r k of None \<Rightarrow> None | Some (v, d) \<Rightarrow> if alive d t then Some (v, d) else None)"

definition demo_view :: "demo_redis \<Rightarrow> int \<Rightarrow> string \<Rightarrow> redis_value option" where
  "demo_view r t k = map_option (value_of \<circ> fst) (held r t k)"

definition demo_end :: "int \<Rightarrow> int \<Rightarrow> int" where
  "demo_end t ttl = t + ttl"

definition wrong_type :: "(string, 'a) outcome" where
  "wrong_type = Err ''WRONGTYPE''"

definition demo_Get :: "int \<Rightarrow> string \<Rightarrow> (demo_redis, string, string option) go" where
  "demo_Get t k r =
     (case held r t k of None \<Rightarrow> Ok None | Some (DString s, _) \<Rightarrow> Ok (Some s) | _ \<Rightarrow> wrong_type, r)"

definition demo_Set :: "int \<Rightarrow> string \<Rightarrow> string \<Rightarrow> int \<Rightarrow> (demo_redis, string, unit) go" where
  "demo_Set t k v ttl r = (Ok (), AList.update k (DString v, Some (demo_end t ttl)) r)"

definition demo_Incr :: "int \<Rightarrow> string \<Rightarrow> (demo_redis, string, int) go" where
  "demo_Incr t k r =
     (case held r t k of
        None \<Rightarrow> (Ok 1, AList.update k (DString ''1'', None) r)
      | Some (DString s, d) \<Rightarrow>
          (case signed_value s of
             Some n \<Rightarrow> if n < 2 ^ 63 - 1 then (Ok (n + 1), AList.update k (DString (itoa (n + 1)), d) r)
                       else (Err ''overflow'', r)
           | None \<Rightarrow> (Err ''not an integer'', r))
      | _ \<Rightarrow> (wrong_type, r))"

definition demo_Expire :: "int \<Rightarrow> string \<Rightarrow> int \<Rightarrow> (demo_redis, string, bool) go" where
  "demo_Expire t k ttl r =
     (case held r t k of
        None \<Rightarrow> (Ok False, r)
      | Some (v, d) \<Rightarrow> (Ok True, AList.update k (v, Some (demo_end t ttl)) r))"

definition demo_Keys :: "int \<Rightarrow> string \<Rightarrow> (demo_redis, string, string list) go" where
  "demo_Keys t pattern r = (Ok (filter (\<lambda>k. has_prefix k (butlast pattern)) (map fst r)), r)"

definition demo_Del :: "int \<Rightarrow> string list \<Rightarrow> (demo_redis, string, int) go" where
  "demo_Del t ks r = (Ok (int (length (filter (\<lambda>k. held r t k \<noteq> None) ks))), filter (\<lambda>x. fst x \<notin> set ks) r)"

definition sorted_held :: "demo_redis \<Rightarrow> int \<Rightarrow> string \<Rightarrow> ((string \<times> int) list \<times> int option) option" where
  "sorted_held r t k =
     (case held r t k of None \<Rightarrow> Some ([], None) | Some (DSorted z, d) \<Rightarrow> Some (z, d) | _ \<Rightarrow> None)"

definition put_sorted :: "string \<Rightarrow> (string \<times> int) list \<Rightarrow> int option \<Rightarrow> demo_redis \<Rightarrow> demo_redis" where
  "put_sorted k z d r = (if z = [] then filter (\<lambda>x. fst x \<noteq> k) r else AList.update k (DSorted z, d) r)"

definition demo_ZRem :: "int \<Rightarrow> string \<Rightarrow> int \<Rightarrow> int \<Rightarrow> (demo_redis, string, int) go" where
  "demo_ZRem t k lo hi r =
     (case sorted_held r t k of
        None \<Rightarrow> (wrong_type, r)
      | Some (z, d) \<Rightarrow> (Ok 0, put_sorted k (filter (\<lambda>(m, s). \<not> (lo \<le> s \<and> s \<le> hi)) (AList.clearjunk z)) d r))"

definition demo_ZAdd :: "int \<Rightarrow> string \<Rightarrow> int \<Rightarrow> string \<Rightarrow> (demo_redis, string, int) go" where
  "demo_ZAdd t k s m r =
     (case sorted_held r t k of
        None \<Rightarrow> (wrong_type, r)
      | Some (z, d) \<Rightarrow> (Ok 1, put_sorted k (AList.update m s z) d r))"

definition demo_ZCard :: "int \<Rightarrow> string \<Rightarrow> (demo_redis, string, int) go" where
  "demo_ZCard t k r =
     (case sorted_held r t k of
        None \<Rightarrow> (wrong_type, r)
      | Some (z, d) \<Rightarrow> (Ok (int (length (AList.clearjunk z))), r))"

definition demo_HMGet :: "int \<Rightarrow> string \<Rightarrow> string list \<Rightarrow> (demo_redis, string, string option list) go" where
  "demo_HMGet t k fs r =
     (case held r t k of
        None \<Rightarrow> Ok (map (\<lambda>_. None) fs) | Some (DHash h, d) \<Rightarrow> Ok (map (map_of h) fs) | _ \<Rightarrow> wrong_type, r)"

definition demo_HMSet :: "int \<Rightarrow> string \<Rightarrow> (string \<times> string) list \<Rightarrow> (demo_redis, string, unit) go" where
  "demo_HMSet t k fvs r =
     (case held r t k of
        None \<Rightarrow> (Ok (), AList.update k (DHash (rev fvs), None) r)
      | Some (DHash h, d) \<Rightarrow> (Ok (), AList.update k (DHash (rev fvs @ h), d) r)
      | _ \<Rightarrow> (wrong_type, r))"

definition demo_server :: "demo_redis redis" where
  "demo_server = \<lparr>rd_Get = demo_Get, rd_Set = demo_Set, rd_Incr = demo_Incr, rd_Expire = demo_Expire,
     rd_Keys = demo_Keys, rd_Del = demo_Del, rd_ZRemRangeByScore = demo_ZRem, rd_ZAdd = demo_ZAdd,
     rd_ZCard = demo_ZCard, rd_HMGet = demo_HMGet, rd_HMSet = demo_HMSet\<rparr>"


section \<open>It keeps the promises\<close>

lemma held_update:
  "held (AList.update k (v, d) r) t = (held r t)(k := if alive d t then Some (v, d) else None)"
  by (auto simp: held_def update_conv' fun_eq_iff)

lemma demo_view_update:
  "demo_view (AList.update k (v, d) r) t = (demo_view r t)(k := if alive d t then Some (value_of v) else None)"
  by (auto simp: demo_view_def held_update fun_eq_iff)

lemma held_filter: "held (filter (\<lambda>x. fst x \<notin> K) r) t k = (if k \<in> K then None else held r t k)"
proof -
  have "map_of (filter (\<lambda>x. fst x \<notin> K) r) k = (if k \<in> K then None else map_of r k)"
    by (induction r) auto
  then show ?thesis by (simp add: held_def)
qed

lemma demo_view_filter:
  "demo_view (filter (\<lambda>x. fst x \<notin> K) r) t = (\<lambda>k. if k \<in> K then None else demo_view r t k)"
  by (auto simp: demo_view_def held_filter)

text \<open>Once held, a value stays until its end.\<close>

lemma held_later: "held r t k = Some (v, d) \<Longrightarrow> t \<le> t' \<Longrightarrow> held r t' k = (if alive d t' then Some (v, d) else None)"
  by (cases d) (auto simp: held_def split: option.splits if_splits)

lemma demo_changed:
  assumes "held r t k = None \<and> d = None \<or> (\<exists>v0. held r t k = Some (v0, d))"
  shows "from_on t (demo_view (AList.update k (v, d) r)) (changed demo_view r t k (Some (value_of v)))"
  using assms by (auto simp: from_on_def changed_def demo_view_update demo_view_def fun_eq_iff held_later)

lemma put_sorted_changed:
  assumes "sorted_held r t k = Some (z0, d)"
  shows "from_on t (demo_view (put_sorted k z d r)) (changed demo_view r t k (sorted_set (map_of z)))"
proof (cases "z = []")
  case True
  then show ?thesis
    using demo_view_filter [of "{k}" r]
    by (auto simp: from_on_def changed_def put_sorted_def sorted_set_def fun_eq_iff)
next
  case False
  have "held r t k = None \<and> d = None \<or> (\<exists>v0. held r t k = Some (v0, d))"
    using assms by (auto simp: sorted_held_def split: option.splits demo_value.splits)
  moreover have "map_of z \<noteq> Map.empty" using False by (cases z) (auto simp: fun_eq_iff)
  ultimately show ?thesis
    using False demo_changed [of r t k d "DSorted z"] by (simp add: put_sorted_def sorted_set_def)
qed

lemma sorted_held_at:
  "sorted_at (demo_view r t k) = Some z \<Longrightarrow> \<exists>y d. sorted_held r t k = Some (y, d) \<and> map_of y = z"
  by (cases "held r t k")
    (auto simp: demo_view_def sorted_held_def split: demo_value.splits elim!: value_of.elims)

lemma demo_serves_strings:
  "serves_GET demo_server demo_view" "serves_SET demo_server demo_view demo_end"
  "serves_DEL demo_server demo_view" "serves_KEYS demo_server demo_view"
proof -
  show "serves_GET demo_server demo_view"
    by (auto simp: serves_GET_def demo_server_def demo_Get_def demo_view_def wrong_type_def from_on_def
        split: option.splits demo_value.splits)
  show "serves_SET demo_server demo_view demo_end"
    by (auto simp: serves_SET_def demo_server_def demo_Set_def demo_view_update from_on_def fun_eq_iff)
  show "serves_DEL demo_server demo_view"
    by (auto simp: serves_DEL_def demo_server_def demo_Del_def demo_view_filter from_on_def)
  have "k \<in> fst ` set r" if "demo_view r t k \<noteq> None" for r t k
    using that by (auto simp: demo_view_def held_def split: option.splits dest!: map_of_SomeD intro: rev_image_eqI)
  then show "serves_KEYS demo_server demo_view"
    by (auto simp: serves_KEYS_def demo_server_def demo_Keys_def from_on_def)
qed

lemma value_of_string [simp]: "value_of v = RString s \<longleftrightarrow> v = DString s"
  by (cases v) simp_all

lemma demo_serves_INCR: "serves_INCR demo_server demo_view"
  unfolding serves_INCR_def
proof (intro allI)
  fix t k r
  obtain x r' where run: "demo_Incr t k r = (x, r')" by fastforce
  have "x \<noteq> Panic" and "\<forall>k' t'. k' \<noteq> k \<longrightarrow> demo_view r' t' k' = demo_view r t' k'"
    using run by (auto simp: demo_Incr_def demo_view_update wrong_type_def
        split: option.splits demo_value.splits if_splits prod.splits)
  moreover have "x = Ok (n + 1) \<and> from_on t (demo_view r') (changed demo_view r t k (Some (RString (itoa (n + 1)))))"
    if at: "demo_view r t k = None \<and> n = 0 \<or> demo_view r t k = Some (RString (itoa n))" and n: "n < 2 ^ 63 - 1" for n
  proof (cases "held r t k")
    case None
    with at have "n = 0" by (simp add: demo_view_def)
    moreover have "itoa 1 = ''1''" by code_simp
    ultimately show ?thesis
      using run None demo_changed [of r t k None "DString ''1''"] by (auto simp: demo_Incr_def)
  next
    case (Some y)
    then obtain d where "held r t k = Some (DString (itoa n), d)"
      using at by (cases y) (auto simp: demo_view_def)
    then show ?thesis
      using run n demo_changed [of r t k d "DString (itoa (n + 1))"]
      by (auto simp: demo_Incr_def signed_value_itoa)
  qed
  ultimately show "\<exists>x r'. rd_Incr demo_server t k r = (x, r') \<and> x \<noteq> Panic
      \<and> (\<forall>n. (demo_view r t k = None \<and> n = 0 \<or> demo_view r t k = Some (RString (itoa n))) \<longrightarrow> n < 2 ^ 63 - 1 \<longrightarrow>
           x = Ok (n + 1) \<and> from_on t (demo_view r') (changed demo_view r t k (Some (RString (itoa (n + 1))))))
      \<and> (\<forall>k' t'. k' \<noteq> k \<longrightarrow> t \<le> t' \<longrightarrow> demo_view r' t' k' = demo_view r t' k')"
    using run by (intro exI [of _ x] exI [of _ r']) (auto simp: demo_server_def)
qed

lemma demo_serves_EXPIRE: "serves_EXPIRE demo_server demo_view demo_end"
  unfolding serves_EXPIRE_def
proof (intro allI impI)
  fix t k ttl r
  show "\<exists>r'. rd_Expire demo_server t k ttl r = (Ok (demo_view r t k \<noteq> None), r')
      \<and> from_on t (demo_view r') (\<lambda>t'. (demo_view r t')(k := if t' < demo_end t ttl then demo_view r t k else None))"
  proof (cases "held r t k")
    case None
    then have "held r t' k = None" if "t \<le> t'" for t'
      using that by (auto simp: held_def split: option.splits if_splits elim!: alive.elims)
    with None show ?thesis
      by (auto simp: demo_server_def demo_Expire_def demo_view_def from_on_def fun_eq_iff)
  next
    case (Some y)
    obtain v d where "y = (v, d)" by fastforce
    with Some show ?thesis
      by (auto simp: demo_server_def demo_Expire_def from_on_def demo_view_update)
        (simp_all add: demo_view_def)
  qed
qed

lemma demo_serves_sorted:
  "serves_ZREM demo_server demo_view" "serves_ZADD demo_server demo_view" "serves_ZCARD demo_server demo_view"
proof -
  have rem: "map_of (filter (\<lambda>(m, s). \<not> (lo \<le> s \<and> s \<le> hi)) (AList.clearjunk y)) =
      (\<lambda>m. case map_of y m of None \<Rightarrow> None | Some s \<Rightarrow> if lo \<le> s \<and> s \<le> hi then None else Some s)"
    for lo hi :: int and y :: "(string \<times> int) list"
  proof -
    have "map_of (filter (\<lambda>(m, s). \<not> (lo \<le> s \<and> s \<le> hi)) z) =
        (\<lambda>m. case map_of z m of None \<Rightarrow> None | Some s \<Rightarrow> if lo \<le> s \<and> s \<le> hi then None else Some s)"
      if "distinct (map fst z)" for z :: "(string \<times> int) list"
      using that by (induction z) (auto simp: fun_eq_iff map_of_eq_None_iff split: option.splits, (force+)?)
    from this [of "AList.clearjunk y"] show ?thesis by (simp add: map_of_clearjunk)
  qed
  show "serves_ZREM demo_server demo_view"
    unfolding serves_ZREM_def
    by (auto simp: demo_server_def demo_ZRem_def rem [symmetric] dest!: sorted_held_at intro: put_sorted_changed)
  show "serves_ZADD demo_server demo_view"
    unfolding serves_ZADD_def
    by (auto simp: demo_server_def demo_ZAdd_def update_conv' [symmetric] dest!: sorted_held_at intro: put_sorted_changed)
  have "length (AList.clearjunk y) = card (dom (map_of y))" for y :: "(string \<times> int) list"
    by (metis distinct_card distinct_clearjunk dom_map_of_conv_image_fst length_map list.set_map map_of_clearjunk)
  then show "serves_ZCARD demo_server demo_view"
    by (auto simp: serves_ZCARD_def demo_server_def demo_ZCard_def from_on_def dest!: sorted_held_at)
qed

lemma demo_serves_HM: "serves_HM demo_server demo_view"
proof -
  have "\<exists>y. v = DHash y \<and> map_of y = h" if "hash_at (Some (value_of v)) = Some h" for v h
    using that by (cases v) auto
  then have read: "held r t k = None \<and> h = Map.empty \<or> (\<exists>y d. held r t k = Some (DHash y, d) \<and> map_of y = h)"
    if "hash_at (demo_view r t k) = Some h" for r t k h
    using that by (cases "held r t k") (fastforce simp: demo_view_def)+
  have ups: "h(map fst fvs [\<mapsto>] map snd fvs) = h ++ map_of (rev fvs)" for h and fvs :: "(string \<times> string) list"
    by (simp add: map_upds_def zip_map_fst_snd)
  have "\<exists>r'. rd_HMGet demo_server t k fs r = (Ok (map h fs), r') \<and> from_on t (demo_view r') (demo_view r)"
    if "hash_at (demo_view r t k) = Some h" for r t k h fs
    using read [OF that] by (auto simp: demo_server_def demo_HMGet_def from_on_def)
  moreover have "\<exists>r'. rd_HMSet demo_server t k fvs r = (Ok (), r')
       \<and> from_on t (demo_view r') (changed demo_view r t k (Some (RHash (h(map fst fvs [\<mapsto>] map snd fvs)))))"
    if "hash_at (demo_view r t k) = Some h" for r t k h fvs
    using read [OF that]
    by (auto simp: demo_server_def demo_HMSet_def ups
        intro!: demo_changed [of r t k _ "DHash (rev fvs)", simplified]
                demo_changed [of r t k _ "DHash (rev fvs @ y)" for y, simplified])
  ultimately show ?thesis unfolding serves_HM_def by blast
qed

lemma demo_serves: "redis_serves demo_server demo_view demo_end"
proof -
  have "keys_rest demo_view"
    by (auto simp: keys_rest_def demo_view_def held_def split: option.splits if_splits elim!: alive.elims)
  then show ?thesis
    by (simp add: redis_serves_def demo_serves_strings demo_serves_INCR demo_serves_EXPIRE
        demo_serves_sorted demo_serves_HM)
qed


section \<open>Surroundings\<close>

definition hexed :: "string list \<Rightarrow> string" where
  "hexed xs = join_with CHR ''|'' (map hex_encode xs)"

definition unhexed :: "string \<Rightarrow> string list" where
  "unhexed s = map (\<lambda>x. case hex_decode x of Inr y \<Rightarrow> y | Inl _ \<Rightarrow> []) (split_on CHR ''|'' s)"

lemma unhexed_hexed: "xs \<noteq> [] \<Longrightarrow> unhexed (hexed xs) = xs"
proof -
  assume "xs \<noteq> []"
  moreover have "CHR ''|'' \<notin> set (hex_encode x)" for x
    by (rule hex.enc_sep_free) (simp add: hex_table_def)
  ultimately have "split_on CHR ''|'' (hexed xs) = map hex_encode xs"
    unfolding hexed_def by (intro split_join) auto
  then show ?thesis by (simp add: unhexed_def comp_def hex.dec_enc)
qed

definition opt_field :: "string option \<Rightarrow> string" where
  "opt_field x = (case x of None \<Rightarrow> [] | Some s \<Rightarrow> CHR ''+'' # s)"

definition field_opt :: "string \<Rightarrow> string option" where
  "field_opt s = (case s of [] \<Rightarrow> None | c # t \<Rightarrow> Some t)"

definition bool_field :: "bool \<Rightarrow> string" where
  "bool_field b = (if b then ''t'' else ''f'')"

definition int_of :: "string \<Rightarrow> int" where
  "int_of s = (case signed_value s of None \<Rightarrow> 0 | Some i \<Rightarrow> i)"

lemma fields_read [simp]:
  "field_opt (opt_field x) = x" "(bool_field b = ''t'') = b" "int_of (itoa i) = i"
  by (simp_all add: field_opt_def opt_field_def bool_field_def int_of_def signed_value_itoa split: option.splits)

definition claim_fields :: "v2_Claims \<Rightarrow> string list" where
  "claim_fields c = [cl_UserID c, cl_SessionID c, cl_Role c, opt_field (cl_Email c), opt_field (cl_Phone c),
     bool_field (cl_MFADone c), cl_TokenType c, cl_ID c, cl_Issuer c, itoa (cl_IssuedAt c),
     itoa (cl_NotBefore c), itoa (cl_ExpiresAt c)]"

fun fields_claims :: "string list \<Rightarrow> v2_Claims option" where
  "fields_claims [u, s, r, e, p, m, ty, i, iss, iat, nbf, ex] =
     Some \<lparr>cl_UserID = u, cl_SessionID = s, cl_Role = r, cl_Email = field_opt e, cl_Phone = field_opt p,
       cl_MFADone = (m = ''t''), cl_TokenType = ty, cl_ID = i, cl_Issuer = iss, cl_IssuedAt = int_of iat,
       cl_NotBefore = int_of nbf, cl_ExpiresAt = int_of ex\<rparr>"
| "fields_claims _ = None"

lemma fields_claims_fields [simp]: "fields_claims (claim_fields c) = Some c"
  by (simp add: claim_fields_def)

definition v2_demo_Sign :: "string \<Rightarrow> v2_Claims \<Rightarrow> string option" where
  "v2_demo_Sign secret c = Some (hexed (secret # claim_fields c))"

definition v2_demo_Parse :: "string \<Rightarrow> (bool \<Rightarrow> string option) \<Rightarrow> int \<Rightarrow> jwt_result" where
  "v2_demo_Parse t key now =
     (case unhexed t of
        [] \<Rightarrow> JwtRefused
      | secret # fs \<Rightarrow>
          (case fields_claims fs of
             None \<Rightarrow> JwtRefused
           | Some c \<Rightarrow>
               if key True \<noteq> Some secret then JwtRefused
               else if now \<ge> cl_ExpiresAt c then JwtExpired
               else if now < cl_NotBefore c then JwtRefused else JwtParsed c True))"

definition demo_otp_Marshal :: "v2_OTP \<Rightarrow> string option" where
  "demo_otp_Marshal x = Some (hexed [ot_ID x, ot_UserID x, ot_Code x, ot_Purpose x, ot_Channel x, ot_Recipient x,
     itoa (ot_Attempts x), bool_field (ot_Verified x), itoa (ot_ExpiresAt x)])"

definition demo_otp_Unmarshal :: "string \<Rightarrow> v2_OTP option" where
  "demo_otp_Unmarshal s =
     (case unhexed s of
        [i, u, c, p, ch, r, a, v, ex] \<Rightarrow>
          Some \<lparr>ot_ID = i, ot_UserID = u, ot_Code = c, ot_Purpose = p, ot_Channel = ch, ot_Recipient = r,
            ot_Attempts = int_of a, ot_Verified = (v = ''t''), ot_ExpiresAt = int_of ex\<rparr>
      | _ \<Rightarrow> None)"

definition v2_demo_config :: v2_config where
  "v2_demo_config = \<lparr>
     cfg_JWT = \<lparr>AccessSecret = ''A'', RefreshSecret = ''R'', AccessExpiry = 15 * minute, RefreshExpiry = 600 * minute,
       Issuer = ''dift'', Algorithm = ''HS512'', RotationEnabled = False, RotationInterval = 0\<rparr>,
     cfg_OTP = \<lparr>otp_Length = 6, otp_Expiry = 5 * minute, MaxAttempts = 5, CooldownPeriod = minute,
       TOTPEnabled = True, TOTPIssuer = ''dift''\<rparr>,
     cfg_OAuth = \<lparr>Google = \<lparr>google_ClientID = ''gid'', google_ClientSecret = ''gs'', google_RedirectURL = [], google_Scopes = []\<rparr>,
       Apple = \<lparr>apple_ClientID = ''aid'', apple_TeamID = [], apple_KeyID = [], apple_PrivateKey = [], apple_RedirectURL = []\<rparr>\<rparr>,
     cfg_Face = \<lparr>ModelPath = [], Tolerance = 0x3F19999A, MinConfidence = 0x3F4CCCCD, StoragePath = [], MaxFaceSize = 0,
       LivenessEnabled = True\<rparr>,
     cfg_Security = \<lparr>BcryptCost = 12, MaxLoginAttempts = 5, LockoutDuration = 15 * minute, PasswordMinLength = 8,
       PasswordRequireUpper = False, PasswordRequireLower = False, PasswordRequireDigit = False, PasswordRequireSpec = False,
       SessionMaxDevices = 2, MFARequired = False, IPWhitelist = [],
       RateLimit = \<lparr>LoginPerMinute = 10, OTPPerHour = 5, RegisterPerDay = 5, GlobalPerSecond = 100\<rparr>\<rparr>,
     cfg_Audit = \<lparr>audit_Enabled = True, LogLevel = ''info'', RetentionDays = 90, WebhookURL = []\<rparr>\<rparr>"

text \<open>
  Clocks that advance one second per reading, counted identifiers and random bytes, no faults;
  a hash that is its argument, a password hash that only hides the password, floats that are
  compared and combined as integers.
\<close>

definition demo_engine :: "demo_redis v2_env" where
  "demo_engine = \<lparr>
     v2_cfg = v2_demo_config,
     v2_turn = (\<lambda>n. \<lparr>t_now = int n * second, t_scan = (\<lambda>m. [0..<m]), t_fault = None\<rparr>),
     v2_stamp = (\<lambda>t. t),
     v2_now = (\<lambda>n. int n * second),
     v2_uuid = (\<lambda>n. ''id-'' @ show_nat n),
     v2_rand = (\<lambda>i n. Some (replicate n (byte (i mod 256)))),
     v2_rand_Int = (\<lambda>i m. if m \<le> 0 then None else Some ((123456 + int i) mod m)),
     v2_sha256 = (\<lambda>s. s),
     v2_bcrypt_Generate = (\<lambda>i p n. Some (CHR ''$'' # p)),
     v2_bcrypt_Compare = (\<lambda>h p. h = CHR ''$'' # p),
     v2_gcm_Seal = (\<lambda>k n p. p),
     v2_gcm_Open = (\<lambda>k n c. Some c),
     v2_jwt_Sign = v2_demo_Sign,
     v2_jwt_Parse = v2_demo_Parse,
     v2_totp_Generate = (\<lambda>i iss u. Some (''secret'', ''otpauth'')),
     v2_totp_Validate = (\<lambda>c secret now. c = ''000000''),
     v2_otp_Marshal = demo_otp_Marshal,
     v2_otp_Unmarshal = demo_otp_Unmarshal,
     v2_deliver = (\<lambda>n. None),
     v2_redis = demo_server,
     v2_redis_time = (\<lambda>n. int n * second),
     v2_uni = (\<lambda>s. s),
     v2_f32 = \<lparr>f32_add = (+), f32_sub = (-), f32_mul = (*), f32_sqrt = (\<lambda>x. x), f32_less = (<), f32_le = (\<le>)\<rparr>,
     v2_Seconds = (\<lambda>d. d div second),
     v2_http_Get = (\<lambda>n url. Err ''no network''),
     v2_google_Unmarshal = (\<lambda>s. None),
     v2_apple_Unmarshal = (\<lambda>s. None),
     OTPChannelEmail = ''email'',
     OTPChannelSMS = ''sms'',
     OTPPurposeVerifyEmail = ''verify_email'',
     OTPPurposeVerifyPhone = ''verify_phone'',
     OTPPurposePasswordReset = ''password_reset''\<rparr>"

definition v2_empty :: "demo_redis v2" where
  "v2_empty = \<lparr>v_db = \<lparr>tb_users = [], tb_sessions = [], tb_oauth_providers = [], tb_face_enrollments = [],
       tb_audit_logs = [], tb_api_keys = []\<rparr>,
     v_redis = [], v_sent = [], v_stmts = 0, v_cmds = 0, v_clock = 0, v_uuids = 0, v_rands = 0, v_gets = 0\<rparr>"

lemma demo_engine_simps [simp]:
  "v2_cfg demo_engine = v2_demo_config" "t_fault (v2_turn demo_engine n) = None" "t_now (v2_turn demo_engine n) = int n * second"
  "v2_stamp demo_engine t = t" "v2_now demo_engine n = int n * second" "v2_uuid demo_engine n = ''id-'' @ show_nat n"
  "v2_rand demo_engine n m = Some (replicate m (byte (n mod 256)))"
  "v2_rand_Int demo_engine n i = (if i \<le> 0 then None else Some ((123456 + int n) mod i))"
  "v2_sha256 demo_engine s = s" "v2_bcrypt_Generate demo_engine n p i = Some (CHR ''$'' # p)"
  "v2_bcrypt_Compare demo_engine h p \<longleftrightarrow> h = CHR ''$'' # p" "v2_jwt_Sign demo_engine = v2_demo_Sign"
  "v2_jwt_Parse demo_engine = v2_demo_Parse" "v2_totp_Validate demo_engine c s t \<longleftrightarrow> c = ''000000''"
  "v2_otp_Marshal demo_engine = demo_otp_Marshal" "v2_otp_Unmarshal demo_engine = demo_otp_Unmarshal"
  "v2_deliver demo_engine n = None" "v2_redis demo_engine = demo_server" "v2_redis_time demo_engine n = int n * second"
  "v2_Seconds demo_engine t = t div second" "OTPChannelEmail demo_engine = ''email''" "OTPChannelSMS demo_engine = ''sms''"
  "OTPPurposeVerifyEmail demo_engine = ''verify_email''" "OTPPurposeVerifyPhone demo_engine = ''verify_phone''"
  "OTPPurposePasswordReset demo_engine = ''password_reset''"
  by (simp_all add: demo_engine_def)

lemma demo_server_simps [simp]:
  "rd_Get demo_server = demo_Get" "rd_Set demo_server = demo_Set" "rd_Incr demo_server = demo_Incr"
  "rd_Expire demo_server = demo_Expire" "rd_Keys demo_server = demo_Keys" "rd_Del demo_server = demo_Del"
  "rd_ZRemRangeByScore demo_server = demo_ZRem" "rd_ZAdd demo_server = demo_ZAdd" "rd_ZCard demo_server = demo_ZCard"
  "rd_HMGet demo_server = demo_HMGet" "rd_HMSet demo_server = demo_HMSet"
  by (simp_all add: demo_server_def)

lemma demo_redis_ready: "redis_ready demo_engine demo_view demo_end"
  by (simp add: redis_ready_def demo_engine_def demo_serves mono_def second_def)

lemma demo_db_up: "db_up demo_engine"
  by (simp add: db_up_def demo_engine_def)

lemma v2_demo_jwt: "v2_jwt_roundtrip demo_engine" "v2_jwt_carries_claims demo_engine"
  by (auto simp: v2_jwt_roundtrip_def v2_jwt_carries_claims_def demo_engine_def v2_demo_Sign_def v2_demo_Parse_def
      unhexed_hexed split: if_splits)

lemma demo_otp_roundtrip: "v2_otp_Marshal demo_engine x = Some d \<Longrightarrow> v2_otp_Unmarshal demo_engine d = Some x"
  by (auto simp: demo_engine_def demo_otp_Marshal_def demo_otp_Unmarshal_def unhexed_hexed)

lemma demo_crypto: "gcm_opens demo_engine" "rand_length demo_engine"
  by (simp_all add: gcm_opens_def rand_length_def demo_engine_def)

text \<open>A user with one open session, three failed logins behind.\<close>

definition demo_v2_user :: v2_User where
  "demo_v2_user = \<lparr>us_ID = ''u1'', us_Email = Some ''a@b.io'', us_Phone = None, us_PasswordHash = Some ''$hunter22'',
     us_DisplayName = ''A'', us_AvatarURL = None, us_Status = ''active'', us_Role = ''user'', us_EmailVerified = True,
     us_PhoneVerified = False, us_FaceEnrolled = False, us_MFAEnabled = False, us_MFASecret = None,
     us_MFABackupCodes = [], us_FailedLoginCount = 3, us_LockedUntil = None, us_LastLoginAt = None,
     us_LastLoginIP = None, us_PasswordChangedAt = None, us_CreatedAt = 0, us_UpdatedAt = 0, us_DeletedAt = None\<rparr>"

definition demo_v2_session :: v2_Session where
  "demo_v2_session = \<lparr>ss_ID = ''s1'', ss_UserID = ''u1'', ss_RefreshToken = ''t'', ss_DeviceInfo = [], ss_IPAddress = [],
     ss_UserAgent = [], ss_IsActive = True, ss_ExpiresAt = 1000 * second, ss_LastSeenAt = 0, ss_CreatedAt = 0\<rparr>"

definition demo_v2 :: "demo_redis v2" where
  "demo_v2 = v2_empty\<lparr>v_db := (v_db v2_empty)\<lparr>tb_users := [demo_v2_user], tb_sessions := [demo_v2_session]\<rparr>\<rparr>"

definition v2_demo_claims :: v2_Claims where
  "v2_demo_claims = \<lparr>cl_UserID = ''u1'', cl_SessionID = ''s1'', cl_Role = [], cl_Email = None, cl_Phone = None,
     cl_MFADone = False, cl_TokenType = ''refresh'', cl_ID = ''j'', cl_Issuer = ''dift'', cl_IssuedAt = 0,
     cl_NotBefore = 0, cl_ExpiresAt = 1000\<rparr>"

definition v2_demo_refresh :: string where
  "v2_demo_refresh = the (v2_demo_Sign ''R'' v2_demo_claims)"

lemma v2_demo_refresh_signed: "v2_jwt_Sign demo_engine (RefreshSecret (cfg_JWT (v2_cfg demo_engine))) v2_demo_claims = Some v2_demo_refresh"
  by (simp add: v2_demo_refresh_def v2_demo_Sign_def v2_demo_config_def)

lemma demo_v2_simps [simp]:
  "tb_users (v_db demo_v2) = [demo_v2_user]" "tb_sessions (v_db demo_v2) = [demo_v2_session]"
  "tb_oauth_providers (v_db demo_v2) = []" "tb_face_enrollments (v_db demo_v2) = []" "tb_audit_logs (v_db demo_v2) = []"
  "tb_api_keys (v_db demo_v2) = []" "v_redis demo_v2 = []" "v_sent demo_v2 = []" "v_stmts demo_v2 = 0" "v_cmds demo_v2 = 0"
  "v_clock demo_v2 = 0" "v_uuids demo_v2 = 0" "v_rands demo_v2 = 0"
  by (simp_all add: demo_v2_def v2_empty_def)

end
