(* ===== verification/Legacy_Otp.thy ===== *)
theory Legacy_Otp
  imports Legacy_Fixture
begin

text \<open>
  Legacy auth engine: the store of one-time codes in Redis (\<^verbatim>\<open>OTPStore\<close> of
  \<^verbatim>\<open>internal/repository/stores.go\<close>) and the service over it (\<^verbatim>\<open>internal/otp/service.go\<close>). The server
  is an argument with the promises of \<open>redis_serves\<close>.
\<close>

section \<open>The store\<close>

definition otpKey :: "string \<Rightarrow> string \<Rightarrow> string" where
  "otpKey recipient purpose = ''otp:'' @ purpose @ '':'' @ recipient"

definition otp_Create :: "'r v2_env \<Rightarrow> v2_OTP \<Rightarrow> ('r, unit) eng" where
  "otp_Create E otp0 =
     go_bind (uuid_New E) (\<lambda>i.
     let otp = otp0\<lparr>ot_ID := i\<rparr>
     in case v2_otp_Marshal E otp of
          None \<Rightarrow> go_fail (Plain ''json'')
        | Some data \<Rightarrow>
            go_bind (time_Now E) (\<lambda>now.
            run_redis E (\<lambda>t. rd_Set (v2_redis E) t (otpKey (ot_Recipient otp) (ot_Purpose otp)) data
                               (time_Sub (ot_ExpiresAt otp) now))))"

definition otp_GetValid :: "'r v2_env \<Rightarrow> string \<Rightarrow> string \<Rightarrow> ('r, v2_OTP) eng" where
  "otp_GetValid E recipient purpose =
     go_bind (run_redis E (\<lambda>t. rd_Get (v2_redis E) t (otpKey recipient purpose))) (\<lambda>reply.
     case reply of
       None \<Rightarrow> go_fail ErrNotFound
     | Some data \<Rightarrow>
         (case v2_otp_Unmarshal E data of
            None \<Rightarrow> go_fail (Plain ''json'')
          | Some otp \<Rightarrow> go_return otp))"

definition otp_IncrAttempts :: "'r v2_env \<Rightarrow> string \<Rightarrow> ('r, unit) eng" where
  "otp_IncrAttempts E i =
     go_bind (run_redis E (\<lambda>t. rd_Incr (v2_redis E) t (''otp:att:'' @ i))) (\<lambda>_. go_return ())"

definition otp_MarkVerified :: "'r v2_env \<Rightarrow> string \<Rightarrow> ('r, unit) eng" where
  "otp_MarkVerified E i = run_redis E (\<lambda>t. rd_Set (v2_redis E) t (''otp:ver:'' @ i) ''1'' (5 * minute))"

definition otp_InvalidateAll :: "'r v2_env \<Rightarrow> string \<Rightarrow> string \<Rightarrow> ('r, unit) eng" where
  "otp_InvalidateAll E userID purpose =
     go_bind (run_redis E (\<lambda>t. rd_Keys (v2_redis E) t (''otp:'' @ purpose @ '':*''))) (\<lambda>ks.
     if ks \<noteq> [] then go_bind (run_redis E (\<lambda>t. rd_Del (v2_redis E) t ks)) (\<lambda>_. go_return ())
     else go_return ())"


section \<open>The service\<close>

record SendOTPRequest =
  sr_Recipient :: string
  sr_Channel :: string
  sr_Purpose :: string

record VerifyOTPRequest =
  vr_Recipient :: string
  vr_Code :: string
  vr_Purpose :: string

text \<open>A message is handed to the provider, which may fail.\<close>

definition v2_notify :: "'r v2_env \<Rightarrow> string \<Rightarrow> string \<Rightarrow> string \<Rightarrow> string \<Rightarrow> ('r, unit) eng" where
  "v2_notify E channel recipient c purpose w =
     (case v2_deliver E (length (v_sent w)) of
        None \<Rightarrow> (Ok (), w\<lparr>v_sent := v_sent w @ [(channel, recipient, c, purpose)]\<rparr>)
      | Some msg \<Rightarrow> (Err (Plain msg), w\<lparr>v_sent := v_sent w @ [(channel, recipient, c, purpose)]\<rparr>))"

definition otp_Send :: "'r v2_env \<Rightarrow> string \<Rightarrow> SendOTPRequest \<Rightarrow> ('r, unit) eng" where
  "otp_Send E userID req =
     go_bind (wrapped ''generate otp'' (GenerateOTP E (otp_Length (cfg_OTP (v2_cfg E))))) (\<lambda>c.
     go_ignore (otp_InvalidateAll E userID (sr_Purpose req)) (
     go_bind (time_Now E) (\<lambda>now.
     go_bind (wrapped ''store otp'' (otp_Create E
       \<lparr>ot_ID = [], ot_UserID = userID, ot_Code = c, ot_Purpose = sr_Purpose req, ot_Channel = sr_Channel req,
        ot_Recipient = sr_Recipient req, ot_Attempts = 0, ot_Verified = False,
        ot_ExpiresAt = now + otp_Expiry (cfg_OTP (v2_cfg E))\<rparr>)) (\<lambda>_.
     if sr_Channel req = OTPChannelEmail E
     then wrapped ''send email otp'' (v2_notify E ''email'' (sr_Recipient req) c (sr_Purpose req))
     else if sr_Channel req = OTPChannelSMS E
     then wrapped ''send sms otp'' (v2_notify E ''sms'' (sr_Recipient req) c (sr_Purpose req))
     else go_fail (Plain (''unsupported otp channel: '' @ sr_Channel req))))))"

definition otp_Verify :: "'r v2_env \<Rightarrow> VerifyOTPRequest \<Rightarrow> ('r, unit) eng" where
  "otp_Verify E req =
     go_bind (else_err (otp_GetValid E (vr_Recipient req) (vr_Purpose req)) ErrOTPNotFound) (\<lambda>rec.
     go_bind (time_Now E) (\<lambda>now.
     if now > ot_ExpiresAt rec then go_fail ErrOTPExpired
     else if ot_Attempts rec \<ge> MaxAttempts (cfg_OTP (v2_cfg E)) then go_fail ErrOTPMaxAttempts
     else
       go_ignore (otp_IncrAttempts E (ot_ID rec)) (
       if ot_Code rec \<noteq> vr_Code req then go_fail ErrOTPInvalid
       else otp_MarkVerified E (ot_ID rec))))"

definition GenerateTOTPSecret :: "'r v2_env \<Rightarrow> string \<Rightarrow> ('r, string \<times> string) eng" where
  "GenerateTOTPSecret E userEmail =
     wrapped ''generate totp''
       (v2_draw (\<lambda>i. v2_totp_Generate E i (TOTPIssuer (cfg_OTP (v2_cfg E))) userEmail) ''totp'')"

definition ValidateTOTP :: "'r v2_env \<Rightarrow> string \<Rightarrow> string \<Rightarrow> ('r, bool) eng" where
  "ValidateTOTP E secret c = go_bind (time_Now E) (\<lambda>now. go_return (v2_totp_Validate E c secret now))"


section \<open>The life of a code\<close>

text \<open>Purposes whose keys are apart from the counters and marks of the store.\<close>

definition plain_purpose :: "string \<Rightarrow> bool" where
  "plain_purpose p \<longleftrightarrow> CHR '':'' \<notin> set p \<and> p \<noteq> ''att'' \<and> p \<noteq> ''ver'' \<and> glob_free p"

lemma colon_split: "p @ CHR '':'' # r = q @ CHR '':'' # s \<Longrightarrow> CHR '':'' \<notin> set p \<Longrightarrow> CHR '':'' \<notin> set q \<Longrightarrow> p = q \<and> r = s"
  by (metis split_on_append split_on_free list.inject join_split)

lemma otpKey_inject: "plain_purpose p \<Longrightarrow> otpKey r p = otpKey s p \<longleftrightarrow> r = s"
  by (simp add: otpKey_def)

lemma otpKey_apart:
  assumes "plain_purpose p"
  shows "otpKey r p \<noteq> ''otp:att:'' @ i" and "otpKey r p \<noteq> ''otp:ver:'' @ i"
  using assms colon_split [of p r "''att''" i] colon_split [of p r "''ver''" i]
  by (auto simp: otpKey_def plain_purpose_def)

lemma otpKey_prefix: "has_prefix (otpKey r p) (''otp:'' @ p @ '':'')"
  by (simp add: otpKey_def has_prefix_def)

text \<open>The codes with a purpose, by recipient, as they will be found from the next command on.\<close>

definition codes_are ::
  "'r v2_env \<Rightarrow> 'r keyspace \<Rightarrow> string \<Rightarrow> (int \<Rightarrow> string \<Rightarrow> string option) \<Rightarrow> 'r v2 \<Rightarrow> bool" where
  "codes_are E view p f w \<longleftrightarrow>
     (\<forall>t' \<ge> v2_redis_time E (v_cmds w). \<forall>r. strings view (v_redis w) t' (otpKey r p) = f t' r)"

lemma codes_are_step:
  assumes "codes_are E view p f w" and "mono (v2_redis_time E)"
    and "\<And>t' r. v2_redis_time E (v_cmds w) \<le> t' \<Longrightarrow> strings view s t' (otpKey r p) = strings view (v_redis w) t' (otpKey r p)"
  shows "codes_are E view p f (w\<lparr>v_cmds := Suc (v_cmds w), v_redis := s\<rparr>)"
proof -
  have "v2_redis_time E (v_cmds w) \<le> v2_redis_time E (Suc (v_cmds w))" using assms(2) by (simp add: monoD)
  then show ?thesis using assms(1,3) unfolding codes_are_def by auto
qed

lemma codes_are_frame:
  "codes_are E view p f (w\<lparr>v_clock := n\<rparr>) = codes_are E view p f w"
  "codes_are E view p f (w\<lparr>v_uuids := n\<rparr>) = codes_are E view p f w"
  "codes_are E view p f (w\<lparr>v_sent := m\<rparr>) = codes_are E view p f w"
  "codes_are E view p f (w\<lparr>v_rands := n\<rparr>) = codes_are E view p f w"
  by (simp_all add: codes_are_def)

text \<open>The states apart from the server's and the number of commands sent to it.\<close>

definition only_redis :: "'r v2 \<Rightarrow> 'r v2 \<Rightarrow> bool" where
  "only_redis w w' \<longleftrightarrow> v_clock w' = v_clock w \<and> v_sent w' = v_sent w \<and> v_rands w' = v_rands w
     \<and> v_uuids w' = v_uuids w \<and> v_db w' = v_db w \<and> v_stmts w' = v_stmts w"

lemma only_redisD:
  assumes "only_redis w w'"
  shows "v_clock w' = v_clock w" "v_sent w' = v_sent w" "v_rands w' = v_rands w"
    "v_uuids w' = v_uuids w" "v_db w' = v_db w" "v_stmts w' = v_stmts w"
  using assms by (auto simp: only_redis_def)

lemma Get_step:
  assumes "redis_ready E view dl" and "codes_are E view p f w"
  shows "\<exists>x w'. run_redis E (\<lambda>t. rd_Get (v2_redis E) t k) w = (x, w')
    \<and> (x = Ok (strings view (v_redis w) (v2_redis_time E (v_cmds w)) k)
       \<or> (\<exists>e. x = Err e) \<and> strings view (v_redis w) (v2_redis_time E (v_cmds w)) k = None)
    \<and> codes_are E view p f w' \<and> only_redis w w'"
proof -
  let ?t = "v2_redis_time E (v_cmds w)"
  obtain x s where get: "rd_Get (v2_redis E) ?t k (v_redis w) = (x, s)"
    and same: "from_on ?t (strings view s) (strings view (v_redis w))"
    and x: "x = Ok (strings view (v_redis w) ?t k) \<or> (\<exists>e. x = Err e) \<and> strings view (v_redis w) ?t k = None"
    using serves_Get [OF redis_readyD(1) [OF assms(1)], of ?t k "v_redis w"] by blast
  have "codes_are E view p f (w\<lparr>v_cmds := Suc (v_cmds w), v_redis := s\<rparr>)"
    using same assms(2) redis_readyD(2) [OF assms(1)] by (intro codes_are_step) (simp_all add: from_on_def)
  then show ?thesis using get x by (auto simp: run_redis_def only_redis_def)
qed

lemma Incr_step:
  assumes "redis_ready E view dl" and "plain_purpose p" and "codes_are E view p f w"
  shows "\<exists>x w'. otp_IncrAttempts E i w = (x, w') \<and> x \<noteq> Panic \<and> codes_are E view p f w' \<and> only_redis w w'"
proof -
  obtain x s where "rd_Incr (v2_redis E) (v2_redis_time E (v_cmds w)) (''otp:att:'' @ i) (v_redis w) = (x, s)" "x \<noteq> Panic"
    and keep: "\<And>k' t'. k' \<noteq> ''otp:att:'' @ i \<Longrightarrow> v2_redis_time E (v_cmds w) \<le> t' \<Longrightarrow>
        strings view s t' k' = strings view (v_redis w) t' k'"
    using serves_Incr [OF redis_readyD(1) [OF assms(1)], of "v2_redis_time E (v_cmds w)" "''otp:att:'' @ i" "v_redis w"]
    by blast
  moreover have "codes_are E view p f (w\<lparr>v_cmds := Suc (v_cmds w), v_redis := s\<rparr>)"
    using assms(3) redis_readyD(2) [OF assms(1)] otpKey_apart(1) [OF assms(2)]
    by (intro codes_are_step keep) simp_all
  ultimately show ?thesis
    by (cases x) (auto simp: otp_IncrAttempts_def run_redis_def only_redis_def go_bind_def go_try_def)
qed

lemma Mark_step:
  assumes "redis_ready E view dl" and "plain_purpose p" and "codes_are E view p f w"
  shows "\<exists>w'. otp_MarkVerified E i w = (Ok (), w') \<and> codes_are E view p f w' \<and> only_redis w w'"
proof -
  have "0 < 5 * minute" by (simp add: minute_def second_def)
  then obtain s where "rd_Set (v2_redis E) (v2_redis_time E (v_cmds w)) (''otp:ver:'' @ i) ''1'' (5 * minute) (v_redis w) = (Ok (), s)"
    and "from_on (v2_redis_time E (v_cmds w)) (strings view s)
      (\<lambda>t'. (strings view (v_redis w) t')(''otp:ver:'' @ i := if t' < dl (v2_redis_time E (v_cmds w)) (5 * minute) then Some ''1'' else None))"
    using serves_Set [OF redis_readyD(1) [OF assms(1)], of "5 * minute" "v2_redis_time E (v_cmds w)"
      "''otp:ver:'' @ i" "''1''" "v_redis w"] by blast
  moreover from this(2) have "codes_are E view p f (w\<lparr>v_cmds := Suc (v_cmds w), v_redis := s\<rparr>)"
    using assms(3) redis_readyD(2) [OF assms(1)] otpKey_apart(2) [OF assms(2)]
    by (intro codes_are_step) (simp_all add: from_on_def)
  ultimately show ?thesis
    unfolding otp_MarkVerified_def by (intro exI [of _ "w\<lparr>v_cmds := Suc (v_cmds w), v_redis := s\<rparr>"]) (simp add: only_redis_def)
qed

text \<open>Whatever is tried, the codes stay as they are; the outcome depends on the code found.\<close>

definition verdict :: "'r v2_env \<Rightarrow> string option \<Rightarrow> int \<Rightarrow> string \<Rightarrow> (v2_error, unit) outcome" where
  "verdict E found now c =
     (case Option.bind found (v2_otp_Unmarshal E) of
        None \<Rightarrow> Err ErrOTPNotFound
      | Some rec \<Rightarrow>
          if now > ot_ExpiresAt rec then Err ErrOTPExpired
          else if ot_Attempts rec \<ge> MaxAttempts (cfg_OTP (v2_cfg E)) then Err ErrOTPMaxAttempts
          else if ot_Code rec \<noteq> c then Err ErrOTPInvalid
          else Ok ())"

lemma Verify_run:
  assumes "redis_ready E view dl" and "plain_purpose p" and "codes_are E view p f w"
  shows "codes_are E view p f (snd (otp_Verify E req w))"
    and "vr_Purpose req = p \<Longrightarrow> fst (otp_Verify E req w) =
           verdict E (f (v2_redis_time E (v_cmds w)) (vr_Recipient req)) (v2_now E (v_clock w)) (vr_Code req)"
proof -
  let ?k = "otpKey (vr_Recipient req) (vr_Purpose req)"
  let ?found = "strings view (v_redis w) (v2_redis_time E (v_cmds w)) ?k"
  obtain x w1 where get: "run_redis E (\<lambda>t. rd_Get (v2_redis E) t ?k) w = (x, w1)"
    and x: "x = Ok ?found \<or> (\<exists>e. x = Err e) \<and> ?found = None"
    and w1: "codes_are E view p f w1" "v_clock w1 = v_clock w"
    using Get_step [OF assms(1,3), of ?k] only_redisD(1) by blast
  let ?w2 = "w1\<lparr>v_clock := Suc (v_clock w)\<rparr>"
  have codes2: "codes_are E view p f ?w2" using w1 by (simp add: codes_are_frame)
  have "codes_are E view p f (snd (otp_Verify E req w))
    \<and> fst (otp_Verify E req w) = verdict E ?found (v2_now E (v_clock w)) (vr_Code req)"
  proof (cases "Option.bind ?found (v2_otp_Unmarshal E)")
    case None
    then have "\<exists>e. otp_GetValid E (vr_Recipient req) (vr_Purpose req) w = (Err e, w1)"
      using get x by (cases ?found) (auto simp: otp_GetValid_def go_bind_def)
    then have "otp_Verify E req w = (Err ErrOTPNotFound, w1)"
      by (auto simp: otp_Verify_def else_err_def go_bind_def go_try_def)
    with None w1 show ?thesis by (simp add: verdict_def)
  next
    case (Some rec)
    then have valid: "else_err (otp_GetValid E (vr_Recipient req) (vr_Purpose req)) ErrOTPNotFound w = (Ok rec, w1)"
      using get x by (cases ?found) (auto simp: otp_GetValid_def)
    obtain y w3 where incr: "otp_IncrAttempts E (ot_ID rec) ?w2 = (y, w3)" "y \<noteq> Panic"
      and w3: "codes_are E view p f w3"
      using Incr_step [OF assms(1,2) codes2] by blast
    obtain w4 where mark: "otp_MarkVerified E (ot_ID rec) w3 = (Ok (), w4)" and w4: "codes_are E view p f w4"
      using Mark_step [OF assms(1,2) w3] by blast
    have "go_ignore (otp_IncrAttempts E (ot_ID rec)) m ?w2 = m w3" for m :: "('a, unit) eng"
      using incr by (cases y) (simp_all add: go_ignore_def go_try_def)
    then show ?thesis using Some w1 codes2 w3 w4
      by (simp add: otp_Verify_def valid mark verdict_def)
  qed
  moreover have "?found = f (v2_redis_time E (v_cmds w)) (vr_Recipient req)" if "vr_Purpose req = p"
    using assms(3) that by (simp add: codes_are_def)
  ultimately show "codes_are E view p f (snd (otp_Verify E req w))"
    and "vr_Purpose req = p \<Longrightarrow> fst (otp_Verify E req w) =
           verdict E (f (v2_redis_time E (v_cmds w)) (vr_Recipient req)) (v2_now E (v_clock w)) (vr_Code req)"
    by simp_all
qed

definition verified_many :: "'r v2_env \<Rightarrow> VerifyOTPRequest list \<Rightarrow> 'r v2 \<Rightarrow> 'r v2" where
  "verified_many E vs w = fold (\<lambda>v w. snd (otp_Verify E v w)) vs w"

lemma Verify_many:
  assumes "redis_ready E view dl" and "plain_purpose p" and "codes_are E view p f w"
  shows "codes_are E view p f (verified_many E vs w)"
  using assms(3) unfolding verified_many_def
  by (induction vs arbitrary: w) (simp_all add: Verify_run(1) [OF assms(1,2)])

text \<open>Invalidation withdraws every code with the purpose, whoever it was sent to.\<close>

lemma Invalidate_step:
  assumes ready: "redis_ready E view dl" and "plain_purpose p"
  shows "\<exists>w'. otp_InvalidateAll E userID p w = (Ok (), w') \<and> codes_are E view p (\<lambda>_ _. None) w' \<and> only_redis w w'"
proof -
  note serves = redis_readyD(1) [OF ready] and time = redis_readyD(2) [OF ready]
  let ?t = "v2_redis_time E (v_cmds w)" and ?p = "''otp:'' @ p @ '':''"
  have "glob_free ?p" using assms(2) by (auto simp: plain_purpose_def glob_free_def)
  then obtain ks s where keys: "rd_Keys (v2_redis E) ?t (?p @ ''*'') (v_redis w) = (Ok ks, s)"
    and same: "from_on ?t (strings view s) (strings view (v_redis w))"
    and all: "\<And>k. has_prefix k ?p \<Longrightarrow> strings view (v_redis w) ?t k \<noteq> None \<Longrightarrow> k \<in> set ks"
    using serves_Keys [OF serves, of ?p ?t "v_redis w"] by blast
  let ?w1 = "w\<lparr>v_cmds := Suc (v_cmds w), v_redis := s\<rparr>"
  have later: "?t \<le> v2_redis_time E (Suc (v_cmds w))" using time by (simp add: monoD)
  have run: "run_redis E (\<lambda>t. rd_Keys (v2_redis E) t (''otp:'' @ p @ '':*'')) w = (Ok ks, ?w1)"
    using keys by simp
  have none: "strings view s t' (otpKey r p) = None" if "otpKey r p \<notin> set ks" "?t \<le> t'" for r t'
  proof -
    have "strings view (v_redis w) ?t (otpKey r p) = None" using all otpKey_prefix that(1) by blast
    then show ?thesis using serves_gone [OF serves that(2)] same that(2) by (simp add: from_on_def)
  qed
  show ?thesis
  proof (cases "ks = []")
    case True
    have "otp_InvalidateAll E userID p w = (Ok (), ?w1)" using run True by (simp add: otp_InvalidateAll_def)
    moreover have "codes_are E view p (\<lambda>_ _. None) ?w1"
      using none True later by (simp add: codes_are_def)
    ultimately show ?thesis by (intro exI [of _ "?w1"]) (simp add: only_redis_def)
  next
    case False
    let ?t1 = "v2_redis_time E (Suc (v_cmds w))"
    obtain n s' where del: "rd_Del (v2_redis E) ?t1 ks s = (Ok n, s')"
      and gone: "from_on ?t1 (strings view s') (\<lambda>t' k. if k \<in> set ks then None else strings view s t' k)"
      using serves_Del [OF serves, of ?t1 ks s] by blast
    let ?w2 = "w\<lparr>v_cmds := Suc (Suc (v_cmds w)), v_redis := s'\<rparr>"
    have "otp_InvalidateAll E userID p w = (Ok (), ?w2)"
      using run del False by (simp add: otp_InvalidateAll_def)
    moreover have "?t1 \<le> v2_redis_time E (Suc (Suc (v_cmds w)))" using time by (simp add: monoD)
    then have "codes_are E view p (\<lambda>_ _. None) ?w2"
      using gone none later by (simp add: codes_are_def from_on_def)
    ultimately show ?thesis by (intro exI [of _ "?w2"]) (simp add: only_redis_def)
  qed
qed

text \<open>Storing a code makes it the one found for its recipient, until the key ends.\<close>

lemma Create_step:
  assumes ready: "redis_ready E view dl" and p: "plain_purpose p" and "codes_are E view p (\<lambda>_ _. None) w"
    and "ot_Purpose otp = p" and "otp_Create E otp w = (Ok (), w')"
    and ttl: "v2_now E (v_clock w) < ot_ExpiresAt otp" "ot_ExpiresAt otp - v2_now E (v_clock w) \<le> max_duration"
  shows "\<exists>data. v2_otp_Marshal E (otp\<lparr>ot_ID := v2_uuid E (v_uuids w)\<rparr>) = Some data
    \<and> codes_are E view p (\<lambda>t' r. if r = ot_Recipient otp
         \<and> t' < dl (v2_redis_time E (v_cmds w' - 1)) (ot_ExpiresAt otp - v2_now E (v_clock w)) then Some data else None) w'
    \<and> v_sent w' = v_sent w \<and> v_clock w' = v_clock w + 1"
proof -
  note serves = redis_readyD(1) [OF ready] and time = redis_readyD(2) [OF ready]
  let ?otp = "otp\<lparr>ot_ID := v2_uuid E (v_uuids w)\<rparr>" and ?t = "v2_redis_time E (v_cmds w)"
  let ?ttl = "ot_ExpiresAt otp - v2_now E (v_clock w)"
  have sub: "time_Sub (ot_ExpiresAt otp) (v2_now E (v_clock w)) = ?ttl"
    using ttl by (simp add: time_Sub_def max_duration_def min_duration_def)
  obtain data where data: "v2_otp_Marshal E ?otp = Some data"
    using assms(5) by (cases "v2_otp_Marshal E ?otp") (simp_all add: otp_Create_def Let_def)
  obtain s where set: "rd_Set (v2_redis E) ?t (otpKey (ot_Recipient otp) p) data ?ttl (v_redis w) = (Ok (), s)"
    and s: "from_on ?t (strings view s) (\<lambda>t'. (strings view (v_redis w) t')(otpKey (ot_Recipient otp) p :=
              if t' < dl ?t ?ttl then Some data else None))"
    using serves_Set [OF serves, of ?ttl ?t "otpKey (ot_Recipient otp) p" data "v_redis w"] ttl(1) by auto
  have w': "w' = w\<lparr>v_uuids := Suc (v_uuids w), v_clock := Suc (v_clock w), v_cmds := Suc (v_cmds w), v_redis := s\<rparr>"
    using assms(4,5) data set by (simp add: otp_Create_def Let_def sub run_redis_def)
  have later: "?t \<le> v2_redis_time E (Suc (v_cmds w))" using time by (simp add: monoD)
  have "codes_are E view p (\<lambda>t' r. if r = ot_Recipient otp \<and> t' < dl ?t ?ttl then Some data else None) w'"
    unfolding codes_are_def w'
  proof (simp, intro allI impI)
    fix t' r
    assume "v2_redis_time E (Suc (v_cmds w)) \<le> t'"
    with later have "?t \<le> t'" by simp
    then show "(r = ot_Recipient otp \<and> t' < dl ?t ?ttl \<longrightarrow> strings view s t' (otpKey (ot_Recipient otp) p) = Some data) \<and>
      ((r = ot_Recipient otp \<longrightarrow> \<not> t' < dl ?t ?ttl) \<longrightarrow> strings view s t' (otpKey r p) = None)"
      using s assms(3) p by (auto simp: from_on_def codes_are_def otpKey_inject)
  qed
  then show ?thesis using data by (simp add: w')
qed

definition otp_json_faithful :: "'r v2_env \<Rightarrow> bool" where
  "otp_json_faithful E \<longleftrightarrow> (\<forall>x d. v2_otp_Marshal E x = Some d \<longrightarrow> v2_otp_Unmarshal E d = Some x)"

lemma v2_notify_Ok:
  "v2_notify E ch r c p w = (Ok (), w') \<Longrightarrow> w' = w\<lparr>v_sent := v_sent w @ [(ch, r, c, p)]\<rparr>"
  by (auto simp: v2_notify_def split: option.splits)

text \<open>What a successful sending leaves behind.\<close>

lemma Send_codes:
  assumes ready: "redis_ready E view dl" and p: "plain_purpose (sr_Purpose req)"
    and sent: "otp_Send E userID req w = (Ok (), w')"
    and ttl: "v2_now E (v_clock w + 1) < expiry" "expiry - v2_now E (v_clock w + 1) \<le> max_duration"
    and expiry: "expiry = v2_now E (v_clock w) + otp_Expiry (cfg_OTP (v2_cfg E))"
  shows "\<exists>ch c i data. v_sent w' = v_sent w @ [(ch, sr_Recipient req, c, sr_Purpose req)]
    \<and> v2_otp_Marshal E \<lparr>ot_ID = i, ot_UserID = userID, ot_Code = c, ot_Purpose = sr_Purpose req,
         ot_Channel = sr_Channel req, ot_Recipient = sr_Recipient req, ot_Attempts = 0, ot_Verified = False,
         ot_ExpiresAt = expiry\<rparr> = Some data
    \<and> codes_are E view (sr_Purpose req) (\<lambda>t' r. if r = sr_Recipient req
         \<and> t' < dl (v2_redis_time E (v_cmds w' - 1)) (expiry - v2_now E (v_clock w + 1)) then Some data else None) w'"
proof -
  obtain c wa where gen: "GenerateOTP E (otp_Length (cfg_OTP (v2_cfg E))) w = (Ok c, wa)"
    using sent unfolding otp_Send_def by (elim go_bind_OkE) (drule wrapped_OkD, blast)
  then have wa: "v_clock wa = v_clock w" "v_sent wa = v_sent w"
    by (auto simp: GenerateOTP_def Let_def elim!: go_bind_OkE dest!: v2_draw_Ok)
  obtain wb where inv: "otp_InvalidateAll E userID (sr_Purpose req) wa = (Ok (), wb)"
    and none: "codes_are E view (sr_Purpose req) (\<lambda>_ _. None) wb" and only: "only_redis wa wb"
    using Invalidate_step [OF ready p] by blast
  let ?otp = "\<lparr>ot_ID = [], ot_UserID = userID, ot_Code = c, ot_Purpose = sr_Purpose req,
     ot_Channel = sr_Channel req, ot_Recipient = sr_Recipient req, ot_Attempts = 0, ot_Verified = False,
     ot_ExpiresAt = expiry\<rparr>"
  let ?wc = "wb\<lparr>v_clock := v_clock w + 1\<rparr>"
  have clock: "v_clock wb = v_clock w" and mail: "v_sent wb = v_sent w" using only_redisD [OF only] wa by simp_all
  have rest: "go_bind (wrapped ''store otp'' (otp_Create E ?otp)) (\<lambda>_.
      if sr_Channel req = OTPChannelEmail E
      then wrapped ''send email otp'' (v2_notify E ''email'' (sr_Recipient req) c (sr_Purpose req))
      else if sr_Channel req = OTPChannelSMS E
      then wrapped ''send sms otp'' (v2_notify E ''sms'' (sr_Recipient req) c (sr_Purpose req))
      else go_fail (Plain (''unsupported otp channel: '' @ sr_Channel req))) ?wc = (Ok (), w')"
    using sent gen inv by (simp add: otp_Send_def clock expiry)
  then obtain wd where create: "otp_Create E ?otp ?wc = (Ok (), wd)"
    and mailed: "(if sr_Channel req = OTPChannelEmail E
      then wrapped ''send email otp'' (v2_notify E ''email'' (sr_Recipient req) c (sr_Purpose req))
      else if sr_Channel req = OTPChannelSMS E
      then wrapped ''send sms otp'' (v2_notify E ''sms'' (sr_Recipient req) c (sr_Purpose req))
      else go_fail (Plain (''unsupported otp channel: '' @ sr_Channel req))) wd = (Ok (), w')"
    by (elim go_bind_OkE) (drule wrapped_OkD, simp)
  have codes: "codes_are E view (sr_Purpose req) (\<lambda>_ _. None) ?wc" using none by (simp add: codes_are_frame)
  obtain data where data: "v2_otp_Marshal E (?otp\<lparr>ot_ID := v2_uuid E (v_uuids ?wc)\<rparr>) = Some data"
    and wd: "codes_are E view (sr_Purpose req) (\<lambda>t' r. if r = sr_Recipient req
         \<and> t' < dl (v2_redis_time E (v_cmds wd - 1)) (expiry - v2_now E (v_clock w + 1)) then Some data else None) wd"
      "v_sent wd = v_sent w"
    using Create_step [OF ready p codes _ create] ttl mail by auto
  obtain ch where w': "w' = wd\<lparr>v_sent := v_sent wd @ [(ch, sr_Recipient req, c, sr_Purpose req)]\<rparr>"
    using mailed by (auto split: if_splits dest!: wrapped_OkD v2_notify_Ok)
  show ?thesis using data wd unfolding w' by (auto simp: codes_are_frame)
qed


definition demo_send :: SendOTPRequest where
  "demo_send = \<lparr>sr_Recipient = ''a@b.io'', sr_Channel = ''email'', sr_Purpose = ''login''\<rparr>"

lemma demo_sent: "fst (otp_Send demo_engine ''u'' demo_send v2_empty) = Ok ()"
  by (simp add: otp_Send_def GenerateOTP_def v2_draw_def v2_empty_def demo_send_def v2_demo_config_def otp_InvalidateAll_def
      otp_Create_def demo_otp_Marshal_def demo_Keys_def demo_Set_def v2_notify_def)



text \<open>
  C35: A one-time code is text of exactly the asked number of decimal digits, for every length
  up to eighteen, and of six if none was asked for, whatever number was drawn below the bound:
  no code is shorter because its number is small.
\<close>

theorem otp_code_shape:
  assumes "GenerateOTP E k w = (Ok c, w')" and "0 \<le> k" "k \<le> 18"
    and "\<forall>i m n. v2_rand_Int E i m = Some n \<longrightarrow> 0 \<le> n \<and> n < m"
  shows "length c = (if k = 0 then 6 else nat k) \<and> (\<forall>d \<in> set c. is_digit d)"
proof -
  let ?k = "if k = 0 then 6 else k"
  obtain n where n: "v2_rand_Int E (v_rands w) (10 ^ nat ?k) = Some n" and c: "c = pad_decimal ?k (wrap64 n)"
    using assms(1-3) by (auto simp: GenerateOTP_def Let_def elim!: go_bind_OkE dest!: v2_draw_Ok split: if_splits)
  have b: "0 \<le> n" "n < 10 ^ nat ?k" using assms(4) n by blast+
  have "(10::int) ^ nat ?k \<le> 10 ^ 18" using assms(3) by (intro power_increasing) auto
  with b have "wrap64 n = n" by (intro wrap64_id) auto
  moreover have "length (pad_decimal ?k n) = nat ?k \<and> (\<forall>d \<in> set (pad_decimal ?k n). is_digit d)"
    using b assms(2,3) by (intro pad_decimal_digits) auto
  ultimately show ?thesis unfolding c by simp
qed

theorem otp_code_shape_witness:
  "\<exists>c w'. GenerateOTP demo_engine 8 v2_empty = (Ok c, w') \<and> length c = 8 \<and> (\<forall>d \<in> set c. is_digit d)"
proof -
  obtain c w' where run: "GenerateOTP demo_engine 8 v2_empty = (Ok c, w')"
    by (simp add: GenerateOTP_def v2_draw_def)
  moreover have "\<forall>i m n. v2_rand_Int demo_engine i m = Some n \<longrightarrow> 0 \<le> n \<and> n < m"
    by (auto split: if_splits)
  ultimately show ?thesis using otp_code_shape [OF run] by auto
qed

end
