(* ===== verification/Legacy_Store.thy ===== *)
theory Legacy_Store
  imports Legacy_Base "HOL-Library.List_Lexorder" "HOL-Library.Char_ord"
begin

text \<open>
  Legacy auth engine: the SQL repositories (\<^verbatim>\<open>internal/repository\<close>: users, sessions, linked
  providers, faces, audit entries, API keys), one statement per method. \<^verbatim>\<open>First\<close> orders by
  primary key; an update of no row is not an error; \<^verbatim>\<open>Save\<close> writes every column of the record
  it is given, whatever has happened to the row since it was read.
\<close>

section \<open>Statements\<close>

type_synonym 'a query = "turn \<Rightarrow> v2_db \<Rightarrow> (v2_error, 'a) outcome \<times> v2_db"

text \<open>\<^verbatim>\<open>Where(...).First(&row)\<close>: the matching row with the least primary key.\<close>

definition sql_first :: "(v2_db \<Rightarrow> 'r list) \<Rightarrow> ('r \<Rightarrow> string) \<Rightarrow> ('r \<Rightarrow> bool) \<Rightarrow> 'r query" where
  "sql_first table key P t d =
     (case sort_key key (filter P (table d)) of
        [] \<Rightarrow> (Err ErrNotFound, d)
      | r # _ \<Rightarrow> (Ok r, d))"

text \<open>\<^verbatim>\<open>Where(...).Order("... DESC").Find(&rows)\<close>: ties come in scan order.\<close>

definition sql_find :: "(v2_db \<Rightarrow> 'r list) \<Rightarrow> ('r \<Rightarrow> int) \<Rightarrow> ('r \<Rightarrow> bool) \<Rightarrow> ('r list) query" where
  "sql_find table desc P t d = (Ok (sort_key (\<lambda>r. - desc r) (filter P (scan t (table d)))), d)"

definition sql_count :: "(v2_db \<Rightarrow> 'r list) \<Rightarrow> ('r \<Rightarrow> bool) \<Rightarrow> int query" where
  "sql_count table P t d = (Ok (int (length (filter P (table d)))), d)"

text \<open>Rows of users change with the trigger \<^verbatim>\<open>trg_users_updated_at\<close>.\<close>

definition sql_update_users :: "(v2_User \<Rightarrow> bool) \<Rightarrow> (v2_User \<Rightarrow> v2_User) \<Rightarrow> unit query" where
  "sql_update_users P f t d =
     (Ok (), d\<lparr>tb_users := map (\<lambda>u. if P u then (f u)\<lparr>us_UpdatedAt := t_now t\<rparr> else u) (tb_users d)\<rparr>)"

definition sql_update_sessions :: "(v2_Session \<Rightarrow> bool) \<Rightarrow> (v2_Session \<Rightarrow> v2_Session) \<Rightarrow> unit query" where
  "sql_update_sessions P f t d =
     (Ok (), d\<lparr>tb_sessions := map (\<lambda>s. if P s then f s else s) (tb_sessions d)\<rparr>)"

text \<open>The columns email and phone are unique among all rows, deleted users included; NULLs never collide.\<close>

definition unique_clash :: "v2_User \<Rightarrow> v2_User list \<Rightarrow> string option" where
  "unique_clash u rows =
     (if us_Email u \<noteq> None \<and> us_Email u \<in> us_Email ` set rows then Some ''users_email_key''
      else if us_Phone u \<noteq> None \<and> us_Phone u \<in> us_Phone ` set rows then Some ''users_phone_key''
      else None)"

definition sql_create_user :: "v2_User \<Rightarrow> v2_User query" where
  "sql_create_user u t d =
     (if us_ID u \<in> us_ID ` set (tb_users d) then (Err (UniqueViolation ''users_pkey''), d)
      else case unique_clash u (tb_users d) of
             Some c \<Rightarrow> (Err (UniqueViolation c), d)
           | None \<Rightarrow> (Ok u, d\<lparr>tb_users := tb_users d @ [u]\<rparr>))"

text \<open>\<^verbatim>\<open>Save\<close>: update the row with this key; if there is none, insert it.\<close>

definition sql_save_user :: "v2_User \<Rightarrow> unit query" where
  "sql_save_user u t d =
     (case unique_clash u (filter (\<lambda>v. us_ID v \<noteq> us_ID u) (tb_users d)) of
        Some c \<Rightarrow> (Err (UniqueViolation c), d)
      | None \<Rightarrow>
          if us_ID u \<in> us_ID ` set (tb_users d)
          then sql_update_users (\<lambda>v. us_ID v = us_ID u) (\<lambda>_. u) t d
          else (Ok (), d\<lparr>tb_users := tb_users d @ [u]\<rparr>))"

definition sql_insert_session :: "v2_Session \<Rightarrow> unit query" where
  "sql_insert_session s t d =
     (if ss_ID s \<in> ss_ID ` set (tb_sessions d) then (Err (UniqueViolation ''sessions_pkey''), d)
      else if ss_UserID s \<notin> us_ID ` set (tb_users d)
      then (Err (ForeignKeyViolation ''sessions_user_id_fkey''), d)
      else (Ok (), d\<lparr>tb_sessions := tb_sessions d @ [s]\<rparr>))"

definition sql_insert_oauth :: "v2_OAuthProvider \<Rightarrow> unit query" where
  "sql_insert_oauth op t d =
     (if oa_ID op \<in> oa_ID ` set (tb_oauth_providers d) then (Err (UniqueViolation ''oauth_providers_pkey''), d)
      else if (oa_Provider op, oa_ProviderUID op) \<in> (\<lambda>r. (oa_Provider r, oa_ProviderUID r)) ` set (tb_oauth_providers d)
      then (Err (UniqueViolation ''oauth_providers_provider_provider_uid_key''), d)
      else if oa_UserID op \<notin> us_ID ` set (tb_users d)
      then (Err (ForeignKeyViolation ''oauth_providers_user_id_fkey''), d)
      else (Ok (), d\<lparr>tb_oauth_providers := tb_oauth_providers d @ [op]\<rparr>))"

definition sql_insert_face :: "v2_FaceEnrollment \<Rightarrow> unit query" where
  "sql_insert_face fe t d =
     (if fe_ID fe \<in> fe_ID ` set (tb_face_enrollments d) then (Err (UniqueViolation ''face_enrollments_pkey''), d)
      else if fe_UserID fe \<notin> us_ID ` set (tb_users d)
      then (Err (ForeignKeyViolation ''face_enrollments_user_id_fkey''), d)
      else (Ok (), d\<lparr>tb_face_enrollments := tb_face_enrollments d @ [fe]\<rparr>))"

definition sql_insert_audit :: "v2_AuditLog \<Rightarrow> unit query" where
  "sql_insert_audit a t d =
     (if al_ID a \<in> al_ID ` set (tb_audit_logs d) then (Err (UniqueViolation ''audit_logs_pkey''), d)
      else (Ok (), d\<lparr>tb_audit_logs := tb_audit_logs d @ [a\<lparr>al_CreatedAt := t_now t\<rparr>]\<rparr>))"

definition sql_insert_api_key :: "v2_APIKey \<Rightarrow> v2_APIKey query" where
  "sql_insert_api_key k t d =
     (if ak_ID k \<in> ak_ID ` set (tb_api_keys d) then (Err (UniqueViolation ''api_keys_pkey''), d)
      else if ak_KeyHash k \<in> ak_KeyHash ` set (tb_api_keys d)
      then (Err (UniqueViolation ''api_keys_key_hash_key''), d)
      else if ak_UserID k \<notin> us_ID ` set (tb_users d)
      then (Err (ForeignKeyViolation ''api_keys_user_id_fkey''), d)
      else let k' = k\<lparr>ak_CreatedAt := t_now t\<rparr>
           in (Ok k', d\<lparr>tb_api_keys := tb_api_keys d @ [k']\<rparr>))"


section \<open>Users\<close>

text \<open>Times are stored with the precision of the column.\<close>

definition v2_user_row :: "'r v2_env \<Rightarrow> v2_User \<Rightarrow> v2_User" where
  "v2_user_row E u =
     u\<lparr>us_LockedUntil := map_option (v2_stamp E) (us_LockedUntil u),
       us_LastLoginAt := map_option (v2_stamp E) (us_LastLoginAt u),
       us_PasswordChangedAt := map_option (v2_stamp E) (us_PasswordChangedAt u),
       us_DeletedAt := map_option (v2_stamp E) (us_DeletedAt u)\<rparr>"

definition users_Create :: "'r v2_env \<Rightarrow> v2_User \<Rightarrow> ('r, v2_User) eng" where
  "users_Create E u =
     go_bind (uuid_New E) (\<lambda>i.
     run_db E (\<lambda>t. sql_create_user
       ((v2_user_row E u)\<lparr>us_ID := i, us_CreatedAt := t_now t, us_UpdatedAt := t_now t\<rparr>) t))"

definition live :: "v2_User \<Rightarrow> bool" where
  "live u \<longleftrightarrow> us_DeletedAt u = None"

definition users_GetByID :: "'r v2_env \<Rightarrow> string \<Rightarrow> ('r, v2_User) eng" where
  "users_GetByID E i = run_db E (sql_first tb_users us_ID (\<lambda>u. us_ID u = i \<and> live u))"

definition users_GetByEmail :: "'r v2_env \<Rightarrow> string \<Rightarrow> ('r, v2_User) eng" where
  "users_GetByEmail E email = run_db E (sql_first tb_users us_ID (\<lambda>u. us_Email u = Some email \<and> live u))"

definition users_GetByPhone :: "'r v2_env \<Rightarrow> string \<Rightarrow> ('r, v2_User) eng" where
  "users_GetByPhone E phone = run_db E (sql_first tb_users us_ID (\<lambda>u. us_Phone u = Some phone \<and> live u))"

definition identified_by :: "string \<Rightarrow> v2_User \<Rightarrow> bool" where
  "identified_by identifier u \<longleftrightarrow> (us_Email u = Some identifier \<or> us_Phone u = Some identifier) \<and> live u"

definition users_GetByIdentifier :: "'r v2_env \<Rightarrow> string \<Rightarrow> ('r, v2_User) eng" where
  "users_GetByIdentifier E identifier = run_db E (sql_first tb_users us_ID (identified_by identifier))"

definition users_Update :: "'r v2_env \<Rightarrow> v2_User \<Rightarrow> ('r, unit) eng" where
  "users_Update E u = run_db E (sql_save_user (v2_user_row E u))"

definition users_SoftDelete :: "'r v2_env \<Rightarrow> string \<Rightarrow> ('r, unit) eng" where
  "users_SoftDelete E i =
     go_bind (time_Now E) (\<lambda>now.
     run_db E (sql_update_users (\<lambda>u. us_ID u = i) (\<lambda>u. u\<lparr>us_DeletedAt := Some (v2_stamp E now)\<rparr>)))"

text \<open>The column is a four-byte integer.\<close>

definition users_IncrFailedLogin :: "'r v2_env \<Rightarrow> string \<Rightarrow> ('r, unit) eng" where
  "users_IncrFailedLogin E i = run_db E (\<lambda>t d.
     if \<exists>u \<in> set (tb_users d). us_ID u = i \<and> us_FailedLoginCount u \<ge> 2 ^ 31 - 1
     then (Err (DbFault ''integer out of range''), d)
     else sql_update_users (\<lambda>u. us_ID u = i)
            (\<lambda>u. u\<lparr>us_FailedLoginCount := us_FailedLoginCount u + 1\<rparr>) t d)"

definition users_ResetFailedLogin :: "'r v2_env \<Rightarrow> string \<Rightarrow> ('r, unit) eng" where
  "users_ResetFailedLogin E i =
     run_db E (sql_update_users (\<lambda>u. us_ID u = i)
       (\<lambda>u. u\<lparr>us_FailedLoginCount := 0, us_LockedUntil := None\<rparr>))"

definition users_LockAccount :: "'r v2_env \<Rightarrow> string \<Rightarrow> int \<Rightarrow> ('r, unit) eng" where
  "users_LockAccount E i until =
     run_db E (sql_update_users (\<lambda>u. us_ID u = i) (\<lambda>u. u\<lparr>us_LockedUntil := Some (v2_stamp E until)\<rparr>))"

definition users_MarkEmailVerified :: "'r v2_env \<Rightarrow> string \<Rightarrow> ('r, unit) eng" where
  "users_MarkEmailVerified E i =
     run_db E (sql_update_users (\<lambda>u. us_ID u = i)
       (\<lambda>u. u\<lparr>us_EmailVerified := True, us_Status := v2_StatusActive\<rparr>))"

definition users_MarkPhoneVerified :: "'r v2_env \<Rightarrow> string \<Rightarrow> ('r, unit) eng" where
  "users_MarkPhoneVerified E i =
     run_db E (sql_update_users (\<lambda>u. us_ID u = i)
       (\<lambda>u. u\<lparr>us_PhoneVerified := True, us_Status := v2_StatusActive\<rparr>))"

text \<open>A limit below zero and an offset up to zero are left out of the statement.\<close>

definition page :: "int \<Rightarrow> int \<Rightarrow> 'a list \<Rightarrow> 'a list" where
  "page offset limit xs =
     (let ys = drop (nat offset) xs in if limit < 0 then ys else take (nat limit) ys)"

text \<open>A failed count leaves 0.\<close>

definition users_ListAll :: "'r v2_env \<Rightarrow> int \<Rightarrow> int \<Rightarrow> ('r, v2_User list \<times> int) eng" where
  "users_ListAll E offset limit =
     go_bind (go_try (run_db E (sql_count tb_users live)) (\<lambda>_. go_return 0) go_return) (\<lambda>count.
     go_bind (run_db E (sql_find tb_users us_CreatedAt live)) (\<lambda>users.
     go_return (page offset limit users, count)))"


section \<open>Sessions\<close>

definition session_row :: "'r v2_env \<Rightarrow> v2_Session \<Rightarrow> v2_Session" where
  "session_row E s = s\<lparr>ss_ExpiresAt := v2_stamp E (ss_ExpiresAt s), ss_LastSeenAt := v2_stamp E (ss_LastSeenAt s)\<rparr>"

definition sessions_Create :: "'r v2_env \<Rightarrow> v2_Session \<Rightarrow> ('r, unit) eng" where
  "sessions_Create E s = run_db E (\<lambda>t. sql_insert_session ((session_row E s)\<lparr>ss_CreatedAt := t_now t\<rparr>) t)"

definition sessions_GetByID :: "'r v2_env \<Rightarrow> string \<Rightarrow> ('r, v2_Session) eng" where
  "sessions_GetByID E i = run_db E (sql_first tb_sessions ss_ID (\<lambda>s. ss_ID s = i \<and> ss_IsActive s))"

definition sessions_GetByRefreshToken :: "'r v2_env \<Rightarrow> string \<Rightarrow> ('r, v2_Session) eng" where
  "sessions_GetByRefreshToken E token =
     run_db E (sql_first tb_sessions ss_ID (\<lambda>s. ss_RefreshToken s = token \<and> ss_IsActive s))"

definition open_session :: "'r v2_env \<Rightarrow> string \<Rightarrow> int \<Rightarrow> v2_Session \<Rightarrow> bool" where
  "open_session E userID now s \<longleftrightarrow> ss_UserID s = userID \<and> ss_IsActive s \<and> ss_ExpiresAt s > v2_stamp E now"

definition sessions_ListByUser :: "'r v2_env \<Rightarrow> string \<Rightarrow> ('r, v2_Session list) eng" where
  "sessions_ListByUser E userID =
     go_bind (time_Now E) (\<lambda>now. run_db E (sql_find tb_sessions ss_LastSeenAt (open_session E userID now)))"

definition sessions_Revoke :: "'r v2_env \<Rightarrow> string \<Rightarrow> ('r, unit) eng" where
  "sessions_Revoke E i = run_db E (sql_update_sessions (\<lambda>s. ss_ID s = i) (\<lambda>s. s\<lparr>ss_IsActive := False\<rparr>))"

definition sessions_RevokeAll :: "'r v2_env \<Rightarrow> string \<Rightarrow> ('r, unit) eng" where
  "sessions_RevokeAll E userID =
     run_db E (sql_update_sessions (\<lambda>s. ss_UserID s = userID) (\<lambda>s. s\<lparr>ss_IsActive := False\<rparr>))"

definition sessions_Touch :: "'r v2_env \<Rightarrow> string \<Rightarrow> ('r, unit) eng" where
  "sessions_Touch E i =
     go_bind (time_Now E) (\<lambda>now.
     run_db E (sql_update_sessions (\<lambda>s. ss_ID s = i) (\<lambda>s. s\<lparr>ss_LastSeenAt := v2_stamp E now\<rparr>)))"

definition sessions_CountActive :: "'r v2_env \<Rightarrow> string \<Rightarrow> ('r, int) eng" where
  "sessions_CountActive E userID =
     go_bind (time_Now E) (\<lambda>now. run_db E (sql_count tb_sessions (open_session E userID now)))"

text \<open>Rows past their expiry by a day, and every inactive row, are removed.\<close>

definition day :: int where "day = 86400 * second"

definition sessions_CleanupExpired :: "'r v2_env \<Rightarrow> ('r, int) eng" where
  "sessions_CleanupExpired E =
     go_bind (time_Now E) (\<lambda>now.
     run_db E (\<lambda>t d.
       let gone = (\<lambda>s. ss_ExpiresAt s < v2_stamp E (now - day) \<or> \<not> ss_IsActive s)
       in (Ok (int (length (filter gone (tb_sessions d)))),
           d\<lparr>tb_sessions := filter (Not \<circ> gone) (tb_sessions d)\<rparr>)))"


section \<open>Linked providers, faces, audit entries, API keys\<close>

definition oauths_Create :: "'r v2_env \<Rightarrow> v2_OAuthProvider \<Rightarrow> ('r, unit) eng" where
  "oauths_Create E op = go_bind (uuid_New E) (\<lambda>i. run_db E (sql_insert_oauth (op\<lparr>oa_ID := i\<rparr>)))"

definition oauths_GetByProvider :: "'r v2_env \<Rightarrow> string \<Rightarrow> string \<Rightarrow> ('r, v2_OAuthProvider) eng" where
  "oauths_GetByProvider E provider uid =
     run_db E (sql_first tb_oauth_providers oa_ID (\<lambda>op. oa_Provider op = provider \<and> oa_ProviderUID op = uid))"

definition oauths_GetByUserID :: "'r v2_env \<Rightarrow> string \<Rightarrow> ('r, v2_OAuthProvider list) eng" where
  "oauths_GetByUserID E userID =
     run_db E (\<lambda>t d. (Ok (filter (\<lambda>op. oa_UserID op = userID) (scan t (tb_oauth_providers d))), d))"

definition oauths_Delete :: "'r v2_env \<Rightarrow> string \<Rightarrow> string \<Rightarrow> ('r, unit) eng" where
  "oauths_Delete E userID provider = run_db E (\<lambda>t d.
     (Ok (), d\<lparr>tb_oauth_providers :=
        filter (\<lambda>op. \<not> (oa_UserID op = userID \<and> oa_Provider op = provider)) (tb_oauth_providers d)\<rparr>))"

definition faces_GetByUserID :: "'r v2_env \<Rightarrow> string \<Rightarrow> ('r, v2_FaceEnrollment) eng" where
  "faces_GetByUserID E userID =
     run_db E (sql_first tb_face_enrollments fe_ID (\<lambda>fe. fe_UserID fe = userID \<and> fe_IsActive fe))"

definition faces_Save :: "'r v2_env \<Rightarrow> v2_FaceEnrollment \<Rightarrow> ('r, unit) eng" where
  "faces_Save E fe = go_bind (uuid_New E) (\<lambda>i. run_db E (sql_insert_face (fe\<lparr>fe_ID := i\<rparr>)))"

definition faces_Deactivate :: "'r v2_env \<Rightarrow> string \<Rightarrow> ('r, unit) eng" where
  "faces_Deactivate E userID = run_db E (\<lambda>t d.
     (Ok (), d\<lparr>tb_face_enrollments :=
        map (\<lambda>fe. if fe_UserID fe = userID then fe\<lparr>fe_IsActive := False\<rparr> else fe) (tb_face_enrollments d)\<rparr>))"

definition audits_Save :: "'r v2_env \<Rightarrow> v2_AuditLog \<Rightarrow> ('r, unit) eng" where
  "audits_Save E a = go_bind (uuid_New E) (\<lambda>i. run_db E (sql_insert_audit (a\<lparr>al_ID := i\<rparr>)))"

definition audits_Log :: "'r v2_env \<Rightarrow> v2_AuditLog \<Rightarrow> ('r, unit) eng" where
  "audits_Log E a = audits_Save E a"

definition audits_ListByUser :: "'r v2_env \<Rightarrow> string \<Rightarrow> int \<Rightarrow> ('r, v2_AuditLog list) eng" where
  "audits_ListByUser E userID limit =
     go_bind (run_db E (sql_find tb_audit_logs al_CreatedAt (\<lambda>a. al_UserID a = Some userID)))
       (\<lambda>logs. go_return (page 0 limit logs))"

definition audits_ListByAction :: "'r v2_env \<Rightarrow> string \<Rightarrow> int \<Rightarrow> int \<Rightarrow> ('r, v2_AuditLog list) eng" where
  "audits_ListByAction E action start stop =
     run_db E (sql_find tb_audit_logs al_CreatedAt
       (\<lambda>a. al_Action a = action \<and> v2_stamp E start \<le> al_CreatedAt a \<and> al_CreatedAt a \<le> v2_stamp E stop))"

definition audits_DeleteOlderThan :: "'r v2_env \<Rightarrow> int \<Rightarrow> ('r, int) eng" where
  "audits_DeleteOlderThan E cutoff = run_db E (\<lambda>t d.
     (Ok (int (length (filter (\<lambda>a. al_CreatedAt a < v2_stamp E cutoff) (tb_audit_logs d)))),
      d\<lparr>tb_audit_logs := filter (\<lambda>a. \<not> al_CreatedAt a < v2_stamp E cutoff) (tb_audit_logs d)\<rparr>))"

definition keys_Create :: "'r v2_env \<Rightarrow> v2_APIKey \<Rightarrow> ('r, v2_APIKey) eng" where
  "keys_Create E k =
     go_bind (uuid_New E) (\<lambda>i.
     run_db E (sql_insert_api_key (k\<lparr>ak_ID := i, ak_ExpiresAt := map_option (v2_stamp E) (ak_ExpiresAt k)\<rparr>)))"

definition keys_GetByHash :: "'r v2_env \<Rightarrow> string \<Rightarrow> ('r, v2_APIKey) eng" where
  "keys_GetByHash E keyHash =
     run_db E (sql_first tb_api_keys ak_ID (\<lambda>k. ak_KeyHash k = keyHash \<and> ak_IsActive k))"

definition keys_ListByUser :: "'r v2_env \<Rightarrow> string \<Rightarrow> ('r, v2_APIKey list) eng" where
  "keys_ListByUser E userID =
     run_db E (sql_find tb_api_keys ak_CreatedAt (\<lambda>k. ak_UserID k = userID \<and> ak_IsActive k))"

definition sql_update_keys :: "(v2_APIKey \<Rightarrow> bool) \<Rightarrow> (v2_APIKey \<Rightarrow> v2_APIKey) \<Rightarrow> unit query" where
  "sql_update_keys P f t d =
     (Ok (), d\<lparr>tb_api_keys := map (\<lambda>k. if P k then f k else k) (tb_api_keys d)\<rparr>)"

definition keys_Revoke :: "'r v2_env \<Rightarrow> string \<Rightarrow> string \<Rightarrow> ('r, unit) eng" where
  "keys_Revoke E i userID =
     run_db E (sql_update_keys (\<lambda>k. ak_ID k = i \<and> ak_UserID k = userID) (\<lambda>k. k\<lparr>ak_IsActive := False\<rparr>))"

definition keys_Touch :: "'r v2_env \<Rightarrow> string \<Rightarrow> ('r, unit) eng" where
  "keys_Touch E i =
     go_bind (time_Now E) (\<lambda>now.
     run_db E (sql_update_keys (\<lambda>k. ak_ID k = i) (\<lambda>k. k\<lparr>ak_LastUsedAt := Some (v2_stamp E now)\<rparr>)))"


section \<open>Invariants of the tables\<close>

text \<open>The keys, uniqueness and references of the schema.\<close>

definition distinct_present :: "'a option list \<Rightarrow> bool" where
  "distinct_present xs \<longleftrightarrow> distinct (filter (\<lambda>x. x \<noteq> None) xs)"

definition v2_db_ok :: "v2_db \<Rightarrow> bool" where
  "v2_db_ok d \<longleftrightarrow>
     distinct (map us_ID (tb_users d))
   \<and> distinct_present (map us_Email (tb_users d)) \<and> distinct_present (map us_Phone (tb_users d))
   \<and> distinct (map ss_ID (tb_sessions d)) \<and> distinct (map ak_KeyHash (tb_api_keys d))
   \<and> distinct (map (\<lambda>r. (oa_Provider r, oa_ProviderUID r)) (tb_oauth_providers d))
   \<and> ss_UserID ` set (tb_sessions d) \<subseteq> us_ID ` set (tb_users d)
   \<and> oa_UserID ` set (tb_oauth_providers d) \<subseteq> us_ID ` set (tb_users d)
   \<and> fe_UserID ` set (tb_face_enrollments d) \<subseteq> us_ID ` set (tb_users d)
   \<and> ak_UserID ` set (tb_api_keys d) \<subseteq> us_ID ` set (tb_users d)"

text \<open>
  A property of the tables that the statements of the engine keep. The laws on users are
  about rows whose identity (key, email, phone) an update leaves alone; \<open>ok\<close> says under
  which identifiers sessions may be inserted.
\<close>

definition same_identity :: "(v2_User \<Rightarrow> v2_User) \<Rightarrow> bool" where
  "same_identity f \<longleftrightarrow> (\<forall>u. us_ID (f u) = us_ID u \<and> us_Email (f u) = us_Email u \<and> us_Phone (f u) = us_Phone u)"

locale v2_invariant =
  fixes I :: "v2_db \<Rightarrow> bool"
    and ok :: "string \<Rightarrow> bool"
  assumes insert_user: "I d \<Longrightarrow> I (snd (sql_create_user u t d))"
    and save_user: "I d \<Longrightarrow> I (snd (sql_save_user u t d))"
    and update_users: "same_identity f \<Longrightarrow> I d \<Longrightarrow> I (snd (sql_update_users U f t d))"
    and insert_session: "ok (ss_ID s) \<Longrightarrow> I d \<Longrightarrow> I (snd (sql_insert_session s t d))"
    and close_sessions: "I d \<Longrightarrow> I (snd (sql_update_sessions Q (\<lambda>s. s\<lparr>ss_IsActive := False\<rparr>) t d))"
    and touch_sessions: "I d \<Longrightarrow> I (snd (sql_update_sessions Q (\<lambda>s. s\<lparr>ss_LastSeenAt := n\<rparr>) t d))"
    and drop_sessions: "I d \<Longrightarrow> I (d\<lparr>tb_sessions := filter Q (tb_sessions d)\<rparr>)"
    and insert_oauth: "I d \<Longrightarrow> I (snd (sql_insert_oauth op t d))"
    and drop_oauths: "I d \<Longrightarrow> I (d\<lparr>tb_oauth_providers := filter R (tb_oauth_providers d)\<rparr>)"
    and insert_face: "I d \<Longrightarrow> I (snd (sql_insert_face fe t d))"
    and close_faces: "I d \<Longrightarrow> I (d\<lparr>tb_face_enrollments :=
          map (\<lambda>fe. if fe_UserID fe = i then fe\<lparr>fe_IsActive := False\<rparr> else fe) (tb_face_enrollments d)\<rparr>)"
    and insert_audit: "I d \<Longrightarrow> I (snd (sql_insert_audit a t d))"
    and drop_audits: "I d \<Longrightarrow> I (d\<lparr>tb_audit_logs := filter S (tb_audit_logs d)\<rparr>)"
    and insert_api_key: "I d \<Longrightarrow> I (snd (sql_insert_api_key k t d))"
    and update_keys: "(\<And>k. ak_KeyHash (g k) = ak_KeyHash k \<and> ak_UserID (g k) = ak_UserID k) \<Longrightarrow>
          I d \<Longrightarrow> I (snd (sql_update_keys T g t d))"
begin

lemma reads:
  "I d \<Longrightarrow> I (snd (sql_first table key P t d))" "I d \<Longrightarrow> I (snd (sql_find table desc P t d))"
  "I d \<Longrightarrow> I (snd (sql_count table P t d))"
  by (simp_all add: sql_first_def sql_find_def sql_count_def split: list.splits)

lemma keeps_users [keeps_rules]:
  "keeps (v2_safe E I ok) (users_Create E u)" "keeps (v2_safe E I ok) (users_GetByID E i)"
  "keeps (v2_safe E I ok) (users_GetByEmail E i)" "keeps (v2_safe E I ok) (users_GetByPhone E i)"
  "keeps (v2_safe E I ok) (users_GetByIdentifier E i)" "keeps (v2_safe E I ok) (users_Update E u)"
  "keeps (v2_safe E I ok) (users_SoftDelete E i)" "keeps (v2_safe E I ok) (users_IncrFailedLogin E i)"
  "keeps (v2_safe E I ok) (users_ResetFailedLogin E i)" "keeps (v2_safe E I ok) (users_LockAccount E i n)"
  "keeps (v2_safe E I ok) (users_MarkEmailVerified E i)" "keeps (v2_safe E I ok) (users_MarkPhoneVerified E i)"
  "keeps (v2_safe E I ok) (users_ListAll E j n)"
  unfolding users_Create_def users_GetByID_def users_GetByEmail_def users_GetByPhone_def
    users_GetByIdentifier_def users_Update_def users_SoftDelete_def users_IncrFailedLogin_def
    users_ResetFailedLogin_def users_LockAccount_def users_MarkEmailVerified_def
    users_MarkPhoneVerified_def users_ListAll_def
  by (intro keeps_rules keeps_db_run;
      simp add: reads insert_user save_user update_users same_identity_def)+

lemma keeps_sessions [keeps_rules]:
  "ok (ss_ID s) \<Longrightarrow> keeps (v2_safe E I ok) (sessions_Create E s)"
  "keeps (v2_safe E I ok) (sessions_GetByID E i)" "keeps (v2_safe E I ok) (sessions_GetByRefreshToken E i)"
  "keeps (v2_safe E I ok) (sessions_ListByUser E i)" "keeps (v2_safe E I ok) (sessions_Revoke E i)"
  "keeps (v2_safe E I ok) (sessions_RevokeAll E i)" "keeps (v2_safe E I ok) (sessions_Touch E i)"
  "keeps (v2_safe E I ok) (sessions_CountActive E i)" "keeps (v2_safe E I ok) (sessions_CleanupExpired E)"
  unfolding sessions_Create_def sessions_GetByID_def sessions_GetByRefreshToken_def
    sessions_ListByUser_def sessions_Revoke_def sessions_RevokeAll_def sessions_Touch_def
    sessions_CountActive_def sessions_CleanupExpired_def Let_def
  by (intro keeps_rules keeps_db_run;
      simp add: reads session_row_def insert_session close_sessions touch_sessions drop_sessions)+

lemma keeps_others [keeps_rules]:
  "keeps (v2_safe E I ok) (oauths_Create E op)" "keeps (v2_safe E I ok) (oauths_GetByProvider E p i)"
  "keeps (v2_safe E I ok) (oauths_GetByUserID E i)" "keeps (v2_safe E I ok) (oauths_Delete E i p)"
  "keeps (v2_safe E I ok) (faces_GetByUserID E i)" "keeps (v2_safe E I ok) (faces_Save E fe)"
  "keeps (v2_safe E I ok) (faces_Deactivate E i)" "keeps (v2_safe E I ok) (audits_Save E a)"
  "keeps (v2_safe E I ok) (audits_Log E a)" "keeps (v2_safe E I ok) (audits_ListByUser E i n)"
  "keeps (v2_safe E I ok) (audits_ListByAction E p m n)" "keeps (v2_safe E I ok) (audits_DeleteOlderThan E n)"
  "keeps (v2_safe E I ok) (keys_Create E k)" "keeps (v2_safe E I ok) (keys_GetByHash E p)"
  "keeps (v2_safe E I ok) (keys_ListByUser E i)" "keeps (v2_safe E I ok) (keys_Revoke E i j)"
  "keeps (v2_safe E I ok) (keys_Touch E i)"
  unfolding oauths_Create_def oauths_GetByProvider_def oauths_GetByUserID_def oauths_Delete_def
    faces_GetByUserID_def faces_Save_def faces_Deactivate_def audits_Log_def audits_Save_def
    audits_ListByUser_def audits_ListByAction_def audits_DeleteOlderThan_def keys_Create_def
    keys_GetByHash_def keys_ListByUser_def keys_Revoke_def keys_Touch_def
  by (intro keeps_rules keeps_db_run;
      simp add: reads insert_oauth drop_oauths insert_face close_faces insert_audit drop_audits
        insert_api_key update_keys)+

end

lemma first_row:
  assumes "sql_first table key P t d = (Ok r, d')"
  shows "r \<in> set (table d)" and "P r" and "d' = d"
    and "\<And>x. x \<in> set (table d) \<Longrightarrow> P x \<Longrightarrow> key r \<le> key x"
proof -
  obtain rs where s: "sort_key key (filter P (table d)) = r # rs" and d: "d' = d"
    using assms by (auto simp: sql_first_def split: list.splits)
  have set: "set (r # rs) = set (filter P (table d))" by (metis s set_sort)
  then show "r \<in> set (table d)" and "P r" and "d' = d" using d by auto
  have "sorted (map key (r # rs))" by (metis s sorted_sort_key)
  show "key r \<le> key x" if "x \<in> set (table d)" "P x" for x
  proof -
    have "x \<in> set (r # rs)" using set that by simp
    with \<open>sorted (map key (r # rs))\<close> show ?thesis by auto
  qed
qed

lemma filter_Nil_sort [simp]: "sort_key key xs = [] \<longleftrightarrow> xs = []"
  by (metis length_0_conv length_sort)

lemma no_row_iff: "fst (sql_first table key P t d) = Err ErrNotFound \<longleftrightarrow> \<not> (\<exists>r \<in> set (table d). P r)"
proof -
  have "fst (sql_first table key P t d) = Err ErrNotFound \<longleftrightarrow> sort_key key (filter P (table d)) = []"
    by (cases "sort_key key (filter P (table d))") (simp_all add: sql_first_def)
  then show ?thesis by (simp add: filter_empty_conv)
qed

text \<open>The row with a key that is unique in its table.\<close>

lemma filter_sole:
  assumes "distinct (map key xs)" and "r \<in> set xs" and "P r" and "\<And>x. x \<in> set xs \<Longrightarrow> P x \<Longrightarrow> key x = key r"
  shows "filter P xs = [r]"
proof -
  obtain ys zs where xs: "xs = ys @ r # zs" using assms(2) by (meson split_list)
  then have "key x \<noteq> key r" if "x \<in> set ys \<union> set zs" for x
    using assms(1) that by (auto simp: image_iff)
  then have "\<not> P x" if "x \<in> set ys \<union> set zs" for x using assms(4) xs that by auto
  then show ?thesis using assms(3) xs by (simp add: filter_empty_conv)
qed

lemma sole_row:
  assumes "distinct (map key (table d))" and "r \<in> set (table d)" and "P r"
    and "\<And>x. x \<in> set (table d) \<Longrightarrow> P x \<Longrightarrow> key x = key r"
  shows "sql_first table key P t d = (Ok r, d)"
  using filter_sole [of key "table d" r P, OF assms] by (simp add: sql_first_def)

text \<open>The schema's constraints are such a property, whatever sessions are inserted.\<close>

lemma map_update_same:
  "(\<And>x. key (f x) = key x) \<Longrightarrow> map key (map (\<lambda>x. if P x then f x else x) xs) = map key xs"
  by simp

lemma distinct_present_append:
  "distinct_present (xs @ [x]) \<longleftrightarrow> distinct_present xs \<and> (x \<noteq> None \<longrightarrow> x \<notin> set xs)"
  by (auto simp: distinct_present_def)

lemma distinct_present_update:
  assumes "distinct (map key xs)" and "distinct_present (map f xs)"
    and "f u \<noteq> None \<Longrightarrow> f u \<notin> f ` set (filter (\<lambda>v. key v \<noteq> key u) xs)" and "key u \<in> key ` set xs"
  shows "distinct_present (map (\<lambda>v. if key v = key u then f u else f v) xs)"
proof -
  obtain ys w zs where xs: "xs = ys @ w # zs" and w: "key w = key u"
    using assms(4) by (metis imageE split_list)
  have ne: "key v \<noteq> key u" if "v \<in> set ys \<union> set zs" for v
    using assms(1) that w unfolding xs by (auto simp: image_iff)
  then have ys: "map (\<lambda>v. if key v = key u then f u else f v) ys = map f ys"
    and zs: "map (\<lambda>v. if key v = key u then f u else f v) zs = map f zs" by auto
  have "filter (\<lambda>v. key v \<noteq> key u) xs = ys @ zs" using ne w unfolding xs by (simp add: filter_id_conv)
  then have "f u \<noteq> None \<Longrightarrow> f u \<notin> f ` set (ys @ zs)" using assms(3) by simp
  then show ?thesis using assms(2) unfolding xs
    by (cases "f w"; cases "f u") (auto simp: ys zs w distinct_present_def)
qed

lemma v2_db_ok_users:
  assumes "v2_db_ok d" and "distinct (map us_ID us)"
    and "distinct_present (map us_Email us)" and "distinct_present (map us_Phone us)"
    and "us_ID ` set (tb_users d) \<subseteq> us_ID ` set us"
  shows "v2_db_ok (d\<lparr>tb_users := us\<rparr>)"
  using assms(1-4) order_trans [OF _ assms(5)] by (simp add: v2_db_ok_def)

lemma v2_db_ok_update:
  assumes "v2_db_ok d" and "same_identity f"
  shows "v2_db_ok (snd (sql_update_users P f t d))"
proof -
  let ?us = "map (\<lambda>u. if P u then (f u)\<lparr>us_UpdatedAt := t_now t\<rparr> else u) (tb_users d)"
  have "map us_ID ?us = map us_ID (tb_users d)" "map us_Email ?us = map us_Email (tb_users d)"
    "map us_Phone ?us = map us_Phone (tb_users d)"
    using assms(2) by (simp_all add: same_identity_def)
  moreover from this(1) have "us_ID ` set ?us = us_ID ` set (tb_users d)" by (metis set_map)
  ultimately show ?thesis
    using assms(1) unfolding sql_update_users_def snd_conv
    by (intro v2_db_ok_users) (simp_all only: v2_db_ok_def)
qed

lemma unique_clash_None:
  "unique_clash u rows = None \<longleftrightarrow>
     (us_Email u \<noteq> None \<longrightarrow> us_Email u \<notin> us_Email ` set rows)
   \<and> (us_Phone u \<noteq> None \<longrightarrow> us_Phone u \<notin> us_Phone ` set rows)"
  by (simp add: unique_clash_def)

lemma v2_db_ok_insert:
  assumes "v2_db_ok d"
  shows "v2_db_ok (snd (sql_create_user u t d))"
proof (cases "us_ID u \<notin> us_ID ` set (tb_users d) \<and> unique_clash u (tb_users d) = None")
  case True
  then have "v2_db_ok (d\<lparr>tb_users := tb_users d @ [u]\<rparr>)"
    using assms by (intro v2_db_ok_users)
      (auto simp: v2_db_ok_def distinct_present_append unique_clash_None)
  with True show ?thesis by (simp add: sql_create_user_def)
qed (use assms in \<open>auto simp: sql_create_user_def split: option.splits\<close>)

lemma v2_db_ok_save:
  assumes "v2_db_ok d"
  shows "v2_db_ok (snd (sql_save_user u t d))"
proof (cases "unique_clash u (filter (\<lambda>v. us_ID v \<noteq> us_ID u) (tb_users d)) = None")
  case clash: True
  let ?us = "map (\<lambda>v. if us_ID v = us_ID u then u\<lparr>us_UpdatedAt := t_now t\<rparr> else v) (tb_users d)"
  have ok: "distinct (map us_ID (tb_users d))" "distinct_present (map us_Email (tb_users d))"
    "distinct_present (map us_Phone (tb_users d))" using assms by (auto simp: v2_db_ok_def)
  show ?thesis
  proof (cases "us_ID u \<in> us_ID ` set (tb_users d)")
    case True
    have id: "map us_ID ?us = map us_ID (tb_users d)" by auto
    then have "us_ID ` set ?us = us_ID ` set (tb_users d)" by (metis set_map)
    moreover have "map us_Email ?us = map (\<lambda>v. if us_ID v = us_ID u then us_Email u else us_Email v) (tb_users d)"
      "map us_Phone ?us = map (\<lambda>v. if us_ID v = us_ID u then us_Phone u else us_Phone v) (tb_users d)"
      by auto
    moreover have "distinct_present (map (\<lambda>v. if us_ID v = us_ID u then us_Email u else us_Email v) (tb_users d))"
      "distinct_present (map (\<lambda>v. if us_ID v = us_ID u then us_Phone u else us_Phone v) (tb_users d))"
      by (rule distinct_present_update; use ok clash True in \<open>simp add: unique_clash_None\<close>)+
    ultimately have "v2_db_ok (d\<lparr>tb_users := ?us\<rparr>)"
      using ok by (intro v2_db_ok_users [OF assms]) (simp_all only: id)
    with clash True show ?thesis by (simp add: sql_save_user_def sql_update_users_def)
  next
    case False
    then have "filter (\<lambda>v. us_ID v \<noteq> us_ID u) (tb_users d) = tb_users d"
      by (metis (mono_tags, lifting) filter_True imageI)
    with clash False ok have "v2_db_ok (d\<lparr>tb_users := tb_users d @ [u]\<rparr>)"
      by (intro v2_db_ok_users [OF assms]) (auto simp: distinct_present_append unique_clash_None)
    with clash False show ?thesis by (simp add: sql_save_user_def)
  qed
qed (use assms in \<open>auto simp: sql_save_user_def split: option.splits\<close>)

interpretation schema: v2_invariant v2_db_ok "\<lambda>_. True"
proof unfold_locales
  show "v2_db_ok (snd (sql_update_keys T g t d))"
    if "\<And>k. ak_KeyHash (g k) = ak_KeyHash k \<and> ak_UserID (g k) = ak_UserID k" "v2_db_ok d" for T g t d
    using that by (auto simp: v2_db_ok_def sql_update_keys_def image_subset_iff comp_def
        if_distrib [of ak_KeyHash] cong: if_cong)
  show "v2_db_ok (snd (sql_create_user u t d))" "v2_db_ok (snd (sql_save_user u t d))"
    if "v2_db_ok d" for u t d
    using that by (fact v2_db_ok_insert v2_db_ok_save)+
  show "v2_db_ok (snd (sql_update_users U f t d))" if "same_identity f" "v2_db_ok d" for U f t d
    using that(2,1) by (rule v2_db_ok_update)
qed (auto simp: v2_db_ok_def sql_insert_session_def sql_update_sessions_def sql_insert_oauth_def sql_insert_face_def
  sql_insert_audit_def sql_insert_api_key_def Let_def comp_def distinct_map_filter image_subset_iff
  if_distrib [of ss_ID] cong: if_cong)

text \<open>Closed sessions: none with this identifier is active, nor are new ones opened under it.\<close>

definition session_closed :: "string \<Rightarrow> v2_db \<Rightarrow> bool" where
  "session_closed i d \<longleftrightarrow> (\<forall>s \<in> set (tb_sessions d). ss_ID s = i \<longrightarrow> \<not> ss_IsActive s)"

interpretation closed: v2_invariant "session_closed i" "\<lambda>j. j \<noteq> i" for i
  by unfold_locales
     (auto simp: session_closed_def sql_create_user_def sql_save_user_def sql_update_users_def
        sql_insert_session_def sql_update_sessions_def sql_insert_oauth_def sql_insert_face_def
        sql_insert_audit_def sql_insert_api_key_def sql_update_keys_def Let_def split: option.splits)

end
