(* ===== verification/Legacy_Face.thy ===== *)
theory Legacy_Face
  imports Legacy_Crypto Legacy_Store
begin

text \<open>
  Legacy auth engine: faces (\<^verbatim>\<open>internal/face/service.go\<close>) and identity providers
  (\<^verbatim>\<open>internal/oauth/providers.go\<close>). Recognition and liveness are stubs in the code and are modelled
  as they are. Google's endpoint is reached over HTTP; Apple's tokens are only decoded.
\<close>

section \<open>Faces\<close>

definition decodeBase64Image :: "string \<Rightarrow> string + string" where
  "decodeBase64Image b64 =
     StdEncoding_Decode (if CHR '','' \<in> set b64 then tl (dropWhile (\<lambda>c. c \<noteq> CHR '','') b64) else b64)"

text \<open>The stub: 128 zeros, and the confidence 0.99.\<close>

definition extractDescriptor :: "string \<Rightarrow> 32 word list \<times> 32 word" where
  "extractDescriptor imgBytes = (replicate 128 0, 0x3F7D70A4)"

definition MaxFloat32 :: "32 word" where "MaxFloat32 = 0x7F7FFFFF"

fun square_sum :: "float32 \<Rightarrow> 32 word \<Rightarrow> 32 word list \<Rightarrow> 32 word list \<Rightarrow> 32 word" where
  "square_sum F acc (x # xs) (y # ys) =
     (let d = f32_sub F x y in square_sum F (f32_add F acc (f32_mul F d d)) xs ys)"
| "square_sum F acc _ _ = acc"

definition euclideanDistance :: "float32 \<Rightarrow> 32 word list \<Rightarrow> 32 word list \<Rightarrow> 32 word" where
  "euclideanDistance F a b =
     (if length a \<noteq> length b then MaxFloat32 else f32_sqrt F (square_sum F 0 a b))"

definition CheckLiveness :: "FaceConfig \<Rightarrow> string \<Rightarrow> bool \<times> 32 word" where
  "CheckLiveness cfg imageBase64 =
     (if \<not> LivenessEnabled cfg then (True, 0x3F800000) else (True, 0x3F733333))"

definition face_Enroll :: "'r v2_env \<Rightarrow> string \<Rightarrow> string \<Rightarrow> ('r, unit) eng" where
  "face_Enroll E userID imageBase64 =
     (case decodeBase64Image imageBase64 of
        Inl e \<Rightarrow> go_fail (Wrapped ''decode image'' (Plain e))
      | Inr imgBytes \<Rightarrow>
          let (descriptor, confidence) = extractDescriptor imgBytes
          in if f32_less (v2_f32 E) confidence (MinConfidence (cfg_Face (v2_cfg E))) then go_fail ErrLowConfidence
             else
               go_ignore (faces_Deactivate E userID) (
               wrapped ''save enrollment'' (faces_Save E
                 \<lparr>fe_ID = [], fe_UserID = userID, fe_Descriptor = descriptor, fe_Confidence = confidence,
                  fe_IsActive = True\<rparr>)))"

text \<open>The similarity is logged and returned; the callers ignore it.\<close>

definition face_Verify :: "'r v2_env \<Rightarrow> string \<Rightarrow> string \<Rightarrow> ('r, bool) eng" where
  "face_Verify E userID imageBase64 =
     go_bind (else_err (faces_GetByUserID E userID) ErrNotEnrolled) (\<lambda>enrollment.
     case decodeBase64Image imageBase64 of
       Inl e \<Rightarrow> go_fail (Wrapped ''decode image'' (Plain e))
     | Inr imgBytes \<Rightarrow>
         let (descriptor, confidence) = extractDescriptor imgBytes;
             distance = euclideanDistance (v2_f32 E) (fe_Descriptor enrollment) descriptor
         in go_return (f32_le (v2_f32 E) distance (Tolerance (cfg_Face (v2_cfg E)))))"


section \<open>Identity providers\<close>

record ProviderUser =
  pu_ProviderUID :: string
  pu_Provider :: string
  pu_Email :: "string option"
  pu_DisplayName :: string
  pu_AvatarURL :: "string option"
  pu_Verified :: bool

definition non_empty :: "string \<Rightarrow> string option" where
  "non_empty s = (if s \<noteq> [] then Some s else None)"

definition google_VerifyIDToken :: "'r v2_env \<Rightarrow> string \<Rightarrow> ('r, ProviderUser) eng" where
  "google_VerifyIDToken E idToken = go_get (\<lambda>w.
     go_bind (go_put (\<lambda>w. w\<lparr>v_gets := v_gets w + 1\<rparr>)) (\<lambda>_.
     case v2_http_Get E (v_gets w) (''https://oauth2.googleapis.com/tokeninfo?id_token='' @ idToken) of
       Err e \<Rightarrow> go_fail (Wrapped ''google verify id_token'' (Plain e))
     | Panic \<Rightarrow> go_panic
     | Ok (status, body) \<Rightarrow>
         if status \<noteq> 200 then go_fail (Plain (''google: invalid id_token (status '' @ itoa status @ '')''))
         else case v2_google_Unmarshal E body of
                None \<Rightarrow> go_fail (Plain ''json'')
              | Some info \<Rightarrow>
                  if gi_Aud info \<noteq> google_ClientID (Google (cfg_OAuth (v2_cfg E)))
                  then go_fail (Plain ''google: id_token audience mismatch'')
                  else go_return
                    \<lparr>pu_ProviderUID = gi_Sub info, pu_Provider = ''google'', pu_Email = non_empty (gi_Email info),
                     pu_DisplayName = gi_Name info, pu_AvatarURL = non_empty (gi_Picture info),
                     pu_Verified = (gi_EmailVerified info = ''true'')\<rparr>))"

definition splitJWT :: "string \<Rightarrow> string list" where
  "splitJWT token = split_on CHR ''.'' token"

definition decodeJWTClaims :: "(string \<Rightarrow> 'c option) \<Rightarrow> string \<Rightarrow> (v2_error, 'c) outcome" where
  "decodeJWTClaims unmarshal segment =
     (let padded = segment @ (if length segment mod 4 = 2 then ''=='' else if length segment mod 4 = 3 then ''='' else [])
      in case URLEncoding_Decode padded of
           Inl e \<Rightarrow> Err (Plain e)
         | Inr b \<Rightarrow> (case unmarshal b of None \<Rightarrow> Err (Plain ''json'') | Some c \<Rightarrow> Ok c))"

text \<open>The signature and the audience are not looked at.\<close>

definition apple_VerifyIDToken :: "'r v2_env \<Rightarrow> string \<Rightarrow> ('r, ProviderUser) eng" where
  "apple_VerifyIDToken E idToken =
     (let parts = splitJWT idToken
      in if length parts \<noteq> 3 then go_fail (Plain ''apple: invalid id_token format'')
         else
           go_bind (wrapped ''apple: decode claims'' (go_lift (decodeJWTClaims (v2_apple_Unmarshal E) (parts ! 1)))) (\<lambda>claims.
           go_return
             \<lparr>pu_ProviderUID = ap_Sub claims, pu_Provider = ''apple'', pu_Email = non_empty (ap_Email claims),
              pu_DisplayName = [], pu_AvatarURL = None, pu_Verified = True\<rparr>))"

text \<open>The registry: the configured providers by name.\<close>

datatype v2_Provider = GoogleProvider | AppleProvider

definition NewRegistry :: "OAuthConfig \<Rightarrow> (string \<times> v2_Provider) list" where
  "NewRegistry cfg =
     (if google_ClientID (Google cfg) \<noteq> [] then [(''google'', GoogleProvider)] else [])
   @ (if apple_ClientID (Apple cfg) \<noteq> [] then [(''apple'', AppleProvider)] else [])"

definition registry_Get :: "(string \<times> v2_Provider) list \<Rightarrow> string \<Rightarrow> (v2_error, v2_Provider) outcome" where
  "registry_Get r provider =
     (case map_of r provider of
        None \<Rightarrow> Err (Plain (''oauth provider not configured: '' @ provider))
      | Some p \<Rightarrow> Ok p)"

definition provider_VerifyIDToken :: "'r v2_env \<Rightarrow> v2_Provider \<Rightarrow> string \<Rightarrow> ('r, ProviderUser) eng" where
  "provider_VerifyIDToken E p idToken =
     (case p of GoogleProvider \<Rightarrow> google_VerifyIDToken E idToken | AppleProvider \<Rightarrow> apple_VerifyIDToken E idToken)"

end
