(* ===== verification/Legacy_Auth.thy ===== *)
theory Legacy_Auth
  imports Legacy_Password Legacy_Otp Legacy_Face
begin

text \<open>
  Legacy auth engine: the authentication service (\<^verbatim>\<open>internal/auth/service.go\<close> and \<^verbatim>\<open>queries.go\<close>) over
  the repositories, the one-time codes, the faces and the token manager. A pointer to a user
  that a helper changes is passed on changed; a record read from the database and saved later
  is saved as it was read, with the changes made to it.
\<close>

section \<open>Requests and answers\<close>

record v2_RegisterRequest =
  rq_Email :: "string option"
  rq_Phone :: "string option"
  rq_Password :: string
  rq_DisplayName :: string

record v2_LoginRequest =
  li_Identifier :: string
  li_Password :: string
  li_MFACode :: "string option"
  li_DeviceInfo :: string

record v2_OAuthLoginRequest =
  ol_Provider :: string
  ol_Token :: string
  ol_DeviceInfo :: string

record v2_TokenResponse =
  tr_AccessToken :: string
  tr_RefreshToken :: string
  tr_TokenType :: string
  tr_ExpiresIn :: int
  tr_User :: "v2_User option"
  tr_SessionID :: string
  tr_MFARequired :: bool

definition no_response :: v2_TokenResponse where
  "no_response = \<lparr>tr_AccessToken = [], tr_RefreshToken = [], tr_TokenType = [], tr_ExpiresIn = 0,
     tr_User = None, tr_SessionID = [], tr_MFARequired = False\<rparr>"

definition no_user :: v2_User where
  "no_user = \<lparr>us_ID = [], us_Email = None, us_Phone = None, us_PasswordHash = None, us_DisplayName = [],
     us_AvatarURL = None, us_Status = [], us_Role = [], us_EmailVerified = False, us_PhoneVerified = False,
     us_FaceEnrolled = False, us_MFAEnabled = False, us_MFASecret = None, us_MFABackupCodes = [],
     us_FailedLoginCount = 0, us_LockedUntil = None, us_LastLoginAt = None, us_LastLoginIP = None,
     us_PasswordChangedAt = None, us_CreatedAt = 0, us_UpdatedAt = 0, us_DeletedAt = None\<rparr>"


section \<open>Helpers\<close>

text \<open>An audit entry that cannot be written is only logged. Risks are in hundredths.\<close>

definition v2_audit ::
  "'r v2_env \<Rightarrow> string option \<Rightarrow> string \<Rightarrow> string \<Rightarrow> string \<Rightarrow> string \<Rightarrow> string \<Rightarrow> (string \<times> string) list \<Rightarrow> int \<Rightarrow> ('r, unit) eng" where
  "v2_audit E userID action resource ip ua status details risk =
     go_ignore (audits_Log E
       \<lparr>al_ID = [], al_UserID = userID, al_Action = action, al_Resource = resource, al_IPAddress = ip,
        al_UserAgent = ua, al_Status = status, al_Details = details, al_RiskScore = risk, al_CreatedAt = 0\<rparr>)
     (go_return ())"

text \<open>The first matching hash is taken out and the user saved; the changed user is returned.\<close>

definition verifyBackupCode :: "'r v2_env \<Rightarrow> v2_User \<Rightarrow> string \<Rightarrow> ('r, bool \<times> v2_User) eng" where
  "verifyBackupCode E user c =
     (let h = HashBackupCode E c
      in if h \<in> set (us_MFABackupCodes user)
         then let user = user\<lparr>us_MFABackupCodes := remove1 h (us_MFABackupCodes user)\<rparr>
              in go_ignore (users_Update E user) (go_return (True, user))
         else go_return (False, user))"

text \<open>A failed count counts as no session.\<close>

definition issueTokens ::
  "'r v2_env \<Rightarrow> v2_User \<Rightarrow> string \<Rightarrow> string \<Rightarrow> string \<Rightarrow> bool \<Rightarrow> ('r, v2_TokenResponse) eng" where
  "issueTokens E user device ip ua mfaDone =
     go_bind (go_try (sessions_CountActive E (us_ID user)) (\<lambda>_. go_return 0) go_return) (\<lambda>n.
     let limit = SessionMaxDevices (cfg_Security (v2_cfg E))
     in if n \<ge> limit \<and> limit > 0 then go_fail ErrSessionLimitReached
        else
          go_bind (uuid_New E) (\<lambda>sessionID.
          go_bind (wrapped ''generate tokens'' (GenerateTokenPair E (v2_jwt E) (us_ID user) sessionID
                     (us_Role user) (us_Email user) (us_Phone user) mfaDone)) (\<lambda>(accessToken, refreshToken).
          go_bind (time_Now E) (\<lambda>t1.
          go_bind (time_Now E) (\<lambda>t2.
          go_bind (wrapped ''create session'' (sessions_Create E
            \<lparr>ss_ID = sessionID, ss_UserID = us_ID user, ss_RefreshToken = refreshToken, ss_DeviceInfo = device,
             ss_IPAddress = ip, ss_UserAgent = ua, ss_IsActive = True,
             ss_ExpiresAt = t1 + refreshExpiry (v2_jwt E), ss_LastSeenAt = t2, ss_CreatedAt = 0\<rparr>)) (\<lambda>_.
          go_bind (time_Now E) (\<lambda>now.
          let user = user\<lparr>us_LastLoginAt := Some now, us_LastLoginIP := Some ip\<rparr>
          in go_ignore (users_Update E user) (
             go_bind (v2_audit E (Some (us_ID user)) ''login'' ''user'' ip ua ''success'' [] 0) (\<lambda>_.
             go_return
               \<lparr>tr_AccessToken = accessToken, tr_RefreshToken = refreshToken, tr_TokenType = ''Bearer'',
                tr_ExpiresIn = v2_Seconds E (accessExpiry (v2_jwt E)), tr_User = Some user,
                tr_SessionID = sessionID, tr_MFARequired = False\<rparr>))))))))) "


section \<open>Registration and login\<close>

text \<open>
  A lookup that fails for another reason than a missing row returns an empty user with its
  error; the caller only looks at the user.
\<close>

definition taken :: "('r, v2_User) eng \<Rightarrow> v2_error \<Rightarrow> ('r, unit) eng" where
  "taken lookup e =
     go_try lookup (\<lambda>e'. if e' = ErrNotFound then go_return () else go_fail e) (\<lambda>_. go_fail e)"

definition v2_Register ::
  "'r v2_env \<Rightarrow> v2_RegisterRequest \<Rightarrow> string \<Rightarrow> string \<Rightarrow> ('r, v2_User) eng" where
  "v2_Register E req ip ua =
     (case validatePasswordStrength (cfg_Security (v2_cfg E)) (rq_Password req) of
        Some msg \<Rightarrow> go_fail (Plain msg)
      | None \<Rightarrow>
          go_bind (case rq_Email req of
                     Some email \<Rightarrow> taken (users_GetByEmail E email) ErrEmailAlreadyExists
                   | None \<Rightarrow> go_return ()) (\<lambda>_.
          go_bind (case rq_Phone req of
                     Some phone \<Rightarrow> taken (users_GetByPhone E phone) ErrPhoneAlreadyExists
                   | None \<Rightarrow> go_return ()) (\<lambda>_.
          go_bind (wrapped ''hash password'' (v2_HashPassword E (rq_Password req) (BcryptCost (cfg_Security (v2_cfg E))))) (\<lambda>h.
          go_bind (wrapped ''create user'' (users_Create E
            (no_user\<lparr>us_Email := rq_Email req, us_Phone := rq_Phone req, us_PasswordHash := Some h,
               us_DisplayName := rq_DisplayName req, us_Status := UserStatusPending, us_Role := ''user''\<rparr>))) (\<lambda>user.
          go_bind (v2_audit E (Some (us_ID user)) ''register'' ''user'' ip ua ''success'' [] 0) (\<lambda>_.
          go_ignore (case rq_Email req of
                       Some email \<Rightarrow> otp_Send E (us_ID user)
                         \<lparr>sr_Recipient = email, sr_Channel = OTPChannelEmail E, sr_Purpose = OTPPurposeVerifyEmail E\<rparr>
                     | None \<Rightarrow>
                         (case rq_Phone req of
                            Some phone \<Rightarrow> otp_Send E (us_ID user)
                              \<lparr>sr_Recipient = phone, sr_Channel = OTPChannelSMS E, sr_Purpose = OTPPurposeVerifyPhone E\<rparr>
                          | None \<Rightarrow> go_return ()))
          (go_return user)))))))"

definition is_locked :: "'r v2_env \<Rightarrow> v2_User \<Rightarrow> ('r, bool) eng" where
  "is_locked E user =
     (case us_LockedUntil user of
        None \<Rightarrow> go_return False
      | Some until \<Rightarrow> go_bind (time_Now E) (\<lambda>now. go_return (now < until)))"

definition password_matches :: "'r v2_env \<Rightarrow> v2_User \<Rightarrow> string \<Rightarrow> bool" where
  "password_matches E user password =
     (case us_PasswordHash user of None \<Rightarrow> False | Some h \<Rightarrow> v2_VerifyPassword E password h)"

text \<open>The failed attempt is counted; the lock looks at the count as it was read before.\<close>

definition failed_login :: "'r v2_env \<Rightarrow> v2_User \<Rightarrow> string \<Rightarrow> string \<Rightarrow> ('r, unit) eng" where
  "failed_login E user ip ua =
     go_ignore (users_IncrFailedLogin E (us_ID user)) (
     go_bind (if us_FailedLoginCount user + 1 \<ge> MaxLoginAttempts (cfg_Security (v2_cfg E))
              then go_bind (time_Now E) (\<lambda>now.
                   go_ignore (users_LockAccount E (us_ID user) (now + LockoutDuration (cfg_Security (v2_cfg E))))
                     (go_return ()))
              else go_return ()) (\<lambda>_.
     v2_audit E (Some (us_ID user)) ''login'' ''user'' ip ua ''failure'' [(''reason'', ''invalid_password'')] 70))"

text \<open>
  The second factor: \<open>None\<close> if a code is still to be given, otherwise the user, changed when a
  backup code was used. A user with the factor enabled and no secret needs no valid code.
\<close>

definition mfa_gate ::
  "'r v2_env \<Rightarrow> v2_User \<Rightarrow> string option \<Rightarrow> string \<Rightarrow> string \<Rightarrow> ('r, v2_User option) eng" where
  "mfa_gate E user c ip ua =
     (if \<not> us_MFAEnabled user then go_return (Some user)
      else case c of
             None \<Rightarrow> go_return None
           | Some c \<Rightarrow>
               (case us_MFASecret user of
                  None \<Rightarrow> go_return (Some user)
                | Some secret \<Rightarrow>
                    go_bind (ValidateTOTP E secret c) (\<lambda>valid.
                    if valid then go_return (Some user)
                    else
                      go_bind (verifyBackupCode E user c) (\<lambda>(used, user).
                      if used then go_return (Some user)
                      else
                        go_bind (v2_audit E (Some (us_ID user)) ''mfa_verify'' ''user'' ip ua ''failure'' [] 90) (\<lambda>_.
                        go_fail ErrInvalidMFACode)))))"

definition v2_Login ::
  "'r v2_env \<Rightarrow> v2_LoginRequest \<Rightarrow> string \<Rightarrow> string \<Rightarrow> ('r, v2_TokenResponse) eng" where
  "v2_Login E req ip ua =
     go_try (users_GetByIdentifier E (li_Identifier req))
       (\<lambda>_. go_bind (v2_audit E None ''login'' ''user'' ip ua ''failure'' [(''reason'', ''user_not_found'')] 80)
              (\<lambda>_. go_fail ErrInvalidCredentials))
       (\<lambda>user.
     go_bind (is_locked E user) (\<lambda>locked.
     if locked then go_fail ErrAccountLocked
     else if us_Status user = UserStatusSuspended then go_fail ErrAccountSuspended
     else if \<not> password_matches E user (li_Password req)
     then go_bind (failed_login E user ip ua) (\<lambda>_. go_fail ErrInvalidCredentials)
     else
       go_ignore (users_ResetFailedLogin E (us_ID user)) (
       go_bind (mfa_gate E user (li_MFACode req) ip ua) (\<lambda>passed.
       case passed of
         None \<Rightarrow> go_return (no_response\<lparr>tr_MFARequired := True\<rparr>)
       | Some user \<Rightarrow> issueTokens E user (li_DeviceInfo req) ip ua True))))"


section \<open>Other logins\<close>

text \<open>Any failed lookup of the link, not only a missing one, creates a new user.\<close>

definition OAuthLogin ::
  "'r v2_env \<Rightarrow> v2_OAuthLoginRequest \<Rightarrow> string \<Rightarrow> string \<Rightarrow> ('r, v2_TokenResponse) eng" where
  "OAuthLogin E req ip ua =
     go_bind (wrapped ''oauth provider'' (go_lift (registry_Get (NewRegistry (cfg_OAuth (v2_cfg E))) (ol_Provider req)))) (\<lambda>provider.
     go_try (provider_VerifyIDToken E provider (ol_Token req))
       (\<lambda>e. go_bind (v2_audit E None ''oauth_login'' (ol_Provider req) ip ua ''failure'' [(''error'', v2_error_text e)] 50)
              (\<lambda>_. go_fail (Wrapped ''verify oauth token'' e)))
       (\<lambda>pu.
     go_bind (go_try (oauths_GetByProvider E (ol_Provider req) (pu_ProviderUID pu))
       (\<lambda>_.
          go_bind (wrapped ''create oauth user'' (users_Create E
            (no_user\<lparr>us_Email := pu_Email pu, us_DisplayName := pu_DisplayName pu, us_AvatarURL := pu_AvatarURL pu,
               us_Status := v2_StatusActive, us_EmailVerified := pu_Verified pu, us_Role := ''user''\<rparr>))) (\<lambda>user.
          go_bind (wrapped ''store oauth link'' (oauths_Create E
            \<lparr>oa_ID = [], oa_UserID = us_ID user, oa_Provider = ol_Provider req, oa_ProviderUID = pu_ProviderUID pu\<rparr>)) (\<lambda>_.
          go_return user)))
       (\<lambda>link. wrapped ''get user'' (users_GetByID E (oa_UserID link)))) (\<lambda>user.
     if us_Status user = UserStatusSuspended then go_fail ErrAccountSuspended
     else
       go_bind (v2_audit E (Some (us_ID user)) ''oauth_login'' (ol_Provider req) ip ua ''success'' [] 0) (\<lambda>_.
       issueTokens E user (ol_DeviceInfo req) ip ua True))))"

definition FaceLogin :: "'r v2_env \<Rightarrow> string \<Rightarrow> ('r, v2_TokenResponse) eng" where
  "FaceLogin E img =
     (if \<not> fst (CheckLiveness (cfg_Face (v2_cfg E)) img) then go_fail ErrLivenessCheck
      else go_fail (Plain ''face login: combine with identifier lookup then call FaceVerify''))"

definition FaceVerify :: "'r v2_env \<Rightarrow> string \<Rightarrow> string \<Rightarrow> ('r, bool) eng" where
  "FaceVerify E userID img = face_Verify E userID img"

definition EnrollFace :: "'r v2_env \<Rightarrow> string \<Rightarrow> string \<Rightarrow> ('r, unit) eng" where
  "EnrollFace E userID img =
     (if \<not> fst (CheckLiveness (cfg_Face (v2_cfg E)) img) then go_fail ErrLivenessCheck
      else face_Enroll E userID img)"


section \<open>Sessions\<close>

definition v2_RefreshToken :: "'r v2_env \<Rightarrow> string \<Rightarrow> ('r, v2_TokenResponse) eng" where
  "v2_RefreshToken E refreshToken =
     go_bind (else_err (ParseRefreshToken E (v2_jwt E) refreshToken) ErrInvalidToken) (\<lambda>claims.
     go_bind (else_err (sessions_GetByID E (cl_SessionID claims)) ErrSessionExpired) (\<lambda>session.
     if \<not> ss_IsActive session then go_fail ErrSessionExpired
     else
       go_bind (time_Now E) (\<lambda>now.
       if now > ss_ExpiresAt session
       then go_ignore (sessions_Revoke E (ss_ID session)) (go_fail ErrSessionExpired)
       else
         go_bind (wrapped ''get user'' (users_GetByID E (cl_UserID claims))) (\<lambda>user.
         go_bind (wrapped ''generate refresh'' (GenerateRefreshToken E (v2_jwt E) (us_ID user) (ss_ID session))) (\<lambda>newRefresh.
         go_bind (wrapped ''generate access'' (GenerateAccessToken E (v2_jwt E) (us_ID user) (ss_ID session)
                    (us_Role user) (us_Email user) (us_Phone user) True)) (\<lambda>newAccess.
         go_ignore (sessions_Touch E (ss_ID session)) (
         go_return
           (no_response\<lparr>tr_AccessToken := newAccess, tr_RefreshToken := newRefresh, tr_TokenType := ''Bearer'',
              tr_ExpiresIn := v2_Seconds E (accessExpiry (v2_jwt E)), tr_SessionID := ss_ID session\<rparr>))))))))"

definition v2_Logout :: "'r v2_env \<Rightarrow> string \<Rightarrow> ('r, unit) eng" where
  "v2_Logout E sessionID = sessions_Revoke E sessionID"

definition v2_LogoutAll :: "'r v2_env \<Rightarrow> string \<Rightarrow> ('r, unit) eng" where
  "v2_LogoutAll E userID = sessions_RevokeAll E userID"


section \<open>Codes and passwords\<close>

definition v2_SendOTP :: "'r v2_env \<Rightarrow> string \<Rightarrow> SendOTPRequest \<Rightarrow> ('r, unit) eng" where
  "v2_SendOTP E userID req = otp_Send E userID req"

definition v2_VerifyOTP :: "'r v2_env \<Rightarrow> VerifyOTPRequest \<Rightarrow> ('r, unit) eng" where
  "v2_VerifyOTP E req = otp_Verify E req"

definition RequestPasswordReset :: "'r v2_env \<Rightarrow> string \<Rightarrow> ('r, unit) eng" where
  "RequestPasswordReset E identifier =
     go_try (users_GetByIdentifier E identifier) (\<lambda>_. go_return ()) (\<lambda>user.
     case us_Email user of
       Some email \<Rightarrow> otp_Send E (us_ID user)
         \<lparr>sr_Recipient = email, sr_Channel = OTPChannelEmail E, sr_Purpose = OTPPurposePasswordReset E\<rparr>
     | None \<Rightarrow>
         (case us_Phone user of
            Some phone \<Rightarrow> otp_Send E (us_ID user)
              \<lparr>sr_Recipient = phone, sr_Channel = OTPChannelSMS E, sr_Purpose = OTPPurposePasswordReset E\<rparr>
          | None \<Rightarrow> go_return ()))"

definition ResetPassword ::
  "'r v2_env \<Rightarrow> string \<Rightarrow> string \<Rightarrow> string \<Rightarrow> string \<Rightarrow> string \<Rightarrow> ('r, unit) eng" where
  "ResetPassword E identifier token newPassword ip ua =
     (case validatePasswordStrength (cfg_Security (v2_cfg E)) newPassword of
        Some msg \<Rightarrow> go_fail (Plain msg)
      | None \<Rightarrow>
          go_bind (otp_Verify E \<lparr>vr_Recipient = identifier, vr_Code = token, vr_Purpose = OTPPurposePasswordReset E\<rparr>) (\<lambda>_.
          go_bind (else_err (users_GetByIdentifier E identifier) ErrUserNotFound) (\<lambda>user.
          go_bind (v2_HashPassword E newPassword (BcryptCost (cfg_Security (v2_cfg E)))) (\<lambda>h.
          go_bind (time_Now E) (\<lambda>now.
          go_bind (users_Update E (user\<lparr>us_PasswordHash := Some h, us_PasswordChangedAt := Some now\<rparr>)) (\<lambda>_.
          go_ignore (sessions_RevokeAll E (us_ID user)) (
          v2_audit E (Some (us_ID user)) ''password_reset'' ''user'' ip ua ''success'' [] 0)))))))"


section \<open>The second factor\<close>

definition EnableMFA ::
  "'r v2_env \<Rightarrow> string \<Rightarrow> string \<Rightarrow> ('r, string \<times> string \<times> string list) eng" where
  "EnableMFA E userID password =
     go_bind (users_GetByID E userID) (\<lambda>user.
     if us_PasswordHash user \<noteq> None \<and> \<not> password_matches E user password then go_fail ErrInvalidCredentials
     else
       go_bind (GenerateTOTPSecret E (case us_Email user of None \<Rightarrow> [] | Some e \<Rightarrow> e)) (\<lambda>(secret, qrURL).
       go_bind (GenerateBackupCodes E 10) (\<lambda>(codes, hashes).
       go_bind (Encrypt E secret (AccessSecret (cfg_JWT (v2_cfg E)))) (\<lambda>encSecret.
       go_bind (users_Update E (user\<lparr>us_MFASecret := Some encSecret, us_MFABackupCodes := hashes\<rparr>)) (\<lambda>_.
       go_return (secret, qrURL, codes))))))"

definition ConfirmMFA :: "'r v2_env \<Rightarrow> string \<Rightarrow> string \<Rightarrow> ('r, unit) eng" where
  "ConfirmMFA E userID c =
     go_bind (users_GetByID E userID) (\<lambda>user.
     case us_MFASecret user of
       None \<Rightarrow> go_fail (Plain ''mfa not initialized'')
     | Some enc \<Rightarrow>
         go_bind (wrapped ''decrypt mfa secret'' (go_lift (Decrypt E enc (AccessSecret (cfg_JWT (v2_cfg E)))))) (\<lambda>secret.
         go_bind (ValidateTOTP E secret c) (\<lambda>valid.
         if \<not> valid then go_fail ErrInvalidMFACode
         else users_Update E (user\<lparr>us_MFAEnabled := True\<rparr>))))"

text \<open>A secret that cannot be decrypted counts as the empty one.\<close>

definition DisableMFA :: "'r v2_env \<Rightarrow> string \<Rightarrow> string \<Rightarrow> ('r, unit) eng" where
  "DisableMFA E userID c =
     go_bind (users_GetByID E userID) (\<lambda>user.
     case (us_MFAEnabled user, us_MFASecret user) of
       (True, Some enc) \<Rightarrow>
         (let secret = (case Decrypt E enc (AccessSecret (cfg_JWT (v2_cfg E))) of Ok s \<Rightarrow> s | _ \<Rightarrow> [])
          in go_bind (ValidateTOTP E secret c) (\<lambda>valid.
             if \<not> valid then go_fail ErrInvalidMFACode
             else users_Update E (user\<lparr>us_MFAEnabled := False, us_MFASecret := None, us_MFABackupCodes := []\<rparr>)))
     | _ \<Rightarrow> go_fail (Plain ''mfa not enabled''))"


section \<open>Queries\<close>

definition v2_GetUser :: "'r v2_env \<Rightarrow> string \<Rightarrow> ('r, v2_User) eng" where
  "v2_GetUser E i = users_GetByID E i"

definition GetUserByIdentifier :: "'r v2_env \<Rightarrow> string \<Rightarrow> ('r, v2_User) eng" where
  "GetUserByIdentifier E identifier = else_err (users_GetByIdentifier E identifier) ErrUserNotFound"


section \<open>Calls\<close>

text \<open>Every operation of the service that can change the state, as a call; results are dropped.\<close>

datatype v2_call =
    CallRegister v2_RegisterRequest string string
  | CallLogin v2_LoginRequest string string
  | CallOAuthLogin v2_OAuthLoginRequest string string
  | CallRefresh string
  | CallSendOTP string SendOTPRequest
  | CallVerifyOTP VerifyOTPRequest
  | CallRequestReset string
  | CallResetPassword string string string string string
  | CallLogout string
  | CallLogoutAll string
  | CallEnableMFA string string
  | CallConfirmMFA string string
  | CallDisableMFA string string
  | CallFaceVerify string string
  | CallEnrollFace string string

fun perform :: "'r v2_env \<Rightarrow> v2_call \<Rightarrow> 'r v2 \<Rightarrow> 'r v2" where
  "perform E (CallRegister req ip ua) w = snd (v2_Register E req ip ua w)"
| "perform E (CallLogin req ip ua) w = snd (v2_Login E req ip ua w)"
| "perform E (CallOAuthLogin req ip ua) w = snd (OAuthLogin E req ip ua w)"
| "perform E (CallRefresh t) w = snd (v2_RefreshToken E t w)"
| "perform E (CallSendOTP i req) w = snd (v2_SendOTP E i req w)"
| "perform E (CallVerifyOTP req) w = snd (v2_VerifyOTP E req w)"
| "perform E (CallRequestReset i) w = snd (RequestPasswordReset E i w)"
| "perform E (CallResetPassword i t p ip ua) w = snd (ResetPassword E i t p ip ua w)"
| "perform E (CallLogout i) w = snd (v2_Logout E i w)"
| "perform E (CallLogoutAll i) w = snd (v2_LogoutAll E i w)"
| "perform E (CallEnableMFA i p) w = snd (EnableMFA E i p w)"
| "perform E (CallConfirmMFA i c) w = snd (ConfirmMFA E i c w)"
| "perform E (CallDisableMFA i c) w = snd (DisableMFA E i c w)"
| "perform E (CallFaceVerify i img) w = snd (FaceVerify E i img w)"
| "perform E (CallEnrollFace i img) w = snd (EnrollFace E i img w)"

definition performed :: "'r v2_env \<Rightarrow> v2_call list \<Rightarrow> 'r v2 \<Rightarrow> 'r v2" where
  "performed E cs w = fold (perform E) cs w"


section \<open>Invariants\<close>

lemma keeps_db_notify [keeps_rules]: "keeps (v2_safe E I ok) (v2_notify E ch r c p)"
  by (auto simp: keeps_def v2_safe_def v2_notify_def split: option.splits)

lemma keeps_db_otp [keeps_rules]:
  "keeps (v2_safe E I ok) (otp_InvalidateAll E i p)" "keeps (v2_safe E I ok) (otp_Create E x)"
  "keeps (v2_safe E I ok) (otp_GetValid E r p)" "keeps (v2_safe E I ok) (otp_IncrAttempts E i)"
  "keeps (v2_safe E I ok) (otp_MarkVerified E i)" "keeps (v2_safe E I ok) (ValidateTOTP E s c)"
  "keeps (v2_safe E I ok) (GenerateTOTPSecret E e)"
  unfolding otp_InvalidateAll_def otp_Create_def otp_GetValid_def otp_IncrAttempts_def otp_MarkVerified_def
    ValidateTOTP_def GenerateTOTPSecret_def Let_def
  by (intro keeps_rules)+

lemma keeps_db_otp_service [keeps_rules]:
  "keeps (v2_safe E I ok) (otp_Send E i req)" "keeps (v2_safe E I ok) (otp_Verify E v)"
  unfolding otp_Send_def otp_Verify_def by (intro keeps_rules)+

lemma keeps_db_provider [keeps_rules]: "keeps (v2_safe E I ok) (provider_VerifyIDToken E p t)"
  by (auto simp: provider_VerifyIDToken_def google_VerifyIDToken_def apple_VerifyIDToken_def Let_def
      wrapped_def keeps_def v2_safe_def go_bind_def go_try_def split: v2_Provider.splits outcome.splits option.splits)

context v2_invariant
begin

lemma keeps_helpers [keeps_rules]:
  "keeps (v2_safe E I ok) (v2_audit E i a r ip ua st ds n)"
  "keeps (v2_safe E I ok) (verifyBackupCode E u c)"
  "keeps (v2_safe E I ok) (is_locked E u)"
  "keeps (v2_safe E I ok) (failed_login E u ip ua)"
  "keeps (v2_safe E I ok) (issueTokens E u dev ip ua b)"
  "keeps (v2_safe E I ok) (taken (users_GetByEmail E m) e)"
  "keeps (v2_safe E I ok) (taken (users_GetByPhone E m) e)"
  unfolding v2_audit_def verifyBackupCode_def is_locked_def failed_login_def issueTokens_def taken_def Let_def
  by (intro keeps_rules keeps_uuid; simp)+

lemma keeps_mfa_gate [keeps_rules]: "keeps (v2_safe E I ok) (mfa_gate E u c ip ua)"
  unfolding mfa_gate_def by (intro keeps_rules)

lemma keeps_logins:
  "keeps (v2_safe E I ok) (v2_Register E reg ip ua)"
  "keeps (v2_safe E I ok) (v2_Login E req ip ua)"
  "keeps (v2_safe E I ok) (OAuthLogin E oreq ip ua)"
  "keeps (v2_safe E I ok) (v2_RefreshToken E t)"
  unfolding v2_Register_def v2_Login_def OAuthLogin_def v2_RefreshToken_def ParseRefreshToken_def
  by (intro keeps_rules)+

lemma keeps_faces:
  "keeps (v2_safe E I ok) (FaceVerify E i img)" "keeps (v2_safe E I ok) (EnrollFace E i img)"
  unfolding FaceVerify_def face_Verify_def EnrollFace_def face_Enroll_def Let_def extractDescriptor_def
  by (auto split: sum.splits intro!: keeps_rules)

lemma keeps_accounts:
  "keeps (v2_safe E I ok) (v2_SendOTP E i req)" "keeps (v2_safe E I ok) (v2_VerifyOTP E v)"
  "keeps (v2_safe E I ok) (RequestPasswordReset E i)" "keeps (v2_safe E I ok) (ResetPassword E i t p ip ua)"
  "keeps (v2_safe E I ok) (v2_Logout E i)" "keeps (v2_safe E I ok) (v2_LogoutAll E i)"
  "keeps (v2_safe E I ok) (EnableMFA E i p)" "keeps (v2_safe E I ok) (ConfirmMFA E i c)"
  "keeps (v2_safe E I ok) (DisableMFA E i c)"
  unfolding v2_SendOTP_def v2_VerifyOTP_def RequestPasswordReset_def ResetPassword_def v2_Logout_def
    v2_LogoutAll_def EnableMFA_def ConfirmMFA_def DisableMFA_def Let_def
  by (intro keeps_rules; auto split: bool.splits option.splits intro!: keeps_rules)+

lemma perform_safe: "v2_safe E I ok w \<Longrightarrow> v2_safe E I ok (perform E c w)"
  by (cases c) (simp_all add: keepsD [OF _ _ prod.collapse [symmetric]] keeps_logins keeps_faces keeps_accounts)

lemma performed_safe: "v2_safe E I ok w \<Longrightarrow> v2_safe E I ok (performed E cs w)"
  by (induction cs arbitrary: w) (simp_all add: performed_def perform_safe)

end

end
