(* ===== verification/Legacy_Limits.thy ===== *)
theory Legacy_Limits
  imports Legacy_Fixture
begin

text \<open>
  Legacy auth engine: the rate limiters over Redis (\<^verbatim>\<open>pkg/ratelimit/bucket.go\<close>), and the window
  that \<^verbatim>\<open>Limit\<close> and \<^verbatim>\<open>LimitByUser\<close> of \<^verbatim>\<open>internal/middleware/middleware.go\<close> share with them. A
  pipeline sends its commands one after the other and reports the first error; a limiter that
  meets an error lets the request pass.
\<close>

section \<open>Pipelines\<close>

definition attempt :: "('r, 'a) eng \<Rightarrow> ('r, (v2_error, 'a) outcome) eng" where
  "attempt m w = (case m w of (Panic, w') \<Rightarrow> (Panic, w') | (r, w') \<Rightarrow> (Ok r, w'))"

fun error_of :: "(v2_error, 'a) outcome \<Rightarrow> v2_error option" where
  "error_of (Err e) = Some e"
| "error_of _ = None"

fun first_error :: "v2_error option list \<Rightarrow> v2_error option" where
  "first_error [] = None"
| "first_error (Some e # es) = Some e"
| "first_error (None # es) = first_error es"

text \<open>\<^verbatim>\<open>results[2].(*redis.IntCmd).Val()\<close>: zero for a command that failed.\<close>

fun int_val :: "(v2_error, int) outcome \<Rightarrow> int" where
  "int_val (Ok n) = n"
| "int_val _ = 0"

definition UnixMilli :: "int \<Rightarrow> int" where
  "UnixMilli t = t div 1000000"

text \<open>\<^verbatim>\<open>d.Milliseconds()\<close> and other divisions of durations are rounded towards zero.\<close>

definition quot :: "int \<Rightarrow> int \<Rightarrow> int" where
  "quot a b = sgn a * sgn b * (\<bar>a\<bar> div \<bar>b\<bar>)"

definition window_pipeline ::
  "'r v2_env \<Rightarrow> string \<Rightarrow> int \<Rightarrow> int \<Rightarrow> string \<Rightarrow> int \<Rightarrow> ('r, v2_error option \<times> int) eng" where
  "window_pipeline E rkey hi score member window =
     go_bind (attempt (run_redis E (\<lambda>t. rd_ZRemRangeByScore (v2_redis E) t rkey 0 hi))) (\<lambda>r1.
     go_bind (attempt (run_redis E (\<lambda>t. rd_ZAdd (v2_redis E) t rkey score member))) (\<lambda>r2.
     go_bind (attempt (run_redis E (\<lambda>t. rd_ZCard (v2_redis E) t rkey))) (\<lambda>r3.
     go_bind (attempt (run_redis E (\<lambda>t. rd_Expire (v2_redis E) t rkey window))) (\<lambda>r4.
     go_return (first_error [error_of r1, error_of r2, error_of r3, error_of r4], int_val r3)))))"


section \<open>The limiters of the package\<close>

record limit_result =
  Allowed :: bool
  Remaining :: int
  ResetAfter :: int
  RetryAfter :: int

definition failed_open :: limit_result where
  "failed_open = \<lparr>Allowed = True, Remaining = 0, ResetAfter = 0, RetryAfter = 0\<rparr>"

text \<open>
  The arithmetic of a rate, a 64-bit float of tokens per second: \<^verbatim>\<open>math.floor(n * rate)\<close>,
  \<^verbatim>\<open>math.ceil(n / rate)\<close>, and \<^verbatim>\<open>float64(n) / rate\<close> as a whole number.
\<close>

record token_rate =
  rate_refill :: "int \<Rightarrow> int"
  rate_fill :: "int \<Rightarrow> int"
  rate_wait :: "int \<Rightarrow> int"

text \<open>The script; its numbers are whole and taken to be exact.\<close>

definition lua_number :: "string option \<Rightarrow> int \<Rightarrow> int" where
  "lua_number s fallback = (case Option.bind s signed_value of None \<Rightarrow> fallback | Some n \<Rightarrow> n)"

definition bucket_script ::
  "'r redis \<Rightarrow> string \<Rightarrow> int \<Rightarrow> token_rate \<Rightarrow> int \<Rightarrow> int \<Rightarrow> int \<Rightarrow> ('r, string, int \<times> int) go" where
  "bucket_script R key capacity rate tokens now t =
     go_bind (rd_HMGet R t key [''tokens'', ''last_refill'']) (\<lambda>bucket.
     let last_refill = lua_number (bucket ! 1) now;
         current = min capacity (lua_number (bucket ! 0) capacity + rate_refill rate (now - last_refill));
         allowed = current \<ge> tokens;
         left = (if allowed then current - tokens else current)
     in go_bind (rd_HMSet R t key [(''tokens'', itoa left), (''last_refill'', itoa now)]) (\<lambda>_.
        go_bind (rd_Expire R t key ((rate_fill rate capacity + 1) * second)) (\<lambda>_.
        go_return (if allowed then 1 else 0, left))))"

definition bucket_key :: "string \<Rightarrow> string" where
  "bucket_key key = ''tb:'' @ key"

definition Allow ::
  "'r v2_env \<Rightarrow> string \<Rightarrow> int \<Rightarrow> token_rate \<Rightarrow> int \<Rightarrow> ('r, limit_result \<times> v2_error option) eng" where
  "Allow E key capacity rate tokens =
     go_bind (time_Now E) (\<lambda>t.
     go_bind (attempt (run_redis E (bucket_script (v2_redis E) (bucket_key key) capacity rate tokens (unix_of t)))) (\<lambda>r.
     case r of
       Ok (allowed, remaining) \<Rightarrow>
         go_return
           (\<lparr>Allowed = (allowed = 1), Remaining = remaining,
             ResetAfter = wrap64 (rate_wait rate (wrap64 (capacity - remaining)) * second),
             RetryAfter = wrap64 (rate_wait rate (wrap64 (tokens - remaining)) * second)\<rparr>, None)
     | Err e \<Rightarrow> go_return (failed_open, Some e)
     | Panic \<Rightarrow> go_panic))"

text \<open>A limit of zero divides by zero, after the request was counted.\<close>

definition SlidingWindow ::
  "'r v2_env \<Rightarrow> string \<Rightarrow> int \<Rightarrow> int \<Rightarrow> ('r, limit_result \<times> v2_error option) eng" where
  "SlidingWindow E key limit window =
     go_bind (time_Now E) (\<lambda>now.
     go_bind (window_pipeline E (''sw:'' @ key) (UnixMilli (now - window)) (UnixMilli now)
                (itoa (UnixMilli now) @ ''-'' @ key) window) (\<lambda>(err, count).
     case err of
       Some e \<Rightarrow> go_return (failed_open, Some e)
     | None \<Rightarrow>
         if limit = 0 then go_panic
         else go_return
           (\<lparr>Allowed = (count \<le> limit), Remaining = max 0 (wrap64 (limit - count)), ResetAfter = window,
             RetryAfter = wrap64 (quot window limit)\<rparr>, None)))"

text \<open>\<^verbatim>\<open>t.Truncate(d)\<close> rounds down to a multiple of \<^verbatim>\<open>d\<close> since the zero time of the package.\<close>

definition time_Truncate :: "int \<Rightarrow> int \<Rightarrow> int" where
  "time_Truncate t d = (if d \<le> 0 then t else t - (t + unix_to_internal * second) mod d)"

definition FixedWindow ::
  "'r v2_env \<Rightarrow> string \<Rightarrow> int \<Rightarrow> int \<Rightarrow> ('r, limit_result \<times> v2_error option) eng" where
  "FixedWindow E key limit window =
     go_bind (time_Now E) (\<lambda>now.
     let rkey = ''fw:'' @ key @ '':'' @ itoa (unix_of (time_Truncate now window))
     in go_bind (attempt (run_redis E (\<lambda>t. rd_Incr (v2_redis E) t rkey))) (\<lambda>incr.
        go_bind (attempt (run_redis E (\<lambda>t. rd_Expire (v2_redis E) t rkey window))) (\<lambda>expire.
        case first_error [error_of incr, error_of expire] of
          Some e \<Rightarrow> go_return (failed_open, Some e)
        | None \<Rightarrow>
            let count = int_val incr
            in go_return
                 (\<lparr>Allowed = (count \<le> limit), Remaining = max 0 (wrap64 (limit - count)), ResetAfter = window,
                   RetryAfter = 0\<rparr>, None))))"


section \<open>The window of the middleware\<close>

text \<open>
  What \<^verbatim>\<open>Limit\<close> and \<^verbatim>\<open>LimitByUser\<close> do for each request: the members of the set are the
  milliseconds of the requests.
\<close>

definition window_hit :: "'r v2_env \<Rightarrow> string \<Rightarrow> int \<Rightarrow> ('r, v2_error option \<times> int) eng" where
  "window_hit E rkey window =
     go_bind (time_Now E) (\<lambda>t.
     let now = UnixMilli t
     in window_pipeline E rkey (now - quot window 1000000) now (itoa now) window)"

fun window_hits :: "'r v2_env \<Rightarrow> string \<Rightarrow> int \<Rightarrow> nat \<Rightarrow> 'r v2 \<Rightarrow> (v2_error, v2_error option \<times> int) outcome list \<times> 'r v2" where
  "window_hits E rkey window 0 w = ([], w)"
| "window_hits E rkey window (Suc n) w =
     (let (rs, w1) = window_hits E rkey window n w; (r, w2) = window_hit E rkey window w1 in (rs @ [r], w2))"


section \<open>What the window counts\<close>

text \<open>The sorted set under the key is this one, from the next command until the end \<open>D\<close>.\<close>

definition holds_set :: "'r v2_env \<Rightarrow> 'r keyspace \<Rightarrow> string \<Rightarrow> (string \<rightharpoonup> int) \<Rightarrow> int \<Rightarrow> 'r v2 \<Rightarrow> bool" where
  "holds_set E view k z D w \<longleftrightarrow>
     (\<forall>t. v2_redis_time E (v_cmds w) \<le> t \<and> t < D \<longrightarrow> view (v_redis w) t k = sorted_set z)"

lemma sorted_at_set [simp]: "sorted_at (sorted_set z) = Some z"
  by (simp add: sorted_set_def)

lemma attempt_Ok: "m w = (Ok x, w') \<Longrightarrow> attempt m w = (Ok (Ok x), w')"
  by (simp add: attempt_def)

lemma holds_set_now:
  "holds_set E view k z D w \<Longrightarrow> v2_redis_time E (v_cmds w) < D \<Longrightarrow>
   view (v_redis w) (v2_redis_time E (v_cmds w)) k = sorted_set z"
  by (simp add: holds_set_def)

lemma holds_set_changed:
  assumes "mono (v2_redis_time E)" and "holds_set E view k z D w" and "v2_redis_time E (v_cmds w) < D"
    and "from_on (v2_redis_time E (v_cmds w)) (view r') (changed view (v_redis w) (v2_redis_time E (v_cmds w)) k (sorted_set z'))"
  shows "holds_set E view k z' D (w\<lparr>v_cmds := Suc (v_cmds w), v_redis := r'\<rparr>)"
proof -
  have "v2_redis_time E (v_cmds w) \<le> v2_redis_time E (Suc (v_cmds w))" using assms(1) by (simp add: monoD)
  then show ?thesis using assms(2-4) by (auto simp: holds_set_def from_on_def changed_def)
qed

text \<open>The members up to a score are gone.\<close>

definition trimmed :: "(string \<rightharpoonup> int) \<Rightarrow> int \<Rightarrow> string \<rightharpoonup> int" where
  "trimmed z hi = (\<lambda>m. case z m of None \<Rightarrow> None | Some s \<Rightarrow> if 0 \<le> s \<and> s \<le> hi then None else Some s)"

lemma window_pipeline_run:
  assumes ready: "redis_ready E view dl" and "0 < window"
    and held: "holds_set E view k z D w" and D: "v2_redis_time E (v_cmds w + 3) < D"
  shows "\<exists>w'. window_pipeline E k hi score member window w = (Ok (None, int (card (dom ((trimmed z hi)(member \<mapsto> score))))), w')
    \<and> holds_set E view k ((trimmed z hi)(member \<mapsto> score)) (dl (v2_redis_time E (v_cmds w + 3)) window) w'
    \<and> v_cmds w' = v_cmds w + 4 \<and> v_clock w' = v_clock w"
proof -
  let ?T = "v2_redis_time E" and ?c = "v_cmds w" and ?z1 = "trimmed z hi" and ?z2 = "(trimmed z hi)(member \<mapsto> score)"
  note time = redis_readyD(2) [OF ready]
  note serves = redis_readyD(1) [OF ready]
  have "?T n < D" if "n \<le> ?c + 3" for n using D monoD [OF time that] by simp
  then have early: "?T ?c < D" "?T (Suc ?c) < D" "?T (Suc (Suc ?c)) < D" "?T (Suc (Suc (Suc ?c))) < D" by simp_all
  obtain n1 r1 where rem: "rd_ZRemRangeByScore (v2_redis E) (?T ?c) k 0 hi (v_redis w) = (Ok n1, r1)"
    and v1: "from_on (?T ?c) (view r1) (changed view (v_redis w) (?T ?c) k (sorted_set ?z1))"
    using serves_ZRem [OF serves, of "v_redis w" "?T ?c" k z 0 hi] holds_set_now [OF held early(1)] by (auto simp: trimmed_def)
  let ?w1 = "w\<lparr>v_cmds := Suc ?c, v_redis := r1\<rparr>"
  have h1: "holds_set E view k ?z1 D ?w1" by (rule holds_set_changed [OF time held early(1) v1])
  have at1: "view r1 (?T (Suc ?c)) k = sorted_set ?z1" using holds_set_now [OF h1] early(2) by simp
  obtain n2 r2 where add: "rd_ZAdd (v2_redis E) (?T (Suc ?c)) k score member r1 = (Ok n2, r2)"
    and v2: "from_on (?T (Suc ?c)) (view r2) (changed view r1 (?T (Suc ?c)) k (sorted_set ?z2))"
    using serves_ZAdd [OF serves, of r1 "?T (Suc ?c)" k ?z1 score member] at1 by auto
  let ?w2 = "w\<lparr>v_cmds := Suc (Suc ?c), v_redis := r2\<rparr>"
  have h2: "holds_set E view k ?z2 D ?w2" using holds_set_changed [OF time h1] early(2) v2 by simp
  have at2: "view r2 (?T (Suc (Suc ?c))) k = sorted_set ?z2" using holds_set_now [OF h2] early(3) by simp
  obtain r3 where crd: "rd_ZCard (v2_redis E) (?T (Suc (Suc ?c))) k r2 = (Ok (int (card (dom ?z2))), r3)"
    and v3: "from_on (?T (Suc (Suc ?c))) (view r3) (view r2)"
    using serves_ZCard [OF serves, of r2 "?T (Suc (Suc ?c))" k ?z2] at2 by auto
  have h3: "view r3 (?T (Suc (Suc (Suc ?c)))) k = sorted_set ?z2"
    using v3 h2 early(4) monoD [OF time, of "Suc (Suc ?c)" "Suc (Suc (Suc ?c))"] by (simp add: from_on_def holds_set_def)
  obtain r4 where expire: "rd_Expire (v2_redis E) (?T (Suc (Suc (Suc ?c)))) k window r3 = (Ok (view r3 (?T (Suc (Suc (Suc ?c)))) k \<noteq> None), r4)"
    and v4: "from_on (?T (Suc (Suc (Suc ?c)))) (view r4) (\<lambda>t'. (view r3 t')(k :=
       if t' < dl (?T (Suc (Suc (Suc ?c)))) window then view r3 (?T (Suc (Suc (Suc ?c)))) k else None))"
    using serves_Expire [OF serves assms(2)] by blast
  let ?w4 = "w\<lparr>v_cmds := Suc (Suc (Suc (Suc ?c))), v_redis := r4\<rparr>"
  have "window_pipeline E k hi score member window w = (Ok (None, int (card (dom ?z2))), ?w4)"
    using rem add crd expire by (simp add: window_pipeline_def attempt_Ok)
  moreover have "holds_set E view k ?z2 (dl (?T (?c + 3)) window) ?w4"
    using v4 h3 monoD [OF time, of "Suc (Suc (Suc ?c))" "Suc (Suc (Suc (Suc ?c)))"]
    by (auto simp: holds_set_def from_on_def numeral_3_eq_3)
  ultimately show ?thesis by (intro exI [of _ ?w4]) simp
qed


text \<open>The set whose members are the decimal forms of their scores.\<close>

definition score_set :: "int set \<Rightarrow> string \<rightharpoonup> int" where
  "score_set S m = (if m \<in> itoa ` S then signed_value m else None)"

lemma score_set_itoa [simp]: "score_set S (itoa s) = (if s \<in> S then Some s else None)"
proof -
  have "itoa s \<in> itoa ` S \<longleftrightarrow> s \<in> S" by (metis imageE imageI option.inject signed_value_itoa)
  then show ?thesis by (simp add: score_set_def signed_value_itoa)
qed

lemma score_set_trimmed: "trimmed (score_set S) hi = score_set {s \<in> S. \<not> (0 \<le> s \<and> s \<le> hi)}"
proof
  fix m
  show "trimmed (score_set S) hi m = score_set {s \<in> S. \<not> (0 \<le> s \<and> s \<le> hi)} m"
  proof (cases "m \<in> range itoa")
    case True
    then show ?thesis by (auto simp: trimmed_def)
  qed (auto simp: trimmed_def score_set_def)
qed

lemma score_set_insert: "(score_set S)(itoa s \<mapsto> s) = score_set (insert s S)"
  by (auto simp: score_set_def signed_value_itoa fun_eq_iff)

lemma card_score_set: "card (dom (score_set S)) = card S"
proof -
  have "dom (score_set S) = itoa ` S" by (auto simp: score_set_def dom_def signed_value_itoa)
  moreover have "inj_on itoa S" by (metis inj_onI option.inject signed_value_itoa)
  ultimately show ?thesis by (simp add: card_image)
qed

text \<open>The milliseconds of the requests so far that lie in the window of the last of them.\<close>

definition in_window :: "(nat \<Rightarrow> int) \<Rightarrow> int \<Rightarrow> nat \<Rightarrow> int set" where
  "in_window ms width n = {s. \<exists>j<n. s = ms j \<and> ms (n - 1) - width < s}"

lemma in_window_step:
  assumes "mono ms" and "0 \<le> ms 0" and "0 < width"
  shows "insert (ms n) {s \<in> in_window ms width n. \<not> (0 \<le> s \<and> s \<le> ms n - width)} = in_window ms width (Suc n)"
proof -
  have "ms (n - 1) \<le> ms n" using assms(1) by (simp add: monoD)
  moreover have "0 \<le> ms j" for j using monoD [OF assms(1), of 0 j] assms(2) by simp
  ultimately show ?thesis
    using assms(3) by (fastforce simp: in_window_def less_Suc_eq)
qed

text \<open>
  C32: The window of the rate limiter. Of requests that come while the clock does not go back,
  each before the key of the last one ends, on a key that was not there before, the \<open>i\<close>-th is
  answered with the number of different milliseconds, up to its own, at which a request came
  and that are less than a window old. So a request is refused exactly if these are more than
  the limit; requests that were refused count, and all requests of one millisecond count once.
\<close>

theorem sliding_window_exact:
  assumes ready: "redis_ready E view dl" and clock: "mono (v2_now E)" "0 \<le> v2_now E (v_clock w)"
    and window: "1000000 \<le> window"
    and fresh: "\<forall>t \<ge> v2_redis_time E (v_cmds w). view (v_redis w) t k = None"
    and kept: "\<forall>i. v2_redis_time E (v_cmds w + 4 * i + 7) < dl (v2_redis_time E (v_cmds w + 4 * i + 3)) window"
    and ms: "\<forall>i. ms i = UnixMilli (v2_now E (v_clock w + i))"
  shows "fst (window_hits E k window n w) =
    map (\<lambda>i. Ok (None, int (card {m. \<exists>j \<le> i. m = ms j \<and> ms i - window div 1000000 < m}))) [0..<n]"
proof -
  let ?W = "window div 1000000"
  have W: "0 < ?W" "quot window 1000000 = ?W" using window by (simp_all add: quot_def)
  have mono: "mono ms" "0 \<le> ms 0" using clock ms
    by (auto simp: mono_def UnixMilli_def intro!: zdiv_mono1)
  let ?D = "\<lambda>n. if n = 0 then v2_redis_time E (v_cmds w + 3) + 1 else dl (v2_redis_time E (v_cmds w + 4 * (n - 1) + 3)) window"
  have count: "{m. \<exists>j \<le> i. m = ms j \<and> ms i - ?W < m} = in_window ms ?W (Suc i)" for i
    by (auto simp: in_window_def less_Suc_eq_le)
  have "fst (window_hits E k window n w) = map (\<lambda>i. Ok (None, int (card (in_window ms ?W (Suc i))))) [0..<n]
    \<and> holds_set E view k (score_set (in_window ms ?W n)) (?D n) (snd (window_hits E k window n w))
    \<and> v_cmds (snd (window_hits E k window n w)) = v_cmds w + 4 * n
    \<and> v_clock (snd (window_hits E k window n w)) = v_clock w + n"
  proof (induction n)
    case 0
    have "score_set (in_window ms ?W 0) = Map.empty" by (simp add: in_window_def score_set_def fun_eq_iff)
    then show ?case using fresh by (simp add: holds_set_def sorted_set_def)
  next
    case (Suc n)
    obtain rs w1 where run: "window_hits E k window n w = (rs, w1)" by fastforce
    with Suc have rs: "rs = map (\<lambda>i. Ok (None, int (card (in_window ms ?W (Suc i))))) [0..<n]"
      and held: "holds_set E view k (score_set (in_window ms ?W n)) (?D n) w1"
      and at: "v_cmds w1 = v_cmds w + 4 * n" "v_clock w1 = v_clock w + n" by simp_all
    let ?w2 = "w1\<lparr>v_clock := v_clock w1 + 1\<rparr>"
    have "v2_redis_time E (v_cmds ?w2 + 3) < ?D n"
      using kept [rule_format, of "n - 1"] at by (cases n) (simp_all add: algebra_simps)
    moreover have "holds_set E view k (score_set (in_window ms ?W n)) (?D n) ?w2"
      using held by (simp add: holds_set_def)
    ultimately obtain w3 where hit: "window_pipeline E k (ms n - ?W) (ms n) (itoa (ms n)) window ?w2 =
        (Ok (None, int (card (dom ((trimmed (score_set (in_window ms ?W n)) (ms n - ?W))(itoa (ms n) \<mapsto> ms n))))), w3)"
      and w3: "holds_set E view k ((trimmed (score_set (in_window ms ?W n)) (ms n - ?W))(itoa (ms n) \<mapsto> ms n))
           (dl (v2_redis_time E (v_cmds ?w2 + 3)) window) w3" "v_cmds w3 = v_cmds ?w2 + 4" "v_clock w3 = v_clock ?w2"
      using window_pipeline_run [OF ready, of window k "score_set (in_window ms ?W n)" "?D n" ?w2 "ms n - ?W" "ms n" "itoa (ms n)"] window
      by auto
    have set: "(trimmed (score_set (in_window ms ?W n)) (ms n - ?W))(itoa (ms n) \<mapsto> ms n) = score_set (in_window ms ?W (Suc n))"
      by (simp only: score_set_trimmed score_set_insert in_window_step [OF mono W(1)])
    have now: "UnixMilli (v2_now E (v_clock w1)) = ms n" using ms at by simp
    have "window_hit E k window w1 = (Ok (None, int (card (in_window ms ?W (Suc n)))), w3)"
      using hit unfolding set card_score_set by (simp add: window_hit_def Let_def now W(2))
    then have next_hit: "window_hits E k window (Suc n) w = (rs @ [Ok (None, int (card (in_window ms ?W (Suc n))))], w3)"
      using run by simp
    show ?case
      using w3 at unfolding next_hit set by (simp add: rs algebra_simps)
  qed
  then show ?thesis unfolding count by simp
qed


theorem sliding_window_exact_witness:
  "fst (window_hits demo_engine ''rl:login:ip'' (60 * second) 3 v2_empty) =
     [Ok (None, 1), Ok (None, 2), Ok (None, 3)]"
proof -
  have "{m. \<exists>j \<le> i. m = int j * 1000 \<and> int i * 1000 - 60 * second div 1000000 < m} = (\<lambda>j. int j * 1000) ` {0..i}"
    if "i < 60" for i :: nat
    using that by (auto simp: second_def)
  then have count: "int (card {m. \<exists>j \<le> i. m = int j * 1000 \<and> int i * 1000 - 60 * second div 1000000 < m}) = int i + 1"
    if "i < 60" for i :: nat
    using that card_image [of "\<lambda>j. int j * 1000" "{0..i}"] by (simp add: inj_on_def)
  have "fst (window_hits demo_engine ''rl:login:ip'' (60 * second) 3 v2_empty) =
      map (\<lambda>i. Ok (None, int (card {m. \<exists>j \<le> i. m = int j * 1000 \<and> int i * 1000 - 60 * second div 1000000 < m}))) [0..<3]"
    by (rule sliding_window_exact [OF demo_redis_ready])
      (auto simp: second_def mono_def demo_view_def held_def v2_empty_def demo_end_def UnixMilli_def)
  also have "\<dots> = map (\<lambda>i. Ok (None, int i + 1)) [0..<3]"
    by (rule map_cong) (auto simp only: count atLeastLessThan_iff set_upt)
  finally show ?thesis by (simp add: upt_rec)
qed


section \<open>What the bucket grants\<close>

text \<open>A bucket as the script sees it: what is in it and when it was last filled.\<close>

type_synonym bucket = "int \<times> int"

definition bucket_step :: "int \<Rightarrow> token_rate \<Rightarrow> int \<Rightarrow> int \<Rightarrow> bucket \<Rightarrow> bool \<times> bucket" where
  "bucket_step capacity rate tokens now b =
     (let current = min capacity (fst b + rate_refill rate (now - snd b))
      in (current \<ge> tokens, (if current \<ge> tokens then current - tokens else current, now)))"

text \<open>The hash under the key holds this bucket, from the next command until the end \<open>D\<close>.\<close>

definition holds_bucket :: "'r v2_env \<Rightarrow> 'r keyspace \<Rightarrow> string \<Rightarrow> bucket \<Rightarrow> int \<Rightarrow> 'r v2 \<Rightarrow> bool" where
  "holds_bucket E view k b D w \<longleftrightarrow>
     (\<forall>t. v2_redis_time E (v_cmds w) \<le> t \<and> t < D \<longrightarrow>
        (\<exists>h. view (v_redis w) t k = Some (RHash h) \<and> h ''tokens'' = Some (itoa (fst b)) \<and> h ''last_refill'' = Some (itoa (snd b))))"

text \<open>A key that is not there stands for a full bucket.\<close>

lemma Allow_run:
  assumes ready: "redis_ready E view dl" and fill: "0 \<le> rate_fill rate capacity"
    and held: "holds_bucket E view (bucket_key key) b D w \<and> v2_redis_time E (v_cmds w) < D
       \<or> view (v_redis w) (v2_redis_time E (v_cmds w)) (bucket_key key) = None \<and> b = (capacity, unix_of (v2_now E (v_clock w)))"
    and zero: "rate_refill rate 0 = 0"
  shows "\<exists>res w'. Allow E key capacity rate tokens w = (Ok (res, None), w')
    \<and> (Allowed res, Remaining res) = (fst (bucket_step capacity rate tokens (unix_of (v2_now E (v_clock w))) b),
         fst (snd (bucket_step capacity rate tokens (unix_of (v2_now E (v_clock w))) b)))
    \<and> holds_bucket E view (bucket_key key) (snd (bucket_step capacity rate tokens (unix_of (v2_now E (v_clock w))) b))
         (dl (v2_redis_time E (v_cmds w)) ((rate_fill rate capacity + 1) * second)) w'
    \<and> v_cmds w' = v_cmds w + 1 \<and> v_clock w' = v_clock w + 1"
proof -
  let ?k = "bucket_key key" and ?t = "v2_redis_time E (v_cmds w)" and ?now = "unix_of (v2_now E (v_clock w))"
  let ?ttl = "(rate_fill rate capacity + 1) * second"
  have ttl: "0 < ?ttl" using fill by (simp add: second_def)
  note serves = redis_readyD(1) [OF ready]
  obtain h where h: "hash_at (view (v_redis w) ?t ?k) = Some h"
    and b: "lua_number (h ''tokens'') capacity = fst b" "lua_number (h ''last_refill'') ?now = snd b"
    using held by (auto simp: holds_bucket_def lua_number_def signed_value_itoa)
  obtain r1 where get: "rd_HMGet (v2_redis E) ?t ?k [''tokens'', ''last_refill''] (v_redis w) = (Ok [h ''tokens'', h ''last_refill''], r1)"
    and v1: "from_on ?t (view r1) (view (v_redis w))"
    using serves_HMGet [OF serves h, of "[''tokens'', ''last_refill'']"] by auto
  have h1: "hash_at (view r1 ?t ?k) = Some h" using v1 h by (simp add: from_on_def)
  let ?b' = "snd (bucket_step capacity rate tokens ?now b)" and ?ok = "fst (bucket_step capacity rate tokens ?now b)"
  let ?fvs = "[(''tokens'', itoa (fst ?b')), (''last_refill'', itoa ?now)]"
  obtain r2 where put: "rd_HMSet (v2_redis E) ?t ?k ?fvs r1 = (Ok (), r2)"
    and v2: "from_on ?t (view r2) (changed view r1 ?t ?k (Some (RHash (h(map fst ?fvs [\<mapsto>] map snd ?fvs)))))"
    using serves_HMSet [OF serves h1, of ?fvs] by auto
  let ?h' = "h(''tokens'' \<mapsto> itoa (fst ?b'), ''last_refill'' \<mapsto> itoa ?now)"
  have at2: "view r2 ?t ?k = Some (RHash ?h')" using v2 by (cases "view r1 ?t ?k") (simp_all add: from_on_def changed_def)
  obtain r3 where expire: "rd_Expire (v2_redis E) ?t ?k ?ttl r2 = (Ok (view r2 ?t ?k \<noteq> None), r3)"
    and v3: "from_on ?t (view r3) (\<lambda>t'. (view r2 t')(?k := if t' < dl ?t ?ttl then view r2 ?t ?k else None))"
    using serves_Expire [OF serves ttl] by blast
  have expire: "rd_Expire (v2_redis E) ?t ?k ?ttl r2 = (Ok True, r3)" using expire by (simp add: at2)
  have now': "snd ?b' = ?now" by (simp add: bucket_step_def Let_def)
  have script: "bucket_script (v2_redis E) ?k capacity rate tokens ?now ?t (v_redis w) = (Ok (if ?ok then 1 else 0, fst ?b'), r3)"
  proof (cases ?ok)
    case True
    with get put expire show ?thesis by (simp add: bucket_script_def Let_def b bucket_step_def at2)
  next
    case False
    with get put expire show ?thesis by (simp add: bucket_script_def Let_def b bucket_step_def at2 del: min.bounded_iff)
  qed
  let ?w' = "w\<lparr>v_clock := v_clock w + 1, v_cmds := v_cmds w + 1, v_redis := r3\<rparr>"
  have "\<exists>res. Allow E key capacity rate tokens w = (Ok (res, None), ?w') \<and> Allowed res = ?ok \<and> Remaining res = fst ?b'"
    using script by (simp add: Allow_def attempt_Ok)
  moreover have "?t \<le> v2_redis_time E (Suc (v_cmds w))" using redis_readyD(2) [OF ready] by (simp add: monoD)
  then have "holds_bucket E view ?k ?b' (dl ?t ?ttl) ?w'"
    using v3 now' by (auto simp: holds_bucket_def from_on_def at2)
  ultimately show ?thesis by (auto simp: prod_eq_iff)
qed


text \<open>Runs of the code and of the bucket; \<open>T\<close> gives the time of each request.\<close>

fun allow_all ::
  "'r v2_env \<Rightarrow> string \<Rightarrow> int \<Rightarrow> token_rate \<Rightarrow> int list \<Rightarrow> 'r v2
     \<Rightarrow> (v2_error, limit_result \<times> v2_error option) outcome list" where
  "allow_all E key capacity rate [] w = []"
| "allow_all E key capacity rate (c # cs) w =
     (case Allow E key capacity rate c w of (r, w') \<Rightarrow> r # allow_all E key capacity rate cs w')"

fun bucket_run :: "int \<Rightarrow> token_rate \<Rightarrow> (nat \<Rightarrow> int) \<Rightarrow> int list \<Rightarrow> bucket \<Rightarrow> bool list" where
  "bucket_run capacity rate T [] b = []"
| "bucket_run capacity rate T (c # cs) b =
     (case bucket_step capacity rate c (T 0) b of (ok, b') \<Rightarrow> ok # bucket_run capacity rate (\<lambda>i. T (Suc i)) cs b')"

definition granted :: "bool list \<Rightarrow> int list \<Rightarrow> int" where
  "granted oks costs = sum_list (map2 (\<lambda>ok c. if ok then c else 0) oks costs)"

fun refilled :: "token_rate \<Rightarrow> (nat \<Rightarrow> int) \<Rightarrow> int \<Rightarrow> nat \<Rightarrow> int" where
  "refilled rate T since 0 = 0"
| "refilled rate T since (Suc n) = rate_refill rate (T 0 - since) + refilled rate (\<lambda>i. T (Suc i)) (T 0) n"

lemma granted_bound:
  assumes "\<And>n. 0 \<le> n \<Longrightarrow> 0 \<le> rate_refill rate n" and "0 \<le> capacity" and "mono T" and "snd b \<le> T 0"
    and "0 \<le> fst b" and "\<And>c. c \<in> set costs \<Longrightarrow> 0 \<le> c"
  shows "granted (bucket_run capacity rate T costs b) costs \<le> fst b + refilled rate T (snd b) (length costs)"
  using assms(3-6)
proof (induction costs arbitrary: T b)
  case Nil
  then show ?case by (simp add: granted_def)
next
  case (Cons c cs)
  obtain ok b' where step: "bucket_step capacity rate c (T 0) b = (ok, b')"
    by (cases "bucket_step capacity rate c (T 0) b")
  have "0 \<le> rate_refill rate (T 0 - snd b)" using assms(1) Cons(3) by simp
  then have b': "0 \<le> fst b'" "snd b' = T 0" "(if ok then c else 0) + fst b' \<le> fst b + rate_refill rate (T 0 - snd b)"
    using step assms(2) Cons(4,5) by (auto simp: bucket_step_def Let_def min_def split: if_splits)
  have "granted (bucket_run capacity rate (\<lambda>i. T (Suc i)) cs b') cs \<le> fst b' + refilled rate (\<lambda>i. T (Suc i)) (snd b') (length cs)"
    using Cons(2,5) b' by (intro Cons.IH) (auto simp: mono_def)
  with b' show ?case by (auto simp: step granted_def)
qed

lemma allow_all_run:
  assumes ready: "redis_ready E view dl" and fill: "0 \<le> rate_fill rate capacity" and zero: "rate_refill rate 0 = 0"
    and "holds_bucket E view (bucket_key key) b D w \<and> v2_redis_time E (v_cmds w) < D
       \<or> view (v_redis w) (v2_redis_time E (v_cmds w)) (bucket_key key) = None \<and> b = (capacity, unix_of (v2_now E (v_clock w)))"
    and "\<And>i. v2_redis_time E (v_cmds w + i + 1) < dl (v2_redis_time E (v_cmds w + i)) ((rate_fill rate capacity + 1) * second)"
  shows "map (map_outcome (\<lambda>e. e) (map_prod Allowed (\<lambda>e. e))) (allow_all E key capacity rate costs w) =
    map (\<lambda>ok. Ok (ok, None)) (bucket_run capacity rate (\<lambda>i. unix_of (v2_now E (v_clock w + i))) costs b)"
  using assms(4,5)
proof (induction costs arbitrary: b D w)
  case (Cons c cs)
  let ?step = "bucket_step capacity rate c (unix_of (v2_now E (v_clock w))) b"
  let ?D = "dl (v2_redis_time E (v_cmds w)) ((rate_fill rate capacity + 1) * second)"
  obtain res w' where run: "Allow E key capacity rate c w = (Ok (res, None), w')" and res: "Allowed res = fst ?step"
    and held: "holds_bucket E view (bucket_key key) (snd ?step) ?D w'"
    and at: "v_cmds w' = v_cmds w + 1" "v_clock w' = v_clock w + 1"
    using Allow_run [OF ready fill Cons(2) zero, of c] by (auto simp: prod_eq_iff)
  have "v2_redis_time E (v_cmds w') < ?D" using Cons(3) [of 0] at by simp
  moreover have "v2_redis_time E (v_cmds w' + i + 1) < dl (v2_redis_time E (v_cmds w' + i)) ((rate_fill rate capacity + 1) * second)" for i
    using Cons(3) [of "i + 1"] at by (simp add: add.assoc add.commute)
  ultimately have "map (map_outcome (\<lambda>e. e) (map_prod Allowed (\<lambda>e. e))) (allow_all E key capacity rate cs w') =
      map (\<lambda>ok. Ok (ok, None)) (bucket_run capacity rate (\<lambda>i. unix_of (v2_now E (v_clock w' + i))) cs (snd ?step))"
    using held by (intro Cons.IH) auto
  then show ?case by (simp add: run res at split: prod.split)
qed simp


text \<open>Two tokens per second into a bucket of three.\<close>

definition demo_rate :: token_rate where
  "demo_rate = \<lparr>rate_refill = (\<lambda>n. 2 * n), rate_fill = (\<lambda>n. (n + 1) div 2), rate_wait = (\<lambda>n. n div 2)\<rparr>"


end
