(* ===== verification/Legacy_Services.thy ===== *)
theory Legacy_Services
  imports Legacy_Fixture Legacy_Store
begin

text \<open>
  Legacy auth engine: API keys (\<^verbatim>\<open>internal/apikey/service.go\<close>; its HTTP part is in \<open>Legacy_Gin\<close> and \<open>Legacy_Http\<close>), the audit
  service with the risk engine (\<^verbatim>\<open>internal/audit/service.go\<close>) and the scheduler of the clean-up
  jobs (\<^verbatim>\<open>internal/worker/scheduler.go\<close>).
\<close>

section \<open>API keys\<close>

record CreateAPIKeyRequest =
  kr_Name :: string
  kr_Permissions :: "string list"
  kr_Scopes :: "string list"
  kr_RateLimit :: int
  kr_ExpiresAt :: "int option"

record CreateAPIKeyResponse =
  kp_ID :: string
  kp_Name :: string
  kp_Key :: string
  kp_Prefix :: string
  kp_ExpiresAt :: "int option"
  kp_CreatedAt :: int

definition apikey_Create :: "'r v2_env \<Rightarrow> string \<Rightarrow> CreateAPIKeyRequest \<Rightarrow> ('r, CreateAPIKeyResponse) eng" where
  "apikey_Create E userID req =
     go_bind (wrapped ''generate api key'' (GenerateAPIKey E)) (\<lambda>(plaintext, h).
     let prefix = ExtractAPIKeyPrefix plaintext;
         rl = (if kr_RateLimit req = 0 then 1000 else kr_RateLimit req)
     in go_bind (wrapped ''store api key'' (keys_Create E
          \<lparr>ak_ID = [], ak_UserID = userID, ak_Name = kr_Name req, ak_KeyHash = h, ak_Prefix = prefix,
           ak_Permissions = kr_Permissions req, ak_Scopes = kr_Scopes req, ak_RateLimit = rl,
           ak_ExpiresAt = kr_ExpiresAt req, ak_LastUsedAt = None, ak_IsActive = True, ak_CreatedAt = 0\<rparr>)) (\<lambda>key.
        go_return \<lparr>kp_ID = ak_ID key, kp_Name = kr_Name req, kp_Key = plaintext, kp_Prefix = prefix,
          kp_ExpiresAt = kr_ExpiresAt req, kp_CreatedAt = ak_CreatedAt key\<rparr>))"

definition apikey_Authenticate :: "'r v2_env \<Rightarrow> string \<Rightarrow> ('r, v2_APIKey) eng" where
  "apikey_Authenticate E rawKey =
     (if \<not> has_prefix rawKey APIKeyPrefix then go_fail ErrInvalidAPIKey
      else
        go_bind (else_err (keys_GetByHash E (HashAPIKey E rawKey)) ErrInvalidAPIKey) (\<lambda>key.
        if \<not> ak_IsActive key then go_fail ErrAPIKeyRevoked
        else
          go_bind (case ak_ExpiresAt key of
                     None \<Rightarrow> go_return False
                   | Some until \<Rightarrow> go_bind (time_Now E) (\<lambda>now. go_return (now > until))) (\<lambda>expired.
          if expired then go_fail ErrAPIKeyExpired
          else go_ignore (keys_Touch E (ak_ID key)) (go_return key))))"

definition apikey_List :: "'r v2_env \<Rightarrow> string \<Rightarrow> ('r, v2_APIKey list) eng" where
  "apikey_List E userID = keys_ListByUser E userID"

definition apikey_Revoke :: "'r v2_env \<Rightarrow> string \<Rightarrow> string \<Rightarrow> ('r, unit) eng" where
  "apikey_Revoke E i userID = keys_Revoke E i userID"


section \<open>Audit\<close>

text \<open>
  The notification of a high risk is sent by another goroutine; it is handed over here, and
  what becomes of it is only logged.
\<close>

definition webhookNotify :: "'r v2_env \<Rightarrow> v2_AuditLog \<Rightarrow> ('r, unit) eng" where
  "webhookNotify E entry w =
     (Ok (), w\<lparr>v_sent := v_sent w @ [(''webhook'', WebhookURL (cfg_Audit (v2_cfg E)), al_Action entry, ''high_risk_activity'')]\<rparr>)"

definition audit_service_Log :: "'r v2_env \<Rightarrow> v2_AuditLog \<Rightarrow> ('r, unit) eng" where
  "audit_service_Log E entry =
     (if \<not> audit_Enabled (cfg_Audit (v2_cfg E)) then go_return ()
      else
        go_bind (audits_Save E entry) (\<lambda>_.
        if al_RiskScore entry \<ge> 70 \<and> WebhookURL (cfg_Audit (v2_cfg E)) \<noteq> [] then webhookNotify E entry
        else go_return ()))"

definition GetUserHistory :: "'r v2_env \<Rightarrow> string \<Rightarrow> int \<Rightarrow> ('r, v2_AuditLog list) eng" where
  "GetUserHistory E userID limit = audits_ListByUser E userID limit"

text \<open>\<open>add_days\<close> is \<^verbatim>\<open>AddDate(0, 0, n)\<close> in the zone of the server.\<close>

definition audit_service_Cleanup :: "'r v2_env \<Rightarrow> (int \<Rightarrow> int \<Rightarrow> int) \<Rightarrow> ('r, unit) eng" where
  "audit_service_Cleanup E add_days =
     go_bind (time_Now E) (\<lambda>now.
     go_bind (audits_DeleteOlderThan E (add_days now (wrap64 (- RetentionDays (cfg_Audit (v2_cfg E)))))) (\<lambda>_.
     go_return ()))"


section \<open>The risk engine\<close>

record RiskAssessment =
  rk_Score :: "32 word"
  rk_Factors :: "string list"
  rk_Decision :: string

text \<open>The constants 0.4, 0.2, 0.1, 0.8 and 0.5 as 32-bit floats.\<close>

definition f32_04 :: "32 word" where "f32_04 = 0x3ECCCCCD"
definition f32_02 :: "32 word" where "f32_02 = 0x3E4CCCCD"
definition f32_01 :: "32 word" where "f32_01 = 0x3DCCCCCD"
definition f32_08 :: "32 word" where "f32_08 = 0x3F4CCCCD"
definition f32_05 :: "32 word" where "f32_05 = 0x3F000000"

definition utc_hour :: "int \<Rightarrow> int" where
  "utc_hour t = unix_of t div 3600 mod 24"

text \<open>A failed read of the history counts as no failure; the clock is only read after a successful one.\<close>

definition recent_failures :: "'r v2_env \<Rightarrow> string option \<Rightarrow> ('r, int) eng" where
  "recent_failures E userID =
     (case userID of
        None \<Rightarrow> go_return 0
      | Some i \<Rightarrow>
          go_try (audits_ListByUser E i 20) (\<lambda>_. go_return 0) (\<lambda>logs.
          go_bind (time_Now E) (\<lambda>now.
          go_return (int (length (filter (\<lambda>l. al_Action l = ''login'' \<and> al_Status l = ''failure''
            \<and> al_CreatedAt l > now - 3600 * second) logs))))))"

definition risk_factor :: "float32 \<Rightarrow> bool \<Rightarrow> 32 word \<Rightarrow> string \<Rightarrow> 32 word \<times> string list \<Rightarrow> 32 word \<times> string list" where
  "risk_factor F b x name acc = (if b then (f32_add F (fst acc) x, snd acc @ [name]) else acc)"

definition risk_decision :: "float32 \<Rightarrow> 32 word \<Rightarrow> string" where
  "risk_decision F score =
     (if f32_le F f32_08 score then ''block'' else if f32_le F f32_05 score then ''challenge'' else ''allow'')"

definition Assess :: "'r v2_env \<Rightarrow> string option \<Rightarrow> string \<Rightarrow> string \<Rightarrow> ('r, RiskAssessment) eng" where
  "Assess E userID ip ua =
     go_bind (recent_failures E userID) (\<lambda>n.
     go_bind (time_Now E) (\<lambda>now.
     let F = v2_f32 E;
         hour = utc_hour now;
         a1 = risk_factor F (n \<ge> 3) f32_04 (''recent_failures:'' @ itoa n) (0, []);
         a2 = risk_factor F (ua = []) f32_02 ''missing_user_agent'' a1;
         a3 = risk_factor F (ip = ''127.0.0.1'' \<or> ip = []) f32_01 ''loopback_ip'' a2;
         (score, factors) = risk_factor F (0 \<le> hour \<and> hour \<le> 5) f32_01 ''unusual_hour'' a3
     in go_return \<lparr>rk_Score = score, rk_Factors = factors, rk_Decision = risk_decision F score\<rparr>))"


section \<open>The scheduler\<close>

definition cleanSessions :: "'r v2_env \<Rightarrow> 'r v2 \<Rightarrow> 'r v2" where
  "cleanSessions E w = snd (sessions_CleanupExpired E w)"

definition cleanAudit :: "'r v2_env \<Rightarrow> (int \<Rightarrow> int \<Rightarrow> int) \<Rightarrow> 'r v2 \<Rightarrow> 'r v2" where
  "cleanAudit E add_days w = snd (audit_service_Cleanup E add_days w)"

text \<open>
  What \<^verbatim>\<open>select\<close> picks in each round of the loop: the ticker's signal or the end of the context.
  A loop whose context never ends does not return.
\<close>

datatype sched_event = Tick | Done

partial_function (option) runEvery :: "('s \<Rightarrow> 's) \<Rightarrow> (nat \<Rightarrow> sched_event) \<Rightarrow> nat \<Rightarrow> 's \<Rightarrow> 's option" where
  "runEvery fn ev i s = (case ev i of Tick \<Rightarrow> runEvery fn ev (Suc i) (fn s) | Done \<Rightarrow> Some s)"


section \<open>Correctness\<close>

lemma runEvery_Tick: "ev i = Tick \<Longrightarrow> runEvery fn ev i s = runEvery fn ev (Suc i) (fn s)"
  by (subst runEvery.simps) simp

lemma runEvery_Done: "ev i = Done \<Longrightarrow> runEvery fn ev i s = Some s"
  by (subst runEvery.simps) simp

lemma runEvery_ticks:
  "\<forall>m<n. ev (i + m) = Tick \<Longrightarrow> runEvery fn ev i s = runEvery fn ev (i + n) ((fn ^^ n) s)"
proof (induction n)
  case (Suc n)
  then show ?case using runEvery_Tick [of ev "i + n" fn "(fn ^^ n) s"] by simp
qed simp

text \<open>What a loop that returned has done.\<close>

lemma runEvery_Some:
  assumes "runEvery fn ev i s = Some s'"
  shows "\<exists>n. ev (i + n) = Done \<and> (\<forall>m<n. ev (i + m) = Tick) \<and> s' = (fn ^^ n) s"
  using _ assms
proof (rule runEvery.raw_induct)
  fix run :: "('a \<Rightarrow> 'a) \<Rightarrow> (nat \<Rightarrow> sched_event) \<Rightarrow> nat \<Rightarrow> 'a \<Rightarrow> 'a option" and fn ev i s s'
  assume IH: "\<And>fn ev i s s'. run fn ev i s = Some s' \<Longrightarrow>
      \<exists>n. ev (i + n) = Done \<and> (\<forall>m<n. ev (i + m) = Tick) \<and> s' = (fn ^^ n) s"
    and run: "(case ev i of Tick \<Rightarrow> run fn ev (Suc i) (fn s) | Done \<Rightarrow> Some s) = Some s'"
  show "\<exists>n. ev (i + n) = Done \<and> (\<forall>m<n. ev (i + m) = Tick) \<and> s' = (fn ^^ n) s"
  proof (cases "ev i")
    case Tick
    then obtain n where n: "ev (Suc i + n) = Done" "\<forall>m<n. ev (Suc i + m) = Tick" "s' = (fn ^^ n) (fn s)"
      using run IH [of fn ev "Suc i" "fn s" s'] by auto
    have "\<forall>m<Suc n. ev (i + m) = Tick" using n(2) Tick by (auto simp: less_Suc_eq_0_disj)
    with n show ?thesis by (intro exI [of _ "Suc n"]) (simp add: funpow_swap1)
  next
    case Done
    with run show ?thesis by (intro exI [of _ 0]) simp
  qed
qed

lemma runEvery_exact:
  "runEvery fn ev 0 s = (if \<exists>n. ev n = Done then Some ((fn ^^ (LEAST n. ev n = Done)) s) else None)"
proof (cases "\<exists>n. ev n = Done")
  case True
  define n where "n = (LEAST n. ev n = Done)"
  have stop: "ev n = Done" unfolding n_def by (rule LeastI_ex [OF True])
  have "ev m = Tick" if "m < n" for m
    using not_less_Least [OF that [unfolded n_def]] sched_event.exhaust by blast
  then have "runEvery fn ev 0 s = Some ((fn ^^ n) s)"
    using runEvery_ticks [of n ev 0 fn s] runEvery_Done [of ev n fn, OF stop] by simp
  then show ?thesis using True by (simp only: n_def if_True)
next
  case False
  have "runEvery fn ev 0 s \<noteq> Some s'" for s'
    using runEvery_Some [of fn ev 0 s s'] False by (simp only: add_0) blast
  then have "runEvery fn ev 0 s = None" by (cases "runEvery fn ev 0 s") auto
  then show ?thesis using False by (simp only: if_False)
qed

text \<open>
  A clean-up removes only sessions that are closed or past their end by a day. A run between
  two numbers of clock readings has reason to keep a session if no reading among them is that
  late.
\<close>

definition worth_keeping :: "'r v2_env \<Rightarrow> nat \<Rightarrow> nat \<Rightarrow> v2_Session \<Rightarrow> bool" where
  "worth_keeping E a b s \<longleftrightarrow> ss_IsActive s \<and> (\<forall>n\<in>set [a..<b]. v2_stamp E (v2_now E n - day) \<le> ss_ExpiresAt s)"

lemma cleanSessions_clock: "v_clock (cleanSessions E w) = v_clock w + 1"
  by (simp add: cleanSessions_def sessions_CleanupExpired_def run_db_def split: prod.splits)

lemma cleanSessions_keeps:
  "worth_keeping E (v_clock w) (v_clock (cleanSessions E w)) s \<Longrightarrow> s \<in> set (tb_sessions (v_db w)) \<Longrightarrow>
   s \<in> set (tb_sessions (v_db (cleanSessions E w)))"
  unfolding cleanSessions_clock
  by (auto simp: cleanSessions_def sessions_CleanupExpired_def run_db_def execute_def Let_def worth_keeping_def not_less
      split: option.splits fault.splits prod.splits)

lemma cleanups_keep:
  assumes "worth_keeping E (v_clock w) (v_clock ((cleanSessions E ^^ n) w)) s" and "s \<in> set (tb_sessions (v_db w))"
  shows "s \<in> set (tb_sessions (v_db ((cleanSessions E ^^ n) w)))"
  using assms
proof (induction n)
  case (Suc n)
  let ?w = "(cleanSessions E ^^ n) w"
  have "v_clock w \<le> v_clock ?w" by (induction n) (simp_all add: cleanSessions_clock)
  then have "worth_keeping E (v_clock w) (v_clock ?w) s" "worth_keeping E (v_clock ?w) (v_clock (cleanSessions E ?w)) s"
    using Suc.prems by (auto simp: worth_keeping_def cleanSessions_clock)
  with Suc.IH Suc.prems(2) show ?case by (simp add: cleanSessions_keeps)
qed simp

text \<open>
  C34: The clean-up worker returns exactly if its context ends; it has then run the job once for
  every tick before, and whatever faults the database had, every session that is active and
  at no reading of the clock during the run past its end by a day is still there.
\<close>

theorem worker_stops:
  "runEvery (cleanSessions E) ev 0 w =
     (if \<exists>n. ev n = Done then Some ((cleanSessions E ^^ (LEAST n. ev n = Done)) w) else None)
   \<and> (\<forall>w' s. runEvery (cleanSessions E) ev 0 w = Some w' \<longrightarrow> worth_keeping E (v_clock w) (v_clock w') s \<longrightarrow>
        s \<in> set (tb_sessions (v_db w)) \<longrightarrow> s \<in> set (tb_sessions (v_db w')))"
  by (auto simp: runEvery_exact cleanups_keep split: if_splits)

theorem worker_stops_witness:
  "\<exists>w'. runEvery (cleanSessions demo_engine) (\<lambda>i. if i < 2 then Tick else Done) 0 demo_v2 = Some w'
     \<and> w' = cleanSessions demo_engine (cleanSessions demo_engine demo_v2)
     \<and> (\<forall>s\<in>set (tb_sessions (v_db demo_v2)). s \<in> set (tb_sessions (v_db w')))
     \<and> tb_sessions (v_db demo_v2) \<noteq> []"
proof -
  let ?ev = "\<lambda>i. if i < (2::nat) then Tick else Done"
  let ?w = "cleanSessions demo_engine (cleanSessions demo_engine demo_v2)"
  have "(LEAST n. ?ev n = Done) = 2"
    by (rule Least_equality) (auto split: if_splits)
  moreover have "\<exists>n. ?ev n = Done" by (rule exI [of _ 2]) simp
  ultimately have run: "runEvery (cleanSessions demo_engine) ?ev 0 demo_v2 = Some ?w"
    using worker_stops [of demo_engine ?ev demo_v2] by (simp add: numeral_2_eq_2)
  moreover have "list_all (worth_keeping demo_engine (v_clock demo_v2) (v_clock ?w)) (tb_sessions (v_db demo_v2))
      \<and> tb_sessions (v_db demo_v2) \<noteq> []"
    by code_simp
  ultimately show ?thesis
    using worker_stops [of demo_engine ?ev demo_v2] by (auto simp: list_all_iff)
qed


text \<open>What creating a key has stored.\<close>

lemma keys_Create_Ok:
  assumes "keys_Create E k w = (Ok k', w')"
  shows "tb_api_keys (v_db w') = tb_api_keys (v_db w) @ [k']" and "ak_KeyHash k' \<notin> ak_KeyHash ` set (tb_api_keys (v_db w))"
    and "ak_ID k' \<notin> ak_ID ` set (tb_api_keys (v_db w))"
    and "\<exists>i n. k' = k\<lparr>ak_ID := i, ak_ExpiresAt := map_option (v2_stamp E) (ak_ExpiresAt k), ak_CreatedAt := n\<rparr>"
proof -
  let ?i = "v2_uuid E (v_uuids w)"
  let ?k = "k\<lparr>ak_ID := ?i, ak_ExpiresAt := map_option (v2_stamp E) (ak_ExpiresAt k)\<rparr>"
  have "run_db E (sql_insert_api_key ?k) (w\<lparr>v_uuids := v_uuids w + 1\<rparr>) = (Ok k', w')"
    using assms by (simp add: keys_Create_def)
  from run_db_Ok(1) [OF this]
  have k': "k' = ?k\<lparr>ak_CreatedAt := t_now (v2_turn E (v_stmts w))\<rparr>" and fresh: "?i \<notin> ak_ID ` set (tb_api_keys (v_db w))"
    "ak_KeyHash k \<notin> ak_KeyHash ` set (tb_api_keys (v_db w))"
    and db: "v_db w' = (v_db w)\<lparr>tb_api_keys := tb_api_keys (v_db w) @ [k']\<rparr>"
    by (auto simp: sql_insert_api_key_def Let_def split: if_splits)
  show "tb_api_keys (v_db w') = tb_api_keys (v_db w) @ [k']" by (simp add: db)
  show "ak_KeyHash k' \<notin> ak_KeyHash ` set (tb_api_keys (v_db w))" "ak_ID k' \<notin> ak_ID ` set (tb_api_keys (v_db w))"
    using fresh by (simp_all add: k')
  show "\<exists>i n. k' = k\<lparr>ak_ID := i, ak_ExpiresAt := map_option (v2_stamp E) (ak_ExpiresAt k), ak_CreatedAt := n\<rparr>"
    unfolding k' by blast
qed

text \<open>The answer to a key whose row is known.\<close>

definition key_verdict :: "'r v2_env \<Rightarrow> int \<Rightarrow> v2_APIKey \<Rightarrow> (v2_error, v2_APIKey) outcome" where
  "key_verdict E now k =
     (case ak_ExpiresAt k of None \<Rightarrow> Ok k | Some until \<Rightarrow> if now > until then Err ErrAPIKeyExpired else Ok k)"

lemma keys_Touch_up: "db_up E \<Longrightarrow> \<exists>w'. keys_Touch E i w = (Ok (), w')"
  by (simp add: keys_Touch_def run_db_up sql_update_keys_def)

lemma Authenticate_row:
  assumes up: "db_up E" and key: "filter (\<lambda>k. ak_KeyHash k = HashAPIKey E raw \<and> ak_IsActive k) (tb_api_keys (v_db w)) = [k]"
    and "has_prefix raw APIKeyPrefix"
  shows "fst (apikey_Authenticate E raw w) = key_verdict E (v2_now E (v_clock w)) k"
proof -
  let ?w1 = "w\<lparr>v_stmts := Suc (v_stmts w)\<rparr>"
  have get: "keys_GetByHash E (HashAPIKey E raw) w = (Ok k, ?w1)"
    using key by (simp add: keys_GetByHash_def run_db_up [OF up] sql_first_def)
  have "ak_IsActive k" using key by (metis (mono_tags, lifting) filter_eq_Cons_iff)
  moreover have touch: "fst (go_ignore (keys_Touch E i) (go_return k) x) = Ok k" for i and x :: "'a v2"
    using keys_Touch_up [OF up, of i x] by auto
  ultimately show ?thesis
    using assms(3) by (simp add: apikey_Authenticate_def get key_verdict_def touch split: option.splits)
qed

lemma Authenticate_hash:
  assumes "apikey_Authenticate E raw w = (Ok k, w')"
  shows "ak_KeyHash k = HashAPIKey E raw"
proof -
  obtain r w1 where get: "keys_GetByHash E (HashAPIKey E raw) w = (Ok r, w1)" and "k = r"
    using assms unfolding apikey_Authenticate_def
    by (auto elim!: go_bind_OkE dest!: else_err_OkD simp: go_ignore_def go_bind_def go_try_def
        split: if_splits option.splits prod.splits outcome.splits)
  then show ?thesis
    using first_row(2) [OF run_db_Ok(1) [OF get [unfolded keys_GetByHash_def]]] by simp
qed

lemma Authenticate_no_row:
  assumes up: "db_up E" and "filter (\<lambda>k. ak_KeyHash k = HashAPIKey E raw \<and> ak_IsActive k) (tb_api_keys (v_db w)) = []"
  shows "fst (apikey_Authenticate E raw w) = Err ErrInvalidAPIKey"
proof -
  have "\<exists>e w1. keys_GetByHash E (HashAPIKey E raw) w = (Err e, w1)"
    using assms by (simp add: keys_GetByHash_def run_db_up [OF up] sql_first_def)
  then show ?thesis by (auto simp: apikey_Authenticate_def else_err_def go_bind_def go_try_def)
qed



end
