(* ===== verification/Legacy_Gin.thy ===== *)
theory Legacy_Gin
  imports Legacy_Auth Legacy_Limits Legacy_Services
begin

text \<open>
  Legacy auth engine: requests, replies and the middleware of \<^verbatim>\<open>internal/middleware/middleware.go\<close>
  and \<^verbatim>\<open>internal/apikey/service.go\<close>. A handler runs on the engine together with the headers
  of the reply and the keys (\<^verbatim>\<open>c.Set\<close>) of the current request; middleware is a function of the
  handler that \<^verbatim>\<open>c.Next()\<close> runs. Clock readings that only go into the log are left out.
\<close>

section \<open>Requests and replies\<close>

text \<open>The header, parameter and client address are what the gin context returns for them.\<close>

record v2_request =
  gq_Header :: "(string \<times> string) list"
  gq_ID :: string
  gq_Query :: "(string \<times> string) list"
  gq_Body :: string
  gq_ClientIP :: string

datatype v2_body =
    B_Empty
  | B_Error string
  | B_RateLimit string int
  | B_Message string
  | B_Registered string string
  | B_MFARequired string
  | B_Tokens v2_TokenResponse
  | B_FaceVerified string string
  | B_Verified bool
  | B_User v2_User
  | B_MFASecret string string "string list" string
  | B_Users "v2_User list" int int int int
  | B_Status string string
  | B_Locked string int
  | B_Sessions "v2_Session list"
  | B_Logs "v2_AuditLog list"
  | B_Keys "v2_APIKey list"
  | B_Key CreateAPIKeyResponse
  | B_Time string int

record v2_reply =
  gp_Status :: int
  gp_Body :: v2_body
  gp_Header :: "string repo"

record v2_keys =
  ky_UserID :: "string option"
  ky_SessionID :: "string option"
  ky_Role :: "string option"
  ky_Claims :: "v2_Claims option"
  ky_RequestID :: "string option"
  ky_APIKey :: "(string \<times> string \<times> string list \<times> string list) option"

definition no_keys :: v2_keys where
  "no_keys = \<lparr>ky_UserID = None, ky_SessionID = None, ky_Role = None, ky_Claims = None, ky_RequestID = None, ky_APIKey = None\<rparr>"

record 'r v2_conn =
  gc_engine :: "'r v2"
  gc_header :: "string repo"
  gc_keys :: v2_keys

type_synonym ('r, 'a) v2_gin = "('r v2_conn, v2_error, 'a) go"
type_synonym 'r v2_handler = "('r, v2_reply) v2_gin"

definition on_engine :: "('r, 'a) eng \<Rightarrow> ('r, 'a) v2_gin" where
  "on_engine m c = (case m (gc_engine c) of (r, w) \<Rightarrow> (r, c\<lparr>gc_engine := w\<rparr>))"

definition v2_GetHeader :: "v2_request \<Rightarrow> string \<Rightarrow> string" where
  "v2_GetHeader r k = (case map_of (gq_Header r) k of None \<Rightarrow> [] | Some v \<Rightarrow> v)"

definition v2_DefaultQuery :: "v2_request \<Rightarrow> string \<Rightarrow> string \<Rightarrow> string" where
  "v2_DefaultQuery r k d = (case map_of (gq_Query r) k of None \<Rightarrow> d | Some v \<Rightarrow> v)"

definition v2_Header :: "string \<Rightarrow> string \<Rightarrow> ('r, unit) v2_gin" where
  "v2_Header k v = go_put (\<lambda>c. c\<lparr>gc_header := repo_put k v (gc_header c)\<rparr>)"

definition v2_Set :: "(v2_keys \<Rightarrow> v2_keys) \<Rightarrow> ('r, unit) v2_gin" where
  "v2_Set f = go_put (\<lambda>c. c\<lparr>gc_keys := f (gc_keys c)\<rparr>)"

definition v2_JSON :: "int \<Rightarrow> v2_body \<Rightarrow> 'r v2_handler" where
  "v2_JSON status body =
     go_bind (v2_Header ''Content-Type'' ''application/json; charset=utf-8'') (\<lambda>_.
     go_get (\<lambda>c. go_return \<lparr>gp_Status = status, gp_Body = body, gp_Header = gc_header c\<rparr>))"


section \<open>Tokens, roles, second factor\<close>

text \<open>
  \<^verbatim>\<open>strings.SplitN(header, " ", 2)\<close>, and \<^verbatim>\<open>strings.EqualFold\<close> with a text whose letters have no
  other case variants than the ASCII ones.
\<close>

definition split_space :: "string \<Rightarrow> (string \<times> string) option" where
  "split_space s =
     (case dropWhile (\<lambda>x. x \<noteq> CHR '' '') s of [] \<Rightarrow> None | _ # rest \<Rightarrow> Some (takeWhile (\<lambda>x. x \<noteq> CHR '' '') s, rest))"

definition fold_char :: "char \<Rightarrow> nat" where
  "fold_char x = (if 65 \<le> code x \<and> code x \<le> 90 then code x + 32 else code x)"

definition EqualFold :: "string \<Rightarrow> string \<Rightarrow> bool" where
  "EqualFold s t \<longleftrightarrow> map fold_char s = map fold_char t"

definition JWTAuth :: "'r v2_env \<Rightarrow> v2_request \<Rightarrow> 'r v2_handler \<Rightarrow> 'r v2_handler" where
  "JWTAuth E r next =
     (let header = v2_GetHeader r ''Authorization''
      in if header = [] then v2_JSON 401 (B_Error ''missing authorization header'')
         else
           case split_space header of
             None \<Rightarrow> v2_JSON 401 (B_Error ''invalid authorization format'')
           | Some (scheme, token) \<Rightarrow>
               if \<not> EqualFold scheme ''bearer'' then v2_JSON 401 (B_Error ''invalid authorization format'')
               else
                 go_try (on_engine (ParseAccessToken E (v2_jwt E) token))
                   (\<lambda>e. v2_JSON 401 (B_Error (v2_error_text e)))
                   (\<lambda>claims.
                      go_bind (v2_Set (\<lambda>k. k\<lparr>ky_UserID := Some (cl_UserID claims), ky_SessionID := Some (cl_SessionID claims),
                                 ky_Role := Some (cl_Role claims), ky_Claims := Some claims\<rparr>)) (\<lambda>_. next)))"

text \<open>\<^verbatim>\<open>c.MustGet\<close> panics when no token was checked before.\<close>

definition RequireMFA :: "'r v2_handler \<Rightarrow> 'r v2_handler" where
  "RequireMFA next = go_get (\<lambda>c.
     case ky_Claims (gc_keys c) of
       None \<Rightarrow> go_panic
     | Some claims \<Rightarrow> if \<not> cl_MFADone claims then v2_JSON 403 (B_Error ''mfa required'') else next)"

definition RequireRole :: "string list \<Rightarrow> 'r v2_handler \<Rightarrow> 'r v2_handler" where
  "RequireRole roles next = go_get (\<lambda>c.
     let role = (case ky_Role (gc_keys c) of None \<Rightarrow> ''<nil>'' | Some x \<Rightarrow> x)
     in if role \<notin> set roles then v2_JSON 403 (B_Error ''insufficient permissions'') else next)"

definition uuid_Nil :: string where
  "uuid_Nil = ''00000000-0000-0000-0000-000000000000''"

definition v2_GetUserID :: "v2_keys \<Rightarrow> string \<times> bool" where
  "v2_GetUserID k = (case ky_UserID k of None \<Rightarrow> (uuid_Nil, False) | Some i \<Rightarrow> (i, True))"


section \<open>Rate limits\<close>

definition RateLimiter_Limit ::
  "'r v2_env \<Rightarrow> string \<Rightarrow> int \<Rightarrow> int \<Rightarrow> v2_request \<Rightarrow> 'r v2_handler \<Rightarrow> 'r v2_handler" where
  "RateLimiter_Limit E key limit window r next =
     go_bind (on_engine (window_hit E (''rl:'' @ key @ '':'' @ gq_ClientIP r) window)) (\<lambda>(err, count).
     case err of
       Some e \<Rightarrow> next
     | None \<Rightarrow>
         go_bind (v2_Header ''X-Ratelimit-Limit'' (itoa limit)) (\<lambda>_.
         go_bind (v2_Header ''X-Ratelimit-Remaining'' (itoa (max 0 (wrap64 (limit - count))))) (\<lambda>_.
         go_bind (on_engine (time_Now E)) (\<lambda>now.
         go_bind (v2_Header ''X-Ratelimit-Reset'' (itoa (unix_of (now + window)))) (\<lambda>_.
         if count > limit then v2_JSON 429 (B_RateLimit ''rate limit exceeded'' (v2_Seconds E window))
         else next)))))"

definition LimitByUser ::
  "'r v2_env \<Rightarrow> string \<Rightarrow> int \<Rightarrow> int \<Rightarrow> 'r v2_handler \<Rightarrow> 'r v2_handler" where
  "LimitByUser E key limit window next = go_get (\<lambda>c.
     case v2_GetUserID (gc_keys c) of
       (_, False) \<Rightarrow> next
     | (userID, True) \<Rightarrow>
         go_bind (on_engine (window_hit E (''rl:'' @ key @ '':user:'' @ userID) window)) (\<lambda>(err, count).
         if count > limit then v2_JSON 429 (B_Error ''rate limit exceeded'') else next))"


section \<open>Headers, addresses, identifiers\<close>

definition v2_SecurityHeaders :: "'r v2_handler \<Rightarrow> 'r v2_handler" where
  "v2_SecurityHeaders next =
     go_bind (v2_Header ''X-Content-Type-Options'' ''nosniff'') (\<lambda>_.
     go_bind (v2_Header ''X-Frame-Options'' ''DENY'') (\<lambda>_.
     go_bind (v2_Header ''X-Xss-Protection'' ''1; mode=block'') (\<lambda>_.
     go_bind (v2_Header ''Strict-Transport-Security'' ''max-age=31536000; includeSubDomains; preload'') (\<lambda>_.
     go_bind (v2_Header ''Content-Security-Policy'' (''default-src '' @ [CHR 39] @ ''self'' @ [CHR 39])) (\<lambda>_.
     go_bind (v2_Header ''Referrer-Policy'' ''strict-origin-when-cross-origin'') (\<lambda>_.
     go_bind (v2_Header ''Permissions-Policy'' ''geolocation=(), microphone=(), camera=()'') (\<lambda>_. next)))))))"

definition v2_IPWhitelist :: "string list \<Rightarrow> v2_request \<Rightarrow> 'r v2_handler \<Rightarrow> 'r v2_handler" where
  "v2_IPWhitelist whitelist r next =
     (if whitelist = [] then next
      else if gq_ClientIP r \<notin> set whitelist then v2_JSON 403 (B_Error ''ip not allowed'')
      else next)"

definition v2_RequestID :: "'r v2_env \<Rightarrow> v2_request \<Rightarrow> 'r v2_handler \<Rightarrow> 'r v2_handler" where
  "v2_RequestID E r next =
     (let given = v2_GetHeader r ''X-Request-Id''
      in go_bind (if given = [] then on_engine (uuid_New E) else go_return given) (\<lambda>reqID.
         go_bind (v2_Set (\<lambda>k. k\<lparr>ky_RequestID := Some reqID\<rparr>)) (\<lambda>_.
         go_bind (v2_Header ''X-Request-Id'' reqID) (\<lambda>_. next))))"

text \<open>It writes the log after the handler has answered.\<close>

definition v2_Logger :: "'r v2_handler \<Rightarrow> 'r v2_handler" where
  "v2_Logger next = go_bind next go_return"


section \<open>The risk scorer\<close>

definition f32_03 :: "32 word" where "f32_03 = 0x3E99999A"
definition f32_10 :: "32 word" where "f32_10 = 0x3F800000"

text \<open>The count of a failed command is zero; \<^verbatim>\<open>Expire\<close> is sent in any case.\<close>

definition RiskScorer_Score :: "'r v2_env \<Rightarrow> v2_request \<Rightarrow> ('r, 32 word) eng" where
  "RiskScorer_Score E r =
     (let F = v2_f32 E;
          ip = gq_ClientIP r;
          s1 = (if ip = [] \<or> v2_GetHeader r ''User-Agent'' = [] then f32_add F 0 f32_03 else 0)
      in go_bind (time_Now E) (\<lambda>now.
         let s2 = (if utc_hour now < 6 \<or> utc_hour now > 22 then f32_add F s1 f32_01 else s1);
             rkey = ''req:count:'' @ ip
         in go_bind (attempt (run_redis E (\<lambda>t. rd_Incr (v2_redis E) t rkey))) (\<lambda>count.
            go_bind (attempt (run_redis E (\<lambda>t. rd_Expire (v2_redis E) t rkey minute))) (\<lambda>_.
            let s3 = (if int_val count > 30 then f32_add F s2 f32_04 else s2)
            in go_return (if f32_less F f32_10 s3 then f32_10 else s3)))))"


section \<open>API keys\<close>

definition apikey_AuthMiddleware :: "'r v2_env \<Rightarrow> v2_request \<Rightarrow> 'r v2_handler \<Rightarrow> 'r v2_handler" where
  "apikey_AuthMiddleware E r next =
     (let header = v2_GetHeader r ''X-Api-Key''
      in if header = [] then v2_JSON 401 (B_Error ''missing X-API-Key header'')
         else
           go_try (on_engine (apikey_Authenticate E header))
             (\<lambda>e. v2_JSON 401 (B_Error (v2_error_text e)))
             (\<lambda>key.
                go_bind (v2_Set (\<lambda>k. k\<lparr>ky_APIKey := Some (ak_ID key, ak_UserID key, ak_Permissions key, ak_Scopes key)\<rparr>))
                  (\<lambda>_. next)))"

end
