(* ===== verification/Legacy_Http.thy ===== *)
theory Legacy_Http
  imports Legacy_Gin
begin

text \<open>
  Legacy auth engine: the handlers of \<^verbatim>\<open>internal/auth/handler.go\<close>, \<^verbatim>\<open>internal/admin/handler.go\<close> and
  \<^verbatim>\<open>internal/apikey/service.go\<close>, their routes, and the router of \<^verbatim>\<open>cmd/server/main.go\<close>.
\<close>

section \<open>Packages\<close>

text \<open>
  \<^verbatim>\<open>ShouldBindJSON\<close> on the body per request type (the text of its error, or the struct), the
  validator for the two types it is used on (the text of its error, if any), \<^verbatim>\<open>uuid.Parse\<close>,
  \<^verbatim>\<open>time.ParseDuration\<close>, and the CORS package (the headers it sets, and the status if it answers
  itself). \<open>bd_lock\<close> is the duration that binding leaves, also after an error.
\<close>

record v2_codec =
  bd_register :: "string \<Rightarrow> string + v2_RegisterRequest"
  bd_register_ok :: "v2_RegisterRequest \<Rightarrow> string option"
  bd_login :: "string \<Rightarrow> string + v2_LoginRequest"
  bd_oauth :: "string \<Rightarrow> string + v2_OAuthLoginRequest"
  bd_oauth_ok :: "v2_OAuthLoginRequest \<Rightarrow> string option"
  bd_face :: "string \<Rightarrow> string + string \<times> string"
  bd_refresh :: "string \<Rightarrow> string + string"
  bd_send :: "string \<Rightarrow> string + SendOTPRequest"
  bd_verify :: "string \<Rightarrow> string + VerifyOTPRequest"
  bd_forgot :: "string \<Rightarrow> string + string"
  bd_reset :: "string \<Rightarrow> string + string \<times> string \<times> string"
  bd_password :: "string \<Rightarrow> string + string"
  bd_code :: "string \<Rightarrow> string + string"
  bd_enroll :: "string \<Rightarrow> string + string"
  bd_status :: "string \<Rightarrow> string + string"
  bd_lock :: "string \<Rightarrow> string"
  bd_key :: "string \<Rightarrow> string + CreateAPIKeyRequest"
  v2_uuid_Parse :: "string \<Rightarrow> string option"
  v2_ParseDuration :: "string \<Rightarrow> int option"
  v2_cors :: "v2_request \<Rightarrow> (string \<times> string) list \<times> int option"

section \<open>Authentication handlers\<close>

definition v2_badRequest :: "string \<Rightarrow> 'r v2_handler" where
  "v2_badRequest msg = v2_JSON 400 (B_Error msg)"

fun auth_error_reply :: "v2_error \<Rightarrow> int \<times> string" where
  "auth_error_reply ErrInvalidCredentials = (401, ''invalid credentials'')"
| "auth_error_reply ErrUserNotFound = (401, ''invalid credentials'')"
| "auth_error_reply ErrAccountLocked = (429, v2_error_text ErrAccountLocked)"
| "auth_error_reply ErrAccountSuspended = (403, v2_error_text ErrAccountSuspended)"
| "auth_error_reply ErrEmailAlreadyExists = (409, v2_error_text ErrEmailAlreadyExists)"
| "auth_error_reply ErrPhoneAlreadyExists = (409, v2_error_text ErrPhoneAlreadyExists)"
| "auth_error_reply ErrInvalidToken = (401, v2_error_text ErrInvalidToken)"
| "auth_error_reply ErrSessionExpired = (401, v2_error_text ErrSessionExpired)"
| "auth_error_reply ErrInvalidMFACode = (401, v2_error_text ErrInvalidMFACode)"
| "auth_error_reply ErrSessionLimitReached = (429, v2_error_text ErrSessionLimitReached)"
| "auth_error_reply _ = (500, ''internal server error'')"

definition handleAuthError :: "v2_error \<Rightarrow> 'r v2_handler" where
  "handleAuthError e = (case auth_error_reply e of (status, msg) \<Rightarrow> v2_JSON status (B_Error msg))"

text \<open>\<^verbatim>\<open>if err := c.ShouldBindJSON(&req); err != nil { h.badRequest(c, err.Error()); return }\<close>\<close>

definition v2_bind :: "(string \<Rightarrow> string + 'a) \<Rightarrow> v2_request \<Rightarrow> ('a \<Rightarrow> 'r v2_handler) \<Rightarrow> 'r v2_handler" where
  "v2_bind dec r k = (case dec (gq_Body r) of Inl msg \<Rightarrow> v2_badRequest msg | Inr req \<Rightarrow> k req)"

definition v2_validate :: "string option \<Rightarrow> 'r v2_handler \<Rightarrow> 'r v2_handler" where
  "v2_validate e k = (case e of Some msg \<Rightarrow> v2_badRequest msg | None \<Rightarrow> k)"

definition http_Register :: "'r v2_env \<Rightarrow> v2_codec \<Rightarrow> v2_request \<Rightarrow> 'r v2_handler" where
  "http_Register E N r =
     v2_bind (bd_register N) r (\<lambda>req.
     v2_validate (bd_register_ok N req) (
     go_try (on_engine (v2_Register E req (gq_ClientIP r) (v2_GetHeader r ''User-Agent''))) handleAuthError (\<lambda>user.
     v2_JSON 201 (B_Registered ''registration successful, please verify your account'' (us_ID user)))))"

definition http_Login :: "'r v2_env \<Rightarrow> v2_codec \<Rightarrow> v2_request \<Rightarrow> 'r v2_handler" where
  "http_Login E N r =
     v2_bind (bd_login N) r (\<lambda>req.
     go_try (on_engine (v2_Login E req (gq_ClientIP r) (v2_GetHeader r ''User-Agent''))) handleAuthError (\<lambda>resp.
     if tr_MFARequired resp then v2_JSON 200 (B_MFARequired ''please provide mfa code'')
     else v2_JSON 200 (B_Tokens resp)))"

definition http_OAuthLogin :: "'r v2_env \<Rightarrow> v2_codec \<Rightarrow> v2_request \<Rightarrow> 'r v2_handler" where
  "http_OAuthLogin E N r =
     v2_bind (bd_oauth N) r (\<lambda>req.
     v2_validate (bd_oauth_ok N req) (
     go_try (on_engine (OAuthLogin E req (gq_ClientIP r) (v2_GetHeader r ''User-Agent''))) handleAuthError (\<lambda>resp.
     v2_JSON 200 (B_Tokens resp))))"

definition http_FaceLogin :: "'r v2_env \<Rightarrow> v2_codec \<Rightarrow> v2_request \<Rightarrow> 'r v2_handler" where
  "http_FaceLogin E N r =
     v2_bind (bd_face N) r (\<lambda>(identifier, image).
     go_try (on_engine (GetUserByIdentifier E identifier))
       (\<lambda>_. v2_JSON 401 (B_Error ''invalid credentials''))
       (\<lambda>user.
          go_try (on_engine (FaceVerify E (us_ID user) image))
            (\<lambda>_. v2_JSON 401 (B_Error ''face verification failed''))
            (\<lambda>matched.
               if \<not> matched then v2_JSON 401 (B_Error ''face verification failed'')
               else v2_JSON 200 (B_FaceVerified ''face verified'' (us_ID user)))))"

definition http_RefreshToken :: "'r v2_env \<Rightarrow> v2_codec \<Rightarrow> v2_request \<Rightarrow> 'r v2_handler" where
  "http_RefreshToken E N r =
     v2_bind (bd_refresh N) r (\<lambda>token.
     go_try (on_engine (v2_RefreshToken E token)) handleAuthError (\<lambda>resp.
     v2_JSON 200 (B_Tokens resp)))"

text \<open>The user's identifier, of whom nothing is known on a public route.\<close>

definition v2_with_user :: "(string \<Rightarrow> 'r v2_handler) \<Rightarrow> 'r v2_handler" where
  "v2_with_user k = go_get (\<lambda>c. k (fst (v2_GetUserID (gc_keys c))))"

definition http_SendOTP :: "'r v2_env \<Rightarrow> v2_codec \<Rightarrow> v2_request \<Rightarrow> 'r v2_handler" where
  "http_SendOTP E N r =
     v2_bind (bd_send N) r (\<lambda>req.
     v2_with_user (\<lambda>userID.
     go_try (on_engine (v2_SendOTP E userID req))
       (\<lambda>_. v2_JSON 500 (B_Error ''failed to send otp''))
       (\<lambda>_. v2_JSON 200 (B_Message ''otp sent''))))"

definition http_VerifyOTP :: "'r v2_env \<Rightarrow> v2_codec \<Rightarrow> v2_request \<Rightarrow> 'r v2_handler" where
  "http_VerifyOTP E N r =
     v2_bind (bd_verify N) r (\<lambda>req.
     go_try (on_engine (v2_VerifyOTP E req))
       (\<lambda>e. v2_JSON 400 (B_Error (v2_error_text e)))
       (\<lambda>_. v2_JSON 200 (B_Verified True)))"

definition http_ForgotPassword :: "'r v2_env \<Rightarrow> v2_codec \<Rightarrow> v2_request \<Rightarrow> 'r v2_handler" where
  "http_ForgotPassword E N r =
     v2_bind (bd_forgot N) r (\<lambda>identifier.
     go_ignore (on_engine (RequestPasswordReset E identifier))
       (v2_JSON 200 (B_Message ''if an account exists, a reset code has been sent'')))"

definition http_ResetPassword :: "'r v2_env \<Rightarrow> v2_codec \<Rightarrow> v2_request \<Rightarrow> 'r v2_handler" where
  "http_ResetPassword E N r =
     v2_bind (bd_reset N) r (\<lambda>(identifier, token, newPassword).
     go_try (on_engine (ResetPassword E identifier token newPassword (gq_ClientIP r) (v2_GetHeader r ''User-Agent'')))
       handleAuthError
       (\<lambda>_. v2_JSON 200 (B_Message ''password reset successful'')))"

text \<open>\<^verbatim>\<open>sessionID.(uuid.UUID)\<close> panics when no token was checked before.\<close>

definition http_Logout :: "'r v2_env \<Rightarrow> 'r v2_handler" where
  "http_Logout E = go_get (\<lambda>c.
     case ky_SessionID (gc_keys c) of
       None \<Rightarrow> go_panic
     | Some sessionID \<Rightarrow>
         go_ignore (on_engine (v2_Logout E sessionID)) (v2_JSON 200 (B_Message ''logged out'')))"

definition http_LogoutAll :: "'r v2_env \<Rightarrow> 'r v2_handler" where
  "http_LogoutAll E =
     v2_with_user (\<lambda>userID.
     go_ignore (on_engine (v2_LogoutAll E userID)) (v2_JSON 200 (B_Message ''all sessions revoked'')))"

definition http_Me :: "'r v2_env \<Rightarrow> 'r v2_handler" where
  "http_Me E =
     v2_with_user (\<lambda>userID.
     go_try (on_engine (v2_GetUser E userID))
       (\<lambda>_. v2_JSON 404 (B_Error ''user not found''))
       (\<lambda>user. v2_JSON 200 (B_User user)))"

definition http_EnableMFA :: "'r v2_env \<Rightarrow> v2_codec \<Rightarrow> v2_request \<Rightarrow> 'r v2_handler" where
  "http_EnableMFA E N r =
     v2_with_user (\<lambda>userID.
     v2_bind (bd_password N) r (\<lambda>password.
     go_try (on_engine (EnableMFA E userID password)) handleAuthError (\<lambda>(secret, qrURL, backupCodes).
     v2_JSON 200 (B_MFASecret secret qrURL backupCodes ''scan the QR code and confirm with /mfa/confirm''))))"

definition http_ConfirmMFA :: "'r v2_env \<Rightarrow> v2_codec \<Rightarrow> v2_request \<Rightarrow> 'r v2_handler" where
  "http_ConfirmMFA E N r =
     v2_with_user (\<lambda>userID.
     v2_bind (bd_code N) r (\<lambda>c.
     go_try (on_engine (ConfirmMFA E userID c)) handleAuthError (\<lambda>_. v2_JSON 200 (B_Message ''mfa enabled''))))"

definition http_DisableMFA :: "'r v2_env \<Rightarrow> v2_codec \<Rightarrow> v2_request \<Rightarrow> 'r v2_handler" where
  "http_DisableMFA E N r =
     v2_with_user (\<lambda>userID.
     v2_bind (bd_code N) r (\<lambda>c.
     go_try (on_engine (DisableMFA E userID c)) handleAuthError (\<lambda>_. v2_JSON 200 (B_Message ''mfa disabled''))))"

definition http_EnrollFace :: "'r v2_env \<Rightarrow> v2_codec \<Rightarrow> v2_request \<Rightarrow> 'r v2_handler" where
  "http_EnrollFace E N r =
     v2_with_user (\<lambda>userID.
     v2_bind (bd_enroll N) r (\<lambda>image.
     go_try (on_engine (EnrollFace E userID image))
       (\<lambda>e. v2_JSON 400 (B_Error (v2_error_text e)))
       (\<lambda>_. v2_JSON 200 (B_Message ''face enrolled successfully''))))"

datatype v2_auth_endpoint =
    PostRegister | PostLogin | PostLoginOAuth | PostLoginFace | PostTokenRefresh | PostOTPSend | PostOTPVerify
  | PostPasswordForgot | PostPasswordReset
  | PostLogout | PostLogoutAll | GetMyself | PostMFAEnable | PostMFAConfirm | DeleteMFA | PostFaceEnroll

definition auth_RegisterRoutes ::
  "'r v2_env \<Rightarrow> v2_codec \<Rightarrow> v2_auth_endpoint \<Rightarrow> v2_request \<Rightarrow> 'r v2_handler" where
  "auth_RegisterRoutes E N ep r = (case ep of
     PostRegister \<Rightarrow> RateLimiter_Limit E ''register'' 5 (24 * 3600 * second) r (http_Register E N r)
   | PostLogin \<Rightarrow> RateLimiter_Limit E ''login'' 10 (60 * second) r (http_Login E N r)
   | PostLoginOAuth \<Rightarrow> RateLimiter_Limit E ''login'' 10 (60 * second) r (http_OAuthLogin E N r)
   | PostLoginFace \<Rightarrow> RateLimiter_Limit E ''face_login'' 5 (60 * second) r (http_FaceLogin E N r)
   | PostTokenRefresh \<Rightarrow> http_RefreshToken E N r
   | PostOTPSend \<Rightarrow> RateLimiter_Limit E ''otp'' 5 (3600 * second) r (http_SendOTP E N r)
   | PostOTPVerify \<Rightarrow> RateLimiter_Limit E ''otp_verify'' 10 (15 * 60 * second) r (http_VerifyOTP E N r)
   | PostPasswordForgot \<Rightarrow> RateLimiter_Limit E ''forgot_pw'' 3 (3600 * second) r (http_ForgotPassword E N r)
   | PostPasswordReset \<Rightarrow> http_ResetPassword E N r
   | PostLogout \<Rightarrow> JWTAuth E r (http_Logout E)
   | PostLogoutAll \<Rightarrow> JWTAuth E r (http_LogoutAll E)
   | GetMyself \<Rightarrow> JWTAuth E r (http_Me E)
   | PostMFAEnable \<Rightarrow> JWTAuth E r (http_EnableMFA E N r)
   | PostMFAConfirm \<Rightarrow> JWTAuth E r (http_ConfirmMFA E N r)
   | DeleteMFA \<Rightarrow> JWTAuth E r (http_DisableMFA E N r)
   | PostFaceEnroll \<Rightarrow> JWTAuth E r (http_EnrollFace E N r))"


section \<open>Administration\<close>

text \<open>\<^verbatim>\<open>id, err := uuid.Parse(c.Param("id"))\<close> with the reply on an error.\<close>

definition v2_param_id :: "v2_codec \<Rightarrow> string \<Rightarrow> v2_request \<Rightarrow> (string \<Rightarrow> 'r v2_handler) \<Rightarrow> 'r v2_handler" where
  "v2_param_id N msg r k =
     (case v2_uuid_Parse N (gq_ID r) of None \<Rightarrow> v2_JSON 400 (B_Error msg) | Some i \<Rightarrow> k i)"

definition server_error :: "v2_error \<Rightarrow> 'r v2_handler" where
  "server_error e = v2_JSON 500 (B_Error (v2_error_text e))"

text \<open>The number of pages is computed after the query; a limit of zero panics there.\<close>

definition admin_ListUsers :: "'r v2_env \<Rightarrow> v2_request \<Rightarrow> 'r v2_handler" where
  "admin_ListUsers E r =
     (let page = Atoi_value (v2_DefaultQuery r ''page'' ''1'');
          limit = Atoi_value (v2_DefaultQuery r ''limit'' ''20'');
          page = (if page < 1 then 1 else page);
          limit = (if limit > 100 then 100 else limit);
          offset = wrap64 (wrap64 (page - 1) * limit)
      in go_try (on_engine (users_ListAll E offset limit)) server_error (\<lambda>(users, total).
         if limit = 0 then go_panic
         else v2_JSON 200 (B_Users users page limit total (wrap64 (quot (wrap64 (total + limit - 1)) limit)))))"

definition admin_GetUser :: "'r v2_env \<Rightarrow> v2_codec \<Rightarrow> v2_request \<Rightarrow> 'r v2_handler" where
  "admin_GetUser E N r =
     v2_param_id N ''invalid user id'' r (\<lambda>i.
     go_try (on_engine (users_GetByID E i))
       (\<lambda>_. v2_JSON 404 (B_Error ''user not found''))
       (\<lambda>user. v2_JSON 200 (B_User user)))"

definition UpdateUserStatus :: "'r v2_env \<Rightarrow> v2_codec \<Rightarrow> v2_request \<Rightarrow> 'r v2_handler" where
  "UpdateUserStatus E N r =
     v2_param_id N ''invalid user id'' r (\<lambda>i.
     v2_bind (bd_status N) r (\<lambda>status.
     go_try (on_engine (users_GetByID E i))
       (\<lambda>_. v2_JSON 404 (B_Error ''user not found''))
       (\<lambda>user.
          go_try (on_engine (users_Update E (user\<lparr>us_Status := status\<rparr>))) server_error (\<lambda>_.
          v2_JSON 200 (B_Status ''status updated'' status)))))"

definition hundred_years :: int where
  "hundred_years = 100 * 365 * 24 * 3600 * second"

definition admin_LockUser :: "'r v2_env \<Rightarrow> v2_codec \<Rightarrow> v2_request \<Rightarrow> 'r v2_handler" where
  "admin_LockUser E N r =
     v2_param_id N ''invalid user id'' r (\<lambda>i.
     let d = bd_lock N (gq_Body r);
         dur = (if d = ''permanent'' \<or> d = [] then Some hundred_years else v2_ParseDuration N d)
     in case dur of
          None \<Rightarrow> v2_JSON 400 (B_Error ''invalid duration'')
        | Some dur \<Rightarrow>
            go_bind (on_engine (time_Now E)) (\<lambda>now.
            let until = now + dur
            in go_try (on_engine (users_LockAccount E i until)) server_error (\<lambda>_.
               go_ignore (on_engine (sessions_RevokeAll E i)) (
               v2_JSON 200 (B_Locked ''account locked'' until)))))"

definition UnlockUser :: "'r v2_env \<Rightarrow> v2_codec \<Rightarrow> v2_request \<Rightarrow> 'r v2_handler" where
  "UnlockUser E N r =
     v2_param_id N ''invalid user id'' r (\<lambda>i.
     go_try (on_engine (users_GetByID E i))
       (\<lambda>_. v2_JSON 404 (B_Error ''user not found''))
       (\<lambda>user.
          go_try (on_engine (users_Update E (user\<lparr>us_LockedUntil := None, us_FailedLoginCount := 0\<rparr>))) server_error (\<lambda>_.
          v2_JSON 200 (B_Message ''account unlocked''))))"

definition DeleteUser :: "'r v2_env \<Rightarrow> v2_codec \<Rightarrow> v2_request \<Rightarrow> 'r v2_handler" where
  "DeleteUser E N r =
     v2_param_id N ''invalid user id'' r (\<lambda>i.
     go_try (on_engine (users_SoftDelete E i)) server_error (\<lambda>_.
     go_ignore (on_engine (sessions_RevokeAll E i)) (
     v2_JSON 200 (B_Message ''user deleted''))))"

definition GetUserSessions :: "'r v2_env \<Rightarrow> v2_codec \<Rightarrow> v2_request \<Rightarrow> 'r v2_handler" where
  "GetUserSessions E N r =
     v2_param_id N ''invalid user id'' r (\<lambda>i.
     go_try (on_engine (sessions_ListByUser E i)) server_error (\<lambda>sessions. v2_JSON 200 (B_Sessions sessions)))"

definition RevokeUserSessions :: "'r v2_env \<Rightarrow> v2_codec \<Rightarrow> v2_request \<Rightarrow> 'r v2_handler" where
  "RevokeUserSessions E N r =
     v2_param_id N ''invalid user id'' r (\<lambda>i.
     go_ignore (on_engine (sessions_RevokeAll E i)) (v2_JSON 200 (B_Message ''all sessions revoked'')))"

definition GetUserAuditLog :: "'r v2_env \<Rightarrow> v2_codec \<Rightarrow> v2_request \<Rightarrow> 'r v2_handler" where
  "GetUserAuditLog E N r =
     v2_param_id N ''invalid user id'' r (\<lambda>i.
     go_try (on_engine (GetUserHistory E i (Atoi_value (v2_DefaultQuery r ''limit'' ''50'')))) server_error (\<lambda>logs.
     v2_JSON 200 (B_Logs logs)))"

definition GetAuditLog :: "'r v2_handler" where
  "GetAuditLog = v2_JSON 200 (B_Message ''audit log endpoint - add date range filters'')"

definition GetStats :: "'r v2_env \<Rightarrow> 'r v2_handler" where
  "GetStats E = go_bind (on_engine (time_Now E)) (\<lambda>now. v2_JSON 200 (B_Time ''stats endpoint'' now))"

datatype v2_admin_endpoint =
    GetUsers | GetUserByID | PatchUserStatus | PostUserLock | PostUserUnlock | DeleteUserByID
  | GetSessionsOf | DeleteSessionsOf | GetAuditOf | GetAudit | GetStatistics

definition admin_handler :: "'r v2_env \<Rightarrow> v2_codec \<Rightarrow> v2_admin_endpoint \<Rightarrow> v2_request \<Rightarrow> 'r v2_handler" where
  "admin_handler E N ep r = (case ep of
     GetUsers \<Rightarrow> admin_ListUsers E r
   | GetUserByID \<Rightarrow> admin_GetUser E N r
   | PatchUserStatus \<Rightarrow> UpdateUserStatus E N r
   | PostUserLock \<Rightarrow> admin_LockUser E N r
   | PostUserUnlock \<Rightarrow> UnlockUser E N r
   | DeleteUserByID \<Rightarrow> DeleteUser E N r
   | GetSessionsOf \<Rightarrow> GetUserSessions E N r
   | DeleteSessionsOf \<Rightarrow> RevokeUserSessions E N r
   | GetAuditOf \<Rightarrow> GetUserAuditLog E N r
   | GetAudit \<Rightarrow> GetAuditLog
   | GetStatistics \<Rightarrow> GetStats E)"

definition admin_RegisterRoutes ::
  "'r v2_env \<Rightarrow> v2_codec \<Rightarrow> string list \<Rightarrow> v2_admin_endpoint \<Rightarrow> v2_request \<Rightarrow> 'r v2_handler" where
  "admin_RegisterRoutes E N whitelist ep r =
     JWTAuth E r (RequireRole [''admin'', ''superadmin''] (v2_IPWhitelist whitelist r (admin_handler E N ep r)))"


section \<open>API keys\<close>

definition http_CreateKey :: "'r v2_env \<Rightarrow> v2_codec \<Rightarrow> v2_request \<Rightarrow> 'r v2_handler" where
  "http_CreateKey E N r =
     v2_with_user (\<lambda>userID.
     v2_bind (bd_key N) r (\<lambda>req.
     go_try (on_engine (apikey_Create E userID req)) server_error (\<lambda>resp. v2_JSON 201 (B_Key resp))))"

definition http_ListKeys :: "'r v2_env \<Rightarrow> 'r v2_handler" where
  "http_ListKeys E =
     v2_with_user (\<lambda>userID.
     go_try (on_engine (apikey_List E userID)) server_error (\<lambda>keys. v2_JSON 200 (B_Keys keys)))"

definition http_RevokeKey :: "'r v2_env \<Rightarrow> v2_codec \<Rightarrow> v2_request \<Rightarrow> 'r v2_handler" where
  "http_RevokeKey E N r =
     v2_with_user (\<lambda>userID.
     v2_param_id N ''invalid id'' r (\<lambda>i.
     go_try (on_engine (apikey_Revoke E i userID)) server_error (\<lambda>_. v2_JSON 200 (B_Message ''api key revoked''))))"

datatype v2_key_endpoint = PostKeys | GetKeys | DeleteKey

definition apikey_RegisterRoutes ::
  "'r v2_env \<Rightarrow> v2_codec \<Rightarrow> v2_key_endpoint \<Rightarrow> v2_request \<Rightarrow> 'r v2_handler" where
  "apikey_RegisterRoutes E N ep r =
     JWTAuth E r (case ep of
       PostKeys \<Rightarrow> http_CreateKey E N r
     | GetKeys \<Rightarrow> http_ListKeys E
     | DeleteKey \<Rightarrow> http_RevokeKey E N r)"


section \<open>The router\<close>

definition v2_Health :: "'r v2_env \<Rightarrow> 'r v2_handler" where
  "v2_Health E = go_bind (on_engine (time_Now E)) (\<lambda>now. v2_JSON 200 (B_Time ''ok'' now))"

text \<open>\<^verbatim>\<open>gin.Recovery()\<close>: a panic is answered with 500 and no body.\<close>

definition v2_Recovery :: "'r v2_handler \<Rightarrow> 'r v2_handler" where
  "v2_Recovery next c =
     (case next c of
        (Panic, c') \<Rightarrow> (Ok \<lparr>gp_Status = 500, gp_Body = B_Empty, gp_Header = gc_header c'\<rparr>, c')
      | (r, c') \<Rightarrow> (r, c'))"

fun v2_set_headers :: "(string \<times> string) list \<Rightarrow> ('r, unit) v2_gin" where
  "v2_set_headers [] = go_return ()"
| "v2_set_headers ((k, v) # hs) = go_bind (v2_Header k v) (\<lambda>_. v2_set_headers hs)"

definition v2_cors_New :: "v2_codec \<Rightarrow> v2_request \<Rightarrow> 'r v2_handler \<Rightarrow> 'r v2_handler" where
  "v2_cors_New N r next =
     (case v2_cors N r of (hs, answer) \<Rightarrow>
        go_bind (v2_set_headers hs) (\<lambda>_.
        case answer of
          Some status \<Rightarrow> go_get (\<lambda>c. go_return \<lparr>gp_Status = status, gp_Body = B_Empty, gp_Header = gc_header c\<rparr>)
        | None \<Rightarrow> next))"

definition v2_router :: "'r v2_env \<Rightarrow> v2_codec \<Rightarrow> v2_request \<Rightarrow> 'r v2_handler \<Rightarrow> 'r v2_handler" where
  "v2_router E N r h =
     go_bind (go_put (\<lambda>c. c\<lparr>gc_header := [], gc_keys := no_keys\<rparr>)) (\<lambda>_.
     v2_Recovery (v2_RequestID E r (v2_Logger (v2_SecurityHeaders (v2_cors_New N r h)))))"

text \<open>
  The routes the program registers; it does not mount those of the administration and of the
  API keys.
\<close>

definition v2_main :: "'r v2_env \<Rightarrow> v2_codec \<Rightarrow> v2_auth_endpoint option \<Rightarrow> v2_request \<Rightarrow> 'r v2_handler" where
  "v2_main E N ep r =
     v2_router E N r (case ep of None \<Rightarrow> v2_Health E | Some ep \<Rightarrow> auth_RegisterRoutes E N ep r)"

end
