(* ===== verification/Legacy_Sessions.thy ===== *)
theory Legacy_Sessions
  imports Legacy_Auth
begin

text \<open>
  Legacy auth engine: what the service promises about sessions and logins, over sequences of
  calls and for every behaviour of the database.
\<close>

section \<open>Closing sessions\<close>

interpretation anything: v2_invariant "\<lambda>_. True" ok for ok
  by unfold_locales simp_all

text \<open>An operation that issues no statement leaves the tables alone.\<close>

lemma no_statement_frame:
  assumes "\<And>d. keeps (v2_safe E (\<lambda>x. x = d) (\<lambda>_. True)) m" and "m w = (r, w')"
  shows "v_db w' = v_db w"
  using keepsD [OF assms(1) _ assms(2), of "v_db w"] by (simp add: v2_safe_def)

lemmas otp_Verify_db = no_statement_frame [OF keeps_db_otp_service(2)]
lemmas v2_HashPassword_db = no_statement_frame [OF keeps_db_crypto(1)]

lemma users_Update_sessions:
  "users_Update E u w = (r, w') \<Longrightarrow> tb_sessions (v_db w') = tb_sessions (v_db w)"
  by (auto simp: users_Update_def run_db_def execute_def sql_save_user_def sql_update_users_def
      split: prod.splits option.splits fault.splits if_splits)

lemma v2_audit_sessions:
  "v2_audit E i a r ip ua st ds n w = (x, w') \<Longrightarrow> tb_sessions (v_db w') = tb_sessions (v_db w)"
  by (auto simp: v2_audit_def audits_Log_def audits_Save_def run_db_def execute_def sql_insert_audit_def
      go_ignore_def go_bind_def go_try_def split: prod.splits option.splits fault.splits if_splits)

lemma update_sessions_Ok:
  assumes "run_db E (sql_update_sessions P f) w = (Ok (), w')"
  shows "tb_sessions (v_db w') = map (\<lambda>s. if P s then f s else s) (tb_sessions (v_db w))"
proof -
  have "v_db w' = snd (sql_update_sessions P f (v2_turn E (v_stmts w)) (v_db w))"
    using run_db_Ok(1) [OF assms] by simp
  then show ?thesis by (simp add: sql_update_sessions_def)
qed

lemma closing_update:
  assumes "run_db E (sql_update_sessions P (\<lambda>s. s\<lparr>ss_IsActive := False\<rparr>)) w = (Ok (), w')"
    and "\<forall>s \<in> set (tb_sessions (v_db w)). ss_ID s = i \<longrightarrow> P s"
  shows "session_closed i (v_db w')"
  using assms(2) unfolding session_closed_def update_sessions_Ok [OF assms(1)] by auto

lemma Revoke_closes: "sessions_Revoke E i w = (Ok (), w') \<Longrightarrow> session_closed i (v_db w')"
  unfolding sessions_Revoke_def by (erule closing_update) simp

text \<open>The sessions under an identifier are this user's.\<close>

definition belongs_to :: "string \<Rightarrow> string \<Rightarrow> v2_db \<Rightarrow> bool" where
  "belongs_to i userID d \<longleftrightarrow> (\<forall>s \<in> set (tb_sessions d). ss_ID s = i \<longrightarrow> ss_UserID s = userID)"

lemma RevokeAll_closes:
  "sessions_RevokeAll E userID w = (Ok (), w') \<Longrightarrow> belongs_to i userID (v_db w) \<Longrightarrow> session_closed i (v_db w')"
  unfolding sessions_RevokeAll_def belongs_to_def by (erule closing_update)

lemma RevokeAll_up: "db_up E \<Longrightarrow> \<exists>w'. sessions_RevokeAll E userID w = (Ok (), w')"
  by (simp add: sessions_RevokeAll_def run_db_up sql_update_sessions_def)

lemma GetByIdentifier_Ok:
  assumes "users_GetByIdentifier E identifier w = (Ok u, w')"
  shows "u \<in> set (tb_users (v_db w))" and "identified_by identifier u" and "v_db w' = v_db w"
    and "w' = w\<lparr>v_stmts := v_stmts w + 1\<rparr>"
proof -
  note r = run_db_Ok [OF assms [unfolded users_GetByIdentifier_def]]
  show "u \<in> set (tb_users (v_db w))" "identified_by identifier u" and d: "v_db w' = v_db w"
    using first_row [OF r(1)] by simp_all
  show "w' = w\<lparr>v_stmts := v_stmts w + 1\<rparr>" using r(2) d by simp
qed

lemma ResetPassword_closes:
  assumes up: "db_up E" and reset: "ResetPassword E identifier c p ip ua w = (Ok (), w')"
    and sole: "\<And>u. u \<in> set (tb_users (v_db w)) \<Longrightarrow> identified_by identifier u \<Longrightarrow> us_ID u = userID"
    and "belongs_to i userID (v_db w)"
  shows "session_closed i (v_db w')"
proof -
  let ?v = "\<lparr>vr_Recipient = identifier, vr_Code = c, vr_Purpose = OTPPurposePasswordReset E\<rparr>"
  have weak: "validatePasswordStrength (cfg_Security (v2_cfg E)) p = None"
    using reset by (auto simp: ResetPassword_def split: option.splits)
  obtain w1 w2 w3 w5 user h where
    v: "otp_Verify E ?v w = (Ok (), w1)" and g: "users_GetByIdentifier E identifier w1 = (Ok user, w2)"
    and h: "v2_HashPassword E p (BcryptCost (cfg_Security (v2_cfg E))) w2 = (Ok h, w3)"
    and s: "users_Update E (user\<lparr>us_PasswordHash := Some h, us_PasswordChangedAt := Some (v2_now E (v_clock w3))\<rparr>)
              (w3\<lparr>v_clock := v_clock w3 + 1\<rparr>) = (Ok (), w5)"
    and rest: "go_ignore (sessions_RevokeAll E (us_ID user))
        (v2_audit E (Some (us_ID user)) ''password_reset'' ''user'' ip ua ''success'' [] 0) w5 = (Ok (), w')"
    using reset weak unfolding ResetPassword_def
    by (auto elim!: go_bind_OkE dest!: else_err_OkD)
  have "v_db w1 = v_db w" by (rule otp_Verify_db [OF v])
  moreover from this have "us_ID user = userID" using GetByIdentifier_Ok [OF g] sole by simp
  moreover have "v_db w3 = v_db w"
    using v2_HashPassword_db [OF h] GetByIdentifier_Ok [OF g] \<open>v_db w1 = v_db w\<close> by simp
  ultimately have own: "belongs_to i (us_ID user) (v_db w5)"
    using users_Update_sessions [OF s] assms(4) by (simp add: belongs_to_def)
  obtain w6 where r: "sessions_RevokeAll E (us_ID user) w5 = (Ok (), w6)" using RevokeAll_up [OF up] by blast
  with rest have "v2_audit E (Some (us_ID user)) ''password_reset'' ''user'' ip ua ''success'' [] 0 w6 = (Ok (), w')"
    by simp
  then have "tb_sessions (v_db w') = tb_sessions (v_db w6)" by (rule v2_audit_sessions)
  then show ?thesis using RevokeAll_closes [OF r own] by (simp add: session_closed_def)
qed

text \<open>A closed session refreshes no token.\<close>

lemma closed_refuses:
  assumes "session_closed i (v_db w)" and "ParseRefreshToken E (v2_jwt E) t w = (Ok c, w1)" and "cl_SessionID c = i"
  shows "fst (v2_RefreshToken E t w) = Err ErrSessionExpired"
proof -
  have "v_db w1 = v_db w" using parseToken_Ok(4) [OF assms(2) [unfolded ParseRefreshToken_def]] by simp
  then have "filter (\<lambda>s. ss_ID s = i \<and> ss_IsActive s) (tb_sessions (v_db w1)) = []"
    using assms(1) by (auto simp: session_closed_def filter_empty_conv)
  then have "\<exists>e w2. sessions_GetByID E i w1 = (Err e, w2)"
    by (auto simp: sessions_GetByID_def run_db_def execute_def sql_first_def
        split: prod.splits option.splits fault.splits)
  then show ?thesis using assms(2,3) by (auto simp: v2_RefreshToken_def else_err_def go_bind_def go_try_def)
qed

lemma closed_for_good:
  assumes "session_closed i (v_db w)" and "\<forall>n \<ge> v_uuids w. v2_uuid E n \<noteq> i"
    and "ParseRefreshToken E (v2_jwt E) t (performed E calls w) = (Ok claims, w2)" and "cl_SessionID claims = i"
  shows "fst (v2_RefreshToken E t (performed E calls w)) = Err ErrSessionExpired"
proof -
  have "v2_safe E (session_closed i) (\<lambda>j. j \<noteq> i) w" using assms(1,2) by (simp add: v2_safe_def)
  then have "session_closed i (v_db (performed E calls w))"
    using closed.performed_safe by (metis v2_safe_def)
  then show ?thesis using assms(3,4) by (rule closed_refuses)
qed



lemma demo_parse:
  assumes "v_clock w < 1000"
  shows "ParseRefreshToken demo_engine (v2_jwt demo_engine) v2_demo_refresh w = (Ok v2_demo_claims, w\<lparr>v_clock := v_clock w + 1\<rparr>)"
  unfolding ParseRefreshToken_def
proof (rule parse_signed [OF v2_demo_jwt(1)])
  show "v2_jwt_Sign demo_engine (refreshSecret (v2_jwt demo_engine)) v2_demo_claims = Some v2_demo_refresh"
    using v2_demo_refresh_signed by (simp add: v2_jwt_def NewManager_def)
qed (use assms in \<open>simp_all add: v2_demo_claims_def v2_jwt_def NewManager_def v2_demo_config_def unix_of_def second_def\<close>)

lemma demo_logout:
  "v2_Logout demo_engine ''s1'' demo_v2 = (Ok (), snd (v2_Logout demo_engine ''s1'' demo_v2))"
  "v_clock (performed demo_engine [CallLogoutAll ''u2''] (snd (v2_Logout demo_engine ''s1'' demo_v2))) = 0"
  by (simp_all add: v2_Logout_def v2_LogoutAll_def sessions_Revoke_def sessions_RevokeAll_def performed_def
      run_db_up [OF demo_db_up] sql_update_sessions_def)



section \<open>Issuing tokens\<close>

text \<open>What a successful issue has done: the count it saw, and the session it opened.\<close>

lemma issueTokens_Ok:
  assumes "issueTokens E user dev ip ua b w = (Ok resp, w')"
  obtains n w1 w2 w3 s where
    "go_try (sessions_CountActive E (us_ID user)) (\<lambda>_. go_return 0) go_return w = (Ok n, w1)"
    and "\<not> (n \<ge> SessionMaxDevices (cfg_Security (v2_cfg E)) \<and> SessionMaxDevices (cfg_Security (v2_cfg E)) > 0)"
    and "v_db w2 = v_db w1"
    and "sessions_Create E s w2 = (Ok (), w3)"
    and "ss_ID s = tr_SessionID resp" and "ss_UserID s = us_ID user" and "ss_IsActive s"
    and "ss_RefreshToken s = tr_RefreshToken resp"
    and "tb_sessions (v_db w') = tb_sessions (v_db w3)"
    and "\<not> tr_MFARequired resp"
    and "\<exists>now x w4. tr_User resp = Some (user\<lparr>us_LastLoginAt := Some now, us_LastLoginIP := Some ip\<rparr>)
       \<and> users_Update E (user\<lparr>us_LastLoginAt := Some now, us_LastLoginIP := Some ip\<rparr>) (w3\<lparr>v_clock := v_clock w3 + 1\<rparr>) = (x, w4)
       \<and> v2_audit E (Some (us_ID user)) ''login'' ''user'' ip ua ''success'' [] 0 w4 = (Ok (), w')"
proof -
  let ?limit = "SessionMaxDevices (cfg_Security (v2_cfg E))"
  obtain n w1 where count: "go_try (sessions_CountActive E (us_ID user)) (\<lambda>_. go_return 0) go_return w = (Ok n, w1)"
    and below: "\<not> (n \<ge> ?limit \<and> ?limit > 0)"
    using assms unfolding issueTokens_def Let_def by (elim go_bind_OkE) (auto split: if_splits)
  let ?i = "v2_uuid E (v_uuids w1)"
  obtain a r w2 where pair: "GenerateTokenPair E (v2_jwt E) (us_ID user) ?i (us_Role user) (us_Email user) (us_Phone user) b
        (w1\<lparr>v_uuids := v_uuids w1 + 1\<rparr>) = (Ok (a, r), w2)"
    using assms count below unfolding issueTokens_def Let_def
    by (auto elim!: go_bind_OkE dest!: wrapped_OkD)
  have db2: "v_db w2 = v_db w1"
    using no_statement_frame [OF keeps_db_crypto(5) pair] by simp
  let ?s = "\<lparr>ss_ID = ?i, ss_UserID = us_ID user, ss_RefreshToken = r, ss_DeviceInfo = dev,
       ss_IPAddress = ip, ss_UserAgent = ua, ss_IsActive = True,
       ss_ExpiresAt = v2_now E (v_clock w2) + refreshExpiry (v2_jwt E),
       ss_LastSeenAt = v2_now E (v_clock w2 + 1), ss_CreatedAt = 0\<rparr>"
  let ?w2 = "w2\<lparr>v_clock := v_clock w2 + 2\<rparr>"
  obtain w3 where create: "sessions_Create E ?s ?w2 = (Ok (), w3)"
    using assms count below pair unfolding issueTokens_def Let_def
    by (auto elim!: go_bind_OkE dest!: wrapped_OkD)
  let ?u = "user\<lparr>us_LastLoginAt := Some (v2_now E (v_clock w3)), us_LastLoginIP := Some ip\<rparr>"
  obtain x w4 where upd: "users_Update E ?u (w3\<lparr>v_clock := v_clock w3 + 1\<rparr>) = (x, w4)" by fastforce
  have rest: "go_ignore (users_Update E ?u) (
       go_bind (v2_audit E (Some (us_ID user)) ''login'' ''user'' ip ua ''success'' [] 0) (\<lambda>_.
       go_return \<lparr>tr_AccessToken = a, tr_RefreshToken = r, tr_TokenType = ''Bearer'',
            tr_ExpiresIn = v2_Seconds E (accessExpiry (v2_jwt E)), tr_User = Some ?u,
            tr_SessionID = ?i, tr_MFARequired = False\<rparr>)) (w3\<lparr>v_clock := v_clock w3 + 1\<rparr>) = (Ok resp, w')"
    using assms count below pair create unfolding issueTokens_def Let_def by simp
  then obtain w5 where aud: "v2_audit E (Some (us_ID user)) ''login'' ''user'' ip ua ''success'' [] 0 w4 = (Ok (), w5)"
    and out: "w' = w5" "resp = \<lparr>tr_AccessToken = a, tr_RefreshToken = r, tr_TokenType = ''Bearer'',
            tr_ExpiresIn = v2_Seconds E (accessExpiry (v2_jwt E)), tr_User = Some ?u,
            tr_SessionID = ?i, tr_MFARequired = False\<rparr>"
    using upd by (cases x) (auto elim!: go_bind_OkE)
  have "tb_sessions (v_db w') = tb_sessions (v_db w3)"
    using v2_audit_sessions [OF aud] users_Update_sessions [OF upd] out(1) by simp
  with count below db2 create out upd aud show thesis by (intro that [of n w1 ?w2 ?s w3]) auto
qed

end
