(* ===== verification/Legacy_Logins.thy ===== *)
theory Legacy_Logins
  imports Legacy_Sessions
begin

text \<open>
  Legacy auth engine: what a successful login has checked and what it leaves behind, what a
  refresh changes, and the schema over all calls.
\<close>

section \<open>What operations leave alone\<close>

text \<open>The sessions stay as they are, and the clock is only read.\<close>

definition leaves_sessions :: "('r, 'a) eng \<Rightarrow> bool" where
  "leaves_sessions m \<longleftrightarrow>
     (\<forall>ss c. keeps (\<lambda>w. tb_sessions (v_db w) = ss \<and> c \<le> v_clock w) m)"

lemma leaves_sessionsD:
  assumes "leaves_sessions m" and "m w = (r, w')"
  shows "tb_sessions (v_db w') = tb_sessions (v_db w)" and "v_clock w \<le> v_clock w'"
proof -
  have "keeps (\<lambda>x. tb_sessions (v_db x) = tb_sessions (v_db w) \<and> v_clock w \<le> v_clock x) m"
    using assms(1) by (simp add: leaves_sessions_def)
  from keepsD [OF this _ assms(2)] show "tb_sessions (v_db w') = tb_sessions (v_db w)" "v_clock w \<le> v_clock w'"
    by simp_all
qed

lemma keeps_leaves: "leaves_sessions m \<Longrightarrow> keeps (\<lambda>w. tb_sessions (v_db w) = ss \<and> c \<le> v_clock w) m"
  by (simp add: leaves_sessions_def)

lemma leaves_run_db:
  "(\<And>t d. tb_sessions (snd (f t d)) = tb_sessions d) \<Longrightarrow> leaves_sessions (run_db E f)"
  by (auto simp: leaves_sessions_def keeps_def run_db_def execute_def split: prod.splits option.splits fault.splits)
    (metis snd_conv)+

lemma leaves_users:
  "leaves_sessions (users_ResetFailedLogin E i)" "leaves_sessions (users_GetByIdentifier E identifier)"
  "leaves_sessions (users_Update E u)"
  unfolding users_ResetFailedLogin_def users_GetByIdentifier_def users_Update_def
  by (rule leaves_run_db, simp add: sql_update_users_def sql_first_def sql_save_user_def
      split: list.splits option.splits)+

lemma leaves_time: "leaves_sessions (time_Now E)" "leaves_sessions (uuid_New E)"
  by (simp_all add: leaves_sessions_def keeps_def)

lemma leaves_audit: "leaves_sessions (v2_audit E i a r ip ua st ds n)"
proof -
  have insert: "leaves_sessions (run_db E (sql_insert_audit x))" for x
    by (rule leaves_run_db) (simp add: sql_insert_audit_def)
  show ?thesis
    unfolding leaves_sessions_def v2_audit_def audits_Log_def audits_Save_def
    by (intro allI keeps_rules keeps_leaves leaves_time insert)
qed

lemmas keeps_sessions_alone =
  leaves_users [THEN keeps_leaves] leaves_audit [THEN keeps_leaves] leaves_time [THEN keeps_leaves]

lemma leaves_mfa_gate: "leaves_sessions (mfa_gate E u c ip ua)"
  unfolding mfa_gate_def ValidateTOTP_def verifyBackupCode_def Let_def
  unfolding leaves_sessions_def by (intro allI keeps_rules keeps_sessions_alone)

lemma leaves_is_locked: "leaves_sessions (is_locked E u)"
  unfolding is_locked_def leaves_sessions_def by (intro allI keeps_rules keeps_sessions_alone)


section \<open>Login\<close>

text \<open>A user who may log in with this password at this time.\<close>

definition may_log_in :: "'r v2_env \<Rightarrow> v2_LoginRequest \<Rightarrow> int \<Rightarrow> v2_User \<Rightarrow> bool" where
  "may_log_in E req now u \<longleftrightarrow>
     identified_by (li_Identifier req) u \<and> (\<forall>until. us_LockedUntil u = Some until \<longrightarrow> until \<le> now)
   \<and> us_Status u \<noteq> UserStatusSuspended
   \<and> (\<exists>h. us_PasswordHash u = Some h \<and> v2_bcrypt_Compare E h (li_Password req))"

definition second_factor :: "'r v2_env \<Rightarrow> v2_User \<Rightarrow> string \<Rightarrow> bool" where
  "second_factor E u c \<longleftrightarrow>
     (\<forall>secret. us_MFASecret u = Some secret \<longrightarrow>
        (\<exists>t. v2_totp_Validate E c secret t) \<or> HashBackupCode E c \<in> set (us_MFABackupCodes u))"

lemma mfa_gate_Ok:
  assumes "mfa_gate E u c ip ua w = (Ok r, w')"
  shows "r = None \<longleftrightarrow> us_MFAEnabled u \<and> c = None"
    and "r = Some v \<Longrightarrow> v = u\<lparr>us_MFABackupCodes := us_MFABackupCodes v\<rparr>"
    and "r = Some v \<Longrightarrow> us_MFAEnabled u \<Longrightarrow> \<exists>c'. c = Some c' \<and> second_factor E u c'"
  using assms
  by (auto simp: mfa_gate_def ValidateTOTP_def verifyBackupCode_def Let_def second_factor_def
      split: if_splits option.splits elim!: go_bind_OkE go_ignore_OkE)

lemma is_locked_Ok:
  assumes "is_locked E u w = (Ok b, w')"
  shows "b \<longleftrightarrow> (\<exists>until. us_LockedUntil u = Some until \<and> v2_now E (v_clock w) < until)"
  using assms by (auto simp: is_locked_def split: option.splits)

text \<open>The steps of a successful login.\<close>

lemma Login_steps:
  assumes "v2_Login E req ip ua w = (Ok resp, w')"
  obtains u w1 w2 w3 passed w4 x where
    "users_GetByIdentifier E (li_Identifier req) w = (Ok u, w1)" and "is_locked E u w1 = (Ok False, w2)"
    and "us_Status u \<noteq> UserStatusSuspended" and "password_matches E u (li_Password req)"
    and "users_ResetFailedLogin E (us_ID u) w2 = (x, w3)" and "x \<noteq> Panic"
    and "mfa_gate E u (li_MFACode req) ip ua w3 = (Ok passed, w4)"
    and "passed = None \<Longrightarrow> resp = no_response\<lparr>tr_MFARequired := True\<rparr> \<and> w' = w4"
    and "\<And>v. passed = Some v \<Longrightarrow> issueTokens E v (li_DeviceInfo req) ip ua True w4 = (Ok resp, w')"
  using assms unfolding v2_Login_def
proof (cases rule: go_try_OkE)
  case (err e s)
  then show ?thesis by (auto elim!: go_bind_OkE)
next
  case (ok u w1)
  from ok(2) obtain b w2 where lock: "is_locked E u w1 = (Ok b, w2)"
    and rest: "(if b then go_fail ErrAccountLocked
     else if us_Status u = UserStatusSuspended then go_fail ErrAccountSuspended
     else if \<not> password_matches E u (li_Password req)
     then go_bind (failed_login E u ip ua) (\<lambda>_. go_fail ErrInvalidCredentials)
     else
       go_ignore (users_ResetFailedLogin E (us_ID u)) (
       go_bind (mfa_gate E u (li_MFACode req) ip ua) (\<lambda>passed.
       case passed of
         None \<Rightarrow> go_return (no_response\<lparr>tr_MFARequired := True\<rparr>)
       | Some user \<Rightarrow> issueTokens E user (li_DeviceInfo req) ip ua True))) w2 = (Ok resp, w')"
    by (erule go_bind_OkE)
  then have go: "\<not> b" "us_Status u \<noteq> UserStatusSuspended" "password_matches E u (li_Password req)"
    by (auto split: if_splits elim!: go_bind_OkE)
  with rest obtain x w3 passed w4 where "users_ResetFailedLogin E (us_ID u) w2 = (x, w3)" "x \<noteq> Panic"
    "mfa_gate E u (li_MFACode req) ip ua w3 = (Ok passed, w4)"
    "(case passed of
         None \<Rightarrow> go_return (no_response\<lparr>tr_MFARequired := True\<rparr>)
       | Some user \<Rightarrow> issueTokens E user (li_DeviceInfo req) ip ua True) w4 = (Ok resp, w')"
    by (auto elim!: go_ignore_OkE go_bind_OkE)
  with ok(1) lock go show ?thesis by (intro that [of u w1 w2 x w3 passed w4]) auto
qed

lemma sessions_Create_Ok:
  assumes "sessions_Create E s w = (Ok (), w')"
  obtains n where "tb_sessions (v_db w') = tb_sessions (v_db w) @ [(session_row E s)\<lparr>ss_CreatedAt := n\<rparr>]"
proof -
  note run_db_Ok(1) [OF assms [unfolded sessions_Create_def]]
  then have "v_db w' = v_db w\<lparr>tb_sessions := tb_sessions (v_db w)
      @ [(session_row E s)\<lparr>ss_CreatedAt := t_now (v2_turn E (v_stmts w))\<rparr>]\<rparr>"
    by (auto simp: sql_insert_session_def split: if_splits)
  then show ?thesis using that by simp
qed

text \<open>The count that is compared with the limit.\<close>

lemma CountActive_up:
  "db_up E \<Longrightarrow>
   sessions_CountActive E i w =
     (Ok (int (length (filter (open_session E i (v2_now E (v_clock w))) (tb_sessions (v_db w))))),
      w\<lparr>v_clock := v_clock w + 1, v_stmts := v_stmts w + 1\<rparr>)"
  by (simp add: sessions_CountActive_def run_db_up sql_count_def)

lemma CountActive_leaves: "leaves_sessions (go_try (sessions_CountActive E i) (\<lambda>_. go_return 0) go_return)"
proof -
  have read: "leaves_sessions (run_db E (sql_count tb_sessions P))" for P
    by (rule leaves_run_db) (simp add: sql_count_def)
  show ?thesis
    unfolding leaves_sessions_def sessions_CountActive_def
    by (intro allI keeps_rules keeps_leaves leaves_time read)
qed

lemma issued_session:
  assumes "issueTokens E u dev ip ua b w = (Ok resp, w')"
  obtains s where "tb_sessions (v_db w') = tb_sessions (v_db w) @ [s]" and "ss_ID s = tr_SessionID resp"
    and "ss_UserID s = us_ID u" and "ss_IsActive s" and "ss_RefreshToken s = tr_RefreshToken resp"
    and "\<not> tr_MFARequired resp"
    and "db_up E \<Longrightarrow> 0 < SessionMaxDevices (cfg_Security (v2_cfg E)) \<Longrightarrow>
      int (length (filter (open_session E (us_ID u) (v2_now E (v_clock w))) (tb_sessions (v_db w'))))
        \<le> SessionMaxDevices (cfg_Security (v2_cfg E))"
proof -
  let ?limit = "SessionMaxDevices (cfg_Security (v2_cfg E))"
  obtain n w1 w2 w3 s where count: "go_try (sessions_CountActive E (us_ID u)) (\<lambda>_. go_return 0) go_return w = (Ok n, w1)"
    and below: "\<not> (n \<ge> ?limit \<and> ?limit > 0)" and db: "v_db w2 = v_db w1"
    and create: "sessions_Create E s w2 = (Ok (), w3)"
    and s: "ss_ID s = tr_SessionID resp" "ss_UserID s = us_ID u" "ss_IsActive s" "ss_RefreshToken s = tr_RefreshToken resp"
    and w': "tb_sessions (v_db w') = tb_sessions (v_db w3)" and nomfa: "\<not> tr_MFARequired resp"
    by (rule issueTokens_Ok [OF assms])
  obtain m where new: "tb_sessions (v_db w3) = tb_sessions (v_db w2) @ [(session_row E s)\<lparr>ss_CreatedAt := m\<rparr>]"
    by (rule sessions_Create_Ok [OF create])
  have same: "tb_sessions (v_db w1) = tb_sessions (v_db w)" using leaves_sessionsD(1) [OF CountActive_leaves count] .
  let ?s = "(session_row E s)\<lparr>ss_CreatedAt := m\<rparr>"
  have "n = int (length (filter (open_session E (us_ID u) (v2_now E (v_clock w))) (tb_sessions (v_db w))))" if "db_up E"
    using count CountActive_up [OF that] by simp
  then have "int (length (filter (open_session E (us_ID u) (v2_now E (v_clock w))) (tb_sessions (v_db w'))))
      \<le> ?limit" if "db_up E" "0 < ?limit"
    using below that by (simp add: w' new db same)
  then show thesis using s nomfa by (intro that [of ?s]) (simp_all add: w' new db same session_row_def)
qed



section \<open>The count of failures\<close>

text \<open>The schema holds, and a row with the identity of this user is there.\<close>

definition identity_held :: "v2_User \<Rightarrow> v2_db \<Rightarrow> bool" where
  "identity_held u d \<longleftrightarrow> v2_db_ok d
     \<and> (us_ID u, us_Email u, us_Phone u) \<in> (\<lambda>r. (us_ID r, us_Email r, us_Phone r)) ` set (tb_users d)"

lemma identity_held_users:
  "identity_held u d \<Longrightarrow> v2_db_ok d' \<Longrightarrow> tb_users d' = tb_users d \<Longrightarrow> identity_held u d'"
  by (simp add: identity_held_def)

lemma no_clash:
  assumes "identity_held u d" and "us_ID v = us_ID u" and "us_Email v = us_Email u" and "us_Phone v = us_Phone u"
  shows "unique_clash v (filter (\<lambda>r. us_ID r \<noteq> us_ID v) (tb_users d)) = None"
proof -
  obtain r where r: "r \<in> set (tb_users d)" "us_ID r = us_ID u" "us_Email r = us_Email u" "us_Phone r = us_Phone u"
    using assms(1) by (auto simp: identity_held_def)
  have apart: "f r \<notin> f ` set (filter (\<lambda>x. us_ID x \<noteq> us_ID r) (tb_users d))"
    if "distinct_present (map f (tb_users d))" "f r \<noteq> None" for f :: "v2_User \<Rightarrow> string option"
  proof
    assume "f r \<in> f ` set (filter (\<lambda>x. us_ID x \<noteq> us_ID r) (tb_users d))"
    then obtain x where x: "x \<in> set (tb_users d)" "us_ID x \<noteq> us_ID r" "f x = f r" by auto
    obtain ys zs where xs: "tb_users d = ys @ r # zs" using r(1) by (meson split_list)
    then have "x \<in> set ys \<union> set zs" using x by auto
    then show False using that x(3) xs by (auto simp: distinct_present_def) (metis imageI)+
  qed
  have "distinct_present (map us_Email (tb_users d))" "distinct_present (map us_Phone (tb_users d))"
    using assms(1) by (simp_all add: identity_held_def v2_db_ok_def)
  from this [THEN apart] show ?thesis
    unfolding unique_clash_None using assms(2-4) r(2-4) by simp
qed

lemma identity_held_save:
  assumes "identity_held u d" and "us_ID v = us_ID u" and "us_Email v = us_Email u" and "us_Phone v = us_Phone u"
  shows "sql_save_user v t d =
      (Ok (), d\<lparr>tb_users := map (\<lambda>r. if us_ID r = us_ID u then v\<lparr>us_UpdatedAt := t_now t\<rparr> else r) (tb_users d)\<rparr>)"
    and "identity_held u (snd (sql_save_user v t d))"
proof -
  have "us_ID v \<in> us_ID ` set (tb_users d)" using assms(1,2) by (auto simp: identity_held_def)
  then show save: "sql_save_user v t d =
      (Ok (), d\<lparr>tb_users := map (\<lambda>r. if us_ID r = us_ID u then v\<lparr>us_UpdatedAt := t_now t\<rparr> else r) (tb_users d)\<rparr>)"
    using no_clash [OF assms] assms(2) by (simp add: sql_save_user_def sql_update_users_def)
  have "v2_db_ok (snd (sql_save_user v t d))" using assms(1) by (simp add: identity_held_def v2_db_ok_save)
  moreover obtain r where "r \<in> set (tb_users d)" "us_ID r = us_ID u" using assms(1) by (auto simp: identity_held_def)
  then have "v\<lparr>us_UpdatedAt := t_now t\<rparr> \<in> set (tb_users (snd (sql_save_user v t d)))"
    by (auto simp: save intro: rev_image_eqI)
  then have "(us_ID u, us_Email u, us_Phone u) \<in>
      (\<lambda>r. (us_ID r, us_Email r, us_Phone r)) ` set (tb_users (snd (sql_save_user v t d)))"
    by (rule rev_image_eqI) (simp add: assms(2-4))
  ultimately show "identity_held u (snd (sql_save_user v t d))" by (simp add: identity_held_def)
qed

lemma keeps_identity [keeps_rules]:
  "keeps (v2_safe E (identity_held u) (\<lambda>_. True)) (users_ResetFailedLogin E i)"
  "keeps (v2_safe E (identity_held u) (\<lambda>_. True)) (v2_audit E j a r ip ua st ds n)"
  "keeps (v2_safe E (identity_held u) (\<lambda>_. True)) (sessions_CountActive E i)"
  "keeps (v2_safe E (identity_held u) (\<lambda>_. True)) (sessions_Create E s)"
proof -
  have update: "identity_held u (snd (sql_update_users P f t d))" if "identity_held u d" "same_identity f" for P f t d
  proof -
    have "map (\<lambda>r. (us_ID r, us_Email r, us_Phone r)) (tb_users (snd (sql_update_users P f t d)))
        = map (\<lambda>r. (us_ID r, us_Email r, us_Phone r)) (tb_users d)"
      using that(2) by (simp add: sql_update_users_def same_identity_def)
    then have "(\<lambda>r. (us_ID r, us_Email r, us_Phone r)) ` set (tb_users (snd (sql_update_users P f t d)))
        = (\<lambda>r. (us_ID r, us_Email r, us_Phone r)) ` set (tb_users d)" by (simp only: set_map [symmetric])
    with that v2_db_ok_update [of d f P t] show ?thesis by (simp add: identity_held_def)
  qed
  have others: "identity_held u (snd (sql_insert_audit x t d))" "identity_held u (snd (sql_insert_session s t d))"
    "identity_held u (snd (sql_count tb_sessions P t d))" if "identity_held u d" for x s t P d
  proof -
    have ok: "v2_db_ok d" using that by (simp add: identity_held_def)
    show "identity_held u (snd (sql_insert_audit x t d))"
      by (rule identity_held_users [OF that schema.insert_audit [OF ok]]) (simp add: sql_insert_audit_def)
    show "identity_held u (snd (sql_insert_session s t d))"
      by (rule identity_held_users [OF that schema.insert_session [OF TrueI ok]]) (simp add: sql_insert_session_def)
    show "identity_held u (snd (sql_count tb_sessions P t d))" using that by (simp add: sql_count_def)
  qed
  show "keeps (v2_safe E (identity_held u) (\<lambda>_. True)) (users_ResetFailedLogin E i)"
    "keeps (v2_safe E (identity_held u) (\<lambda>_. True)) (v2_audit E j a r ip ua st ds n)"
    "keeps (v2_safe E (identity_held u) (\<lambda>_. True)) (sessions_CountActive E i)"
    "keeps (v2_safe E (identity_held u) (\<lambda>_. True)) (sessions_Create E s)"
    unfolding users_ResetFailedLogin_def v2_audit_def audits_Log_def audits_Save_def sessions_CountActive_def
      sessions_Create_def
    by (intro keeps_rules keeps_db_run; simp add: update others same_identity_def)+
qed

lemma keeps_identity_save:
  assumes "us_ID v = us_ID u" and "us_Email v = us_Email u" and "us_Phone v = us_Phone u"
  shows "keeps (v2_safe E (identity_held u) (\<lambda>_. True)) (users_Update E v)"
  unfolding users_Update_def
  by (intro keeps_db_run identity_held_save) (simp_all add: v2_user_row_def assms)

lemma keeps_identity_gate: "keeps (v2_safe E (identity_held u) (\<lambda>_. True)) (mfa_gate E u c ip ua)"
  unfolding mfa_gate_def ValidateTOTP_def verifyBackupCode_def Let_def
  by (intro keeps_rules keeps_identity_save) simp_all

lemma v2_audit_users:
  "v2_audit E i a r ip ua st ds n w = (x, w') \<Longrightarrow> tb_users (v_db w') = tb_users (v_db w)"
  by (auto simp: v2_audit_def audits_Log_def audits_Save_def run_db_def execute_def sql_insert_audit_def
      go_ignore_def go_bind_def go_try_def split: prod.splits option.splits fault.splits if_splits)

text \<open>What issuing tokens saves is the user as it was given.\<close>

lemma issued_user:
  assumes up: "db_up E" and held: "identity_held v (v_db w)" and issue: "issueTokens E v dev ip ua b w = (Ok resp, w')"
  shows "\<exists>now. us_ID v \<in> us_ID ` set (tb_users (v_db w')) \<and> (\<forall>r \<in> set (tb_users (v_db w')). us_ID r = us_ID v \<longrightarrow>
    (\<exists>t. r = (v2_user_row E (v\<lparr>us_LastLoginAt := Some now, us_LastLoginIP := Some ip\<rparr>))\<lparr>us_UpdatedAt := t\<rparr>))"
proof (rule issueTokens_Ok [OF issue])
  fix n w1 w2 w3 s
  assume count: "go_try (sessions_CountActive E (us_ID v)) (\<lambda>_. go_return 0) go_return w = (Ok n, w1)"
    and db: "v_db w2 = v_db w1" and create: "sessions_Create E s w2 = (Ok (), w3)"
    and rest: "\<exists>now x w4. tr_User resp = Some (v\<lparr>us_LastLoginAt := Some now, us_LastLoginIP := Some ip\<rparr>)
       \<and> users_Update E (v\<lparr>us_LastLoginAt := Some now, us_LastLoginIP := Some ip\<rparr>) (w3\<lparr>v_clock := v_clock w3 + 1\<rparr>) = (x, w4)
       \<and> v2_audit E (Some (us_ID v)) ''login'' ''user'' ip ua ''success'' [] 0 w4 = (Ok (), w')"
  let ?safe = "v2_safe E (identity_held v) (\<lambda>_. True)"
  have "?safe w" using held by (simp add: v2_safe_def)
  moreover have "keeps ?safe (go_try (sessions_CountActive E (us_ID v)) (\<lambda>_. go_return 0) go_return)"
    by (intro keeps_rules)
  ultimately have "?safe w1" using count by (metis keepsD)
  then have "?safe w2" using db by (simp add: v2_safe_def)
  then have held3: "identity_held v (v_db w3)" using keepsD [OF keeps_identity(4) _ create] by (simp add: v2_safe_def)
  obtain now x w4 where upd: "users_Update E (v\<lparr>us_LastLoginAt := Some now, us_LastLoginIP := Some ip\<rparr>) (w3\<lparr>v_clock := v_clock w3 + 1\<rparr>) = (x, w4)"
    and aud: "v2_audit E (Some (us_ID v)) ''login'' ''user'' ip ua ''success'' [] 0 w4 = (Ok (), w')" using rest by blast
  let ?v = "v2_user_row E (v\<lparr>us_LastLoginAt := Some now, us_LastLoginIP := Some ip\<rparr>)"
  let ?t = "v2_turn E (v_stmts w3)"
  have "us_ID ?v = us_ID v" "us_Email ?v = us_Email v" "us_Phone ?v = us_Phone v" by (simp_all add: v2_user_row_def)
  moreover have "us_ID v \<in> us_ID ` set (tb_users (v_db w3))" using held3 by (auto simp: identity_held_def)
  ultimately have "tb_users (v_db w4) = map (\<lambda>r. if us_ID r = us_ID v then ?v\<lparr>us_UpdatedAt := t_now ?t\<rparr> else r) (tb_users (v_db w3))"
    using upd identity_held_save(1) [OF held3, of ?v ?t] by (auto simp: users_Update_def run_db_up [OF up])
  then have users: "tb_users (v_db w') =
      map (\<lambda>r. if us_ID r = us_ID v then ?v\<lparr>us_UpdatedAt := t_now ?t\<rparr> else r) (tb_users (v_db w3))"
    using v2_audit_users [OF aud] by simp
  then have "map us_ID (tb_users (v_db w')) = map us_ID (tb_users (v_db w3))"
    using \<open>us_ID ?v = us_ID v\<close> by simp
  then have "us_ID v \<in> us_ID ` set (tb_users (v_db w'))"
    using \<open>us_ID v \<in> us_ID ` set (tb_users (v_db w3))\<close> by (metis set_map)
  with users show ?thesis by (intro exI [of _ now]) auto
qed

text \<open>
  C39: A login that returns tokens writes the user back as it was read before the failures were
  reset: while the database answers, the stored count of failed logins and the end of the last
  lockout are afterwards what they were before the login, so failures add up over successful
  logins.
\<close>

theorem login_keeps_failures:
  assumes up: "db_up E" and ok: "v2_db_ok (v_db w)"
    and login: "v2_Login E req ip ua w = (Ok resp, w')" "\<not> tr_MFARequired resp"
  shows "\<exists>u \<in> set (tb_users (v_db w)). identified_by (li_Identifier req) u
    \<and> (\<exists>r \<in> set (tb_users (v_db w')). us_ID r = us_ID u)
    \<and> (\<forall>r \<in> set (tb_users (v_db w')). us_ID r = us_ID u \<longrightarrow>
         us_FailedLoginCount r = us_FailedLoginCount u \<and> us_LockedUntil r = map_option (v2_stamp E) (us_LockedUntil u))"
  using login(1)
proof (rule Login_steps)
  fix u w1 w2 w3 passed w4 x
  assume find: "users_GetByIdentifier E (li_Identifier req) w = (Ok u, w1)"
    and lock: "is_locked E u w1 = (Ok False, w2)"
    and reset: "users_ResetFailedLogin E (us_ID u) w2 = (x, w3)"
    and gate: "mfa_gate E u (li_MFACode req) ip ua w3 = (Ok passed, w4)"
    and asked: "passed = None \<Longrightarrow> resp = no_response\<lparr>tr_MFARequired := True\<rparr> \<and> w' = w4"
    and issue: "\<And>v. passed = Some v \<Longrightarrow> issueTokens E v (li_DeviceInfo req) ip ua True w4 = (Ok resp, w')"
  let ?safe = "v2_safe E (identity_held u) (\<lambda>_. True)"
  have user: "u \<in> set (tb_users (v_db w))" "identified_by (li_Identifier req) u" "v_db w1 = v_db w"
    using GetByIdentifier_Ok [OF find] by simp_all
  have "v_db w2 = v_db w1" using lock by (auto simp: is_locked_def split: option.splits)
  with user ok have "?safe w2" by (auto simp: v2_safe_def identity_held_def)
  then have "?safe w3" using keepsD [OF keeps_identity(1) _ reset] by blast
  then have "?safe w4" using keepsD [OF keeps_identity_gate _ gate] by blast
  obtain v where v: "passed = Some v" using asked login(2) by (cases passed) (auto simp: no_response_def)
  then have same: "v = u\<lparr>us_MFABackupCodes := us_MFABackupCodes v\<rparr>" using mfa_gate_Ok(2) [OF gate] by blast
  have ids: "us_ID v = us_ID u" "us_Email v = us_Email u" "us_Phone v = us_Phone u"
    "us_FailedLoginCount v = us_FailedLoginCount u" "us_LockedUntil v = us_LockedUntil u"
    by (subst same, simp)+
  with \<open>?safe w4\<close> have "identity_held v (v_db w4)" by (simp add: v2_safe_def identity_held_def)
  from issued_user [OF up this issue [OF v]] obtain now where
    there: "us_ID v \<in> us_ID ` set (tb_users (v_db w'))"
    and rows: "\<And>r. r \<in> set (tb_users (v_db w')) \<Longrightarrow> us_ID r = us_ID v \<Longrightarrow>
      \<exists>t. r = (v2_user_row E (v\<lparr>us_LastLoginAt := Some now, us_LastLoginIP := Some ip\<rparr>))\<lparr>us_UpdatedAt := t\<rparr>" by blast
  have "us_FailedLoginCount r = us_FailedLoginCount u \<and> us_LockedUntil r = map_option (v2_stamp E) (us_LockedUntil u)"
    if "r \<in> set (tb_users (v_db w'))" "us_ID r = us_ID u" for r
    using rows [of r] that ids by (auto simp: v2_user_row_def)
  with user there ids show ?thesis by (intro bexI [of _ u]) auto
qed


section \<open>Refreshing\<close>

definition jwt_signs :: "'r v2_env \<Rightarrow> bool" where
  "jwt_signs E \<longleftrightarrow> (\<forall>secret c. v2_jwt_Sign E secret c \<noteq> None)"

text \<open>A refresh token in its time, for a session that is open and a user that is there.\<close>

definition refreshable :: "'r v2_env \<Rightarrow> v2_Claims \<Rightarrow> v2_db \<Rightarrow> int \<Rightarrow> int \<Rightarrow> bool" where
  "refreshable E c d t1 t2 \<longleftrightarrow>
     cl_TokenType c = ''refresh'' \<and> cl_Issuer c = Issuer (cfg_JWT (v2_cfg E))
   \<and> cl_NotBefore c \<le> unix_of t1 \<and> unix_of t1 < cl_ExpiresAt c
   \<and> (\<exists>s \<in> set (tb_sessions d). ss_ID s = cl_SessionID c \<and> ss_IsActive s \<and> t2 \<le> ss_ExpiresAt s)
   \<and> (\<exists>u \<in> set (tb_users d). us_ID u = cl_UserID c \<and> live u)"

lemma GenerateRefreshToken_signs:
  "jwt_signs E \<Longrightarrow> \<exists>t w'. GenerateRefreshToken E m i j w = (Ok t, w') \<and> v_db w' = v_db w \<and> v_clock w' = v_clock w + 1"
  by (auto simp: GenerateRefreshToken_def SignedString_def jwt_signs_def split: option.splits)

lemma GenerateAccessToken_signs:
  "jwt_signs E \<Longrightarrow> \<exists>t w'. GenerateAccessToken E m i j r e p b w = (Ok t, w') \<and> v_db w' = v_db w \<and> v_clock w' = v_clock w + 1"
  by (auto simp: GenerateAccessToken_def SignedString_def jwt_signs_def split: option.splits)

lemma refresh_run:
  assumes up: "db_up E" and jwt: "v2_jwt_roundtrip E" "jwt_signs E" and ok: "v2_db_ok (v_db w)"
    and token: "v2_jwt_Sign E (RefreshSecret (cfg_JWT (v2_cfg E))) c = Some t"
    and can: "refreshable E c (v_db w) (v2_now E (v_clock w)) (v2_now E (v_clock w + 1))"
  obtains resp w' now where "v2_RefreshToken E t w = (Ok resp, w')" and "tr_SessionID resp = cl_SessionID c"
    and "v_db w' = (v_db w)\<lparr>tb_sessions := map (\<lambda>s. if ss_ID s = cl_SessionID c then s\<lparr>ss_LastSeenAt := now\<rparr> else s)
           (tb_sessions (v_db w))\<rparr>"
    and "v_clock w' = v_clock w + 5"
proof -
  obtain s u where s: "s \<in> set (tb_sessions (v_db w))" "ss_ID s = cl_SessionID c" "ss_IsActive s"
      "v2_now E (v_clock w + 1) \<le> ss_ExpiresAt s"
    and u: "u \<in> set (tb_users (v_db w))" "us_ID u = cl_UserID c" "live u"
    using can by (auto simp: refreshable_def)
  let ?w1 = "w\<lparr>v_clock := Suc (v_clock w)\<rparr>"
  have parse: "ParseRefreshToken E (v2_jwt E) t w = (Ok c, ?w1)"
    unfolding ParseRefreshToken_def using can token
    by (subst parse_signed [OF jwt(1)]) (simp_all add: refreshable_def v2_jwt_def NewManager_def)
  let ?w2 = "?w1\<lparr>v_stmts := Suc (v_stmts w)\<rparr>"
  have "sql_first tb_sessions ss_ID (\<lambda>x. ss_ID x = cl_SessionID c \<and> ss_IsActive x) q (v_db w) = (Ok s, v_db w)" for q
    using ok s by (intro sole_row) (auto simp: v2_db_ok_def)
  then have session: "sessions_GetByID E (cl_SessionID c) ?w1 = (Ok s, ?w2)"
    by (simp add: sessions_GetByID_def run_db_up [OF up])
  let ?w3 = "w\<lparr>v_stmts := Suc (v_stmts w), v_clock := Suc (Suc (v_clock w))\<rparr>"
  let ?w4 = "w\<lparr>v_clock := Suc (Suc (v_clock w)), v_stmts := Suc (Suc (v_stmts w))\<rparr>"
  have "sql_first tb_users us_ID (\<lambda>x. us_ID x = cl_UserID c \<and> live x) q (v_db w) = (Ok u, v_db w)" for q
    using ok u by (intro sole_row) (auto simp: v2_db_ok_def)
  then have user: "users_GetByID E (cl_UserID c) ?w3 = (Ok u, ?w4)"
    by (simp add: users_GetByID_def run_db_up [OF up])
  obtain r w5 where refresh: "GenerateRefreshToken E (v2_jwt E) (us_ID u) (ss_ID s) ?w4 = (Ok r, w5)"
    and w5: "v_db w5 = v_db w" "v_clock w5 = v_clock w + 3"
    using GenerateRefreshToken_signs [OF jwt(2), of "v2_jwt E" "us_ID u" "ss_ID s" ?w4] by auto
  obtain a w6 where access: "GenerateAccessToken E (v2_jwt E) (us_ID u) (ss_ID s) (us_Role u) (us_Email u) (us_Phone u) True w5
      = (Ok a, w6)" and w6: "v_db w6 = v_db w" "v_clock w6 = v_clock w + 4"
    using GenerateAccessToken_signs [OF jwt(2), of "v2_jwt E" "us_ID u" "ss_ID s" "us_Role u" "us_Email u" "us_Phone u" True w5] w5
    by auto
  let ?now = "v2_stamp E (v2_now E (v_clock w + 4))"
  let ?d = "(v_db w)\<lparr>tb_sessions := map (\<lambda>x. if ss_ID x = ss_ID s then x\<lparr>ss_LastSeenAt := ?now\<rparr> else x) (tb_sessions (v_db w))\<rparr>"
  let ?w7 = "w6\<lparr>v_clock := v_clock w + 5, v_stmts := v_stmts w6 + 1, v_db := ?d\<rparr>"
  have touch: "sessions_Touch E (ss_ID s) w6 = (Ok (), ?w7)"
    using w6 by (simp add: sessions_Touch_def run_db_up [OF up] sql_update_sessions_def)
  let ?resp = "no_response\<lparr>tr_AccessToken := a, tr_RefreshToken := r, tr_TokenType := ''Bearer'',
     tr_ExpiresIn := v2_Seconds E (accessExpiry (v2_jwt E)), tr_SessionID := ss_ID s\<rparr>"
  have "v2_RefreshToken E t w = (Ok ?resp, ?w7)"
    using s(3,4) by (simp add: v2_RefreshToken_def parse session user refresh access touch)
  then show thesis by (rule that) (simp_all add: s(2))
qed

text \<open>
  C40: A refresh token is not rotated: a refresh changes nothing but the time the session was
  last seen, so the same token is accepted again as long as it and its session have not
  expired.
\<close>

theorem refresh_token_reusable:
  assumes up: "db_up E" and jwt: "v2_jwt_roundtrip E" "jwt_signs E" and ok: "v2_db_ok (v_db w)"
    and token: "v2_jwt_Sign E (RefreshSecret (cfg_JWT (v2_cfg E))) c = Some t"
    and first: "refreshable E c (v_db w) (v2_now E (v_clock w)) (v2_now E (v_clock w + 1))"
    and second: "refreshable E c (v_db w) (v2_now E (v_clock w + 5)) (v2_now E (v_clock w + 6))"
  shows "\<exists>resp w1 resp' w2. v2_RefreshToken E t w = (Ok resp, w1) \<and> v2_RefreshToken E t w1 = (Ok resp', w2)
    \<and> tr_SessionID resp = cl_SessionID c \<and> tr_SessionID resp' = cl_SessionID c
    \<and> (\<exists>now. v_db w1 = (v_db w)\<lparr>tb_sessions :=
         map (\<lambda>s. if ss_ID s = cl_SessionID c then s\<lparr>ss_LastSeenAt := now\<rparr> else s) (tb_sessions (v_db w))\<rparr>)"
proof -
  obtain resp w1 now where run: "v2_RefreshToken E t w = (Ok resp, w1)" "tr_SessionID resp = cl_SessionID c"
    and db: "v_db w1 = (v_db w)\<lparr>tb_sessions := map (\<lambda>s. if ss_ID s = cl_SessionID c then s\<lparr>ss_LastSeenAt := now\<rparr> else s)
           (tb_sessions (v_db w))\<rparr>"
    and clock: "v_clock w1 = v_clock w + 5"
    by (rule refresh_run [OF up jwt ok token first])
  have "v2_db_ok (v_db w1)"
    using schema.touch_sessions [OF ok, of "\<lambda>s. ss_ID s = cl_SessionID c" now] by (simp add: db sql_update_sessions_def)
  moreover have "refreshable E c (v_db w1) (v2_now E (v_clock w1)) (v2_now E (v_clock w1 + 1))"
  proof -
    have six: "v_clock w1 + 1 = v_clock w + 6" by (simp add: clock)
    obtain s where "s \<in> set (tb_sessions (v_db w))" "ss_ID s = cl_SessionID c" "ss_IsActive s"
      "v2_now E (v_clock w + 6) \<le> ss_ExpiresAt s" using second by (auto simp: refreshable_def)
    then have "\<exists>s \<in> set (tb_sessions (v_db w1)). ss_ID s = cl_SessionID c \<and> ss_IsActive s
        \<and> v2_now E (v_clock w + 6) \<le> ss_ExpiresAt s"
      by (intro bexI [of _ "s\<lparr>ss_LastSeenAt := now\<rparr>"]) (auto simp: db)
    moreover have "tb_users (v_db w1) = tb_users (v_db w)" by (simp add: db)
    ultimately show ?thesis using second unfolding six unfolding clock refreshable_def by simp
  qed
  ultimately obtain resp' w2 where "v2_RefreshToken E t w1 = (Ok resp', w2)" "tr_SessionID resp' = cl_SessionID c"
    using refresh_run [OF up jwt _ token] by metis
  with run db show ?thesis by blast
qed

text \<open>
  After any calls of the service, with any faults of the database, the keys, unique columns
  and references of the schema hold in the tables.
\<close>

lemma v2_schema_holds:
  assumes "v2_db_ok (v_db w)"
  shows "v2_db_ok (v_db (performed E calls w))"
  using schema.performed_safe [of E w calls] assms by (simp add: v2_safe_def)


section \<open>A concrete run\<close>

definition v2_demo_login :: v2_LoginRequest where
  "v2_demo_login = \<lparr>li_Identifier = ''a@b.io'', li_Password = ''hunter22'', li_MFACode = None, li_DeviceInfo = ''d''\<rparr>"

lemma demo_v2_ok: "v2_db_ok (v_db demo_v2)"
  by (simp add: v2_db_ok_def distinct_present_def demo_v2_user_def demo_v2_session_def)

lemma demo_issue:
  assumes "tb_users (v_db w) = [u]" and "us_ID u = ''u1''" and "tb_sessions (v_db w) = [demo_v2_session]"
    and "tb_audit_logs (v_db w) = []" and "v_uuids w = 0" and "v_clock w = 0"
  shows "case fst (issueTokens demo_engine demo_v2_user d ip ua True w) of Ok resp \<Rightarrow> \<not> tr_MFARequired resp | _ \<Rightarrow> False"
  using assms
  by (simp add: issueTokens_def CountActive_up [OF demo_db_up] v2_demo_config_def demo_v2_session_def open_session_def
      GenerateTokenPair_def GenerateAccessToken_def GenerateRefreshToken_def SignedString_def v2_demo_Sign_def
      sessions_Create_def sql_insert_session_def session_row_def run_db_up [OF demo_db_up] demo_v2_user_def
      users_Update_def sql_save_user_def unique_clash_def v2_user_row_def v2_audit_def audits_Log_def audits_Save_def
      sql_insert_audit_def sql_update_users_def second_def Let_def)

lemma demo_logged_in_run:
  "case fst (v2_Login demo_engine v2_demo_login ''ip'' ''ua'' demo_v2) of Ok resp \<Rightarrow> \<not> tr_MFARequired resp | _ \<Rightarrow> False"
proof -
  let ?w1 = "demo_v2\<lparr>v_stmts := Suc 0\<rparr>"
  have find: "users_GetByIdentifier demo_engine (li_Identifier v2_demo_login) demo_v2 = (Ok demo_v2_user, ?w1)"
    by (simp add: users_GetByIdentifier_def sql_first_def run_db_up [OF demo_db_up] v2_demo_login_def identified_by_def
        live_def demo_v2_user_def)
  have lock: "is_locked demo_engine demo_v2_user ?w1 = (Ok False, ?w1)"
    by (simp add: is_locked_def demo_v2_user_def)
  have pw: "password_matches demo_engine demo_v2_user (li_Password v2_demo_login)" "us_Status demo_v2_user \<noteq> UserStatusSuspended"
    by (simp_all add: password_matches_def demo_v2_user_def v2_VerifyPassword_def v2_demo_login_def UserStatusSuspended_def)
  obtain w2 where reset: "users_ResetFailedLogin demo_engine (us_ID demo_v2_user) ?w1 = (Ok (), w2)"
    and w2: "tb_users (v_db w2) = [demo_v2_user\<lparr>us_FailedLoginCount := 0, us_LockedUntil := None, us_UpdatedAt := second\<rparr>]"
      "tb_sessions (v_db w2) = [demo_v2_session]" "tb_audit_logs (v_db w2) = []" "v_uuids w2 = 0" "v_clock w2 = 0"
    by (simp add: users_ResetFailedLogin_def run_db_up [OF demo_db_up] sql_update_users_def)
  have gate: "mfa_gate demo_engine demo_v2_user c ip ua w2 = (Ok (Some demo_v2_user), w2)" for c ip ua
    by (simp add: mfa_gate_def demo_v2_user_def)
  have "v2_Login demo_engine v2_demo_login ''ip'' ''ua'' demo_v2 =
      issueTokens demo_engine demo_v2_user (li_DeviceInfo v2_demo_login) ''ip'' ''ua'' True w2"
    by (simp add: v2_Login_def find lock pw reset gate)
  then show ?thesis
    using demo_issue [OF w2(1) _ w2(2-5)] by (simp add: demo_v2_user_def)
qed

lemma v2_demo_logged_in:
  "\<exists>resp w'. v2_Login demo_engine v2_demo_login ''ip'' ''ua'' demo_v2 = (Ok resp, w') \<and> \<not> tr_MFARequired resp"
  using demo_logged_in_run by (cases "v2_Login demo_engine v2_demo_login ''ip'' ''ua'' demo_v2") (auto split: outcome.splits)


theorem login_keeps_failures_witness:
  "\<exists>resp w'. v2_Login demo_engine v2_demo_login ''ip'' ''ua'' demo_v2 = (Ok resp, w')
     \<and> (\<forall>r \<in> set (tb_users (v_db w')). us_ID r = ''u1'' \<longrightarrow> us_FailedLoginCount r = 3)"
proof -
  obtain resp w' where run: "v2_Login demo_engine v2_demo_login ''ip'' ''ua'' demo_v2 = (Ok resp, w')" "\<not> tr_MFARequired resp"
    using v2_demo_logged_in by blast
  from login_keeps_failures [OF demo_db_up demo_v2_ok run] run(1) show ?thesis
    by (auto simp: demo_v2_user_def)
qed

theorem refresh_token_reusable_witness:
  "\<exists>resp w1 resp' w2. v2_RefreshToken demo_engine v2_demo_refresh demo_v2 = (Ok resp, w1)
     \<and> v2_RefreshToken demo_engine v2_demo_refresh w1 = (Ok resp', w2)"
proof -
  have "jwt_signs demo_engine" by (simp add: jwt_signs_def v2_demo_Sign_def)
  moreover have at: "refreshable demo_engine v2_demo_claims (v_db demo_v2) (int n * second) (int m * second)"
    if "n < 1000" "m < 1000" for n m
    using that by (simp add: refreshable_def v2_demo_claims_def v2_demo_config_def unix_of_def second_def demo_v2_session_def
        demo_v2_user_def live_def)
  have "refreshable demo_engine v2_demo_claims (v_db demo_v2) (v2_now demo_engine (v_clock demo_v2)) (v2_now demo_engine (v_clock demo_v2 + 1))"
    "refreshable demo_engine v2_demo_claims (v_db demo_v2) (v2_now demo_engine (v_clock demo_v2 + 5)) (v2_now demo_engine (v_clock demo_v2 + 6))"
    unfolding demo_engine_simps demo_v2_simps by (rule at; simp)+
  ultimately show ?thesis
    using refresh_token_reusable [OF demo_db_up v2_demo_jwt(1) _ demo_v2_ok v2_demo_refresh_signed] by blast
qed

lemma v2_schema_holds_witness:
  "v2_db_ok (v_db (performed demo_engine [CallLogin v2_demo_login ''ip'' ''ua'', CallLogoutAll ''u1''] demo_v2))"
  by (rule v2_schema_holds [OF demo_v2_ok])

end
