(* ===== verification/Legacy_Api.thy ===== *)
theory Legacy_Api
  imports Legacy_Http Legacy_Logins
begin

text \<open>
  Legacy auth engine: what the endpoints guarantee. Who reaches the administration, what a
  locked account can still do, and that no request breaks the schema.
\<close>

section \<open>Handlers on the engine\<close>

lemma on_engine_Ok [simp]: "m (gc_engine c) = (Ok x, w) \<Longrightarrow> on_engine m c = (Ok x, c\<lparr>gc_engine := w\<rparr>)"
  by (simp add: on_engine_def)

lemma on_engine_Err [simp]: "m (gc_engine c) = (Err e, w) \<Longrightarrow> on_engine m c = (Err e, c\<lparr>gc_engine := w\<rparr>)"
  by (simp add: on_engine_def)

lemma on_engine_OkE:
  assumes "on_engine m c = (Ok x, c')"
  obtains w where "m (gc_engine c) = (Ok x, w)" and "c' = c\<lparr>gc_engine := w\<rparr>"
  using assms by (auto simp: on_engine_def split: prod.splits)

lemma v2_JSON_apply [simp]:
  "\<exists>h. v2_JSON status body c = (Ok \<lparr>gp_Status = status, gp_Body = body, gp_Header = h\<rparr>, c\<lparr>gc_header := h\<rparr>)"
  by (simp add: v2_JSON_def v2_Header_def)

lemma v2_JSON_Ok:
  "v2_JSON status body c = (Ok rep, c') \<Longrightarrow>
   gp_Status rep = status \<and> gp_Body rep = body \<and> gc_engine c' = gc_engine c \<and> gc_keys c' = gc_keys c"
  by (auto simp: v2_JSON_def v2_Header_def)

text \<open>\<open>answers S h\<close>: the handler panics, or answers with a status in \<open>S\<close>; it never returns an error.\<close>

definition answers :: "int set \<Rightarrow> 'r v2_handler \<Rightarrow> bool" where
  "answers S h \<longleftrightarrow> (\<forall>c c' res. h c = (res, c') \<longrightarrow> res = Panic \<or> (\<exists>rep. res = Ok rep \<and> gp_Status rep \<in> S))"

named_theorems answers_rules "introduction rules for the statuses of a handler"

lemma answers_JSON [answers_rules]: "status \<in> S \<Longrightarrow> answers S (v2_JSON status body)"
  by (auto simp: answers_def v2_JSON_def v2_Header_def)

lemma answers_panic [answers_rules]: "answers S go_panic"
  by (simp add: answers_def)

lemma answers_try [answers_rules]:
  assumes "\<And>e. answers S (h e)" and "\<And>x. answers S (k x)"
  shows "answers S (go_try m h k)"
  unfolding answers_def
proof (intro allI impI)
  fix c c' res
  assume run: "go_try m h k c = (res, c')"
  obtain x d where m: "m c = (x, d)" by (cases "m c")
  show "res = Panic \<or> (\<exists>rep. res = Ok rep \<and> gp_Status rep \<in> S)"
  proof (cases x)
    case (Ok y)
    then show ?thesis using run m assms(2) [of y] by (simp add: answers_def)
  next
    case (Err e)
    then show ?thesis using run m assms(1) [of e] by (simp add: answers_def)
  next
    case Panic
    then show ?thesis using run m by simp
  qed
qed

lemma answers_ignore [answers_rules]: "answers S k \<Longrightarrow> answers S (go_ignore m k)"
  unfolding go_ignore_def by (intro answers_rules)

lemma answers_get [answers_rules]: "(\<And>c. answers S (k c)) \<Longrightarrow> answers S (go_get k)"
  by (simp add: answers_def)

lemma answers_now [answers_rules]: "(\<And>x. answers S (k x)) \<Longrightarrow> answers S (go_bind (on_engine (time_Now E)) k)"
  by (simp add: answers_def)

lemma answers_cases [answers_rules]:
  "answers S h \<Longrightarrow> answers S h' \<Longrightarrow> answers S (if b then h else h')"
  "answers S h0 \<Longrightarrow> (\<And>x. answers S (h1 x)) \<Longrightarrow> answers S (case opt of None \<Rightarrow> h0 | Some x \<Rightarrow> h1 x)"
  "(\<And>x. answers S (h2 x)) \<Longrightarrow> (\<And>x. answers S (h3 x)) \<Longrightarrow> answers S (case s of Inl x \<Rightarrow> h2 x | Inr x \<Rightarrow> h3 x)"
  "(\<And>x y. answers S (h4 x y)) \<Longrightarrow> answers S (case p of (x, y) \<Rightarrow> h4 x y)"
  by (simp_all split: option.split sum.split prod.split)

lemmas handler_parts = v2_param_id_def v2_bind_def v2_badRequest_def server_error_def v2_with_user_def

text \<open>The administration's handlers: they do not answer 401 or 403 themselves.\<close>

lemma admin_answers: "answers {200, 400, 404, 500} (admin_handler E N ep r)"
  unfolding admin_handler_def admin_ListUsers_def admin_GetUser_def UpdateUserStatus_def admin_LockUser_def
    UnlockUser_def DeleteUser_def GetUserSessions_def RevokeUserSessions_def GetUserAuditLog_def GetAuditLog_def
    GetStats_def handler_parts Let_def
  by (cases ep; simp only: v2_admin_endpoint.case) (intro answers_rules; simp)+

section \<open>The administration\<close>

text \<open>The token of the request, and whether its claims and the address open the administration.\<close>

definition bearer_token :: "v2_request \<Rightarrow> string option" where
  "bearer_token r =
     (case split_space (v2_GetHeader r ''Authorization'') of
        None \<Rightarrow> None
      | Some (scheme, token) \<Rightarrow> if EqualFold scheme ''bearer'' then Some token else None)"

definition token_claims :: "'r v2_env \<Rightarrow> string \<Rightarrow> int \<Rightarrow> v2_Claims option" where
  "token_claims E token now =
     (case v2_jwt_Parse E token (\<lambda>hmac. if hmac then Some (accessSecret (v2_jwt E)) else None) (unix_of now) of
        JwtParsed claims valid \<Rightarrow>
          if valid \<and> cl_TokenType claims = ''access'' \<and> cl_Issuer claims = issuer (v2_jwt E) then Some claims else None
      | _ \<Rightarrow> None)"

definition admin_admitted :: "'r v2_env \<Rightarrow> string list \<Rightarrow> v2_request \<Rightarrow> int \<Rightarrow> bool" where
  "admin_admitted E whitelist r now \<longleftrightarrow>
     (case Option.bind (bearer_token r) (\<lambda>t. token_claims E t now) of
        None \<Rightarrow> False
      | Some claims \<Rightarrow>
          cl_Role claims \<in> {''admin'', ''superadmin''} \<and> (whitelist = [] \<or> gq_ClientIP r \<in> set whitelist))"

lemma parse_access:
  "ParseAccessToken E (v2_jwt E) t w = (case token_claims E t (v2_now E (v_clock w)) of
     Some claims \<Rightarrow> (Ok claims, w\<lparr>v_clock := v_clock w + 1\<rparr>)
   | None \<Rightarrow> (Err (case v2_jwt_Parse E t (\<lambda>hmac. if hmac then Some (accessSecret (v2_jwt E)) else None)
                     (unix_of (v2_now E (v_clock w))) of JwtExpired \<Rightarrow> JwtErrExpiredToken | _ \<Rightarrow> JwtErrInvalidToken),
              w\<lparr>v_clock := v_clock w + 1\<rparr>))"
  by (simp add: ParseAccessToken_def parseToken_def token_claims_def split: jwt_result.splits)

lemma refused_reply:
  "\<exists>rep c'. v2_JSON status body c = (Ok rep, c') \<and> gp_Status rep = status \<and> gc_engine c' = gc_engine c"
  by (simp add: v2_JSON_def v2_Header_def)

lemma JWTAuth_run:
  "case Option.bind (bearer_token r) (\<lambda>t. token_claims E t (v2_now E (v_clock (gc_engine c)))) of
     None \<Rightarrow> \<exists>rep c'. JWTAuth E r rest c = (Ok rep, c') \<and> gp_Status rep = 401
       \<and> (gc_engine c' = gc_engine c \<or> gc_engine c' = (gc_engine c)\<lparr>v_clock := v_clock (gc_engine c) + 1\<rparr>)
   | Some claims \<Rightarrow> JWTAuth E r rest c =
       rest (c\<lparr>gc_engine := (gc_engine c)\<lparr>v_clock := v_clock (gc_engine c) + 1\<rparr>,
               gc_keys := (gc_keys c)\<lparr>ky_UserID := Some (cl_UserID claims), ky_SessionID := Some (cl_SessionID claims),
                 ky_Role := Some (cl_Role claims), ky_Claims := Some claims\<rparr>\<rparr>)"
proof (cases "bearer_token r")
  case None
  then have "\<exists>msg. JWTAuth E r rest = v2_JSON 401 (B_Error msg)"
    by (auto simp: JWTAuth_def bearer_token_def Let_def split: option.splits if_splits prod.splits)
  then show ?thesis using None refused_reply [of 401] by (auto simp: v2_JSON_def v2_Header_def)
next
  case (Some t)
  then have run: "JWTAuth E r rest = go_try (on_engine (ParseAccessToken E (v2_jwt E) t))
      (\<lambda>e. v2_JSON 401 (B_Error (v2_error_text e)))
      (\<lambda>claims. go_bind (v2_Set (\<lambda>k. k\<lparr>ky_UserID := Some (cl_UserID claims), ky_SessionID := Some (cl_SessionID claims),
                 ky_Role := Some (cl_Role claims), ky_Claims := Some claims\<rparr>)) (\<lambda>_. rest))"
    by (auto simp: JWTAuth_def bearer_token_def split_space_def Let_def split: option.splits if_splits prod.splits list.splits)
  show ?thesis
  proof (cases "token_claims E t (v2_now E (v_clock (gc_engine c)))")
    case None
    then show ?thesis using Some by (auto simp: run parse_access v2_JSON_def v2_Header_def)
  next
    case (Some claims)
    then show ?thesis using \<open>bearer_token r = Some t\<close> by (simp add: run parse_access v2_Set_def)
  qed
qed

text \<open>
  C28: The administration of the legacy engine. A request whose bearer token is not, at the
  moment it is checked, a valid access token with the role admin or superadmin, or whose
  address is not on a non-empty list, is answered with 401 or 403, and nothing but the clock
  has moved. Any other request is handled, and then never answered with 401 or 403; so who
  is admitted depends on the request and the clock alone, not on sessions or users: neither
  logging out nor locking or deleting the administrator takes effect before the token expires.
\<close>

theorem admin_admits_exactly:
  "(let (res, c') = admin_RegisterRoutes E N whitelist ep r c
    in if admin_admitted E whitelist r (v2_now E (v_clock (gc_engine c)))
       then res = Panic \<or> (\<exists>rep. res = Ok rep \<and> gp_Status rep \<in> {200, 400, 404, 500})
       else (\<exists>rep. res = Ok rep \<and> gp_Status rep \<in> {401, 403})
         \<and> (gc_engine c' = gc_engine c \<or> gc_engine c' = (gc_engine c)\<lparr>v_clock := v_clock (gc_engine c) + 1\<rparr>))"
proof -
  let ?next = "RequireRole [''admin'', ''superadmin''] (v2_IPWhitelist whitelist r (admin_handler E N ep r))"
  show ?thesis
  proof (cases "Option.bind (bearer_token r) (\<lambda>t. token_claims E t (v2_now E (v_clock (gc_engine c))))")
    case None
    then show ?thesis using JWTAuth_run [where E = E and r = r and c = c and rest = ?next] by (auto simp: admin_RegisterRoutes_def admin_admitted_def)
  next
    case (Some claims)
    let ?c = "c\<lparr>gc_engine := (gc_engine c)\<lparr>v_clock := v_clock (gc_engine c) + 1\<rparr>,
               gc_keys := (gc_keys c)\<lparr>ky_UserID := Some (cl_UserID claims), ky_SessionID := Some (cl_SessionID claims),
                 ky_Role := Some (cl_Role claims), ky_Claims := Some claims\<rparr>\<rparr>"
    have run: "admin_RegisterRoutes E N whitelist ep r c = ?next ?c"
      using JWTAuth_run [where E = E and r = r and c = c and rest = ?next] Some by (simp add: admin_RegisterRoutes_def)
    show ?thesis
    proof (cases "admin_admitted E whitelist r (v2_now E (v_clock (gc_engine c)))")
      case True
      then have "?next ?c = admin_handler E N ep r ?c"
        using Some by (auto simp: admin_admitted_def RequireRole_def v2_IPWhitelist_def)
      then show ?thesis
        using True admin_answers [of E N ep r] unfolding run answers_def by (auto split: prod.split)
    next
      case False
      then have "\<exists>body. ?next ?c = v2_JSON 403 body ?c"
        using Some by (auto simp: admin_admitted_def RequireRole_def v2_IPWhitelist_def Let_def)
      then show ?thesis
        using False unfolding run by (auto simp: v2_JSON_def v2_Header_def)
    qed
  qed
qed


section \<open>A locked account\<close>

text \<open>What locking an account has done while the database answers.\<close>

lemma LockUser_run:
  assumes up: "db_up E" and lock: "admin_LockUser E N r c = (Ok rep, c1)" and "gp_Status rep = 200"
    and i: "v2_uuid_Parse N (gq_ID r) = Some userID"
  obtains until w1 where "gp_Body rep = B_Locked ''account locked'' until"
    and "\<forall>x \<in> set (tb_users (v_db w1)). us_ID x = userID \<longrightarrow> us_LockedUntil x = Some (v2_stamp E until)"
    and "tb_sessions (v_db w1) = tb_sessions (v_db (gc_engine c))" and "v_uuids w1 = v_uuids (gc_engine c)"
    and "sessions_RevokeAll E userID w1 = (Ok (), gc_engine c1)"
proof -
  let ?d = "bd_lock N (gq_Body r)"
  obtain dur where dur: "(if ?d = ''permanent'' \<or> ?d = [] then Some hundred_years else v2_ParseDuration N ?d) = Some dur"
    using lock i assms(3) unfolding admin_LockUser_def v2_param_id_def Let_def
    by (auto split: option.splits dest: v2_JSON_Ok)
  let ?until = "v2_now E (v_clock (gc_engine c)) + dur"
  let ?w0 = "(gc_engine c)\<lparr>v_clock := v_clock (gc_engine c) + 1\<rparr>"
  let ?w1 = "snd (users_LockAccount E userID ?until ?w0)"
  have locked: "users_LockAccount E userID ?until ?w0 = (Ok (), ?w1)"
    by (simp add: users_LockAccount_def run_db_up [OF up] sql_update_users_def)
  obtain w2 where revoked: "sessions_RevokeAll E userID ?w1 = (Ok (), w2)" using RevokeAll_up [OF up] by blast
  have "v2_JSON 200 (B_Locked ''account locked'' ?until) (c\<lparr>gc_engine := w2\<rparr>) = (Ok rep, c1)"
    using lock i dur locked revoked by (simp add: admin_LockUser_def v2_param_id_def Let_def)
  then have "gp_Body rep = B_Locked ''account locked'' ?until" "gc_engine c1 = w2" by (auto dest: v2_JSON_Ok)
  moreover have users: "tb_users (v_db ?w1) =
      map (\<lambda>u. if us_ID u = userID then u\<lparr>us_LockedUntil := Some (v2_stamp E ?until), us_UpdatedAt := t_now (v2_turn E (v_stmts (gc_engine c)))\<rparr> else u)
        (tb_users (v_db (gc_engine c)))"
    by (simp add: users_LockAccount_def run_db_up [OF up] sql_update_users_def)
  have "us_LockedUntil x = Some (v2_stamp E ?until)" if "x \<in> set (tb_users (v_db ?w1))" "us_ID x = userID" for x
  proof -
    note x = that
    obtain u where "x = (if us_ID u = userID then u\<lparr>us_LockedUntil := Some (v2_stamp E ?until),
        us_UpdatedAt := t_now (v2_turn E (v_stmts (gc_engine c)))\<rparr> else u)"
      using x(1) unfolding users set_map by blast
    with x(2) show ?thesis by (cases "us_ID u = userID") simp_all
  qed
  moreover have "tb_sessions (v_db ?w1) = tb_sessions (v_db (gc_engine c))" "v_uuids ?w1 = v_uuids (gc_engine c)"
    by (simp_all add: users_LockAccount_def run_db_up [OF up] sql_update_users_def)
  ultimately show thesis using that [of ?until ?w1] revoked by simp
qed


lemma Login_locked:
  assumes up: "db_up E" and x: "x \<in> set (tb_users (v_db w))" "identified_by (li_Identifier req) x"
    and until: "\<And>x. x \<in> set (tb_users (v_db w)) \<Longrightarrow> identified_by (li_Identifier req) x \<Longrightarrow> us_LockedUntil x = Some until"
    and "v2_now E (v_clock w) < until"
  shows "\<exists>w'. v2_Login E req ip ua w = (Err ErrAccountLocked, w') \<and> v_db w' = v_db w"
proof -
  have "filter (identified_by (li_Identifier req)) (tb_users (v_db w)) \<noteq> []" using x by (auto simp: filter_empty_conv)
  then obtain u w1 where get: "users_GetByIdentifier E (li_Identifier req) w = (Ok u, w1)"
    by (cases "sort_key us_ID (filter (identified_by (li_Identifier req)) (tb_users (v_db w)))")
      (simp_all add: users_GetByIdentifier_def run_db_up [OF up] sql_first_def)
  note row = GetByIdentifier_Ok [OF get]
  have "us_LockedUntil u = Some until" using row(1,2) by (rule until)
  with row(3,4) assms(5) have "v2_Login E req ip ua w = (Err ErrAccountLocked, w1\<lparr>v_clock := v_clock w1 + 1\<rparr>)"
    by (simp add: v2_Login_def get is_locked_def)
  with row(3) show ?thesis by simp
qed



section \<open>Invariants of the tables\<close>

lemma keeps_attempt [keeps_rules]: "keeps I m \<Longrightarrow> keeps I (attempt m)"
  by (auto simp: keeps_def attempt_def split: outcome.splits prod.splits)

definition conn_safe :: "'r v2_env \<Rightarrow> (v2_db \<Rightarrow> bool) \<Rightarrow> (string \<Rightarrow> bool) \<Rightarrow> 'r v2_conn \<Rightarrow> bool" where
  "conn_safe E I ok c \<longleftrightarrow> v2_safe E I ok (gc_engine c)"

lemma keeps_on_engine [keeps_rules]: "keeps (v2_safe E I ok) m \<Longrightarrow> keeps (conn_safe E I ok) (on_engine m)"
  by (auto simp: keeps_def conn_safe_def on_engine_def split: prod.splits)

lemma keeps_JSON [keeps_rules]:
  "keeps (conn_safe E I ok) (v2_JSON status body)" "keeps (conn_safe E I ok) (v2_Header k v)"
  "keeps (conn_safe E I ok) (v2_Set f)" "keeps (conn_safe E I ok) (handleAuthError e)"
  by (auto simp: keeps_def conn_safe_def v2_JSON_def v2_Header_def v2_Set_def handleAuthError_def split: prod.splits)

lemma keeps_conn_sum [keeps_rules]:
  "(\<And>x. keeps J (h x)) \<Longrightarrow> (\<And>x. keeps J (k x)) \<Longrightarrow> keeps J (case s of Inl x \<Rightarrow> h x | Inr x \<Rightarrow> k x)"
  by (simp split: sum.split)

lemma keeps_window [keeps_rules]: "keeps (v2_safe E I ok) (window_hit E k n)"
  unfolding window_hit_def window_pipeline_def by (intro keeps_rules)

lemma keeps_limits [keeps_rules]:
  "keeps (conn_safe E I ok) h \<Longrightarrow> keeps (conn_safe E I ok) (RateLimiter_Limit E key n d r h)"
  unfolding RateLimiter_Limit_def by (intro keeps_rules)

lemma keeps_JWTAuth [keeps_rules]:
  "keeps (conn_safe E I ok) h \<Longrightarrow> keeps (conn_safe E I ok) (JWTAuth E r h)"
  unfolding JWTAuth_def ParseAccessToken_def by (intro keeps_rules)

text \<open>One request to any of the routes, and a run of requests.\<close>

datatype v2_route = HealthRoute | AuthRoute v2_auth_endpoint | AdminRoute v2_admin_endpoint | KeyRoute v2_key_endpoint

definition v2_serve :: "'r v2_env \<Rightarrow> v2_codec \<Rightarrow> string list \<Rightarrow> v2_route \<times> v2_request \<Rightarrow> 'r v2_handler" where
  "v2_serve E N whitelist q = (case q of (route, r) \<Rightarrow> v2_router E N r (case route of
     HealthRoute \<Rightarrow> v2_Health E
   | AuthRoute ep \<Rightarrow> auth_RegisterRoutes E N ep r
   | AdminRoute ep \<Rightarrow> admin_RegisterRoutes E N whitelist ep r
   | KeyRoute ep \<Rightarrow> apikey_RegisterRoutes E N ep r))"

definition v2_served :: "'r v2_env \<Rightarrow> v2_codec \<Rightarrow> string list \<Rightarrow> (v2_route \<times> v2_request) list \<Rightarrow> 'r v2_conn \<Rightarrow> 'r v2_conn" where
  "v2_served E N whitelist qs c = fold (\<lambda>q c. snd (v2_serve E N whitelist q c)) qs c"

lemma keeps_v2_router:
  assumes "keeps (conn_safe E I ok) h"
  shows "keeps (conn_safe E I ok) (v2_router E N r h)"
proof -
  have headers: "keeps (conn_safe E I ok) (v2_set_headers hs)" for hs
    by (induction hs) (simp_all only: v2_set_headers.simps split_paired_all keeps_return keeps_bind keeps_JSON)
  have "keeps (conn_safe E I ok) (v2_cors_New N r h)"
    unfolding v2_cors_New_def by (intro keeps_rules headers assms)
  then have "keeps (conn_safe E I ok) (v2_RequestID E r (v2_Logger (v2_SecurityHeaders (v2_cors_New N r h))))"
    unfolding v2_RequestID_def v2_Logger_def v2_SecurityHeaders_def by (intro keeps_rules)
  moreover have "keeps J (v2_Recovery k)" if "keeps J k" for J and k :: "'r v2_handler"
    using that by (auto simp: keeps_def v2_Recovery_def split: prod.splits outcome.splits)
  ultimately show ?thesis
    unfolding v2_router_def by (intro keeps_rules) (simp_all add: conn_safe_def)
qed

context v2_invariant
begin

lemma keeps_auth_routes: "keeps (conn_safe E I ok) (auth_RegisterRoutes E N ep r)"
  unfolding auth_RegisterRoutes_def http_Register_def http_Login_def http_OAuthLogin_def http_FaceLogin_def
    http_RefreshToken_def http_SendOTP_def http_VerifyOTP_def http_ForgotPassword_def http_ResetPassword_def
    http_Logout_def http_LogoutAll_def http_Me_def http_EnableMFA_def http_ConfirmMFA_def http_DisableMFA_def
    http_EnrollFace_def handler_parts v2_validate_def v2_GetUser_def GetUserByIdentifier_def
  by (cases ep; simp only: v2_auth_endpoint.case) (intro keeps_rules keeps_logins keeps_accounts keeps_faces)+

lemma keeps_admin_routes: "keeps (conn_safe E I ok) (admin_RegisterRoutes E N whitelist ep r)"
proof -
  have "keeps (conn_safe E I ok) (admin_handler E N ep r)"
    unfolding admin_handler_def admin_ListUsers_def admin_GetUser_def UpdateUserStatus_def admin_LockUser_def
      UnlockUser_def DeleteUser_def GetUserSessions_def RevokeUserSessions_def GetUserAuditLog_def GetAuditLog_def
      GetStats_def GetUserHistory_def handler_parts
    by (cases ep; simp only: v2_admin_endpoint.case) (intro keeps_rules)+
  then show ?thesis
    unfolding admin_RegisterRoutes_def RequireRole_def v2_IPWhitelist_def by (intro keeps_rules)
qed

lemma keeps_key_routes: "keeps (conn_safe E I ok) (apikey_RegisterRoutes E N ep r)"
  unfolding apikey_RegisterRoutes_def http_CreateKey_def http_ListKeys_def http_RevokeKey_def apikey_Create_def
    apikey_List_def apikey_Revoke_def handler_parts
  by (cases ep; simp only: v2_key_endpoint.case) (intro keeps_rules)+

lemma keeps_serve: "keeps (conn_safe E I ok) (v2_serve E N whitelist q)"
  unfolding v2_serve_def v2_Health_def
  by (cases q; cases "fst q"; simp only: prod.case fst_conv v2_route.case)
    (intro keeps_v2_router keeps_auth_routes keeps_admin_routes keeps_key_routes keeps_rules)+

lemma served_safe: "conn_safe E I ok c \<Longrightarrow> conn_safe E I ok (v2_served E N whitelist qs c)"
proof (induction qs arbitrary: c)
  case (Cons q qs)
  have "conn_safe E I ok (snd (v2_serve E N whitelist q c))" using Cons.prems keeps_serve unfolding keeps_def by blast
  then show ?case using Cons.IH by (simp add: v2_served_def)
qed (simp add: v2_served_def)

end



section \<open>A concrete run\<close>

definition demo_v2_codec :: v2_codec where
  "demo_v2_codec = \<lparr>bd_register = (\<lambda>s. Inl ''bind''), bd_register_ok = (\<lambda>_. None),
     bd_login = (\<lambda>s. Inr \<lparr>li_Identifier = s, li_Password = ''hunter22'', li_MFACode = None, li_DeviceInfo = ''d''\<rparr>),
     bd_oauth = (\<lambda>s. Inl ''bind''), bd_oauth_ok = (\<lambda>_. None), bd_face = (\<lambda>s. Inl ''bind''), bd_refresh = Inr,
     bd_send = (\<lambda>s. Inl ''bind''), bd_verify = (\<lambda>s. Inl ''bind''), bd_forgot = Inr, bd_reset = (\<lambda>s. Inl ''bind''),
     bd_password = Inr, bd_code = Inr, bd_enroll = Inr, bd_status = Inr, bd_lock = (\<lambda>s. s),
     bd_key = (\<lambda>s. Inl ''bind''), v2_uuid_Parse = (\<lambda>s. if s = [] then None else Some s), v2_ParseDuration = (\<lambda>s. None),
     v2_cors = (\<lambda>r. ([], None))\<rparr>"

definition demo_v2_request :: "string \<Rightarrow> string \<Rightarrow> v2_request" where
  "demo_v2_request i body = \<lparr>gq_Header = [], gq_ID = i, gq_Query = [], gq_Body = body, gq_ClientIP = ''ip''\<rparr>"

definition demo_conn :: "demo_redis v2_conn" where
  "demo_conn = \<lparr>gc_engine = demo_v2, gc_header = [], gc_keys = no_keys\<rparr>"

definition demo_locked :: "demo_redis v2_conn" where
  "demo_locked = snd (admin_LockUser demo_engine demo_v2_codec (demo_v2_request ''u1'' []) demo_conn)"

lemma demo_lock:
  "\<exists>rep. admin_LockUser demo_engine demo_v2_codec (demo_v2_request ''u1'' []) demo_conn = (Ok rep, demo_locked)
     \<and> gp_Status rep = 200 \<and> gp_Body rep = B_Locked ''account locked'' hundred_years"
  "map us_ID (filter (identified_by ''a@b.io'') (tb_users (v_db (gc_engine demo_locked)))) = [''u1'']"
  "v_clock (gc_engine demo_locked) = 1" "v_uuids (gc_engine demo_locked) = 0"
  by (simp_all add: demo_locked_def admin_LockUser_def v2_param_id_def demo_v2_codec_def demo_v2_request_def demo_conn_def
      users_LockAccount_def sessions_RevokeAll_def run_db_up [OF demo_db_up] sql_update_users_def sql_update_sessions_def
      v2_JSON_def v2_Header_def identified_by_def live_def demo_v2_user_def on_engine_def)



end
