(* ===== verification/Legacy_Providers.thy ===== *)
theory Legacy_Providers
  imports Legacy_Auth
begin

text \<open>
  Legacy auth engine: the message providers (\<^verbatim>\<open>internal/providers/email.go\<close>, \<^verbatim>\<open>sms.go\<close>), the external
  identity services (\<^verbatim>\<open>external.go\<close>), and the part of \<^verbatim>\<open>internal/oauth/providers.go\<close> and
  \<^verbatim>\<open>internal/face/service.go\<close> that no other code calls. What is sent over the network is recorded;
  the network answers each step, given the steps before.
\<close>

section \<open>The network\<close>

datatype wire =
    SendGridMail string string string string string string string
  | SmtpDial string
  | SmtpClient string
  | SmtpAuth string string string
  | SmtpMail string
  | SmtpRcpt string
  | SmtpData
  | SmtpWrite string
  | SmtpClose
  | SmtpQuit
  | TwilioMessage string string string string string

type_synonym net = "wire list \<Rightarrow> wire \<Rightarrow> (string, int \<times> string) outcome"

type_synonym 'a mailing = "(wire list, v2_error, 'a) go"

definition on_wire :: "net \<Rightarrow> wire \<Rightarrow> (int \<times> string) mailing" where
  "on_wire net a log =
     (case net log a of Ok r \<Rightarrow> (Ok r, log @ [a]) | Err m \<Rightarrow> (Err (Plain m), log @ [a]) | Panic \<Rightarrow> (Panic, log @ [a]))"

text \<open>\<^verbatim>\<open>if err != nil { return fmt.Errorf("...: %w", err) }\<close> for one step.\<close>

definition wire_step :: "net \<Rightarrow> string \<Rightarrow> wire \<Rightarrow> unit mailing" where
  "wire_step net msg a = go_try (on_wire net a) (\<lambda>e. go_fail (Wrapped msg e)) (\<lambda>_. go_return ())"

text \<open>A deferred call: made whatever the outcome, its error dropped.\<close>

definition deferred :: "'a mailing \<Rightarrow> 'b mailing \<Rightarrow> 'a mailing" where
  "deferred m d s =
     (case m s of (r, s1) \<Rightarrow> (case d s1 of (Panic, s2) \<Rightarrow> (Panic, s2) | (_, s2) \<Rightarrow> (r, s2)))"


section \<open>Email\<close>

record v2_EmailConfig =
  em_Provider :: string
  em_From :: string
  em_FromName :: string
  em_SendGridAPIKey :: string
  em_AWSRegion :: string
  em_AWSAccessKey :: string
  em_AWSSecretKey :: string
  em_SMTPHost :: string
  em_SMTPPort :: int
  em_SMTPUsername :: string
  em_SMTPPassword :: string
  em_MailgunAPIKey :: string
  em_MailgunDomain :: string

datatype EmailProvider = SendGridProvider v2_EmailConfig | SESProvider | SMTPProvider v2_EmailConfig | MailgunProvider

definition NewEmailProvider :: "v2_EmailConfig \<Rightarrow> string + EmailProvider" where
  "NewEmailProvider cfg =
     (if em_Provider cfg = ''sendgrid'' then Inr (SendGridProvider cfg)
      else if em_Provider cfg = ''ses'' then Inr SESProvider
      else if em_Provider cfg = ''smtp'' then Inr (SMTPProvider cfg)
      else if em_Provider cfg = ''mailgun'' then Inr MailgunProvider
      else Inl (''unknown email provider: '' @ em_Provider cfg))"

definition SendGrid_Send :: "net \<Rightarrow> v2_EmailConfig \<Rightarrow> string \<Rightarrow> string \<Rightarrow> string \<Rightarrow> string \<Rightarrow> unit mailing" where
  "SendGrid_Send net cfg to subject htmlBody textBody =
     go_try (on_wire net (SendGridMail (em_SendGridAPIKey cfg) (em_FromName cfg) (em_From cfg) to subject textBody htmlBody))
       (\<lambda>e. go_fail (Wrapped ''sendgrid'' e))
       (\<lambda>(status, body).
          if status \<ge> 400 then go_fail (Plain (''sendgrid: status '' @ itoa status @ '': '' @ body))
          else go_return ())"

definition crlf :: string where
  "crlf = [CHR 13, CHR 10]"

definition buildMIMEMessage :: "string \<Rightarrow> string \<Rightarrow> string \<Rightarrow> string \<Rightarrow> string \<Rightarrow> string \<Rightarrow> string" where
  "buildMIMEMessage from0 fromName to subject html text0 =
     ''From: '' @ fromName @ '' <'' @ from0 @ ''>'' @ crlf @ ''To: '' @ to @ crlf @ ''Subject: '' @ subject @ crlf
     @ ''MIME-Version: 1.0'' @ crlf @ ''Content-Type: text/html; charset=UTF-8'' @ crlf @ crlf @ html"

definition SMTP_Send :: "net \<Rightarrow> v2_EmailConfig \<Rightarrow> string \<Rightarrow> string \<Rightarrow> string \<Rightarrow> string \<Rightarrow> unit mailing" where
  "SMTP_Send net cfg to subject htmlBody textBody =
     (let addr = em_SMTPHost cfg @ '':'' @ itoa (em_SMTPPort cfg);
          msg = buildMIMEMessage (em_From cfg) (em_FromName cfg) to subject htmlBody textBody
      in go_bind (wire_step net ''smtp tls dial'' (SmtpDial addr)) (\<lambda>_.
         go_bind (wire_step net ''smtp client'' (SmtpClient (em_SMTPHost cfg))) (\<lambda>_.
         deferred (
           go_bind (wire_step net ''smtp auth'' (SmtpAuth (em_SMTPUsername cfg) (em_SMTPPassword cfg) (em_SMTPHost cfg))) (\<lambda>_.
           go_bind (wire_step net ''smtp mail'' (SmtpMail (em_From cfg))) (\<lambda>_.
           go_bind (wire_step net ''smtp rcpt'' (SmtpRcpt to)) (\<lambda>_.
           go_bind (wire_step net ''smtp data'' SmtpData) (\<lambda>_.
           deferred (go_bind (on_wire net (SmtpWrite msg)) (\<lambda>_. go_return ())) (on_wire net SmtpClose))))))
         (on_wire net SmtpQuit))))"

definition Email_Send :: "net \<Rightarrow> EmailProvider \<Rightarrow> string \<Rightarrow> string \<Rightarrow> string \<Rightarrow> string \<Rightarrow> unit mailing" where
  "Email_Send net p to subject htmlBody textBody = (case p of
     SendGridProvider cfg \<Rightarrow> SendGrid_Send net cfg to subject htmlBody textBody
   | SESProvider \<Rightarrow> go_fail (Plain ''aws ses: configure AWS credentials and uncomment implementation'')
   | SMTPProvider cfg \<Rightarrow> SMTP_Send net cfg to subject htmlBody textBody
   | MailgunProvider \<Rightarrow> go_fail (Plain ''mailgun: add mailgun-go dependency to use this provider''))"

text \<open>The constants of the absent package, by the name after \<^verbatim>\<open>OTPPurpose\<close>.\<close>

record otp_purposes =
  pp_Login :: string
  pp_Register :: string
  pp_VerifyEmail :: string
  pp_VerifyPhone :: string
  pp_PasswordReset :: string
  pp_MFA :: string
  pp_Transaction :: string

definition purposeLabel :: "otp_purposes \<Rightarrow> string \<Rightarrow> string" where
  "purposeLabel P purpose =
     (case map_of [(pp_Login P, ''Sign In''), (pp_Register P, ''Registration''), (pp_VerifyEmail P, ''Email Verification''),
        (pp_VerifyPhone P, ''Phone Verification''), (pp_PasswordReset P, ''Password Reset''),
        (pp_MFA P, ''Two-Factor Authentication''), (pp_Transaction P, ''Transaction Authorization'')] purpose of
        None \<Rightarrow> ''Verification''
      | Some label \<Rightarrow> label)"

definition quoted :: "string \<Rightarrow> string" where
  "quoted s = CHR 34 # s @ [CHR 34]"

definition unlines :: "string list \<Rightarrow> string" where
  "unlines ls = concat (map (\<lambda>l. l @ [CHR 10]) (butlast ls)) @ last ls"

definition buildOTPEmail :: "otp_purposes \<Rightarrow> string \<Rightarrow> string \<Rightarrow> string \<times> string" where
  "buildOTPEmail P c purpose =
     (let label = purposeLabel P purpose
      in (''Your '' @ label @ '' Code: '' @ c,
          unlines
            [''<!DOCTYPE html>'', ''<html>'',
             ''<body style='' @ quoted ''font-family:sans-serif;max-width:600px;margin:0 auto;padding:20px'' @ ''>'',
             ''  <h2>'' @ label @ '' Code</h2>'',
             ''  <p>Your verification code is:</p>'',
             ''  <div style='' @ quoted (''font-size:36px;font-weight:bold;letter-spacing:8px;color:#2563eb;''
               @ ''padding:20px;background:#f3f4f6;border-radius:8px;text-align:center'') @ ''>'' @ c @ ''</div>'',
             ''  <p style='' @ quoted ''color:#6b7280;font-size:14px''
               @ ''>This code expires in 5 minutes. Do not share it with anyone.</p>'',
             ''</body>'', ''</html>'']))"

text \<open>\<^verbatim>\<open>strings.ReplaceAll\<close> for a text that is not empty.\<close>

fun ReplaceAll :: "string \<Rightarrow> string \<Rightarrow> string \<Rightarrow> string" where
  "ReplaceAll old new [] = []"
| "ReplaceAll old new (x # s) =
     (if old \<noteq> [] \<and> has_prefix (x # s) old then new @ ReplaceAll old new (drop (length old - 1) s)
      else x # ReplaceAll old new s)"

definition stripHTML :: "string \<Rightarrow> string" where
  "stripHTML h = ReplaceAll crlf [CHR 10] (ReplaceAll ''<br>'' [CHR 10] h)"

text \<open>The notifier; with a provider that could not be made, the call panics.\<close>

definition SendEmailOTP :: "net \<Rightarrow> otp_purposes \<Rightarrow> EmailProvider option \<Rightarrow> string \<Rightarrow> string \<Rightarrow> string \<Rightarrow> unit mailing" where
  "SendEmailOTP net P provider to c purpose =
     (let (subject, html) = buildOTPEmail P c purpose
      in case provider of
           None \<Rightarrow> go_panic
         | Some p \<Rightarrow> Email_Send net p to subject html (stripHTML html))"


section \<open>Text messages\<close>

record v2_SMSConfig =
  sm_Provider :: string
  sm_TwilioSID :: string
  sm_TwilioAuthToken :: string
  sm_TwilioFromNumber :: string
  sm_AWSSNSRegion :: string
  sm_AWSSNSAccessKey :: string
  sm_AWSSNSSecretKey :: string
  sm_VonageAPIKey :: string
  sm_VonageAPISecret :: string

datatype SMSProvider = TwilioProvider v2_SMSConfig | SNSProvider | VonageProvider

definition NewSMSProvider :: "v2_SMSConfig \<Rightarrow> string + SMSProvider" where
  "NewSMSProvider cfg =
     (if sm_Provider cfg = ''twilio'' then Inr (TwilioProvider cfg)
      else if sm_Provider cfg = ''aws_sns'' then Inr SNSProvider
      else if sm_Provider cfg = ''vonage'' then Inr VonageProvider
      else Inl (''unknown sms provider: '' @ sm_Provider cfg))"

definition SMS_Send :: "net \<Rightarrow> SMSProvider \<Rightarrow> string \<Rightarrow> string \<Rightarrow> unit mailing" where
  "SMS_Send net p to message = (case p of
     TwilioProvider cfg \<Rightarrow>
       wire_step net ''twilio send sms''
         (TwilioMessage (sm_TwilioSID cfg) (sm_TwilioAuthToken cfg) to (sm_TwilioFromNumber cfg) message)
   | SNSProvider \<Rightarrow> go_fail (Plain ''aws sns: configure AWS credentials and uncomment implementation'')
   | VonageProvider \<Rightarrow> go_fail (Plain ''vonage: add vonage-go-sdk dependency to use this provider''))"

text \<open>\<^verbatim>\<open>strings.Title\<close> on ASCII text; on other text it is the argument's.\<close>

definition word_char :: "char \<Rightarrow> bool" where
  "word_char x \<longleftrightarrow> is_digit x \<or> (65 \<le> code x \<and> code x \<le> 90) \<or> (97 \<le> code x \<and> code x \<le> 122) \<or> x = CHR ''_''"

definition upper_char :: "char \<Rightarrow> char" where
  "upper_char x = (if 97 \<le> code x \<and> code x \<le> 122 then byte (code x - 32) else x)"

fun title_from :: "bool \<Rightarrow> string \<Rightarrow> string" where
  "title_from start [] = []"
| "title_from start (x # s) = (if start then upper_char x else x) # title_from (\<not> word_char x) s"

definition go_Title :: "(string \<Rightarrow> string) \<Rightarrow> string \<Rightarrow> string" where
  "go_Title uni s = (if is_ascii s then title_from True s else uni s)"

definition buildSMSMessage :: "(string \<Rightarrow> string) \<Rightarrow> string \<Rightarrow> string \<Rightarrow> string" where
  "buildSMSMessage uni c purpose =
     ''[Auth] Your '' @ go_Title uni (ReplaceAll ''_'' '' '' purpose) @ '' code is: '' @ c
     @ ''. Expires in 5 minutes. Do not share.''"

definition SendSMSOTP :: "net \<Rightarrow> (string \<Rightarrow> string) \<Rightarrow> SMSProvider option \<Rightarrow> string \<Rightarrow> string \<Rightarrow> string \<Rightarrow> unit mailing" where
  "SendSMSOTP net uni provider to c purpose =
     (case provider of None \<Rightarrow> go_panic | Some p \<Rightarrow> SMS_Send net p to (buildSMSMessage uni c purpose))"


section \<open>External identity services\<close>

record fb_user =
  fb_DisplayName :: string
  fb_Email :: string
  fb_EmailVerified :: bool
  fb_PhoneNumber :: string
  fb_PhotoURL :: string

record fb_params =
  fp_Email :: "(string \<times> bool) option"
  fp_PhoneNumber :: "string option"
  fp_DisplayName :: string

text \<open>The client of Firebase, over states \<open>'f\<close>.\<close>

record ('f, 'c) firebase =
  fb_NewApp :: "string \<Rightarrow> string \<Rightarrow> string \<Rightarrow> ('f, string, unit) go"
  fb_Auth :: "('f, string, unit) go"
  fb_Verify :: "string \<Rightarrow> ('f, string, string) go"
  fb_GetUser :: "string \<Rightarrow> ('f, string, fb_user) go"
  fb_Create :: "fb_params \<Rightarrow> ('f, string, string) go"
  fb_Revoke :: "string \<Rightarrow> ('f, string, unit) go"
  fb_SetClaims :: "string \<Rightarrow> 'c \<Rightarrow> ('f, string, unit) go"

record FirebaseConfig =
  fc_Enabled :: bool
  fc_ProjectID :: string
  fc_StorageBucket :: string
  fc_ServiceAccount :: string

type_synonym ('f, 'a) ext = "('f, v2_error, 'a) go"

definition ext_call :: "('f, string, 'a) go \<Rightarrow> ('f, 'a) ext" where
  "ext_call m s = (case m s of (r, s') \<Rightarrow> (case r of Ok x \<Rightarrow> Ok x | Err e \<Rightarrow> Err (Plain e) | Panic \<Rightarrow> Panic, s'))"

definition ext_wrapped :: "string \<Rightarrow> ('f, string, 'a) go \<Rightarrow> ('f, 'a) ext" where
  "ext_wrapped msg m = go_try (ext_call m) (\<lambda>e. go_fail (Wrapped msg e)) go_return"

definition NewFirebaseProvider :: "('f, 'c) firebase \<Rightarrow> FirebaseConfig \<Rightarrow> ('f, FirebaseConfig) ext" where
  "NewFirebaseProvider F cfg =
     (if \<not> fc_Enabled cfg then go_fail (Plain ''firebase not enabled'')
      else
        go_bind (ext_wrapped ''firebase init'' (fb_NewApp F (fc_ProjectID cfg) (fc_StorageBucket cfg) (fc_ServiceAccount cfg))) (\<lambda>_.
        go_bind (ext_wrapped ''firebase auth client'' (fb_Auth F)) (\<lambda>_. go_return cfg)))"

definition firebase_VerifyIDToken :: "('f, 'c) firebase \<Rightarrow> string \<Rightarrow> ('f, v2_User) ext" where
  "firebase_VerifyIDToken F idToken =
     go_bind (ext_wrapped ''firebase verify token'' (fb_Verify F idToken)) (\<lambda>uid.
     go_bind (ext_wrapped ''firebase get user'' (fb_GetUser F uid)) (\<lambda>fbUser.
     go_return
       (no_user\<lparr>us_DisplayName := fb_DisplayName fbUser, us_EmailVerified := fb_EmailVerified fbUser,
          us_Status := v2_StatusActive, us_Role := ''user'', us_Email := non_empty (fb_Email fbUser),
          us_Phone := non_empty (fb_PhoneNumber fbUser), us_AvatarURL := non_empty (fb_PhotoURL fbUser)\<rparr>)))"

definition firebase_CreateUser :: "('f, 'c) firebase \<Rightarrow> v2_User \<Rightarrow> ('f, string) ext" where
  "firebase_CreateUser F user =
     ext_wrapped ''firebase create user''
       (fb_Create F \<lparr>fp_Email = map_option (\<lambda>e. (e, us_EmailVerified user)) (us_Email user),
          fp_PhoneNumber = us_Phone user, fp_DisplayName = us_DisplayName user\<rparr>)"

definition RevokeRefreshTokens :: "('f, 'c) firebase \<Rightarrow> string \<Rightarrow> ('f, unit) ext" where
  "RevokeRefreshTokens F uid = ext_call (fb_Revoke F uid)"

definition SetCustomClaims :: "('f, 'c) firebase \<Rightarrow> string \<Rightarrow> 'c \<Rightarrow> ('f, unit) ext" where
  "SetCustomClaims F uid claims = ext_call (fb_SetClaims F uid claims)"

text \<open>Supabase: the provider is its configuration (\<open>'s\<close>), of which only the switch is read.\<close>

definition NewSupabaseProvider :: "('s \<Rightarrow> bool) \<Rightarrow> 's \<Rightarrow> v2_error + 's" where
  "NewSupabaseProvider enabled cfg = (if \<not> enabled cfg then Inl (Plain ''supabase not enabled'') else Inr cfg)"

definition SyncUser :: "'s \<Rightarrow> v2_User \<Rightarrow> (v2_error, unit) outcome" where
  "SyncUser p user = Ok ()"

definition supabase_VerifyJWT :: "'s \<Rightarrow> string \<Rightarrow> (v2_error, 'm) outcome" where
  "supabase_VerifyJWT p token = Err (Plain ''supabase jwt verification: implement with supabase jwt secret'')"

record 's ExternalProviders =
  ep_Firebase :: "FirebaseConfig option"
  ep_Supabase :: "'s option"

definition NewExternalProviders ::
  "('f, 'c) firebase \<Rightarrow> ('s \<Rightarrow> bool) \<Rightarrow> FirebaseConfig \<Rightarrow> 's \<Rightarrow> ('f, 's ExternalProviders) ext" where
  "NewExternalProviders F enabled fcfg scfg =
     go_bind (if fc_Enabled fcfg
              then go_try (NewFirebaseProvider F fcfg) (\<lambda>_. go_return None) (\<lambda>fb. go_return (Some fb))
              else go_return None) (\<lambda>fb.
     go_return \<lparr>ep_Firebase = fb,
       ep_Supabase = (if enabled scfg then (case NewSupabaseProvider enabled scfg of Inl _ \<Rightarrow> None | Inr p \<Rightarrow> Some p) else None)\<rparr>)"


section \<open>The rest of the identity providers and of faces\<close>

text \<open>
  The authorization code exchange: the OAuth package exchanges the code for a token \<open>'t\<close>, and
  its client answers for the URL with the token.
\<close>

record userinfo =
  ui_Sub :: string
  ui_Email :: string
  ui_EmailVerified :: bool
  ui_Name :: string
  ui_Picture :: string

record 't oauth2 =
  o2_Exchange :: "string list \<Rightarrow> string \<Rightarrow> (string, 't) outcome"
  o2_Get :: "'t \<Rightarrow> string \<Rightarrow> (string, string option) outcome"
  o2_userinfo :: "string \<Rightarrow> userinfo option"
  o2_id_token :: "'t \<Rightarrow> string option"

definition google_scopes :: "GoogleOAuthConfig \<Rightarrow> string list" where
  "google_scopes cfg = (if google_Scopes cfg = [] then [''openid'', ''email'', ''profile''] else google_Scopes cfg)"

definition google_ExchangeToken :: "'t oauth2 \<Rightarrow> GoogleOAuthConfig \<Rightarrow> string \<Rightarrow> (string, 't) outcome" where
  "google_ExchangeToken A cfg c = o2_Exchange A (google_scopes cfg) c"

definition google_GetUserInfo :: "'t oauth2 \<Rightarrow> 't \<Rightarrow> (v2_error, ProviderUser) outcome" where
  "google_GetUserInfo A token =
     (case o2_Get A token ''https://www.googleapis.com/oauth2/v3/userinfo'' of
        Err e \<Rightarrow> Err (Wrapped ''google userinfo'' (Plain e))
      | Panic \<Rightarrow> Panic
      | Ok None \<Rightarrow> Err (Plain ''read'')
      | Ok (Some body) \<Rightarrow>
          (case o2_userinfo A body of
             None \<Rightarrow> Err (Wrapped ''google parse userinfo'' (Plain ''json''))
           | Some info \<Rightarrow>
               Ok \<lparr>pu_ProviderUID = ui_Sub info, pu_Provider = ''google'', pu_Email = non_empty (ui_Email info),
                   pu_DisplayName = ui_Name info, pu_AvatarURL = non_empty (ui_Picture info),
                   pu_Verified = ui_EmailVerified info\<rparr>))"

definition apple_ExchangeToken :: "string \<Rightarrow> (v2_error, 't) outcome" where
  "apple_ExchangeToken c = Err (Plain ''apple: generate client_secret JWT from private key (see Apple Sign In docs)'')"

definition apple_GetUserInfo :: "'r v2_env \<Rightarrow> 't oauth2 \<Rightarrow> 't \<Rightarrow> ('r, ProviderUser) eng" where
  "apple_GetUserInfo E A token =
     (case o2_id_token A token of
        None \<Rightarrow> go_fail (Plain ''apple: missing id_token'')
      | Some idToken \<Rightarrow> apple_VerifyIDToken E idToken)"

text \<open>The image package decodes the width and the height.\<close>

definition validateImageDimensions :: "(string \<Rightarrow> (int \<times> int) option) \<Rightarrow> string \<Rightarrow> int \<Rightarrow> string option" where
  "validateImageDimensions decode_config data maxSize =
     (case decode_config data of
        None \<Rightarrow> Some ''invalid image''
      | Some (width, height) \<Rightarrow>
          if width > maxSize \<or> height > maxSize then Some (''image too large: max '' @ itoa maxSize @ ''px'') else None)"


section \<open>What a delivery means\<close>

lemma wire_step_OkD: "wire_step net msg a log = (Ok (), log') \<Longrightarrow> log' = log @ [a] \<and> (\<exists>r. net log a = Ok r)"
  by (auto simp: wire_step_def on_wire_def go_try_def split: outcome.splits prod.splits)

lemma deferred_OkD: "deferred m d s = (Ok x, s') \<Longrightarrow> \<exists>s1 r. m s = (Ok x, s1) \<and> d s1 = (r, s')"
  by (auto simp: deferred_def split: prod.splits outcome.splits)

lemma on_wire_log: "on_wire net a log = (r, log') \<Longrightarrow> log' = log @ [a]"
  by (auto simp: on_wire_def split: outcome.splits)

text \<open>
  A delivery by SMTP that is reported as successful made these steps in this order, and the
  server accepted all of them up to the writing of the message. Its verdict on the message
  itself, which it gives when the data is closed, is not part of it: the error of the
  deferred call is dropped.
\<close>

lemma SMTP_Send_steps:
  assumes "SMTP_Send net cfg to subject html text0 log = (Ok (), log')"
  defines "msg \<equiv> buildMIMEMessage (em_From cfg) (em_FromName cfg) to subject html text0"
  shows "log' = log @ [SmtpDial (em_SMTPHost cfg @ '':'' @ itoa (em_SMTPPort cfg)), SmtpClient (em_SMTPHost cfg),
      SmtpAuth (em_SMTPUsername cfg) (em_SMTPPassword cfg) (em_SMTPHost cfg), SmtpMail (em_From cfg), SmtpRcpt to,
      SmtpData, SmtpWrite msg, SmtpClose, SmtpQuit]"
  using assms unfolding SMTP_Send_def Let_def
  by (fastforce elim!: go_bind_OkE dest!: wire_step_OkD deferred_OkD on_wire_log)

lemma SMTP_Send_ignores_verdict:
  assumes accepts: "\<And>a log. a \<noteq> SmtpClose \<Longrightarrow> \<exists>r. net log a = Ok r" and "\<And>log. net log SmtpClose \<noteq> Panic"
  shows "fst (SMTP_Send net cfg to subject html text0 log) = Ok ()"
proof -
  have sent: "\<exists>r. on_wire net a l = (Ok r, l @ [a])" if "a \<noteq> SmtpClose" for a l
    using accepts [OF that, of l] by (auto simp: on_wire_def)
  have step: "wire_step net msg a l = (Ok (), l @ [a])" if "a \<noteq> SmtpClose" for msg a l
    using sent [OF that, of l] by (auto simp: wire_step_def)
  have over: "deferred m (on_wire net a) l = (Ok x, l1 @ [a])" if "m l = (Ok x, l1)" for m :: "unit mailing" and x a l l1
    using that assms(2) [of l1] accepts [of a l1]
    by (cases "a = SmtpClose") (auto simp: deferred_def on_wire_def split: outcome.splits)
  have written: "go_bind (on_wire net (SmtpWrite msg)) (\<lambda>_. go_return ()) l = (Ok (), l @ [SmtpWrite msg])" for msg l
    using sent [of "SmtpWrite msg" l] by auto
  show ?thesis
    by (simp add: SMTP_Send_def step over written)
qed

end
